(* ===== verification/Prelude.thy ===== *)
theory Prelude
  imports Complex_Main "HOL-Library.Word" "HOL-Library.Char_ord" "HOL-Library.List_Lexorder"
    "HOL-Library.Product_Lexorder"
begin

text \<open>
  Shared vocabulary of the development: the Go and SQL base types, the helper functions the
  components share, and the generic lemmas about lists that carry the component proofs.

  \<^item> \<open>usd\<close> stands for the amounts the code keeps in \<open>float64\<close> variables and
    \<open>DECIMAL(20,10)\<close> columns. It is the exact type \<open>rat\<close>: neither the binary
    rounding of \<open>float64\<close> nor the ten-digit rounding of the column is modelled.
  \<^item> \<open>time\<close> is a UTC instant in nanoseconds since the Unix epoch, \<open>duration\<close> a Go
    \<open>time.Duration\<close>, nanoseconds too.
  \<^item> \<open>uuid\<close> is a number handed out by a supply that never repeats.
  \<^item> \<open>sql.NullString\<close>, \<open>sql.NullInt32\<close>, \<open>sql.NullFloat64\<close>, \<open>sql.NullTime\<close> and
    nil-able pointers are \<open>option\<close>s.
\<close>

type_synonym usd = rat
type_synonym time = int
type_synonym duration = int
type_synonym uuid = nat

named_theorems frame \<open>which parts of the state an operation leaves alone\<close>
named_theorems op_defs \<open>the definitions of the SQL statements of the repositories\<close>

section \<open>Go integers and durations\<close>

text \<open>Go's 64-bit \<open>int\<close> and \<open>int64\<close> wrap around in two's complement.\<close>

definition go_int64 :: "int \<Rightarrow> int" where
  "go_int64 x = sint (word_of_int x :: 64 word)"

lemma go_int64_id [simp]:
  assumes "- (2 ^ 63) \<le> x" and "x < 2 ^ 63"
  shows "go_int64 x = x"
  using assms by (simp add: go_int64_def int_word_sint)

lemma go_int64_lower: "- (2 ^ 63) \<le> go_int64 x"
  using sint_ge [of "word_of_int x :: 64 word"] by (simp add: go_int64_def)

lemma go_int64_upper: "go_int64 x < 2 ^ 63"
  using sint_lt [of "word_of_int x :: 64 word"] by (simp add: go_int64_def)

text \<open>
  \<open>math.MaxInt64\<close> and \<open>math.MinInt64\<close>, the bounds at which \<open>Time.Sub\<close> saturates, and the
  \<open>time\<close> package's units.
\<close>

definition max_duration :: duration where
  "max_duration = 2 ^ 63 - 1"

definition min_duration :: duration where
  "min_duration = - (2 ^ 63)"

definition Nanosecond :: duration where "Nanosecond = 1"
definition Second :: duration where "Second = 1000000000"
definition Minute :: duration where "Minute = 60000000000"
definition Hour :: duration where "Hour = 3600000000000"

lemmas time_units = Nanosecond_def Second_def Minute_def Hour_def

text \<open>\<open>t.Sub(u)\<close>: the difference, saturated at the bounds of \<open>Duration\<close>.\<close>

definition time_sub :: "time \<Rightarrow> time \<Rightarrow> duration" where
  "time_sub t u = max min_duration (min max_duration (t - u))"

lemma time_sub_mono: "t \<le> t' \<Longrightarrow> time_sub t u \<le> time_sub t' u"
  by (auto simp: time_sub_def)

lemma time_sub_pos_iff: "0 < time_sub t u \<longleftrightarrow> u < t"
  by (auto simp: time_sub_def min_duration_def max_duration_def)

lemma time_sub_nonneg_iff: "0 \<le> time_sub t u \<longleftrightarrow> u \<le> t"
  by (auto simp: time_sub_def min_duration_def max_duration_def)

text \<open>\<open>d.Hours()\<close> and \<open>d.Seconds()\<close>, as exact quotients.\<close>

definition Hours :: "duration \<Rightarrow> rat" where
  "Hours d = of_int d / of_int Hour"

definition Seconds :: "duration \<Rightarrow> rat" where
  "Seconds d = of_int d / of_int Second"

lemma Hours_pos_iff [simp]: "0 < Hours d \<longleftrightarrow> 0 < d"
  by (simp add: Hours_def Hour_def)

lemma Hours_le_zero_iff [simp]: "Hours d \<le> 0 \<longleftrightarrow> d \<le> 0"
  by (simp add: Hours_def Hour_def divide_le_0_iff)

lemma Hours_nonneg_iff [simp]: "0 \<le> Hours d \<longleftrightarrow> 0 \<le> d"
  by (simp add: Hours_def Hour_def zero_le_divide_iff)

text \<open>The conversion \<open>int(f)\<close> of a \<open>float64\<close> truncates towards zero.\<close>

definition go_trunc :: "rat \<Rightarrow> int" where
  "go_trunc q = (if 0 \<le> q then \<lfloor>q\<rfloor> else \<lceil>q\<rceil>)"

text \<open>Integer division and remainder of Go truncate towards zero.\<close>

definition go_quot :: "int \<Rightarrow> int \<Rightarrow> int" where
  "go_quot a b = sgn a * sgn b * (\<bar>a\<bar> div \<bar>b\<bar>)"

definition go_rem :: "int \<Rightarrow> int \<Rightarrow> int" where
  "go_rem a b = a - b * go_quot a b"

lemma go_quot_nonneg [simp]: "0 \<le> a \<Longrightarrow> 0 < b \<Longrightarrow> go_quot a b = a div b"
  by (cases "a = 0") (auto simp: go_quot_def)

lemma go_rem_nonneg [simp]: "0 \<le> a \<Longrightarrow> 0 < b \<Longrightarrow> go_rem a b = a mod b"
  by (simp add: go_rem_def minus_mult_div_eq_mod)

text \<open>\<open>x.String\<close> of a \<open>sql.NullString\<close>: the empty string when it is not valid.\<close>

definition null_string :: "string option \<Rightarrow> string" where
  "null_string s = (case s of None \<Rightarrow> '''' | Some x \<Rightarrow> x)"

lemma null_string_simps [simp]: "null_string None = ''''" "null_string (Some x) = x"
  by (simp_all add: null_string_def)

text \<open>
  The idiom \<open>sql.NullString{String: s, Valid: s != ""}\<close>.
\<close>

definition nonempty_string :: "string \<Rightarrow> string option" where
  "nonempty_string s = (if s = '''' then None else Some s)"

lemma null_string_nonempty [simp]: "null_string (nonempty_string s) = s"
  by (simp add: nonempty_string_def)

text \<open>A decimal digit, the \<open>\d\<close> of Go's regular expressions.\<close>

definition is_digit :: "char \<Rightarrow> bool" where
  "is_digit c \<longleftrightarrow> CHR ''0'' \<le> c \<and> c \<le> CHR ''9''"

section \<open>Rows of a table\<close>

text \<open>
  A table is the list of its rows in insertion order. \<open>update_where p f\<close> is an SQL
  \<open>UPDATE\<close>, \<open>delete_where p\<close> a \<open>DELETE\<close>, \<open>count_where p\<close> the number of rows a
  statement affects, \<open>first_row\<close> a \<open>QueryRow\<close>.
\<close>

definition update_where :: "('r \<Rightarrow> bool) \<Rightarrow> ('r \<Rightarrow> 'r) \<Rightarrow> 'r list \<Rightarrow> 'r list" where
  "update_where p f rs = map (\<lambda>r. if p r then f r else r) rs"

definition delete_where :: "('r \<Rightarrow> bool) \<Rightarrow> 'r list \<Rightarrow> 'r list" where
  "delete_where p rs = filter (\<lambda>r. \<not> p r) rs"

definition count_where :: "('r \<Rightarrow> bool) \<Rightarrow> 'r list \<Rightarrow> nat" where
  "count_where p rs = length (filter p rs)"

definition first_row :: "'r list \<Rightarrow> 'r option" where
  "first_row rs = (case rs of [] \<Rightarrow> None | r # _ \<Rightarrow> Some r)"

lemma first_row_simps [simp]: "first_row [] = None" "first_row (r # rs) = Some r"
  by (simp_all add: first_row_def)

lemma first_row_None_iff [simp]: "first_row rs = None \<longleftrightarrow> rs = []"
  by (cases rs) auto

lemma first_row_filterD:
  "first_row (filter p rs) = Some r \<Longrightarrow> r \<in> set rs \<and> p r"
  by (cases "filter p rs") (auto dest: filter_eq_ConsD)

lemma count_where_0_iff [simp]: "count_where p rs = 0 \<longleftrightarrow> (\<forall>r \<in> set rs. \<not> p r)"
  by (auto simp: count_where_def filter_empty_conv)

lemma count_where_le: "count_where p rs \<le> length rs"
  by (simp add: count_where_def)

lemma update_where_none [simp]:
  "(\<forall>r \<in> set rs. \<not> p r) \<Longrightarrow> update_where p f rs = rs"
  by (induction rs) (auto simp: update_where_def)

lemma length_update_where [simp]: "length (update_where p f rs) = length rs"
  by (simp add: update_where_def)

lemma update_where_Cons [simp]:
  "update_where p f (r # rs) = (if p r then f r else r) # update_where p f rs"
  by (simp add: update_where_def)

lemma update_where_Nil [simp]: "update_where p f [] = []"
  by (simp add: update_where_def)

lemma update_where_append [simp]:
  "update_where p f (rs @ ss) = update_where p f rs @ update_where p f ss"
  by (simp add: update_where_def)

lemma set_update_where:
  "set (update_where p f rs) = (\<lambda>r. if p r then f r else r) ` set rs"
  by (simp add: update_where_def)

lemma map_update_where:
  "(\<And>r. p r \<Longrightarrow> k (f r) = k r) \<Longrightarrow> map k (update_where p f rs) = map k rs"
  by (simp add: update_where_def)

lemma filter_update_where_other:
  assumes "\<And>r. p r \<Longrightarrow> \<not> q r" and "\<And>r. p r \<Longrightarrow> \<not> q (f r)"
  shows "filter q (update_where p f rs) = filter q rs"
  using assms by (induction rs) (auto simp: update_where_def)

lemma filter_update_where_same:
  assumes "\<And>r. p r \<Longrightarrow> q (f r) = q r"
  shows "filter q (update_where p f rs) = update_where p f (filter q rs)"
  using assms by (induction rs) (auto simp: update_where_def)

lemma update_where_twice_other:
  assumes "\<And>r. p r \<Longrightarrow> q (f r) = q r" and "\<And>r. q r \<Longrightarrow> p (g r) = p r"
    and "\<And>r. p r \<Longrightarrow> q r \<Longrightarrow> f (g r) = g (f r)"
  shows "update_where p f (update_where q g rs) = update_where q g (update_where p f rs)"
  using assms by (induction rs) (auto simp: update_where_def)

lemma set_delete_where [simp]: "set (delete_where p rs) = {r \<in> set rs. \<not> p r}"
  by (auto simp: delete_where_def)

lemma delete_where_none [simp]:
  "(\<forall>r \<in> set rs. \<not> p r) \<Longrightarrow> delete_where p rs = rs"
  by (auto simp: delete_where_def filter_id_conv)

lemma length_delete_where: "length (delete_where p rs) = length rs - count_where p rs"
  using sum_length_filter_compl [of p rs] by (simp add: delete_where_def count_where_def)

section \<open>Lookup by a unique key\<close>

lemma distinct_map_filter_key:
  "distinct (map k rs) \<Longrightarrow> r \<in> set rs \<Longrightarrow> filter (\<lambda>x. k x = k r) rs = [r]"
  by (induction rs) (auto simp: filter_empty_conv image_iff)

lemma sum_list_filter_split:
  fixes g :: "'a \<Rightarrow> 'b::comm_monoid_add"
  shows "(\<Sum>x \<leftarrow> filter p xs. g x) + (\<Sum>x \<leftarrow> filter (\<lambda>x. \<not> p x) xs. g x) = (\<Sum>x \<leftarrow> xs. g x)"
  by (induction xs) (auto simp: algebra_simps)

lemma sum_list_update_where:
  fixes g :: "'a \<Rightarrow> 'b::ab_group_add"
  shows "(\<Sum>x \<leftarrow> update_where p f xs. g x)
    = (\<Sum>x \<leftarrow> xs. g x) + (\<Sum>x \<leftarrow> filter p xs. g (f x) - g x)"
  by (induction xs) (auto simp: algebra_simps)

section \<open>Rows that follow a relation\<close>

text \<open>
  Every row of the new table is new or comes from a row of the old table by an allowed change: what a
  step may do to a table.
\<close>

definition rows_follow :: "('r \<Rightarrow> bool) \<Rightarrow> ('r \<Rightarrow> 'r \<Rightarrow> bool) \<Rightarrow> 'r list \<Rightarrow> 'r list \<Rightarrow> bool" where
  "rows_follow new change rs rs' \<longleftrightarrow> (\<forall>r' \<in> set rs'. new r' \<or> (\<exists>r \<in> set rs. change r r'))"

lemma rows_followD:
  assumes "rows_follow new change rs rs'" and "r' \<in> set rs'" and "\<not> new r'"
  obtains r where "r \<in> set rs" and "change r r'"
  using assms by (auto simp: rows_follow_def)

lemma rows_follow_refl: "reflp change \<Longrightarrow> rows_follow new change rs rs"
  by (auto simp: rows_follow_def intro: reflpD)

lemma rows_follow_update:
  assumes "reflp change" and "\<And>r. r \<in> set rs \<Longrightarrow> p r \<Longrightarrow> change r (f r)"
  shows "rows_follow new change rs (update_where p f rs)"
  using assms by (auto simp: rows_follow_def set_update_where dest: reflpD)

lemma rows_follow_append: "reflp change \<Longrightarrow> new r \<Longrightarrow> rows_follow new change rs (rs @ [r])"
  by (auto simp: rows_follow_def dest: reflpD)

lemma rows_follow_delete: "reflp change \<Longrightarrow> rows_follow new change rs (delete_where p rs)"
  by (auto simp: rows_follow_def dest: reflpD)

lemma rows_follow_trans:
  assumes "rows_follow new change rs rs1" and "rows_follow new change rs1 rs2"
    and "\<And>a b c. change a b \<Longrightarrow> change b c \<Longrightarrow> change a c" and "\<And>a b. new a \<Longrightarrow> change a b \<Longrightarrow> new b"
  shows "rows_follow new change rs rs2"
  using assms unfolding rows_follow_def by metis

end
