(* ===== verification/Calendar.thy ===== *)
theory Calendar
  imports Prelude
begin

text \<open>
  The part of Go's \<open>time\<close> package and of PostgreSQL's interval arithmetic the program uses,
  on UTC instants: the proleptic Gregorian calendar, \<open>Time.AddDate\<close> (overflowing days are
  normalised into the next month) and \<open>timestamptz + INTERVAL '1 month'\<close> (overflowing days
  are clamped to the last day of the month).
\<close>

section \<open>The Gregorian calendar\<close>

definition is_leap :: "int \<Rightarrow> bool" where
  "is_leap y \<longleftrightarrow> 4 dvd y \<and> (\<not> 100 dvd y \<or> 400 dvd y)"

definition days_in_month :: "int \<Rightarrow> int \<Rightarrow> int" where
  "days_in_month y m =
     (if m = 2 then (if is_leap y then 29 else 28)
      else if m = 4 \<or> m = 6 \<or> m = 9 \<or> m = 11 then 30 else 31)"

definition days_before_month :: "int \<Rightarrow> int \<Rightarrow> int" where
  "days_before_month y m =
     (if m \<le> 1 then 0 else if m = 2 then 31
      else (if is_leap y then 1 else 0) +
        (if m = 3 then 59 else if m = 4 then 90 else if m = 5 then 120 else if m = 6 then 151
         else if m = 7 then 181 else if m = 8 then 212 else if m = 9 then 243
         else if m = 10 then 273 else if m = 11 then 304 else if m = 12 then 334 else 365))"

definition days_before_year :: "int \<Rightarrow> int" where
  "days_before_year y = 365 * (y - 1) + (y - 1) div 4 - (y - 1) div 100 + (y - 1) div 400"

text \<open>Days since 1970-01-01; the day of the month may lie outside the month.\<close>

definition day_number :: "int \<Rightarrow> int \<Rightarrow> int \<Rightarrow> int" where
  "day_number y m d = days_before_year y + days_before_month y m + (d - 1) - 719162"

definition year_of :: "int \<Rightarrow> int" where
  "year_of z = (let y = (400 * z) div 146097 + 1 in
     if days_before_year (y + 1) \<le> z then y + 1
     else if z < days_before_year y then y - 1 else y)"

definition month_of :: "int \<Rightarrow> int \<Rightarrow> int" where
  "month_of y r =
     (if r < days_before_month y 2 then 1 else if r < days_before_month y 3 then 2
      else if r < days_before_month y 4 then 3 else if r < days_before_month y 5 then 4
      else if r < days_before_month y 6 then 5 else if r < days_before_month y 7 then 6
      else if r < days_before_month y 8 then 7 else if r < days_before_month y 9 then 8
      else if r < days_before_month y 10 then 9 else if r < days_before_month y 11 then 10
      else if r < days_before_month y 12 then 11 else 12)"

definition civil :: "int \<Rightarrow> int \<times> int \<times> int" where
  "civil n = (let z = n + 719162; y = year_of z; r = z - days_before_year y; m = month_of y r
     in (y, m, r - days_before_month y m + 1))"

lemma div_pred:
  assumes "0 < (k::int)"
  shows "y div k = (y - 1) div k + (if k dvd y then 1 else 0)"
proof (cases "k dvd y")
  case True
  then obtain q where y: "y = k * q" by (auto elim: dvdE)
  have "(y - 1) div k = q - 1"
    using assms by (intro int_div_pos_eq [of _ _ _ "k - 1"]) (auto simp: y algebra_simps)
  with True y assms show ?thesis by simp
next
  case False
  then have "0 < y mod k"
    using assms by (metis dvd_eq_mod_eq_0 order_le_imp_less_or_eq pos_mod_sign)
  then have "(y - 1) div k = y div k"
    using assms pos_mod_bound [OF assms, of y]
    by (intro int_div_pos_eq [of _ _ _ "y mod k - 1"]) (auto simp: algebra_simps)
  with False show ?thesis by simp
qed

lemma div_bracket:
  assumes "0 < (k::int)"
  shows "k * (x div k) \<le> x" and "x \<le> k * (x div k) + (k - 1)"
  using assms pos_mod_sign [OF assms, of x] pos_mod_bound [OF assms, of x]
    mult_div_mod_eq [of k x] by linarith+

lemma year_sum_Suc:
  fixes a b c a' b' c' i j k e y :: int
  assumes "a = a' + i" and "b = b' + j" and "c = c' + k" and "e = 365 + i - j + k"
  shows "365 * y + a - b + c = 365 * (y - 1) + a' - b' + c' + e"
  using assms by simp

lemma days_before_year_Suc:
  "days_before_year (y + 1) = days_before_year y + (if is_leap y then 366 else 365)"
proof -
  have "4 dvd y" if "100 dvd y" using dvd_trans [of 4 100 y] that by simp
  moreover have "100 dvd y" if "400 dvd y" using dvd_trans [of 100 400 y] that by simp
  ultimately consider "\<not> 4 dvd y" "\<not> 100 dvd y" "\<not> 400 dvd y"
    | "4 dvd y" "\<not> 100 dvd y" "\<not> 400 dvd y"
    | "4 dvd y" "100 dvd y" "\<not> 400 dvd y" | "4 dvd y" "100 dvd y" "400 dvd y"
    by blast
  then show ?thesis
    using div_pred [of 4 y, OF zero_less_numeral]
      div_pred [of 100 y, OF zero_less_numeral] div_pred [of 400 y, OF zero_less_numeral]
    unfolding days_before_year_def add_diff_cancel_right'
    by cases (rule year_sum_Suc, assumption, assumption, assumption, simp add: is_leap_def)+
qed

lemma days_before_year_bounds:
  "146097 * (y - 1) - 700 \<le> 400 * days_before_year y"
  "400 * days_before_year y \<le> 146097 * (y - 1) + 396"
  using div_bracket [of 4 "y - 1"] div_bracket [of 100 "y - 1"] div_bracket [of 400 "y - 1"]
  by (simp_all add: days_before_year_def)

lemma days_before_year_mono: "y \<le> y' \<Longrightarrow> days_before_year y \<le> days_before_year y'"
proof (induction rule: int_ge_induct)
  case (step i)
  then show ?case by (auto simp: days_before_year_Suc)
qed simp

lemma year_of_brackets:
  "days_before_year (year_of z) \<le> z" "z < days_before_year (year_of z + 1)"
proof -
  let ?y = "(400 * z) div 146097 + 1"
  have b: "146097 * (?y - 1) \<le> 400 * z" "400 * z < 146097 * ?y"
    using div_bracket [of 146097 "400 * z"] by (simp_all add: algebra_simps)
  have lo: "days_before_year (?y - 1) \<le> z"
    using days_before_year_bounds(2) [of "?y - 1"] b by simp
  have hi: "z < days_before_year (?y + 2)"
    using days_before_year_bounds(1) [of "?y + 2"] b by simp
  show "days_before_year (year_of z) \<le> z" "z < days_before_year (year_of z + 1)"
    using lo hi by (auto simp: year_of_def Let_def algebra_simps)
qed

lemma year_of_unique:
  assumes "days_before_year y \<le> z" and "z < days_before_year (y + 1)"
  shows "year_of z = y"
proof (rule antisym)
  show "year_of z \<le> y"
    using days_before_year_mono [of "y + 1" "year_of z"] assms year_of_brackets(1) [of z]
    by linarith
  show "y \<le> year_of z"
    using days_before_year_mono [of "year_of z + 1" y] assms year_of_brackets(2) [of z]
    by linarith
qed

section \<open>Dates and day numbers\<close>

lemma month_cases:
  assumes "1 \<le> (m::int)" and "m \<le> 12"
  shows "m = 1 \<or> m = 2 \<or> m = 3 \<or> m = 4 \<or> m = 5 \<or> m = 6 \<or> m = 7 \<or> m = 8 \<or> m = 9 \<or>
    m = 10 \<or> m = 11 \<or> m = 12"
proof -
  have "m \<in> set [1..12]" using assms by simp
  also have "[1..12] = [1, 2, 3, 4, 5, 6, 7, 8, 9, 10, 11, 12 :: int]" by code_simp
  finally show ?thesis by simp
qed

lemma days_before_month_Suc:
  "1 \<le> m \<Longrightarrow> m \<le> 12 \<Longrightarrow>
    days_before_month y (m + 1) = days_before_month y m + days_in_month y m"
  by (drule (1) month_cases, elim disjE) (simp_all add: days_before_month_def days_in_month_def)

lemma days_before_month_13: "days_before_month y 13 = (if is_leap y then 366 else 365)"
  by (simp add: days_before_month_def)

lemma days_in_month_bounds: "28 \<le> days_in_month y m" "days_in_month y m \<le> 31"
  by (auto simp: days_in_month_def)

lemma month_of_brackets:
  assumes "0 \<le> r" and "r < days_before_month y 13"
  shows "1 \<le> month_of y r" "month_of y r \<le> 12" "days_before_month y (month_of y r) \<le> r"
    "r < days_before_month y (month_of y r + 1)"
  using assms by (cases "is_leap y"; simp add: month_of_def days_before_month_def)+

lemma month_of_unique:
  assumes "1 \<le> m" and "m \<le> 12" and "days_before_month y m \<le> r"
    and "r < days_before_month y (m + 1)"
  shows "month_of y r = m"
  using month_cases [OF assms(1,2)] assms(3,4)
  by (cases "is_leap y"; elim disjE) (simp_all add: month_of_def days_before_month_def)

definition valid_date :: "int \<Rightarrow> int \<Rightarrow> int \<Rightarrow> bool" where
  "valid_date y m d \<longleftrightarrow> 1 \<le> m \<and> m \<le> 12 \<and> 1 \<le> d \<and> d \<le> days_in_month y m"

lemma days_before_month_le:
  assumes "1 \<le> m" and "m \<le> 12"
  shows "0 \<le> days_before_month y m"
    and "days_before_month y m + days_in_month y m \<le> days_before_month y 13"
  using month_cases [OF assms]
  by (elim disjE; simp add: days_before_month_def days_in_month_def)+

theorem civil_day_number:
  assumes "valid_date y m d"
  shows "civil (day_number y m d) = (y, m, d)"
proof -
  let ?z = "days_before_year y + (days_before_month y m + (d - 1))"
  from assms have m: "1 \<le> m" "m \<le> 12" and d: "1 \<le> d" "d \<le> days_in_month y m"
    by (auto simp: valid_date_def)
  note le = days_before_month_le [OF m, of y]
  have "year_of ?z = y"
    using le d by (intro year_of_unique) (simp_all add: days_before_year_Suc days_before_month_13)
  moreover have "month_of y (days_before_month y m + (d - 1)) = m"
    using m d days_before_month_Suc [OF m, of y] by (intro month_of_unique) simp_all
  moreover have "day_number y m d + 719162 = ?z" by (simp add: day_number_def)
  moreover have "?z - days_before_year y = days_before_month y m + (d - 1)" by simp
  ultimately show ?thesis
    unfolding civil_def Let_def by (simp only: add_diff_cancel_left' diff_add_cancel)
qed

theorem day_number_civil:
  assumes "civil n = (y, m, d)"
  shows "day_number y m d = n" and "valid_date y m d"
proof -
  let ?z = "n + 719162"
  let ?r = "?z - days_before_year (year_of ?z)"
  have r: "0 \<le> ?r" "?r < days_before_month (year_of ?z) 13"
    using year_of_brackets [of ?z] days_before_year_Suc [of "year_of ?z"]
    by (simp_all add: days_before_month_13)
  note mo = month_of_brackets [OF r]
  from assms have eqs: "y = year_of ?z" "m = month_of y ?r"
    "d = ?r - days_before_month y m + 1"
    by (auto simp: civil_def Let_def)
  show "day_number y m d = n"
    using eqs by (simp add: day_number_def)
  show "valid_date y m d"
    using eqs mo days_before_month_Suc [OF mo(1,2), of "year_of ?z"]
    by (simp add: valid_date_def)
qed

section \<open>Adding calendar intervals to an instant\<close>

definition day_ns :: int where
  "day_ns = 24 * Hour"

text \<open>
  \<open>AddDate(years, months, days)\<close> rebuilds the instant with \<open>time.Date\<close>, which carries
  months outside 1..12 into the year and days outside the month into the following months.
\<close>

definition AddDate :: "time \<Rightarrow> int \<Rightarrow> int \<Rightarrow> int \<Rightarrow> time" where
  "AddDate t years months days =
     (let (y, m, d) = civil (t div day_ns); clock = t mod day_ns;
        mm = m - 1 + months; y' = y + years + mm div 12; m' = mm mod 12 + 1
      in day_number y' m' (d + days) * day_ns + clock)"

text \<open>
  PostgreSQL's \<open>t + INTERVAL '1 month'\<close> keeps the day of the month, or takes the last day
  of a shorter month.
\<close>

definition pg_add_month :: "time \<Rightarrow> time" where
  "pg_add_month t =
     (let (y, m, d) = civil (t div day_ns); clock = t mod day_ns;
        y' = y + m div 12; m' = m mod 12 + 1
      in day_number y' m' (min d (days_in_month y' m')) * day_ns + clock)"

text \<open>The day of the month of an instant and the length of its month.\<close>

definition month_day :: "time \<Rightarrow> int" where
  "month_day t = (case civil (t div day_ns) of (y, m, d) \<Rightarrow> d)"

definition month_length :: "time \<Rightarrow> int" where
  "month_length t = (case civil (t div day_ns) of (y, m, d) \<Rightarrow> days_in_month y m)"

definition next_month_length :: "time \<Rightarrow> int" where
  "next_month_length t = (case civil (t div day_ns) of (y, m, d) \<Rightarrow>
     days_in_month (y + m div 12) (m mod 12 + 1))"

lemma day_ns_split: "t div day_ns * day_ns + t mod day_ns = t"
  by simp

lemma day_number_next_month:
  assumes "1 \<le> m" and "m \<le> 12"
  shows "day_number (y + m div 12) (m mod 12 + 1) d = day_number y m d + days_in_month y m"
  using month_cases [OF assms]
  by (elim disjE)
    (simp_all add: day_number_def days_before_month_def days_in_month_def days_before_year_Suc)

lemma day_number_shift: "day_number y m (d + k) = day_number y m d + k"
  by (simp add: day_number_def)

lemma AddDate_days: "AddDate t 0 0 n = t + n * day_ns"
proof -
  obtain y m d where c: "civil (t div day_ns) = (y, m, d)" by (cases "civil (t div day_ns)")
  then have "day_number y m d = t div day_ns" "valid_date y m d"
    by (auto dest: day_number_civil)
  then show ?thesis
    using day_ns_split [of t]
    by (simp add: AddDate_def c day_number_shift valid_date_def algebra_simps)
qed

lemma AddDate_month: "AddDate t 0 1 0 = t + month_length t * day_ns"
proof -
  obtain y m d where c: "civil (t div day_ns) = (y, m, d)" by (cases "civil (t div day_ns)")
  then have n: "day_number y m d = t div day_ns" and v: "1 \<le> m" "m \<le> 12"
    by (auto dest: day_number_civil simp: valid_date_def)
  show ?thesis
    using day_ns_split [of t] n day_number_next_month [OF v, of y d]
    by (simp add: AddDate_def month_length_def c algebra_simps)
qed

lemma pg_add_month_eq:
  "pg_add_month t = AddDate t 0 1 0 - max 0 (month_day t - next_month_length t) * day_ns"
proof -
  obtain y m d where c: "civil (t div day_ns) = (y, m, d)" by (cases "civil (t div day_ns)")
  have "day_number y' m' (min d l) = day_number y' m' d - max 0 (d - l)" for y' m' l
    by (simp add: day_number_def)
  then show ?thesis
    by (simp add: AddDate_def pg_add_month_def month_day_def next_month_length_def c Let_def
        left_diff_distrib)
qed

lemma month_length_bounds: "28 \<le> month_length t" "month_length t \<le> 31"
  "28 \<le> next_month_length t" "next_month_length t \<le> 31"
  by (auto simp: month_length_def next_month_length_def days_in_month_bounds
      split: prod.splits)

lemma pg_add_month_le: "pg_add_month t \<le> AddDate t 0 1 0"
  by (simp add: pg_add_month_eq day_ns_def Hour_def)

lemma pg_add_month_agrees:
  "month_day t \<le> next_month_length t \<Longrightarrow> pg_add_month t = AddDate t 0 1 0"
  by (simp add: pg_add_month_eq)

lemma day_ns_pos [simp]: "0 < day_ns"
  by (simp add: day_ns_def Hour_def)

end
