(* ===== verification/Models.thy ===== *)
theory Models
  imports Calendar
begin

text \<open>
  The data model of \<open>internal/models\<close>: one \<^theory_text>\<open>record\<close> per struct, with the struct's
  fields in order under a short prefix (\<open>b\<close> budget, \<open>mc\<close> model cost, \<open>ur\<close> usage record,
  \<open>rs\<close> reservation, \<open>ap\<close> approval, \<open>al\<close> alert, \<open>ra\<close> rate limit allocation, \<open>rp\<close> rate limit
  approval, \<open>au\<close> audit entry), one \<^theory_text>\<open>datatype\<close> per string type with constants. A string
  outside the constants is kept by an \<open>Other\<close> constructor where a caller can supply one.
  Then the methods of the structs, with their first properties.
\<close>

section \<open>Enumerations\<close>

datatype budget_period =
    PeriodHourly | PeriodDaily | PeriodWeekly | PeriodMonthly | PeriodCustom
  | PeriodOther string

datatype entity_type =
    EntityTypeOrg | EntityTypeTeam | EntityTypeUser | EntityTypeOther string

datatype approval_status =
    ApprovalStatusPending | ApprovalStatusApproved | ApprovalStatusRejected | ApprovalStatusClosed

datatype alert_type =
    AlertTypeThresholdWarning | AlertTypeBudgetExhausted | AlertTypeForecastOverrun
  | AlertTypeForecastExhaustion

datatype alert_status = AlertStatusActive | AlertStatusResolved | AlertStatusDismissed

datatype enforcement = EnforcementEnforced | EnforcementMonitoring | EnforcementOther string

text \<open>
  The conversions \<open>models.EntityType(s)\<close>, \<open>models.BudgetPeriod(s)\<close>,
  \<open>models.Enforcement(s)\<close> and back.
\<close>

definition entity_type_of_string :: "string \<Rightarrow> entity_type" where
  "entity_type_of_string s =
     (if s = ''org'' then EntityTypeOrg else if s = ''team'' then EntityTypeTeam
      else if s = ''user'' then EntityTypeUser else EntityTypeOther s)"

fun entity_type_string :: "entity_type \<Rightarrow> string" where
  "entity_type_string EntityTypeOrg = ''org''"
| "entity_type_string EntityTypeTeam = ''team''"
| "entity_type_string EntityTypeUser = ''user''"
| "entity_type_string (EntityTypeOther s) = s"

definition budget_period_of_string :: "string \<Rightarrow> budget_period" where
  "budget_period_of_string s =
     (if s = ''hourly'' then PeriodHourly else if s = ''daily'' then PeriodDaily
      else if s = ''weekly'' then PeriodWeekly else if s = ''monthly'' then PeriodMonthly
      else if s = ''custom'' then PeriodCustom else PeriodOther s)"

fun budget_period_string :: "budget_period \<Rightarrow> string" where
  "budget_period_string PeriodHourly = ''hourly''"
| "budget_period_string PeriodDaily = ''daily''"
| "budget_period_string PeriodWeekly = ''weekly''"
| "budget_period_string PeriodMonthly = ''monthly''"
| "budget_period_string PeriodCustom = ''custom''"
| "budget_period_string (PeriodOther s) = s"

definition enforcement_of_string :: "string \<Rightarrow> enforcement" where
  "enforcement_of_string s =
     (if s = ''enforced'' then EnforcementEnforced
      else if s = ''monitoring'' then EnforcementMonitoring else EnforcementOther s)"

fun approval_status_string :: "approval_status \<Rightarrow> string" where
  "approval_status_string ApprovalStatusPending = ''pending''"
| "approval_status_string ApprovalStatusApproved = ''approved''"
| "approval_status_string ApprovalStatusRejected = ''rejected''"
| "approval_status_string ApprovalStatusClosed = ''closed''"

lemma entity_type_string_of_string [simp]: "entity_type_string (entity_type_of_string s) = s"
  by (simp add: entity_type_of_string_def)

lemma budget_period_string_of_string [simp]:
  "budget_period_string (budget_period_of_string s) = s"
  by (simp add: budget_period_of_string_def)

text \<open>The database columns are enums: a value outside the enum is rejected.\<close>

fun db_entity_type :: "entity_type \<Rightarrow> bool" where
  "db_entity_type (EntityTypeOther _) = False"
| "db_entity_type _ = True"

fun db_period :: "budget_period \<Rightarrow> bool" where
  "db_period (PeriodOther _) = False"
| "db_period _ = True"

fun db_enforcement :: "enforcement \<Rightarrow> bool" where
  "db_enforcement (EnforcementOther _) = False"
| "db_enforcement _ = True"

text \<open>
  \<open>ORDER BY entity_type\<close> follows the order in which the enum declares its values:
  \<open>org\<close>, \<open>team\<close>, \<open>user\<close>.
\<close>

fun entity_rank :: "entity_type \<Rightarrow> nat \<times> string" where
  "entity_rank EntityTypeOrg = (0, [])"
| "entity_rank EntityTypeTeam = (1, [])"
| "entity_rank EntityTypeUser = (2, [])"
| "entity_rank (EntityTypeOther s) = (3, s)"

lemma entity_rank_inject [simp]: "entity_rank a = entity_rank b \<longleftrightarrow> a = b"
  by (cases a; cases b) auto

instantiation entity_type :: linorder
begin

definition less_eq_entity_type :: "entity_type \<Rightarrow> entity_type \<Rightarrow> bool" where
  "less_eq_entity_type a b \<longleftrightarrow> entity_rank a \<le> entity_rank b"

definition less_entity_type :: "entity_type \<Rightarrow> entity_type \<Rightarrow> bool" where
  "less_entity_type a b \<longleftrightarrow> entity_rank a < entity_rank b"

instance
  by standard
    (auto simp: less_eq_entity_type_def less_entity_type_def dest: order_antisym)

end

lemma entity_type_order: "EntityTypeOrg < EntityTypeTeam" "EntityTypeTeam < EntityTypeUser"
  by (simp_all add: less_entity_type_def)

section \<open>Model costs, budgets, usage\<close>

record model_cost =
  mcID :: uuid
  mcModelID :: string
  mcProvider :: string
  mcInputCostPerMillion :: usd
  mcOutputCostPerMillion :: usd
  mcCacheReadCostMillion :: "usd option"
  mcCacheWriteCostMillion :: "usd option"
  mcModelPattern :: "string option"
  mcEffectiveDate :: time
  mcCreatedByUserID :: "string option"
  mcCreatedByEmail :: "string option"
  mcCreatedAt :: time
  mcUpdatedAt :: time

record budget =
  bID :: uuid
  bEntityType :: entity_type
  bName :: string
  bMatchExpression :: string
  bBudgetAmountUSD :: usd
  bPeriod :: budget_period
  bCustomPeriodSeconds :: "int option"
  bWarningThresholdPct :: int
  bParentID :: "uuid option"
  bIsolated :: bool
  bAllowFallback :: bool
  bEnabled :: bool
  bDisabledByUserID :: "string option"
  bDisabledByEmail :: "string option"
  bDisabledByIsOrg :: bool
  bDisabledAt :: "time option"
  bCurrentPeriodStart :: time
  bCurrentUsageUSD :: usd
  bPendingUsageUSD :: usd
  bDescription :: "string option"
  bOwnerOrgID :: "string option"
  bOwnerTeamID :: "string option"
  bOwnerUserID :: "string option"
  bApprovalStatus :: approval_status
  bCreatedByUserID :: "string option"
  bCreatedByEmail :: "string option"
  bRejectionCount :: int
  bVersion :: int
  bCreatedAt :: time
  bUpdatedAt :: time

record usage_record =
  urID :: uuid
  urBudgetID :: uuid
  urRequestID :: string
  urModelID :: string
  urInputTokens :: int
  urOutputTokens :: int
  urCostUSD :: usd
  urParentCharged :: bool
  urCreatedAt :: time

record reservation =
  rsID :: uuid
  rsBudgetID :: uuid
  rsRequestID :: string
  rsEstimatedCostUSD :: usd
  rsExpiresAt :: time
  rsCreatedAt :: time

text \<open>Methods of \<open>BudgetDefinition\<close>.\<close>

definition CalculateRemaining :: "budget \<Rightarrow> usd" where
  "CalculateRemaining b = bBudgetAmountUSD b - bCurrentUsageUSD b - bPendingUsageUSD b"

definition NextPeriodStart :: "budget \<Rightarrow> time" where
  "NextPeriodStart b = (case bPeriod b of
       PeriodHourly \<Rightarrow> bCurrentPeriodStart b + Hour
     | PeriodDaily \<Rightarrow> AddDate (bCurrentPeriodStart b) 0 0 1
     | PeriodWeekly \<Rightarrow> AddDate (bCurrentPeriodStart b) 0 0 7
     | PeriodMonthly \<Rightarrow> AddDate (bCurrentPeriodStart b) 0 1 0
     | PeriodCustom \<Rightarrow> (case bCustomPeriodSeconds b of
           Some n \<Rightarrow> bCurrentPeriodStart b + go_int64 (n * Second)
         | None \<Rightarrow> AddDate (bCurrentPeriodStart b) 0 0 1)
     | PeriodOther _ \<Rightarrow> AddDate (bCurrentPeriodStart b) 0 0 1)"

definition ShouldReset :: "time \<Rightarrow> budget \<Rightarrow> bool" where
  "ShouldReset now b \<longleftrightarrow> NextPeriodStart b < now"

section \<open>Approvals, audit log, alerts\<close>

record budget_approval =
  apID :: uuid
  apBudgetID :: uuid
  apAttemptNumber :: int
  apAction :: string
  apActorUserID :: string
  apActorEmail :: string
  apReason :: string
  apCreatedAt :: time
  apUpdatedAt :: time

text \<open>The free-form \<open>metadata\<close> of an audit entry, as the pairs the caller lists.\<close>

datatype meta_value = MetaString string | MetaBool bool | MetaInt int | MetaUSD usd | MetaUUID uuid

text \<open>
  The \<open>entity_id\<close> of an audit entry: a model name, or \<open>uuid.String()\<close>, whose rendering is
  left symbolic.
\<close>

datatype entity_ref = RefString string | RefUUID uuid

record audit_entry =
  auID :: uuid
  auEntityType :: string
  auEntityID :: entity_ref
  auAction :: string
  auActorUserID :: string
  auActorEmail :: string
  auOrgID :: string
  auTeamID :: string
  auMetadata :: "(string \<times> meta_value) list option"
  auCreatedAt :: time

record budget_alert =
  alID :: uuid
  alBudgetID :: uuid
  alAlertType :: alert_type
  alStatus :: alert_status
  alTriggeredUsageUSD :: usd
  alBudgetAmountUSD :: usd
  alThresholdPct :: "int option"
  alProjectedSpendUSD :: "usd option"
  alDaysUntilExhausted :: "rat option"
  alDismissedByUserID :: "string option"
  alDismissedAt :: "time option"
  alResolvedAt :: "time option"
  alPeriodStart :: time
  alCreatedAt :: time
  alUpdatedAt :: time

section \<open>Rate limit allocations\<close>

record allocation =
  raID :: uuid
  raOrgID :: string
  raTeamID :: string
  raModelPattern :: string
  raTokenLimit :: "int option"
  raTokenUnit :: "string option"
  raRequestLimit :: "int option"
  raRequestUnit :: "string option"
  raBurstPercentage :: int
  raEnforcement :: enforcement
  raEnabled :: bool
  raDisabledByUserID :: "string option"
  raDisabledByEmail :: "string option"
  raDisabledByIsOrg :: bool
  raDisabledAt :: "time option"
  raApprovalStatus :: approval_status
  raApprovedBy :: "string option"
  raApprovedAt :: "time option"
  raCreatedByUserID :: "string option"
  raCreatedByEmail :: "string option"
  raDescription :: "string option"
  raRejectionCount :: int
  raVersion :: int
  raCreatedAt :: time
  raUpdatedAt :: time

record rl_approval =
  rpID :: uuid
  rpAllocationID :: uuid
  rpAttemptNumber :: int
  rpAction :: string
  rpActorUserID :: "string option"
  rpActorEmail :: "string option"
  rpReason :: "string option"
  rpCreatedAt :: time
  rpUpdatedAt :: time

definition HasTokenLimit :: "allocation \<Rightarrow> bool" where
  "HasTokenLimit r = (case raTokenLimit r of None \<Rightarrow> False | Some v \<Rightarrow> v > 0)"

definition HasRequestLimit :: "allocation \<Rightarrow> bool" where
  "HasRequestLimit r = (case raRequestLimit r of None \<Rightarrow> False | Some v \<Rightarrow> v > 0)"

definition TokenUnitValue :: "allocation \<Rightarrow> string" where
  "TokenUnitValue r = (case raTokenUnit r of Some u \<Rightarrow> u | None \<Rightarrow> '''')"

definition RequestUnitValue :: "allocation \<Rightarrow> string" where
  "RequestUnitValue r = (case raRequestUnit r of Some u \<Rightarrow> u | None \<Rightarrow> '''')"

section \<open>Pagination\<close>

record pagination_params =
  ppPage :: int
  ppPageSize :: int

record pagination_meta =
  pmPage :: int
  pmPageSize :: int
  pmTotalCount :: int
  pmTotalPages :: int

text \<open>\<open>Offset\<close> is computed in 64-bit arithmetic and may wrap around.\<close>

definition Offset :: "pagination_params \<Rightarrow> int" where
  "Offset p = go_int64 (go_int64 (ppPage p - 1) * ppPageSize p)"

text \<open>An integer division by zero panics: \<open>None\<close>.\<close>

definition NewPaginationMeta :: "pagination_params \<Rightarrow> int \<Rightarrow> pagination_meta option" where
  "NewPaginationMeta params totalCount =
     (if ppPageSize params = 0 then None
      else let q = go_quot totalCount (ppPageSize params);
               pages = (if go_rem totalCount (ppPageSize params) > 0 then q + 1 else q)
        in Some \<lparr>pmPage = ppPage params, pmPageSize = ppPageSize params,
             pmTotalCount = totalCount, pmTotalPages = pages\<rparr>)"

section \<open>Properties of the period and of the remaining amount\<close>

text \<open>A custom period is a 32-bit number of seconds, so its \<open>Duration\<close> never overflows.\<close>

lemma custom_period_fits:
  assumes "- (2 ^ 31) \<le> n" and "n < 2 ^ 31"
  shows "go_int64 (n * Second) = n * Second"
  using assms by (intro go_int64_id) (simp_all add: Second_def)

definition positive_period :: "budget \<Rightarrow> bool" where
  "positive_period b \<longleftrightarrow> (case bPeriod b of
     PeriodCustom \<Rightarrow> (case bCustomPeriodSeconds b of Some n \<Rightarrow> 0 < n \<and> n < 2 ^ 31 | None \<Rightarrow> True)
   | _ \<Rightarrow> True)"

lemma NextPeriodStart_simps [simp]:
  "bPeriod b = PeriodHourly \<Longrightarrow> NextPeriodStart b = bCurrentPeriodStart b + Hour"
  "bPeriod b = PeriodDaily \<Longrightarrow> NextPeriodStart b = bCurrentPeriodStart b + day_ns"
  "bPeriod b = PeriodWeekly \<Longrightarrow> NextPeriodStart b = bCurrentPeriodStart b + 7 * day_ns"
  "bPeriod b = PeriodMonthly \<Longrightarrow>
    NextPeriodStart b = bCurrentPeriodStart b + month_length (bCurrentPeriodStart b) * day_ns"
  "bPeriod b = PeriodOther s \<Longrightarrow> NextPeriodStart b = bCurrentPeriodStart b + day_ns"
  by (simp_all add: NextPeriodStart_def AddDate_days AddDate_month)

lemma NextPeriodStart_custom [simp]:
  "bPeriod b = PeriodCustom \<Longrightarrow> bCustomPeriodSeconds b = Some n \<Longrightarrow> 0 < n \<Longrightarrow> n < 2 ^ 31 \<Longrightarrow>
    NextPeriodStart b = bCurrentPeriodStart b + n * Second"
  by (simp add: NextPeriodStart_def custom_period_fits)

lemma NextPeriodStart_custom_none [simp]:
  "bPeriod b = PeriodCustom \<Longrightarrow> bCustomPeriodSeconds b = None \<Longrightarrow>
    NextPeriodStart b = bCurrentPeriodStart b + day_ns"
  by (simp add: NextPeriodStart_def AddDate_days)

lemma NextPeriodStart_after:
  assumes "positive_period b"
  shows "bCurrentPeriodStart b < NextPeriodStart b"
proof (cases "bPeriod b")
  case PeriodMonthly
  then show ?thesis
    using month_length_bounds(1) [of "bCurrentPeriodStart b"] by simp
next
  case PeriodCustom
  with assms show ?thesis
    by (cases "bCustomPeriodSeconds b") (auto simp: positive_period_def Second_def)
qed (use day_ns_pos in \<open>simp_all add: Hour_def\<close>)

lemma Offset_exact:
  assumes "1 \<le> ppPage p" and "0 < ppPageSize p" and "ppPage p * ppPageSize p < 2 ^ 63"
  shows "Offset p = (ppPage p - 1) * ppPageSize p"
proof -
  have "ppPage p * 1 \<le> ppPage p * ppPageSize p"
    using assms by (intro mult_left_mono) auto
  then have "ppPage p < 2 ^ 63" using assms(3) by linarith
  then have "go_int64 (ppPage p - 1) = ppPage p - 1" using assms by (intro go_int64_id) auto
  moreover have "go_int64 ((ppPage p - 1) * ppPageSize p) = (ppPage p - 1) * ppPageSize p"
  proof (rule go_int64_id)
    have "0 \<le> (ppPage p - 1) * ppPageSize p" using assms by simp
    then show "- (2 ^ 63) \<le> (ppPage p - 1) * ppPageSize p"
      by (rule order_trans [rotated]) simp
    have "(ppPage p - 1) * ppPageSize p \<le> ppPage p * ppPageSize p"
      using assms by (intro mult_right_mono) auto
    then show "(ppPage p - 1) * ppPageSize p < 2 ^ 63" using assms(3) by linarith
  qed
  ultimately show ?thesis by (simp add: Offset_def)
qed

lemma NewPaginationMeta_pages:
  assumes "0 < ppPageSize p" and "0 \<le> totalCount"
  obtains m where "NewPaginationMeta p totalCount = Some m"
    and "totalCount \<le> pmTotalPages m * ppPageSize p"
    and "pmTotalPages m * ppPageSize p < totalCount + ppPageSize p"
proof
  let ?m = "\<lparr>pmPage = ppPage p, pmPageSize = ppPageSize p, pmTotalCount = totalCount,
      pmTotalPages = totalCount div ppPageSize p + (if totalCount mod ppPageSize p > 0 then 1 else 0)\<rparr>"
  show "NewPaginationMeta p totalCount = Some ?m"
    using assms by (simp add: NewPaginationMeta_def Let_def)
  have m: "0 \<le> totalCount mod ppPageSize p" "totalCount mod ppPageSize p < ppPageSize p"
    using assms by simp_all
  note s = div_mult_mod_eq [of totalCount "ppPageSize p"]
  have k: "pmTotalPages ?m * ppPageSize p = totalCount div ppPageSize p * ppPageSize p
      + (if 0 < totalCount mod ppPageSize p then ppPageSize p else 0)"
    by (simp add: distrib_right)
  show "totalCount \<le> pmTotalPages ?m * ppPageSize p"
    unfolding k using m s by (split if_split) linarith
  show "pmTotalPages ?m * ppPageSize p < totalCount + ppPageSize p"
    unfolding k using m s by (split if_split) linarith
qed

end
