(* ===== verification/Store.thy ===== *)
theory Store
  imports Models
begin

text \<open>
  The PostgreSQL database behind \<open>internal/db\<close> and the pgx calls the repositories make.

  \<^item> \<open>tables\<close> holds one list of rows per table, in insertion order. The keys, foreign keys,
    check constraints and triggers of \<open>migrations/001_initial.sql\<close> are written where a
    statement can violate or fire them.
  \<^item> \<open>world\<close> adds the clock (one reading for \<open>time.Now()\<close> and for \<open>NOW()\<close>, fixed during
    an operation), the supply of \<open>uuid.New()\<close>, the working copy of the open transaction, the
    number of transactions that are open, and the faults that will hit the next statements.
  \<^item> An operation is a function from the world to a result, an error or a value, and the
    next world.

  A \<open>fault\<close> is what can go wrong with a statement for a reason outside the model (the network, the
    server, an overflow of a \<open>DECIMAL\<close> column): the statement fails, or its row stream ends
    after some rows. In the second case the error is only visible to a caller who looks at
    \<open>rows.Err()\<close>. A list of faults that has run out means that nothing goes wrong any more.
\<close>

section \<open>State\<close>

record tables =
  model_costs :: "model_cost list"
  budget_definitions :: "budget list"
  usage_records :: "usage_record list"
  request_reservations :: "reservation list"
  budget_approvals :: "budget_approval list"
  budget_alerts :: "budget_alert list"
  audit_log :: "audit_entry list"
  rate_limit_allocations :: "allocation list"
  rate_limit_approvals :: "rl_approval list"

datatype fault = NoFault | StmtFail | RowsCut nat

record world =
  db :: tables
  clock :: time
  uuids :: uuid
  tx_db :: tables
  tx_aborted :: bool
  open_txs :: nat
  faults :: "fault list"

datatype db_error = ErrNotFound | ErrOptimisticLock | ErrDuplicateEntity | ErrWrapped string

type_synonym 'a op = "world \<Rightarrow> (db_error + 'a) \<times> world"
type_synonym 'a statement = "time \<Rightarrow> tables \<Rightarrow> ('a \<times> tables) option"

section \<open>Sequencing\<close>

text \<open>
  \<open>bind_op m k\<close> is the idiom \<open>x, err := m; if err != nil { return err }; k(x)\<close>;
  \<open>try_op m h\<close> hands the whole result to \<open>h\<close>, for the callers that go on after an error.
\<close>

definition return_op :: "'a \<Rightarrow> 'a op" where
  "return_op x w = (Inr x, w)"

definition fail_op :: "db_error \<Rightarrow> 'a op" where
  "fail_op e w = (Inl e, w)"

definition bind_op :: "'a op \<Rightarrow> ('a \<Rightarrow> 'b op) \<Rightarrow> 'b op" where
  "bind_op m k w = (case m w of (Inl e, w') \<Rightarrow> (Inl e, w') | (Inr x, w') \<Rightarrow> k x w')"

definition try_op :: "'a op \<Rightarrow> (db_error + 'a \<Rightarrow> 'b op) \<Rightarrow> 'b op" where
  "try_op m h w = (case m w of (r, w') \<Rightarrow> h r w')"

lemma return_op_simp [simp]: "return_op x w = (Inr x, w)"
  by (simp add: return_op_def)

lemma fail_op_simp [simp]: "fail_op e w = (Inl e, w)"
  by (simp add: fail_op_def)

lemma bind_op_Inl [simp]: "m w = (Inl e, w') \<Longrightarrow> bind_op m k w = (Inl e, w')"
  by (simp add: bind_op_def)

lemma bind_op_Inr [simp]: "m w = (Inr x, w') \<Longrightarrow> bind_op m k w = k x w'"
  by (simp add: bind_op_def)

lemma try_op_simp [simp]: "m w = (r, w') \<Longrightarrow> try_op m h w = h r w'"
  by (simp add: try_op_def)

lemma bind_op_cases:
  assumes "bind_op m k w = (r, w')"
  obtains (err) e where "m w = (Inl e, w')" and "r = Inl e"
    | (val) x w1 where "m w = (Inr x, w1)" and "k x w1 = (r, w')"
  using assms by (auto simp: bind_op_def split: prod.splits sum.splits)

lemma try_op_cases:
  assumes "try_op m h w = (r, w')"
  obtains r1 w1 where "m w = (r1, w1)" and "h r1 w1 = (r, w')"
  using assms by (auto simp: try_op_def split: prod.splits)

text \<open>\<open>uuid.New()\<close> and \<open>time.Now()\<close>.\<close>

definition uuid_New :: "world \<Rightarrow> uuid \<times> world" where
  "uuid_New w = (uuids w, w\<lparr>uuids := Suc (uuids w)\<rparr>)"

section \<open>Statements on the pool\<close>

definition pop_fault :: "world \<Rightarrow> fault \<times> world" where
  "pop_fault w = (case faults w of [] \<Rightarrow> (NoFault, w) | f # fs \<Rightarrow> (f, w\<lparr>faults := fs\<rparr>))"

text \<open>
  \<open>Pool.Exec\<close>: the statement \<open>f\<close> is \<open>None\<close> where a constraint rejects it. A server that
  drops the connection after the last row has still run the statement, so only \<open>StmtFail\<close> is
  a failure of \<open>Exec\<close>; \<open>Pool.Exec\<close> of a statement that fails leaves the tables alone.
\<close>

definition sql_exec :: "string \<Rightarrow> 'a statement \<Rightarrow> 'a op" where
  "sql_exec msg f w = (case pop_fault w of
       (StmtFail, w') \<Rightarrow> (Inl (ErrWrapped msg), w')
     | (_, w') \<Rightarrow> (case f (clock w') (db w') of
           None \<Rightarrow> (Inl (ErrWrapped msg), w')
         | Some (x, t) \<Rightarrow> (Inr x, w'\<lparr>db := t\<rparr>)))"

text \<open>
  \<open>Pool.Query\<close> with a loop over \<open>rows.Next()\<close>; \<open>checked\<close> says whether the function returns
  \<open>rows.Err()\<close> (or \<open>nil\<close>) after the loop.
\<close>

definition sql_rows :: "bool \<Rightarrow> string \<Rightarrow> (time \<Rightarrow> tables \<Rightarrow> 'r list) \<Rightarrow> 'r list op" where
  "sql_rows checked msg q w = (case pop_fault w of
       (NoFault, w') \<Rightarrow> (Inr (q (clock w') (db w')), w')
     | (StmtFail, w') \<Rightarrow> (Inl (ErrWrapped msg), w')
     | (RowsCut n, w') \<Rightarrow>
         (if checked then Inl (ErrWrapped msg) else Inr (take n (q (clock w') (db w'))), w'))"

text \<open>\<open>Pool.QueryRow(...).Scan(...)\<close>: the first row, \<open>pgx.ErrNoRows\<close> mapped to \<open>ErrNotFound\<close>.\<close>

definition sql_row :: "string \<Rightarrow> (time \<Rightarrow> tables \<Rightarrow> 'r option) \<Rightarrow> 'r op" where
  "sql_row msg q w = (case pop_fault w of
       (NoFault, w') \<Rightarrow> (case q (clock w') (db w') of
           None \<Rightarrow> (Inl ErrNotFound, w') | Some r \<Rightarrow> (Inr r, w'))
     | (_, w') \<Rightarrow> (Inl (ErrWrapped msg), w'))"

text \<open>\<open>if result.RowsAffected() == 0 { return e }\<close> after an \<open>Exec\<close> that returns its row count.\<close>

definition affected_or :: "db_error \<Rightarrow> nat op \<Rightarrow> unit op" where
  "affected_or e m = bind_op m (\<lambda>n. if n = 0 then fail_op e else return_op ())"

section \<open>Transactions\<close>

text \<open>
  A transaction works on its copy of the tables. The first failing statement aborts it: the
  server rejects every later statement, and \<open>Commit\<close> of an aborted transaction rolls back and
  returns \<open>pgx.ErrTxCommitRollback\<close>. A row stream that is cut loses the connection, so it
  aborts the transaction too. The code never writes through the pool while it has a
  transaction open, so \<open>Commit\<close> installs the copy.
\<close>

definition tx_begin :: "unit op" where
  "tx_begin w = (case pop_fault w of
       (StmtFail, w') \<Rightarrow> (Inl (ErrWrapped ''begin''), w')
     | (_, w') \<Rightarrow> (Inr (), w'\<lparr>tx_db := db w', tx_aborted := False, open_txs := Suc (open_txs w')\<rparr>))"

definition tx_commit :: "unit op" where
  "tx_commit w = (case pop_fault w of
       (NoFault, w') \<Rightarrow>
         (if tx_aborted w' then (Inl (ErrWrapped ''commit''), w'\<lparr>open_txs := open_txs w' - 1\<rparr>)
          else (Inr (), w'\<lparr>db := tx_db w', open_txs := open_txs w' - 1\<rparr>))
     | (_, w') \<Rightarrow> (Inl (ErrWrapped ''commit''), w'\<lparr>open_txs := open_txs w' - 1\<rparr>))"

text \<open>\<open>_ = tx.Rollback(ctx)\<close>, also after a commit that failed (then it does nothing).\<close>

definition tx_rollback :: "world \<Rightarrow> world" where
  "tx_rollback w = w\<lparr>open_txs := open_txs w - 1\<rparr>"

definition tx_exec :: "string \<Rightarrow> 'a statement \<Rightarrow> 'a op" where
  "tx_exec msg f w = (case pop_fault w of
       (StmtFail, w') \<Rightarrow> (Inl (ErrWrapped msg), w'\<lparr>tx_aborted := True\<rparr>)
     | (_, w') \<Rightarrow>
         (if tx_aborted w' then (Inl (ErrWrapped msg), w')
          else (case f (clock w') (tx_db w') of
             None \<Rightarrow> (Inl (ErrWrapped msg), w'\<lparr>tx_aborted := True\<rparr>)
           | Some (x, t) \<Rightarrow> (Inr x, w'\<lparr>tx_db := t\<rparr>))))"

definition tx_rows :: "string \<Rightarrow> (time \<Rightarrow> tables \<Rightarrow> 'r list) \<Rightarrow> 'r list op" where
  "tx_rows msg q w = (case pop_fault w of
       (NoFault, w') \<Rightarrow>
         (if tx_aborted w' then (Inl (ErrWrapped msg), w')
          else (Inr (q (clock w') (tx_db w')), w'))
     | (StmtFail, w') \<Rightarrow> (Inl (ErrWrapped msg), w'\<lparr>tx_aborted := True\<rparr>)
     | (RowsCut n, w') \<Rightarrow>
         (if tx_aborted w' then (Inl (ErrWrapped msg), w')
          else (Inr (take n (q (clock w') (tx_db w'))), w'\<lparr>tx_aborted := True\<rparr>)))"

definition tx_row :: "string \<Rightarrow> (time \<Rightarrow> tables \<Rightarrow> 'r option) \<Rightarrow> 'r op" where
  "tx_row msg q w = (case pop_fault w of
       (NoFault, w') \<Rightarrow>
         (if tx_aborted w' then (Inl (ErrWrapped msg), w')
          else (case q (clock w') (tx_db w') of
             None \<Rightarrow> (Inl ErrNotFound, w') | Some r \<Rightarrow> (Inr r, w')))
     | (_, w') \<Rightarrow> (Inl (ErrWrapped msg), w'\<lparr>tx_aborted := True\<rparr>))"

section \<open>Statements that meet no fault\<close>

lemma pop_fault_quiet [simp]: "faults w = [] \<Longrightarrow> pop_fault w = (NoFault, w)"
  by (simp add: pop_fault_def)

lemma sql_exec_quiet [simp]:
  "faults w = [] \<Longrightarrow> sql_exec msg f w = (case f (clock w) (db w) of
     None \<Rightarrow> (Inl (ErrWrapped msg), w) | Some (x, t) \<Rightarrow> (Inr x, w\<lparr>db := t\<rparr>))"
  by (simp add: sql_exec_def)

lemma sql_rows_quiet [simp]:
  "faults w = [] \<Longrightarrow> sql_rows checked msg q w = (Inr (q (clock w) (db w)), w)"
  by (simp add: sql_rows_def)

lemma sql_row_quiet [simp]:
  "faults w = [] \<Longrightarrow> sql_row msg q w = (case q (clock w) (db w) of
     None \<Rightarrow> (Inl ErrNotFound, w) | Some r \<Rightarrow> (Inr r, w))"
  by (simp add: sql_row_def)

lemma tx_begin_quiet [simp]:
  "faults w = [] \<Longrightarrow>
     tx_begin w = (Inr (), w\<lparr>tx_db := db w, tx_aborted := False, open_txs := Suc (open_txs w)\<rparr>)"
  by (simp add: tx_begin_def)

lemma tx_commit_quiet [simp]:
  "faults w = [] \<Longrightarrow> \<not> tx_aborted w \<Longrightarrow>
     tx_commit w = (Inr (), w\<lparr>db := tx_db w, open_txs := open_txs w - 1\<rparr>)"
  by (simp add: tx_commit_def)

lemma tx_exec_quiet [simp]:
  "faults w = [] \<Longrightarrow> \<not> tx_aborted w \<Longrightarrow> tx_exec msg f w = (case f (clock w) (tx_db w) of
     None \<Rightarrow> (Inl (ErrWrapped msg), w\<lparr>tx_aborted := True\<rparr>)
   | Some (x, t) \<Rightarrow> (Inr x, w\<lparr>tx_db := t\<rparr>))"
  by (simp add: tx_exec_def)

lemma tx_rows_quiet [simp]:
  "faults w = [] \<Longrightarrow> \<not> tx_aborted w \<Longrightarrow> tx_rows msg q w = (Inr (q (clock w) (tx_db w)), w)"
  by (simp add: tx_rows_def)

lemma tx_row_quiet [simp]:
  "faults w = [] \<Longrightarrow> \<not> tx_aborted w \<Longrightarrow> tx_row msg q w = (case q (clock w) (tx_db w) of
     None \<Rightarrow> (Inl ErrNotFound, w) | Some r \<Rightarrow> (Inr r, w))"
  by (simp add: tx_row_def)

lemma pop_fault_frame:
  assumes "pop_fault w = (f, w')"
  shows "db w' = db w" "clock w' = clock w" "uuids w' = uuids w" "tx_db w' = tx_db w"
    "tx_aborted w' = tx_aborted w" "open_txs w' = open_txs w"
    "faults w = [] \<Longrightarrow> faults w' = []"
  using assms by (auto simp: pop_fault_def split: list.splits)

section \<open>What every kind of operation keeps\<close>

text \<open>
  Four contracts, from the weakest to the strongest.

  \<^item> \<open>db_op\<close>: an operation reads the clock but does not move it, and never hands out an
    identifier twice.
  \<^item> \<open>atomic_op\<close>: an operation that returns an error has not changed the database.
  \<^item> \<open>tx_op\<close>: an operation inside a transaction writes to the transaction's copy only, and an
    aborted transaction stays aborted.
  \<^item> \<open>query_op\<close>: an operation that writes nothing at all.

  Each repository operation is an \<^theory_text>\<open>interpretation\<close> of the strongest contract it has, and
  the composition rules below give the contracts of the callers.
\<close>

locale db_op =
  fixes f :: "'a op"
  assumes clock_frame: "f w = (r, w') \<Longrightarrow> clock w' = clock w"
    and uuids_frame: "f w = (r, w') \<Longrightarrow> uuids w \<le> uuids w'"
    and quiet_frame: "f w = (r, w') \<Longrightarrow> faults w = [] \<Longrightarrow> faults w' = []"

locale atomic_op = db_op f for f :: "'a op" +
  assumes error_keeps_db: "f w = (Inl e, w') \<Longrightarrow> db w' = db w"

locale tx_op = db_op f for f :: "'a op" +
  assumes db_frame: "f w = (r, w') \<Longrightarrow> db w' = db w"
    and open_frame: "f w = (r, w') \<Longrightarrow> open_txs w' = open_txs w"
    and aborted_frame: "f w = (r, w') \<Longrightarrow> tx_aborted w \<Longrightarrow> tx_aborted w'"

locale query_op = db_op f for f :: "'a op" +
  assumes reads_only: "f w = (r, w') \<Longrightarrow>
    db w' = db w \<and> open_txs w' = open_txs w \<and> tx_db w' = tx_db w \<and> tx_aborted w' = tx_aborted w"

sublocale query_op \<subseteq> tx_op
  by unfold_locales (auto dest: reads_only)

sublocale tx_op \<subseteq> atomic_op
  by unfold_locales (auto dest: db_frame)

section \<open>Contracts of the primitives and of their compositions\<close>

named_theorems op_contracts \<open>the contracts of operations, as introduction rules\<close>

lemma query_op_imp_tx: "query_op f \<Longrightarrow> tx_op f"
  by (rule query_op.axioms(1) [THEN tx_op.intro]) (auto intro!: tx_op_axioms.intro dest: query_op.reads_only)

lemma tx_op_imp_atomic: "tx_op f \<Longrightarrow> atomic_op f"
  by (rule tx_op.axioms(1) [THEN atomic_op.intro]) (auto intro!: atomic_op_axioms.intro dest: tx_op.db_frame)

lemma query_op_imp_db: "query_op f \<Longrightarrow> db_op f"
  by (rule query_op.axioms(1))

lemma tx_op_imp_db: "tx_op f \<Longrightarrow> db_op f"
  by (rule tx_op.axioms(1))

lemma atomic_op_imp_db: "atomic_op f \<Longrightarrow> db_op f"
  by (rule atomic_op.axioms(1))

lemma query_op_return [op_contracts]: "query_op (return_op x)"
  by unfold_locales auto

lemma query_op_fail [op_contracts]: "query_op (fail_op e)"
  by unfold_locales auto

lemma query_op_sql_rows [op_contracts]: "query_op (sql_rows checked msg q)"
  by unfold_locales
    (auto simp: sql_rows_def pop_fault_def split: fault.splits list.splits if_splits)

lemma query_op_sql_row [op_contracts]: "query_op (sql_row msg q)"
  by unfold_locales
    (auto simp: sql_row_def pop_fault_def split: fault.splits list.splits option.splits)

lemma atomic_op_sql_exec [op_contracts]: "atomic_op (sql_exec msg f)"
  by unfold_locales
    (auto simp: sql_exec_def pop_fault_def split: fault.splits list.splits option.splits)

lemma tx_op_tx_exec [op_contracts]: "tx_op (tx_exec msg f)"
  by unfold_locales
    (auto simp: tx_exec_def pop_fault_def split: fault.splits list.splits option.splits if_splits)

lemma tx_op_tx_rows [op_contracts]: "tx_op (tx_rows msg q)"
  by unfold_locales
    (auto simp: tx_rows_def pop_fault_def split: fault.splits list.splits if_splits)

lemma tx_op_tx_row [op_contracts]: "tx_op (tx_row msg q)"
  by unfold_locales
    (auto simp: tx_row_def pop_fault_def split: fault.splits list.splits option.splits if_splits)

lemma atomic_op_tx_begin: "atomic_op tx_begin"
  by unfold_locales (auto simp: tx_begin_def pop_fault_def split: fault.splits list.splits)

lemma atomic_op_tx_commit: "atomic_op tx_commit"
  by unfold_locales (auto simp: tx_commit_def pop_fault_def split: fault.splits list.splits if_splits)

lemma db_op_bind [op_contracts]:
  assumes "db_op m" and "\<And>x. db_op (k x)"
  shows "db_op (bind_op m k)"
proof unfold_locales
  fix w r w'
  assume run: "bind_op m k w = (r, w')"
  from run show "clock w' = clock w"
    by (cases rule: bind_op_cases) (auto dest!: db_op.clock_frame [OF assms(1)] db_op.clock_frame [OF assms(2)])
  from run show "uuids w \<le> uuids w'"
    by (cases rule: bind_op_cases)
      (auto dest!: db_op.uuids_frame [OF assms(1)] db_op.uuids_frame [OF assms(2)])
  assume "faults w = []"
  with run show "faults w' = []"
    by (cases rule: bind_op_cases)
      (auto dest: db_op.quiet_frame [OF assms(1)] db_op.quiet_frame [OF assms(2)])
qed

lemma db_op_try [op_contracts]:
  assumes "db_op m" and "\<And>r. db_op (h r)"
  shows "db_op (try_op m h)"
proof unfold_locales
  fix w r w'
  assume run: "try_op m h w = (r, w')"
  from run show "clock w' = clock w"
    by (cases rule: try_op_cases) (auto dest!: db_op.clock_frame [OF assms(1)] db_op.clock_frame [OF assms(2)])
  from run show "uuids w \<le> uuids w'"
    by (cases rule: try_op_cases)
      (auto dest!: db_op.uuids_frame [OF assms(1)] db_op.uuids_frame [OF assms(2)])
  assume "faults w = []"
  with run show "faults w' = []"
    by (cases rule: try_op_cases)
      (auto dest: db_op.quiet_frame [OF assms(1)] db_op.quiet_frame [OF assms(2)])
qed

lemma tx_op_bind [op_contracts]:
  assumes "tx_op m" and "\<And>x. tx_op (k x)"
  shows "tx_op (bind_op m k)"
proof (rule tx_op.intro)
  show "db_op (bind_op m k)"
    by (intro db_op_bind tx_op_imp_db assms)
  show "tx_op_axioms (bind_op m k)"
  proof unfold_locales
    fix w r w'
    assume run: "bind_op m k w = (r, w')"
    from run show "db w' = db w"
      by (cases rule: bind_op_cases)
        (auto dest!: tx_op.db_frame [OF assms(1)] tx_op.db_frame [OF assms(2)])
    from run show "open_txs w' = open_txs w"
      by (cases rule: bind_op_cases)
        (auto dest!: tx_op.open_frame [OF assms(1)] tx_op.open_frame [OF assms(2)])
    assume "tx_aborted w"
    with run show "tx_aborted w'"
      by (cases rule: bind_op_cases)
        (auto dest: tx_op.aborted_frame [OF assms(1)] tx_op.aborted_frame [OF assms(2)])
  qed
qed

lemma tx_op_try [op_contracts]:
  assumes "tx_op m" and "\<And>r. tx_op (h r)"
  shows "tx_op (try_op m h)"
proof (rule tx_op.intro)
  show "db_op (try_op m h)"
    by (intro db_op_try tx_op_imp_db assms)
  show "tx_op_axioms (try_op m h)"
  proof unfold_locales
    fix w r w'
    assume run: "try_op m h w = (r, w')"
    from run show "db w' = db w"
      by (cases rule: try_op_cases)
        (auto dest!: tx_op.db_frame [OF assms(1)] tx_op.db_frame [OF assms(2)])
    from run show "open_txs w' = open_txs w"
      by (cases rule: try_op_cases)
        (auto dest!: tx_op.open_frame [OF assms(1)] tx_op.open_frame [OF assms(2)])
    assume "tx_aborted w"
    with run show "tx_aborted w'"
      by (cases rule: try_op_cases)
        (auto dest: tx_op.aborted_frame [OF assms(1)] tx_op.aborted_frame [OF assms(2)])
  qed
qed

lemma query_op_bind [op_contracts]:
  assumes "query_op m" and "\<And>x. query_op (k x)"
  shows "query_op (bind_op m k)"
proof (rule query_op.intro)
  show "db_op (bind_op m k)"
    by (intro db_op_bind query_op_imp_db assms)
  show "query_op_axioms (bind_op m k)"
    by unfold_locales
      (erule bind_op_cases; auto dest!: query_op.reads_only [OF assms(1)] query_op.reads_only [OF assms(2)])
qed

lemma query_op_try [op_contracts]:
  assumes "query_op m" and "\<And>r. query_op (h r)"
  shows "query_op (try_op m h)"
proof (rule query_op.intro)
  show "db_op (try_op m h)"
    by (intro db_op_try query_op_imp_db assms)
  show "query_op_axioms (try_op m h)"
    by unfold_locales
      (erule try_op_cases; auto dest!: query_op.reads_only [OF assms(1)] query_op.reads_only [OF assms(2)])
qed

text \<open>An operation that only reads before its one write is atomic.\<close>

lemma atomic_op_bind [op_contracts]:
  assumes "tx_op m" and "\<And>x. atomic_op (k x)"
  shows "atomic_op (bind_op m k)"
proof (rule atomic_op.intro)
  show "db_op (bind_op m k)"
    by (intro db_op_bind tx_op_imp_db atomic_op_imp_db assms)
  show "atomic_op_axioms (bind_op m k)"
    by unfold_locales
      (erule bind_op_cases; auto dest!: tx_op.db_frame [OF assms(1)] atomic_op.error_keeps_db [OF assms(2)])
qed

lemma atomic_op_try [op_contracts]:
  assumes "tx_op m" and "\<And>r. atomic_op (h r)"
  shows "atomic_op (try_op m h)"
proof (rule atomic_op.intro)
  show "db_op (try_op m h)"
    by (intro db_op_try tx_op_imp_db atomic_op_imp_db assms)
  show "atomic_op_axioms (try_op m h)"
    by unfold_locales
      (erule try_op_cases; auto dest!: tx_op.db_frame [OF assms(1)] atomic_op.error_keeps_db [OF assms(2)])
qed

text \<open>
  A statement whose row count decides the result is atomic when it changes nothing exactly when
  it counts nothing, which is what \<open>UPDATE\<close> and \<open>DELETE\<close> do.
\<close>

definition counts_changes :: "nat statement \<Rightarrow> bool" where
  "counts_changes f \<longleftrightarrow> (\<forall>now t t'. f now t = Some (0, t') \<longrightarrow> t' = t)"

lemma atomic_op_affected_or [op_contracts]:
  assumes "counts_changes f"
  shows "atomic_op (affected_or e (sql_exec msg f))"
  using assms
  by unfold_locales
    (auto simp: affected_or_def bind_op_def sql_exec_def pop_fault_def counts_changes_def
      split: fault.splits list.splits option.splits prod.splits sum.splits if_splits)

end
