(* ===== verification/Budget_Repo.thy ===== *)
theory Budget_Repo
  imports Store
begin

text \<open>
  \<open>internal/db/repository.go\<close>, first part: model costs and budget definitions. Each function
  of the repository is one operation over the store, with its \<open>WHERE\<close>, \<open>ORDER BY\<close>,
  \<open>LIMIT\<close>, the constraints of its table and the error it maps an outcome to. \<open>ORDER BY\<close> is
  a stable sort, so rows the query does not order come in insertion order (newest first for a
  descending sort on a time), one of the orders the server may choose.

  The interpretations say which operations only read (\<open>query_op\<close>) and which are a single atomic
  statement (\<open>atomic_op\<close>).
\<close>

definition uuid_op :: "uuid op" where
  "uuid_op w = (case uuid_New w of (i, w') \<Rightarrow> (Inr i, w'))"

definition now_op :: "time op" where
  "now_op w = (Inr (clock w), w)"

lemma query_op_uuid [op_contracts]: "query_op uuid_op"
  by unfold_locales (auto simp: uuid_op_def uuid_New_def)

lemma query_op_now [op_contracts]: "query_op now_op"
  by unfold_locales (auto simp: now_op_def)

text \<open>The zero \<open>time.Time\<close>, 1 January of the year 1.\<close>

definition zero_time :: time where
  "zero_time = - 719162 * day_ns"

definition order_by :: "('r \<Rightarrow> 'k::linorder) \<Rightarrow> 'r list \<Rightarrow> 'r list" where
  "order_by k rs = sort_key k rs"

definition order_by_desc :: "('r \<Rightarrow> int) \<Rightarrow> 'r list \<Rightarrow> 'r list" where
  "order_by_desc k rs = sort_key (\<lambda>r. - k r) (rev rs)"

text \<open>\<open>LIMIT\<close> and \<open>OFFSET\<close>; the server rejects negative values.\<close>

definition page_rows :: "int \<Rightarrow> int \<Rightarrow> 'r list \<Rightarrow> 'r list" where
  "page_rows offset limit rs = take (nat limit) (drop (nat offset) rs)"

definition sql_reject :: "string \<Rightarrow> 'a op" where
  "sql_reject msg w = (case pop_fault w of (_, w') \<Rightarrow> (Inl (ErrWrapped msg), w'))"

lemma query_op_sql_reject [op_contracts]: "query_op (sql_reject msg)"
  by unfold_locales (auto simp: sql_reject_def pop_fault_def split: list.splits)

definition sql_page ::
  "string \<Rightarrow> int \<Rightarrow> int \<Rightarrow> (time \<Rightarrow> tables \<Rightarrow> 'r list) \<Rightarrow> 'r list op" where
  "sql_page msg offset limit q =
     (if offset < 0 \<or> limit < 0 then sql_reject msg
      else sql_rows False msg (\<lambda>now t. page_rows offset limit (q now t)))"

lemma query_op_sql_page [op_contracts]: "query_op (sql_page msg offset limit q)"
  by (cases "offset < 0 \<or> limit < 0") (simp_all add: sql_page_def op_contracts)

section \<open>Model costs\<close>

definition ListModelCosts :: "model_cost list op" where
  "ListModelCosts = sql_rows False ''failed to query model costs''
     (\<lambda>now t. order_by (\<lambda>mc. (mcProvider mc, mcModelID mc)) (model_costs t))"

definition GetModelCostByID :: "string \<Rightarrow> model_cost op" where
  "GetModelCostByID modelID = sql_row ''failed to get model cost''
     (\<lambda>now t. first_row (filter (\<lambda>mc. mcModelID mc = modelID) (model_costs t)))"

definition insert_model_cost :: "model_cost \<Rightarrow> unit statement" where
  "insert_model_cost mc now t =
     (if \<exists>r \<in> set (model_costs t). mcModelID r = mcModelID mc \<or> mcID r = mcID mc then None
      else Some ((), t\<lparr>model_costs := model_costs t @ [mc]\<rparr>))"

definition CreateModelCost :: "model_cost \<Rightarrow> model_cost op" where
  "CreateModelCost mc =
     bind_op uuid_op (\<lambda>i. bind_op now_op (\<lambda>now.
       let mc' = mc\<lparr>mcID := i, mcCreatedAt := now, mcUpdatedAt := now,
             mcEffectiveDate := (if mcEffectiveDate mc = zero_time then now else mcEffectiveDate mc)\<rparr>
       in bind_op (sql_exec ''failed to create model cost'' (insert_model_cost mc'))
            (\<lambda>_. return_op mc')))"

text \<open>The trigger of the table refreshes \<open>updated_at\<close> on every \<open>UPDATE\<close>.\<close>

definition update_model_cost :: "model_cost \<Rightarrow> nat statement" where
  "update_model_cost mc now t =
     Some (count_where (\<lambda>r. mcModelID r = mcModelID mc) (model_costs t),
       t\<lparr>model_costs := update_where (\<lambda>r. mcModelID r = mcModelID mc)
         (\<lambda>r. r\<lparr>mcProvider := mcProvider mc, mcInputCostPerMillion := mcInputCostPerMillion mc,
            mcOutputCostPerMillion := mcOutputCostPerMillion mc,
            mcCacheReadCostMillion := mcCacheReadCostMillion mc,
            mcCacheWriteCostMillion := mcCacheWriteCostMillion mc,
            mcModelPattern := mcModelPattern mc, mcEffectiveDate := mcEffectiveDate mc,
            mcUpdatedAt := now\<rparr>) (model_costs t)\<rparr>)"

definition UpdateModelCost :: "model_cost \<Rightarrow> unit op" where
  "UpdateModelCost mc = affected_or ErrNotFound
     (sql_exec ''failed to update model cost'' (update_model_cost mc))"

definition delete_model_cost :: "string \<Rightarrow> nat statement" where
  "delete_model_cost modelID now t =
     Some (count_where (\<lambda>r. mcModelID r = modelID) (model_costs t),
       t\<lparr>model_costs := delete_where (\<lambda>r. mcModelID r = modelID) (model_costs t)\<rparr>)"

definition DeleteModelCost :: "string \<Rightarrow> unit op" where
  "DeleteModelCost modelID = affected_or ErrNotFound
     (sql_exec ''failed to delete model cost'' (delete_model_cost modelID))"

record model_cost_filter =
  mfProvider :: string
  mfSortBy :: string
  mfSortDir :: string

definition model_cost_order :: "model_cost_filter \<Rightarrow> model_cost list \<Rightarrow> model_cost list" where
  "model_cost_order f rs =
     (let s = (if mfSortDir f = ''desc'' then - 1 else 1) in
      if mfSortBy f = ''input_cost'' then sort_key (\<lambda>r. s * mcInputCostPerMillion r) rs
      else if mfSortBy f = ''output_cost'' then sort_key (\<lambda>r. s * mcOutputCostPerMillion r) rs
      else if mfSortBy f = ''both''
        then sort_key (\<lambda>r. (s * mcInputCostPerMillion r, s * mcOutputCostPerMillion r)) rs
      else order_by_desc mcCreatedAt rs)"

definition ListModelCostsPaginated ::
  "model_cost_filter \<Rightarrow> int \<Rightarrow> int \<Rightarrow> (model_cost list \<times> nat) op" where
  "ListModelCostsPaginated f offset limit =
     (let p = (\<lambda>r. mfProvider f = '''' \<or> mcProvider r = mfProvider f) in
      bind_op (sql_row ''failed to count model costs'' (\<lambda>now t. Some (count_where p (model_costs t))))
        (\<lambda>totalCount. bind_op (sql_page ''failed to query model costs'' offset limit
            (\<lambda>now t. model_cost_order f (filter p (model_costs t))))
          (\<lambda>costs. return_op (costs, totalCount))))"

definition ListDistinctProviders :: "string list op" where
  "ListDistinctProviders = sql_rows False ''failed to query distinct providers''
     (\<lambda>now t. sort (remdups (map mcProvider (model_costs t))))"

section \<open>Budgets: reading\<close>

definition ListBudgets :: "budget list op" where
  "ListBudgets = sql_rows False ''failed to query budgets''
     (\<lambda>now t. order_by (\<lambda>b. (bEntityType b, bName b)) (budget_definitions t))"

definition budget_by_id :: "uuid \<Rightarrow> tables \<Rightarrow> budget option" where
  "budget_by_id i t = first_row (filter (\<lambda>b. bID b = i) (budget_definitions t))"

definition GetBudgetByID :: "uuid \<Rightarrow> budget op" where
  "GetBudgetByID i = sql_row ''failed to get budget'' (\<lambda>now t. budget_by_id i t)"

definition GetBudgetByEntity :: "entity_type \<Rightarrow> string \<Rightarrow> budget op" where
  "GetBudgetByEntity entityType entityID =
     (if \<not> db_entity_type entityType then sql_reject ''failed to get budget by entity''
      else sql_row ''failed to get budget by entity''
        (\<lambda>now t. first_row (filter (\<lambda>b. bEntityType b = entityType \<and> bName b = entityID)
           (budget_definitions t))))"

text \<open>
  The comparison goes through PostgreSQL's \<open>md5\<close>, a parameter of the model. A value outside
  the enum is an error of the statement.
\<close>

definition GetBudgetByMatchExpression ::
  "(string \<Rightarrow> string) \<Rightarrow> entity_type \<Rightarrow> string \<Rightarrow> budget op" where
  "GetBudgetByMatchExpression md5 entityType matchExpression =
     (if \<not> db_entity_type entityType then sql_reject ''failed to get budget by match expression''
      else sql_row ''failed to get budget by match expression''
        (\<lambda>now t. first_row (filter (\<lambda>b. bEntityType b = entityType \<and>
           md5 (bMatchExpression b) = md5 matchExpression) (budget_definitions t))))"

definition GetAllBudgets :: "budget list op" where
  "GetAllBudgets = ListBudgets"

definition enforced_budget :: "budget \<Rightarrow> bool" where
  "enforced_budget b \<longleftrightarrow> bEnabled b \<and> bApprovalStatus b = ApprovalStatusApproved"

definition enabled_budgets :: "tables \<Rightarrow> budget list" where
  "enabled_budgets t =
     order_by (\<lambda>b. (bEntityType b, bName b)) (filter enforced_budget (budget_definitions t))"

definition GetEnabledBudgets :: "budget list op" where
  "GetEnabledBudgets = sql_rows False ''failed to query enabled budgets''
     (\<lambda>now t. enabled_budgets t)"

definition GetEnabledBudgetsForUpdate :: "budget list op" where
  "GetEnabledBudgetsForUpdate = tx_rows ''failed to query enabled budgets for update''
     (\<lambda>now t. enabled_budgets t)"

definition GetBudgetForUpdate :: "uuid \<Rightarrow> budget op" where
  "GetBudgetForUpdate i = tx_row ''failed to get budget for update'' (\<lambda>now t. budget_by_id i t)"

definition GetChildBudgets :: "uuid \<Rightarrow> budget list op" where
  "GetChildBudgets parentID = sql_rows True ''failed to query child budgets''
     (\<lambda>now t. filter (\<lambda>b. bParentID b = Some parentID) (budget_definitions t))"

text \<open>The filter of \<open>ListBudgetsPaginated\<close>.\<close>

record budget_list_filter =
  bfOrgID :: string
  bfTeamID :: string
  bfUserID :: string
  bfIsOrg :: bool
  bfIsTeamAdmin :: bool
  bfEnabledOnly :: bool

definition budget_visible :: "budget_list_filter \<Rightarrow> budget \<Rightarrow> bool" where
  "budget_visible f b \<longleftrightarrow>
     bApprovalStatus b = ApprovalStatusApproved \<and>
     (if bfOrgID f \<noteq> '''' then
        (if bfIsOrg f then
           bOwnerOrgID b = Some (bfOrgID f) \<or> (bOwnerOrgID b = None \<and> bOwnerTeamID b = None)
         else if bfUserID f \<noteq> '''' \<and> \<not> bfIsOrg f \<and> \<not> bfIsTeamAdmin f then
           bOwnerUserID b = Some (bfUserID f)
         else if bfIsTeamAdmin f \<and> bfTeamID f \<noteq> '''' then
           (if bfOrgID f \<noteq> '''' then
              bOwnerTeamID b = Some (bfTeamID f) \<or> bOwnerOrgID b = Some (bfOrgID f)
            else bOwnerTeamID b = Some (bfTeamID f))
         else if bfTeamID f \<noteq> '''' then
           bOwnerTeamID b = Some (bfTeamID f) \<or> (bOwnerOrgID b = None \<and> bOwnerTeamID b = None)
         else True)
      else False) \<and>
     (bfEnabledOnly f \<longrightarrow> bEnabled b)"

definition ListBudgetsPaginated ::
  "budget_list_filter \<Rightarrow> int \<Rightarrow> int \<Rightarrow> (budget list \<times> nat) op" where
  "ListBudgetsPaginated f offset limit =
     bind_op (sql_row ''failed to count budgets''
         (\<lambda>now t. Some (count_where (budget_visible f) (budget_definitions t))))
       (\<lambda>totalCount. bind_op (sql_page ''failed to query budgets'' offset limit
           (\<lambda>now t. order_by_desc bCreatedAt (filter (budget_visible f) (budget_definitions t))))
         (\<lambda>budgets. return_op (budgets, totalCount)))"

definition ListParentCandidates :: "string \<Rightarrow> (uuid \<times> string) list op" where
  "ListParentCandidates orgID =
     (if orgID = '''' then return_op []
      else sql_rows False ''failed to query parent candidates''
        (\<lambda>now t. map (\<lambda>b. (bID b, bName b))
           (order_by bName (filter (\<lambda>b. enforced_budget b \<and> bEntityType b = EntityTypeOrg \<and>
              bOwnerOrgID b = Some orgID \<and> bOwnerTeamID b = None) (budget_definitions t)))))"

section \<open>Budgets: writing\<close>

text \<open>
  The constraints of \<open>budget_definitions\<close>: the enum columns, the primary key, the unique pair
  \<open>(entity_type, name)\<close> and the self-referencing foreign key \<open>parent_id\<close>.
\<close>

definition parent_exists :: "uuid option \<Rightarrow> budget list \<Rightarrow> bool" where
  "parent_exists p bs \<longleftrightarrow> (case p of None \<Rightarrow> True | Some i \<Rightarrow> i \<in> set (map bID bs))"

definition insert_budget :: "budget \<Rightarrow> unit statement" where
  "insert_budget b now t =
     (if db_entity_type (bEntityType b) \<and> db_period (bPeriod b) \<and>
         (\<forall>r \<in> set (budget_definitions t). bID r \<noteq> bID b \<and>
            (bEntityType r, bName r) \<noteq> (bEntityType b, bName b)) \<and>
         parent_exists (bParentID b) (b # budget_definitions t)
      then Some ((), t\<lparr>budget_definitions := budget_definitions t @ [b]\<rparr>) else None)"

definition CreateBudget :: "budget \<Rightarrow> budget op" where
  "CreateBudget b =
     bind_op uuid_op (\<lambda>i. bind_op now_op (\<lambda>now.
       let b' = b\<lparr>bID := i, bVersion := 1, bCreatedAt := now, bUpdatedAt := now,
             bCurrentPeriodStart :=
               (if bCurrentPeriodStart b = zero_time then now else bCurrentPeriodStart b),
             bWarningThresholdPct :=
               (if bWarningThresholdPct b = 0 then 80 else bWarningThresholdPct b)\<rparr>
       in bind_op (sql_exec ''failed to create budget'' (insert_budget b'))
            (\<lambda>_. return_op b')))"

text \<open>An \<open>UPDATE\<close> of budgets, with the trigger that refreshes \<open>updated_at\<close>.\<close>

definition update_budgets ::
  "(budget \<Rightarrow> bool) \<Rightarrow> (budget \<Rightarrow> budget) \<Rightarrow> time \<Rightarrow> tables \<Rightarrow> tables" where
  "update_budgets p f now t =
     t\<lparr>budget_definitions :=
       update_where p (\<lambda>b. (f b)\<lparr>bUpdatedAt := now\<rparr>) (budget_definitions t)\<rparr>"

definition count_budgets :: "(budget \<Rightarrow> bool) \<Rightarrow> tables \<Rightarrow> nat" where
  "count_budgets p t = count_where p (budget_definitions t)"

definition apply_budget_update :: "budget \<Rightarrow> budget \<Rightarrow> budget" where
  "apply_budget_update b r = r\<lparr>bMatchExpression := bMatchExpression b,
     bBudgetAmountUSD := bBudgetAmountUSD b, bPeriod := bPeriod b,
     bCustomPeriodSeconds := bCustomPeriodSeconds b,
     bWarningThresholdPct := bWarningThresholdPct b, bParentID := bParentID b,
     bIsolated := bIsolated b, bAllowFallback := bAllowFallback b, bEnabled := bEnabled b,
     bDisabledByUserID := bDisabledByUserID b, bDisabledByEmail := bDisabledByEmail b,
     bDisabledByIsOrg := bDisabledByIsOrg b, bDisabledAt := bDisabledAt b,
     bDescription := bDescription b, bOwnerOrgID := bOwnerOrgID b, bOwnerTeamID := bOwnerTeamID b,
     bOwnerUserID := bOwnerUserID b, bVersion := bVersion r + 1\<rparr>"

text \<open>A value outside the enum is an error of the statement even when no row matches.\<close>

definition update_budget :: "budget \<Rightarrow> nat statement" where
  "update_budget b now t =
     (let p = (\<lambda>r. bID r = bID b \<and> bVersion r = bVersion b) in
      if \<not> db_period (bPeriod b) then None
      else if count_budgets p t = 0 then Some (0, t)
      else if parent_exists (bParentID b) (budget_definitions t)
      then Some (count_budgets p t, update_budgets p (apply_budget_update b) now t) else None)"

definition UpdateBudget :: "budget \<Rightarrow> unit op" where
  "UpdateBudget b = affected_or ErrOptimisticLock
     (sql_exec ''failed to update budget'' (update_budget b))"

text \<open>
  A \<open>DELETE\<close> fails while a row that stays refers to a deleted row as its parent, and cascades
  to the usage records, reservations, approvals and alerts of the deleted rows.
\<close>

definition delete_budget :: "uuid \<Rightarrow> nat statement" where
  "delete_budget i now t =
     (let gone = (\<lambda>b. bID b = i); rest = delete_where gone (budget_definitions t) in
      if count_budgets gone t = 0 then Some (0, t)
      else if \<exists>b \<in> set rest. bParentID b = Some i then None
      else Some (count_budgets gone t,
        t\<lparr>budget_definitions := rest,
          usage_records := delete_where (\<lambda>u. urBudgetID u = i) (usage_records t),
          request_reservations := delete_where (\<lambda>r. rsBudgetID r = i) (request_reservations t),
          budget_approvals := delete_where (\<lambda>a. apBudgetID a = i) (budget_approvals t),
          budget_alerts := delete_where (\<lambda>a. alBudgetID a = i) (budget_alerts t)\<rparr>))"

definition DeleteBudget :: "uuid \<Rightarrow> unit op" where
  "DeleteBudget i = affected_or ErrNotFound
     (sql_exec ''failed to delete budget'' (delete_budget i))"

definition increment_versioned :: "uuid \<Rightarrow> usd \<Rightarrow> int \<Rightarrow> nat statement" where
  "increment_versioned i costUSD expectedVersion now t =
     (let p = (\<lambda>r. bID r = i \<and> bVersion r = expectedVersion) in
      Some (count_budgets p t, update_budgets p
        (\<lambda>b. b\<lparr>bCurrentUsageUSD := bCurrentUsageUSD b + costUSD, bVersion := bVersion b + 1\<rparr>)
        now t))"

definition IncrementBudgetUsage :: "uuid \<Rightarrow> usd \<Rightarrow> int \<Rightarrow> unit op" where
  "IncrementBudgetUsage i costUSD expectedVersion = affected_or ErrOptimisticLock
     (sql_exec ''failed to increment budget usage'' (increment_versioned i costUSD expectedVersion))"

section \<open>Resets\<close>

definition reset_budget :: "time \<Rightarrow> budget \<Rightarrow> budget" where
  "reset_budget now b = b\<lparr>bCurrentUsageUSD := 0, bPendingUsageUSD := 0,
     bCurrentPeriodStart := now, bVersion := bVersion b + 1\<rparr>"

definition reset_where :: "(time \<Rightarrow> budget \<Rightarrow> bool) \<Rightarrow> nat statement" where
  "reset_where p now t =
     Some (count_budgets (p now) t, update_budgets (p now) (reset_budget now) now t)"

definition ResetBudgetUsage :: "uuid \<Rightarrow> unit op" where
  "ResetBudgetUsage i = affected_or ErrNotFound
     (sql_exec ''failed to reset budget usage'' (reset_where (\<lambda>now b. bID b = i)))"

text \<open>The five \<open>WHERE\<close> clauses of \<open>ResetExpiredBudgets\<close>.\<close>

definition hourly_expired :: "time \<Rightarrow> budget \<Rightarrow> bool" where
  "hourly_expired now b \<longleftrightarrow> bPeriod b = PeriodHourly \<and> bCurrentPeriodStart b + Hour \<le> now"

definition daily_expired :: "time \<Rightarrow> budget \<Rightarrow> bool" where
  "daily_expired now b \<longleftrightarrow> bPeriod b = PeriodDaily \<and> bCurrentPeriodStart b + day_ns \<le> now"

definition weekly_expired :: "time \<Rightarrow> budget \<Rightarrow> bool" where
  "weekly_expired now b \<longleftrightarrow> bPeriod b = PeriodWeekly \<and> bCurrentPeriodStart b + 7 * day_ns \<le> now"

definition monthly_expired :: "time \<Rightarrow> budget \<Rightarrow> bool" where
  "monthly_expired now b \<longleftrightarrow> bPeriod b = PeriodMonthly \<and> pg_add_month (bCurrentPeriodStart b) \<le> now"

definition custom_expired :: "time \<Rightarrow> budget \<Rightarrow> bool" where
  "custom_expired now b \<longleftrightarrow> bPeriod b = PeriodCustom \<and> (case bCustomPeriodSeconds b of
     None \<Rightarrow> False | Some n \<Rightarrow> bCurrentPeriodStart b + n * Second \<le> now)"

fun reset_queries :: "(time \<Rightarrow> budget \<Rightarrow> bool) list \<Rightarrow> nat \<Rightarrow> nat op" where
  "reset_queries [] acc = return_op acc"
| "reset_queries (q # qs) acc =
     bind_op (sql_exec ''failed to reset expired budgets'' (reset_where q))
       (\<lambda>n. reset_queries qs (acc + n))"

definition ResetExpiredBudgets :: "nat op" where
  "ResetExpiredBudgets =
     reset_queries [hourly_expired, daily_expired, weekly_expired, monthly_expired, custom_expired] 0"

section \<open>The budget tree\<close>

text \<open>
  The recursive query of \<open>GetBudgetsWithParent\<close>: \<open>UNION ALL\<close> adds, level by level, the rows
  whose id is the parent of a row of the level before, until a level is empty. Over a
  cycle of parents no level is ever empty. \<open>ancestors n\<close> stops with \<open>None\<close> after \<open>n\<close>
  levels; one more level than there are rows is enough whenever the query ends.
\<close>

definition next_level :: "budget list \<Rightarrow> budget list \<Rightarrow> budget list" where
  "next_level rows level =
     concat (map (\<lambda>bh. filter (\<lambda>bd. bParentID bh = Some (bID bd)) rows) level)"

fun ancestors :: "nat \<Rightarrow> budget list \<Rightarrow> budget list \<Rightarrow> budget list option" where
  "ancestors n rows [] = Some []"
| "ancestors 0 rows (b # level) = None"
| "ancestors (Suc n) rows (b # level) =
     map_option (\<lambda>bs. (b # level) @ bs) (ancestors n rows (next_level rows (b # level)))"

definition budget_hierarchy :: "uuid \<Rightarrow> tables \<Rightarrow> budget list option" where
  "budget_hierarchy i t = (let rows = budget_definitions t in
     ancestors (Suc (length rows)) rows (filter (\<lambda>b. bID b = i) rows))"

text \<open>
  A query that does not end by itself is ended by the cancellation of its context; the function then
  returns the error of the query.
\<close>

definition GetBudgetsWithParent :: "uuid \<Rightarrow> budget list op" where
  "GetBudgetsWithParent i w =
     (case budget_hierarchy i (db w) of
       None \<Rightarrow> sql_reject ''failed to query budget hierarchy'' w
     | Some bs \<Rightarrow> sql_rows False ''failed to query budget hierarchy'' (\<lambda>now t. bs) w)"

text \<open>The recursive query of \<open>GetAllDescendants\<close>, in levels below the budget.\<close>

fun descendants :: "nat \<Rightarrow> budget list \<Rightarrow> uuid list \<Rightarrow> uuid list list option" where
  "descendants n rows [] = Some []"
| "descendants 0 rows (i # level) = None"
| "descendants (Suc n) rows (i # level) =
     map_option (\<lambda>ls. (i # level) # ls) (descendants n rows
       (concat (map (\<lambda>d. map bID (filter (\<lambda>bd. bParentID bd = Some d) rows)) (i # level))))"

definition all_descendants :: "uuid \<Rightarrow> tables \<Rightarrow> uuid list option" where
  "all_descendants i t = (let rows = budget_definitions t in
     map_option (\<lambda>levels. concat (rev levels))
       (descendants (Suc (length rows)) rows
          (map bID (filter (\<lambda>b. bParentID b = Some i) rows))))"

definition GetAllDescendants :: "uuid \<Rightarrow> uuid list op" where
  "GetAllDescendants parentID w =
     (case all_descendants parentID (db w) of
       None \<Rightarrow> sql_reject ''failed to query descendants'' w
     | Some ids \<Rightarrow> sql_rows True ''failed to query descendants'' (\<lambda>now t. ids) w)"

text \<open>
  \<open>DeleteBudgetCascade\<close>: the deferred function rolls back when \<open>err\<close> is not \<open>nil\<close>. The early
  return with \<open>ErrNotFound\<close> leaves \<open>err\<close> nil, so that path ends neither way.
\<close>

fun delete_each :: "uuid list \<Rightarrow> unit op" where
  "delete_each [] = return_op ()"
| "delete_each (i # is) =
     bind_op (tx_exec ''failed to delete descendant'' (delete_budget i)) (\<lambda>_. delete_each is)"

definition rollback_on_error :: "'a op \<Rightarrow> 'a op" where
  "rollback_on_error m w = (case m w of
     (Inl e, w') \<Rightarrow> (Inl e, tx_rollback w') | (Inr x, w') \<Rightarrow> (Inr x, w'))"

definition DeleteBudgetCascade :: "uuid \<Rightarrow> nat op" where
  "DeleteBudgetCascade i =
     bind_op (GetAllDescendants i) (\<lambda>descendants.
       bind_op tx_begin (\<lambda>_.
         bind_op (rollback_on_error (bind_op (delete_each descendants) (\<lambda>_.
             tx_exec ''failed to delete budget'' (delete_budget i))))
           (\<lambda>n. if n = 0 then fail_op ErrNotFound
                else bind_op tx_commit (\<lambda>_. return_op (length descendants + 1)))))"

section \<open>Contracts of the operations\<close>

lemma counts_changes_simps [op_contracts]:
  "counts_changes (update_model_cost mc)"
  "counts_changes (delete_model_cost modelID)"
  "counts_changes (update_budget b)"
  "counts_changes (delete_budget i)"
  "counts_changes (increment_versioned i c v)"
  "counts_changes (reset_where p)"
  by (auto simp: counts_changes_def update_model_cost_def delete_model_cost_def update_budget_def
      delete_budget_def increment_versioned_def reset_where_def update_budgets_def count_budgets_def
      Let_def split: if_splits)

interpretation ListModelCosts: query_op ListModelCosts
  unfolding ListModelCosts_def by (intro op_contracts)

interpretation GetModelCostByID: query_op "GetModelCostByID modelID" for modelID
  unfolding GetModelCostByID_def by (intro op_contracts)

interpretation ListModelCostsPaginated: query_op "ListModelCostsPaginated f offset limit"
  for f offset limit
  unfolding ListModelCostsPaginated_def Let_def by (intro op_contracts)

interpretation ListDistinctProviders: query_op ListDistinctProviders
  unfolding ListDistinctProviders_def by (intro op_contracts)

lemma tx_op_uuid [op_contracts]: "tx_op uuid_op"
  by (rule query_op_imp_tx [OF query_op_uuid])

lemma tx_op_now [op_contracts]: "tx_op now_op"
  by (rule query_op_imp_tx [OF query_op_now])

text \<open>A successful insert changes the result only after the statement.\<close>

lemma atomic_op_exec_return [op_contracts]:
  "atomic_op (bind_op (sql_exec msg f) (\<lambda>y. return_op (g y)))"
  by unfold_locales
    (auto simp: bind_op_def sql_exec_def pop_fault_def
      split: fault.splits list.splits option.splits prod.splits sum.splits)

interpretation CreateModelCost: atomic_op "CreateModelCost mc" for mc
  unfolding CreateModelCost_def Let_def by (intro op_contracts)

interpretation UpdateModelCost: atomic_op "UpdateModelCost mc" for mc
  unfolding UpdateModelCost_def by (intro op_contracts)

interpretation DeleteModelCost: atomic_op "DeleteModelCost modelID" for modelID
  unfolding DeleteModelCost_def by (intro op_contracts)

interpretation ListBudgets: query_op ListBudgets
  unfolding ListBudgets_def by (intro op_contracts)

interpretation GetBudgetByID: query_op "GetBudgetByID i" for i
  unfolding GetBudgetByID_def by (intro op_contracts)

interpretation GetBudgetByEntity: query_op "GetBudgetByEntity et n" for et n
  by (simp add: GetBudgetByEntity_def op_contracts)

interpretation GetBudgetByMatchExpression: query_op "GetBudgetByMatchExpression md5 et e"
  for md5 et e
  by (simp add: GetBudgetByMatchExpression_def op_contracts)

interpretation GetEnabledBudgets: query_op GetEnabledBudgets
  unfolding GetEnabledBudgets_def by (intro op_contracts)

interpretation GetChildBudgets: query_op "GetChildBudgets i" for i
  unfolding GetChildBudgets_def by (intro op_contracts)

interpretation ListBudgetsPaginated: query_op "ListBudgetsPaginated f offset limit"
  for f offset limit
  unfolding ListBudgetsPaginated_def by (intro op_contracts)

interpretation ListParentCandidates: query_op "ListParentCandidates orgID" for orgID
  by (simp add: ListParentCandidates_def op_contracts)

lemma query_op_choose:
  assumes "\<And>w. \<exists>m. query_op m \<and> f w = m w"
  shows "query_op f"
proof unfold_locales
  fix w r w'
  assume run: "f w = (r, w')"
  obtain m where m: "query_op m" and eq: "f w = m w" using assms by blast
  from run show "clock w' = clock w" and "uuids w \<le> uuids w'"
    and "db w' = db w \<and> open_txs w' = open_txs w \<and> tx_db w' = tx_db w \<and> tx_aborted w' = tx_aborted w"
    unfolding eq using db_op.clock_frame [OF query_op_imp_db [OF m]]
      db_op.uuids_frame [OF query_op_imp_db [OF m]] query_op.reads_only [OF m] by blast+
  assume "faults w = []"
  with run show "faults w' = []"
    unfolding eq using db_op.quiet_frame [OF query_op_imp_db [OF m]] by blast
qed

interpretation GetBudgetsWithParent: query_op "GetBudgetsWithParent i" for i
  by (rule query_op_choose)
    (auto simp: GetBudgetsWithParent_def split: option.split intro: op_contracts)

interpretation GetAllDescendants: query_op "GetAllDescendants i" for i
  by (rule query_op_choose)
    (auto simp: GetAllDescendants_def split: option.split intro: op_contracts)

interpretation CreateBudget: atomic_op "CreateBudget b" for b
  unfolding CreateBudget_def Let_def by (intro op_contracts)

interpretation UpdateBudget: atomic_op "UpdateBudget b" for b
  unfolding UpdateBudget_def by (intro op_contracts)

interpretation DeleteBudget: atomic_op "DeleteBudget i" for i
  unfolding DeleteBudget_def by (intro op_contracts)

interpretation IncrementBudgetUsage: atomic_op "IncrementBudgetUsage i c v" for i c v
  unfolding IncrementBudgetUsage_def by (intro op_contracts)

interpretation ResetBudgetUsage: atomic_op "ResetBudgetUsage i" for i
  unfolding ResetBudgetUsage_def by (intro op_contracts)

interpretation GetEnabledBudgetsForUpdate: tx_op GetEnabledBudgetsForUpdate
  unfolding GetEnabledBudgetsForUpdate_def by (intro op_contracts)

interpretation GetBudgetForUpdate: tx_op "GetBudgetForUpdate i" for i
  unfolding GetBudgetForUpdate_def by (intro op_contracts)

end
