(* ===== verification/Ledger_Repo.thy ===== *)
theory Ledger_Repo
  imports Budget_Repo
begin

text \<open>
  \<open>internal/db/repository.go\<close>, second part: the reservations, the usage records and the
  statements that run inside the transactions of the budget service.
\<close>

section \<open>Reservations\<close>

text \<open>The table's foreign key and its unique pair \<open>(budget_id, request_id)\<close>.\<close>

definition insert_reservation :: "reservation \<Rightarrow> unit statement" where
  "insert_reservation res now t =
     (if rsBudgetID res \<in> set (map bID (budget_definitions t)) \<and>
         (\<forall>r \<in> set (request_reservations t). rsID r \<noteq> rsID res \<and>
            (rsBudgetID r, rsRequestID r) \<noteq> (rsBudgetID res, rsRequestID res))
      then Some ((), t\<lparr>request_reservations := request_reservations t @ [res]\<rparr>) else None)"

definition add_pending :: "uuid \<Rightarrow> usd \<Rightarrow> unit statement" where
  "add_pending i costUSD now t = Some ((), update_budgets (\<lambda>b. bID b = i)
     (\<lambda>b. b\<lparr>bPendingUsageUSD := bPendingUsageUSD b + costUSD\<rparr>) now t)"

definition subtract_pending :: "uuid \<Rightarrow> usd \<Rightarrow> unit statement" where
  "subtract_pending i costUSD now t = Some ((), update_budgets (\<lambda>b. bID b = i)
     (\<lambda>b. b\<lparr>bPendingUsageUSD := max 0 (bPendingUsageUSD b - costUSD)\<rparr>) now t)"

definition delete_reservations :: "(time \<Rightarrow> reservation \<Rightarrow> bool) \<Rightarrow> nat statement" where
  "delete_reservations p now t =
     Some (count_where (p now) (request_reservations t),
       t\<lparr>request_reservations := delete_where (p now) (request_reservations t)\<rparr>)"

definition CreateReservation :: "reservation \<Rightarrow> reservation op" where
  "CreateReservation res =
     bind_op uuid_op (\<lambda>i. bind_op now_op (\<lambda>now.
       let res' = res\<lparr>rsID := i, rsCreatedAt := now\<rparr>
       in bind_op (sql_exec ''failed to create reservation'' (insert_reservation res'))
            (\<lambda>_. bind_op (sql_exec ''failed to update pending usage''
                (add_pending (rsBudgetID res') (rsEstimatedCostUSD res')))
              (\<lambda>_. return_op res'))))"

definition GetReservationByRequestID :: "string \<Rightarrow> reservation op" where
  "GetReservationByRequestID requestID = sql_row ''failed to get reservation''
     (\<lambda>now t. first_row (order_by rsCreatedAt
        (filter (\<lambda>r. rsRequestID r = requestID) (request_reservations t))))"

definition DeleteReservation :: "string \<Rightarrow> unit op" where
  "DeleteReservation requestID =
     bind_op (GetReservationByRequestID requestID) (\<lambda>res.
       bind_op (sql_exec ''failed to delete reservation''
           (delete_reservations (\<lambda>now r. rsRequestID r = requestID)))
         (\<lambda>_. sql_exec ''failed to update pending usage''
           (subtract_pending (rsBudgetID res) (rsEstimatedCostUSD res))))"

text \<open>\<open>SELECT budget_id, SUM(estimated_cost_usd) ... GROUP BY budget_id\<close>.\<close>

definition expired_reservation :: "time \<Rightarrow> reservation \<Rightarrow> bool" where
  "expired_reservation now r \<longleftrightarrow> rsExpiresAt r \<le> now"

definition reserved_on :: "uuid \<Rightarrow> reservation list \<Rightarrow> usd" where
  "reserved_on i rs = (\<Sum>r \<leftarrow> filter (\<lambda>r. rsBudgetID r = i) rs. rsEstimatedCostUSD r)"

definition group_reservations :: "reservation list \<Rightarrow> (uuid \<times> usd) list" where
  "group_reservations rs =
     map (\<lambda>i. (i, reserved_on i rs)) (remdups (map rsBudgetID rs))"

fun release_pending :: "(uuid \<times> usd) list \<Rightarrow> unit op" where
  "release_pending [] = return_op ()"
| "release_pending ((i, cost) # bcs) =
     bind_op (sql_exec ''failed to update pending usage'' (subtract_pending i cost))
       (\<lambda>_. release_pending bcs)"

definition CleanupExpiredReservations :: "nat op" where
  "CleanupExpiredReservations =
     bind_op (sql_rows False ''failed to query expired reservations''
         (\<lambda>now t. group_reservations (filter (expired_reservation now) (request_reservations t))))
       (\<lambda>budgetCosts.
          bind_op (sql_exec ''failed to delete expired reservations''
              (delete_reservations expired_reservation))
            (\<lambda>n. bind_op (release_pending budgetCosts) (\<lambda>_. return_op n)))"

section \<open>Usage records\<close>

definition insert_usage_record :: "usage_record \<Rightarrow> unit statement" where
  "insert_usage_record ur now t =
     (if urBudgetID ur \<in> set (map bID (budget_definitions t)) \<and>
         urID ur \<notin> set (map urID (usage_records t))
      then Some ((), t\<lparr>usage_records := usage_records t @ [ur]\<rparr>) else None)"

definition CreateUsageRecord :: "usage_record \<Rightarrow> usage_record op" where
  "CreateUsageRecord ur =
     bind_op uuid_op (\<lambda>i. bind_op now_op (\<lambda>now.
       let ur' = ur\<lparr>urID := i, urCreatedAt := now\<rparr>
       in bind_op (sql_exec ''failed to create usage record'' (insert_usage_record ur'))
            (\<lambda>_. return_op ur')))"

definition GetUsageByBudgetID :: "uuid \<Rightarrow> time \<Rightarrow> int \<Rightarrow> usage_record list op" where
  "GetUsageByBudgetID budgetID since limit = sql_page ''failed to query usage records'' 0 limit
     (\<lambda>now t. order_by_desc urCreatedAt
        (filter (\<lambda>u. urBudgetID u = budgetID \<and> since \<le> urCreatedAt u) (usage_records t)))"

definition GetUsageByBudgetIDPaginated ::
  "uuid \<Rightarrow> int \<Rightarrow> int \<Rightarrow> (usage_record list \<times> nat) op" where
  "GetUsageByBudgetIDPaginated budgetID offset limit =
     bind_op (sql_row ''failed to count usage records''
         (\<lambda>now t. Some (count_where (\<lambda>u. urBudgetID u = budgetID) (usage_records t))))
       (\<lambda>totalCount. bind_op (sql_page ''failed to query usage records'' offset limit
           (\<lambda>now t. order_by_desc urCreatedAt
              (filter (\<lambda>u. urBudgetID u = budgetID) (usage_records t))))
         (\<lambda>records. return_op (records, totalCount)))"

text \<open>
  \<open>DATE_TRUNC\<close> of a UTC instant to a multiple of \<open>unit\<close>, and the sums per bucket in order.
\<close>

definition date_trunc :: "int \<Rightarrow> time \<Rightarrow> time" where
  "date_trunc unit t = t div unit * unit"

definition bucket_usage :: "int \<Rightarrow> uuid \<Rightarrow> time \<Rightarrow> tables \<Rightarrow> (time \<times> usd) list" where
  "bucket_usage unit budgetID periodStart t =
     (let us = filter (\<lambda>u. urBudgetID u = budgetID \<and> periodStart \<le> urCreatedAt u) (usage_records t)
      in map (\<lambda>d. (d, \<Sum>u \<leftarrow> filter (\<lambda>u. date_trunc unit (urCreatedAt u) = d) us. urCostUSD u))
           (sort (remdups (map (\<lambda>u. date_trunc unit (urCreatedAt u)) us))))"

definition GetDailyUsageForPeriod :: "uuid \<Rightarrow> time \<Rightarrow> (time \<times> usd) list op" where
  "GetDailyUsageForPeriod budgetID periodStart =
     sql_rows True ''failed to query daily usage'' (\<lambda>now. bucket_usage day_ns budgetID periodStart)"

definition GetHourlyUsageForPeriod :: "uuid \<Rightarrow> time \<Rightarrow> (time \<times> usd) list op" where
  "GetHourlyUsageForPeriod budgetID periodStart =
     sql_rows True ''failed to query hourly usage'' (\<lambda>now. bucket_usage Hour budgetID periodStart)"

definition GetMinuteUsageForPeriod :: "uuid \<Rightarrow> time \<Rightarrow> (time \<times> usd) list op" where
  "GetMinuteUsageForPeriod budgetID periodStart =
     sql_rows True ''failed to query minute usage'' (\<lambda>now. bucket_usage Minute budgetID periodStart)"

definition GetCurrentPeriodUsage :: "uuid \<Rightarrow> time \<Rightarrow> usd op" where
  "GetCurrentPeriodUsage budgetID periodStart = sql_row ''get current period usage''
     (\<lambda>now t. Some (\<Sum>u \<leftarrow> filter (\<lambda>u. urBudgetID u = budgetID \<and> periodStart \<le> urCreatedAt u)
        (usage_records t). urCostUSD u))"

section \<open>Statements inside a transaction\<close>

definition CreateReservationInTx :: "reservation \<Rightarrow> reservation op" where
  "CreateReservationInTx res =
     bind_op uuid_op (\<lambda>i. bind_op now_op (\<lambda>now.
       let res' = res\<lparr>rsID := i, rsCreatedAt := now\<rparr>
       in bind_op (tx_exec ''failed to create reservation in tx'' (insert_reservation res'))
            (\<lambda>_. return_op res')))"

definition IncrementPendingUsageInTx :: "uuid \<Rightarrow> usd \<Rightarrow> unit op" where
  "IncrementPendingUsageInTx i costUSD =
     tx_exec ''failed to increment pending usage'' (add_pending i costUSD)"

definition DecrementPendingUsageInTx :: "uuid \<Rightarrow> usd \<Rightarrow> unit op" where
  "DecrementPendingUsageInTx i costUSD =
     tx_exec ''failed to decrement pending usage'' (subtract_pending i costUSD)"

definition add_usage :: "uuid \<Rightarrow> usd \<Rightarrow> unit statement" where
  "add_usage i costUSD now t = Some ((), update_budgets (\<lambda>b. bID b = i)
     (\<lambda>b. b\<lparr>bCurrentUsageUSD := bCurrentUsageUSD b + costUSD, bVersion := bVersion b + 1\<rparr>) now t)"

definition IncrementUsageInTx :: "uuid \<Rightarrow> usd \<Rightarrow> unit op" where
  "IncrementUsageInTx i costUSD = tx_exec ''failed to increment budget usage'' (add_usage i costUSD)"

definition DeleteReservationInTx :: "string \<Rightarrow> unit op" where
  "DeleteReservationInTx requestID =
     bind_op (tx_exec ''failed to delete reservation''
         (delete_reservations (\<lambda>now r. rsRequestID r = requestID)))
       (\<lambda>_. return_op ())"

text \<open>Only the 30 most recent records of the budget stay.\<close>

definition prune_usage :: "uuid \<Rightarrow> nat statement" where
  "prune_usage budgetID now t =
     (let own = filter (\<lambda>u. urBudgetID u = budgetID) (usage_records t);
          kept = map urID (take 30 (order_by_desc urCreatedAt own));
          gone = (\<lambda>u. urBudgetID u = budgetID \<and> urID u \<notin> set kept)
      in Some (count_where gone (usage_records t),
           t\<lparr>usage_records := delete_where gone (usage_records t)\<rparr>))"

definition CreateUsageRecordInTx :: "usage_record \<Rightarrow> usage_record op" where
  "CreateUsageRecordInTx ur =
     bind_op uuid_op (\<lambda>i. bind_op now_op (\<lambda>now.
       let ur' = ur\<lparr>urID := i, urCreatedAt := now\<rparr>
       in bind_op (tx_exec ''failed to create usage record'' (insert_usage_record ur'))
            (\<lambda>_. bind_op (tx_exec ''failed to prune usage records'' (prune_usage (urBudgetID ur')))
              (\<lambda>_. return_op ur'))))"

section \<open>Contracts of the operations\<close>

interpretation GetReservationByRequestID: query_op "GetReservationByRequestID r" for r
  unfolding GetReservationByRequestID_def by (intro op_contracts)

interpretation GetUsageByBudgetID: query_op "GetUsageByBudgetID i s l" for i s l
  unfolding GetUsageByBudgetID_def by (intro op_contracts)

interpretation GetUsageByBudgetIDPaginated: query_op "GetUsageByBudgetIDPaginated i s l" for i s l
  unfolding GetUsageByBudgetIDPaginated_def by (intro op_contracts)

interpretation GetDailyUsageForPeriod: query_op "GetDailyUsageForPeriod i s" for i s
  unfolding GetDailyUsageForPeriod_def by (intro op_contracts)

interpretation GetHourlyUsageForPeriod: query_op "GetHourlyUsageForPeriod i s" for i s
  unfolding GetHourlyUsageForPeriod_def by (intro op_contracts)

interpretation GetMinuteUsageForPeriod: query_op "GetMinuteUsageForPeriod i s" for i s
  unfolding GetMinuteUsageForPeriod_def by (intro op_contracts)

interpretation GetCurrentPeriodUsage: query_op "GetCurrentPeriodUsage i s" for i s
  unfolding GetCurrentPeriodUsage_def by (intro op_contracts)

interpretation CreateUsageRecord: atomic_op "CreateUsageRecord ur" for ur
  unfolding CreateUsageRecord_def Let_def by (intro op_contracts)

lemma tx_op_return [op_contracts]: "tx_op (return_op x)"
  by (rule query_op_imp_tx [OF query_op_return])

interpretation CreateReservationInTx: tx_op "CreateReservationInTx res" for res
  unfolding CreateReservationInTx_def Let_def by (intro op_contracts)

interpretation IncrementPendingUsageInTx: tx_op "IncrementPendingUsageInTx i c" for i c
  unfolding IncrementPendingUsageInTx_def by (intro op_contracts)

interpretation DecrementPendingUsageInTx: tx_op "DecrementPendingUsageInTx i c" for i c
  unfolding DecrementPendingUsageInTx_def by (intro op_contracts)

interpretation IncrementUsageInTx: tx_op "IncrementUsageInTx i c" for i c
  unfolding IncrementUsageInTx_def by (intro op_contracts)

interpretation DeleteReservationInTx: tx_op "DeleteReservationInTx r" for r
  unfolding DeleteReservationInTx_def by (intro op_contracts)

interpretation CreateUsageRecordInTx: tx_op "CreateUsageRecordInTx ur" for ur
  unfolding CreateUsageRecordInTx_def Let_def by (intro op_contracts)

end
