(* ===== verification/Cel.thy ===== *)
theory Cel
  imports Prelude
begin

text \<open>
  \<open>internal/cel/evaluator.go\<close>: the evaluator of match expressions and its program cache. The
  library \<open>cel-go\<close> is a parameter, the record \<open>cel_env\<close> of its three calls: parse and check
  an expression, make a program of it, run the program on an activation. The code relies on
  the three being functions of their arguments, which is what makes the cache invisible.
\<close>

text \<open>What a Go \<open>interface{}\<close> built from JSON or from the context can hold.\<close>

datatype dyn = DNull | DBool bool | DNumber rat | DString string | DList "dyn list"
  | DMap "(string \<times> dyn) list"

record eval_context =
  ecHeaders :: "(string \<times> string) list"
  ecPath :: string
  ecMethod :: string
  ecHost :: string
  ecClaims :: "(string \<times> dyn) list"
  ecIssuer :: string
  ecAPIKeyID :: string
  ecAPIKeyName :: string
  ecAPIKeyMetadata :: "(string \<times> dyn) list"
  ecModel :: string
  ecProvider :: string
  ecStreaming :: bool
  ecSourceAddress :: string
  ecSourcePort :: int
  ecMetadata :: "(string \<times> dyn) list"

record ('a, 'p) cel_env =
  ceCompile :: "string \<Rightarrow> 'a option"
  ceProgram :: "'a \<Rightarrow> 'p option"
  ceEval :: "'p \<Rightarrow> (string \<times> dyn) list \<Rightarrow> dyn option"

datatype cel_error = InvalidExpression | ProgramFailed | EvaluationFailed | NotBoolean

type_synonym 'p programs = "string \<Rightarrow> 'p option"

text \<open>\<open>Compile\<close>: the cached program, or a new one that is stored; a failure is not stored.\<close>

definition Compile :: "('a, 'p) cel_env \<Rightarrow> 'p programs \<Rightarrow> string \<Rightarrow> (cel_error + 'p) \<times> 'p programs"
where
  "Compile env cache expression = (case cache expression of
       Some prg \<Rightarrow> (Inr prg, cache)
     | None \<Rightarrow> (case ceCompile env expression of
           None \<Rightarrow> (Inl InvalidExpression, cache)
         | Some ast \<Rightarrow> (case ceProgram env ast of
               None \<Rightarrow> (Inl ProgramFailed, cache)
             | Some prg \<Rightarrow> (Inr prg, cache(expression \<mapsto> prg)))))"

definition activation :: "eval_context \<Rightarrow> (string \<times> dyn) list" where
  "activation c =
     [(''request'', DMap [(''headers'', DMap (map (\<lambda>(k, v). (k, DString v)) (ecHeaders c))),
         (''path'', DString (ecPath c)), (''method'', DString (ecMethod c)),
         (''host'', DString (ecHost c))]),
      (''jwt'', DMap [(''claims'', DMap (ecClaims c)), (''issuer'', DString (ecIssuer c))]),
      (''apiKey'', DMap [(''id'', DString (ecAPIKeyID c)), (''name'', DString (ecAPIKeyName c)),
         (''metadata'', DMap (ecAPIKeyMetadata c))]),
      (''llm'', DMap [(''model'', DString (ecModel c)), (''provider'', DString (ecProvider c)),
         (''streaming'', DBool (ecStreaming c))]),
      (''source'', DMap [(''address'', DString (ecSourceAddress c)),
         (''port'', DNumber (of_int (ecSourcePort c)))]),
      (''metadata'', DMap (ecMetadata c))]"

definition run_program :: "('a, 'p) cel_env \<Rightarrow> 'p \<Rightarrow> eval_context \<Rightarrow> cel_error + bool" where
  "run_program env prg ctx = (case ceEval env prg (activation ctx) of
       None \<Rightarrow> Inl EvaluationFailed
     | Some (DBool r) \<Rightarrow> Inr r
     | Some _ \<Rightarrow> Inl NotBoolean)"

definition Evaluate ::
  "('a, 'p) cel_env \<Rightarrow> 'p programs \<Rightarrow> string \<Rightarrow> eval_context \<Rightarrow> (cel_error + bool) \<times> 'p programs"
where
  "Evaluate env cache expression ctx = (case Compile env cache expression of
       (Inl e, cache') \<Rightarrow> (Inl e, cache')
     | (Inr prg, cache') \<Rightarrow> (run_program env prg ctx, cache'))"

definition ValidateExpression ::
  "('a, 'p) cel_env \<Rightarrow> 'p programs \<Rightarrow> string \<Rightarrow> cel_error option \<times> 'p programs" where
  "ValidateExpression env cache expression = (case Compile env cache expression of
       (Inl e, cache') \<Rightarrow> (Some e, cache') | (Inr _, cache') \<Rightarrow> (None, cache'))"

section \<open>The cache is invisible\<close>

text \<open>The reference: compile and run without a cache.\<close>

definition compile_fresh :: "('a, 'p) cel_env \<Rightarrow> string \<Rightarrow> cel_error + 'p" where
  "compile_fresh env expression = (case ceCompile env expression of
       None \<Rightarrow> Inl InvalidExpression
     | Some ast \<Rightarrow> (case ceProgram env ast of None \<Rightarrow> Inl ProgramFailed | Some prg \<Rightarrow> Inr prg))"

definition eval_fresh :: "('a, 'p) cel_env \<Rightarrow> string \<Rightarrow> eval_context \<Rightarrow> cel_error + bool" where
  "eval_fresh env expression ctx = (case compile_fresh env expression of
       Inl e \<Rightarrow> Inl e | Inr prg \<Rightarrow> run_program env prg ctx)"

definition cache_sound :: "('a, 'p) cel_env \<Rightarrow> 'p programs \<Rightarrow> bool" where
  "cache_sound env cache \<longleftrightarrow> (\<forall>e p. cache e = Some p \<longrightarrow> compile_fresh env e = Inr p)"

lemma cache_sound_empty [simp]: "cache_sound env Map.empty"
  by (simp add: cache_sound_def)

lemma Compile_fresh:
  assumes "cache_sound env cache"
  shows "fst (Compile env cache e) = compile_fresh env e"
    and "cache_sound env (snd (Compile env cache e))"
proof -
  have "fst (Compile env cache e) = compile_fresh env e \<and>
    (\<forall>e' p. snd (Compile env cache e) e' = Some p \<longrightarrow>
       cache e' = Some p \<or> (e' = e \<and> compile_fresh env e = Inr p))"
  proof (cases "cache e")
    case None
    then show ?thesis
      by (auto simp: Compile_def compile_fresh_def split: option.splits if_splits)
  next
    case (Some p)
    with assms have "compile_fresh env e = Inr p" by (simp add: cache_sound_def)
    with Some show ?thesis by (simp add: Compile_def)
  qed
  with assms show "fst (Compile env cache e) = compile_fresh env e"
    and "cache_sound env (snd (Compile env cache e))"
    unfolding cache_sound_def by blast+
qed

lemma Evaluate_fresh:
  assumes "cache_sound env cache"
  shows "fst (Evaluate env cache e ctx) = eval_fresh env e ctx"
    and "cache_sound env (snd (Evaluate env cache e ctx))"
  using Compile_fresh [OF assms, of e]
  by (auto simp: Evaluate_def eval_fresh_def split: prod.splits sum.splits)

lemma ValidateExpression_fresh:
  assumes "cache_sound env cache"
  shows "fst (ValidateExpression env cache e) = None \<longleftrightarrow> (\<exists>p. compile_fresh env e = Inr p)"
    and "cache_sound env (snd (ValidateExpression env cache e))"
  using Compile_fresh [OF assms, of e] unfolding ValidateExpression_def
  by (cases "Compile env cache e"; cases "fst (Compile env cache e)"; simp)+

text \<open>A second evaluation of an expression compiles nothing.\<close>

lemma Compile_hit:
  assumes "Compile env cache e = (Inr p, cache')"
  shows "Compile env cache' e = (Inr p, cache')"
  using assms by (auto simp: Compile_def split: option.splits)

text \<open>The loop over the budgets: expressions that fail to evaluate are skipped.\<close>

fun filter_matching ::
  "('a, 'p) cel_env \<Rightarrow> ('b \<Rightarrow> string) \<Rightarrow> eval_context \<Rightarrow> 'p programs \<Rightarrow> 'b list
    \<Rightarrow> 'b list \<times> 'p programs" where
  "filter_matching env expr ctx cache [] = ([], cache)"
| "filter_matching env expr ctx cache (b # bs) =
     (case Evaluate env cache (expr b) ctx of (r, cache1) \<Rightarrow>
        (case filter_matching env expr ctx cache1 bs of (ms, cache2) \<Rightarrow>
           (case r of Inr True \<Rightarrow> (b # ms, cache2) | _ \<Rightarrow> (ms, cache2))))"

definition matches :: "('a, 'p) cel_env \<Rightarrow> eval_context \<Rightarrow> string \<Rightarrow> bool" where
  "matches env ctx expression \<longleftrightarrow> eval_fresh env expression ctx = Inr True"

lemma filter_matching_fresh:
  assumes "cache_sound env cache"
  shows "fst (filter_matching env expr ctx cache bs) = filter (\<lambda>b. matches env ctx (expr b)) bs
    \<and> cache_sound env (snd (filter_matching env expr ctx cache bs))"
  using assms
proof (induction bs arbitrary: cache)
  case (Cons b bs)
  obtain r cache1 where ev: "Evaluate env cache (expr b) ctx = (r, cache1)" by fastforce
  from Evaluate_fresh [OF Cons.prems, of "expr b" ctx] ev
  have r: "r = eval_fresh env (expr b) ctx" and c: "cache_sound env cache1" by auto
  obtain ms cache2 where rest: "filter_matching env expr ctx cache1 bs = (ms, cache2)" by fastforce
  from Cons.IH [OF c] rest show ?case
    by (auto simp: ev r matches_def split: sum.splits bool.splits)
qed simp

end
