(* ===== verification/Budget_Service.thy ===== *)
theory Budget_Service
  imports Ledger_Repo Cel
begin

text \<open>
  \<open>internal/budget/service.go\<close>, first part: the service with its two caches, the model costs, the
  cost of a request and its estimate, and the budgets that match a request.

  An operation of the service maps the service (its caches, the evaluator's programs) and the
  world to a result and the next two. \<open>sync.RWMutex\<close> is not modelled: the operations of one service run
  one after the other.
\<close>

record config =
  cfgModelCostCacheTTL :: duration
  cfgBudgetCacheTTL :: duration
  cfgReservationTTL :: duration
  cfgDefaultEstimationMultiplier :: rat
  cfgDefaultEstimatedInputTokens :: int
  cfgDefaultEstimatedOutputTokens :: int
  cfgForecastAlertDaysThreshold :: rat
  cfgOrgIDHeader :: string
  cfgTeamIDHeader :: string
  cfgUserIDHeader :: string
  cfgModelHeader :: string
  cfgOrgIDClaim :: string
  cfgTeamIDClaim :: string

record 'p service =
  svCosts :: "string \<Rightarrow> model_cost option"
  svCostExpiry :: time
  svBudgets :: "budget list"
  svBudgetExpiry :: time
  svPrograms :: "'p programs"

type_synonym ('p, 'a) service_op =
  "'p service \<Rightarrow> world \<Rightarrow> (db_error + 'a) \<times> 'p service \<times> world"

definition NewService :: "'p programs \<Rightarrow> 'p service" where
  "NewService programs = \<lparr>svCosts = Map.empty, svCostExpiry = zero_time, svBudgets = [],
     svBudgetExpiry = zero_time, svPrograms = programs\<rparr>"

section \<open>Model costs\<close>

text \<open>
  \<open>regexp.MustCompile(`-(\d{4}-\d{2}-\d{2}|\d{8}|v\d+)$`).ReplaceAllString(modelID, "")\<close>: the
  leftmost suffix that is a version is dropped.
\<close>

definition digits :: "nat \<Rightarrow> string \<Rightarrow> bool" where
  "digits n s \<longleftrightarrow> length s = n \<and> list_all is_digit s"

definition is_version_suffix :: "string \<Rightarrow> bool" where
  "is_version_suffix s = (case s of [] \<Rightarrow> False | c # r \<Rightarrow> c = CHR ''-'' \<and>
     ((length r = 10 \<and> digits 4 (take 4 r) \<and> r ! 4 = CHR ''-'' \<and> digits 2 (take 2 (drop 5 r)) \<and>
         r ! 7 = CHR ''-'' \<and> digits 2 (drop 8 r))
      \<or> digits 8 r
      \<or> (case r of [] \<Rightarrow> False | v # ds \<Rightarrow> v = CHR ''v'' \<and> ds \<noteq> [] \<and> list_all is_digit ds)))"

fun strip_version_suffix :: "string \<Rightarrow> string" where
  "strip_version_suffix [] = []"
| "strip_version_suffix (c # s) =
     (if is_version_suffix (c # s) then [] else c # strip_version_suffix s)"

definition lookup_model_cost :: "string \<Rightarrow> model_cost op" where
  "lookup_model_cost modelID = try_op (GetModelCostByID modelID) (\<lambda>r. case r of
       Inl ErrNotFound \<Rightarrow>
         (let baseModelID = strip_version_suffix modelID in
          if baseModelID \<noteq> modelID then GetModelCostByID baseModelID else fail_op ErrNotFound)
     | Inl e \<Rightarrow> fail_op e
     | Inr cost \<Rightarrow> return_op cost)"

definition GetModelCost :: "config \<Rightarrow> string \<Rightarrow> ('p, model_cost) service_op" where
  "GetModelCost cfg modelID s w =
     (case (if clock w < svCostExpiry s then svCosts s modelID else None) of
       Some cost \<Rightarrow> (Inr cost, s, w)
     | None \<Rightarrow> (case lookup_model_cost modelID w of
         (Inl e, w') \<Rightarrow> (Inl e, s, w')
       | (Inr cost, w') \<Rightarrow>
           (Inr cost,
            s\<lparr>svCosts := (svCosts s)(modelID \<mapsto> cost),
              svCostExpiry := (if svCostExpiry s < clock w' then clock w' + cfgModelCostCacheTTL cfg
                               else svCostExpiry s)\<rparr>, w')))"

definition RefreshModelCostCache :: "config \<Rightarrow> ('p, unit) service_op" where
  "RefreshModelCostCache cfg s w = (case ListModelCosts w of
       (Inl e, w') \<Rightarrow> (Inl e, s, w')
     | (Inr costs, w') \<Rightarrow>
         (Inr (), s\<lparr>svCosts := (\<lambda>m. map_of (rev (map (\<lambda>mc. (mcModelID mc, mc)) costs)) m),
            svCostExpiry := clock w' + cfgModelCostCacheTTL cfg\<rparr>, w'))"

section \<open>The cost of a request\<close>

definition token_cost :: "usd \<Rightarrow> usd \<Rightarrow> int \<Rightarrow> int \<Rightarrow> usd" where
  "token_cost inputPrice outputPrice inputTokens outputTokens =
     of_int inputTokens * inputPrice / 1000000 + of_int outputTokens * outputPrice / 1000000"

definition CalculateCost :: "config \<Rightarrow> string \<Rightarrow> int \<Rightarrow> int \<Rightarrow> ('p, usd) service_op" where
  "CalculateCost cfg modelID inputTokens outputTokens s w =
     (case GetModelCost cfg modelID s w of
       (Inl ErrNotFound, s', w') \<Rightarrow> (Inr (token_cost 1 3 inputTokens outputTokens), s', w')
     | (Inl e, s', w') \<Rightarrow> (Inl e, s', w')
     | (Inr cost, s', w') \<Rightarrow>
         (Inr (token_cost (mcInputCostPerMillion cost) (mcOutputCostPerMillion cost)
            inputTokens outputTokens), s', w'))"

definition EstimateCost ::
  "config \<Rightarrow> string \<Rightarrow> 'p service \<Rightarrow> world \<Rightarrow> usd \<times> 'p service \<times> world" where
  "EstimateCost cfg modelID s w =
     (case CalculateCost cfg modelID (cfgDefaultEstimatedInputTokens cfg)
         (cfgDefaultEstimatedOutputTokens cfg) s w of
       (Inl e, s', w') \<Rightarrow> (1 / 100, s', w')
     | (Inr cost, s', w') \<Rightarrow> (cost * cfgDefaultEstimationMultiplier cfg, s', w'))"

section \<open>The budgets that match a request\<close>

definition GetMatchingBudgets ::
  "('a, 'p) cel_env \<Rightarrow> config \<Rightarrow> eval_context \<Rightarrow> ('p, budget list) service_op" where
  "GetMatchingBudgets env cfg evalCtx s w =
     (case (if svBudgetExpiry s < clock w \<or> svBudgets s = [] then
              (case GetEnabledBudgets w of
                 (Inl e, w') \<Rightarrow> (Inl (ErrWrapped ''failed to get budgets''), s, w')
               | (Inr budgets, w') \<Rightarrow>
                   (Inr budgets, s\<lparr>svBudgets := budgets,
                      svBudgetExpiry := clock w' + cfgBudgetCacheTTL cfg\<rparr>, w'))
            else (Inr (svBudgets s), s, w)) of
       (Inl e, s1, w1) \<Rightarrow> (Inl e, s1, w1)
     | (Inr budgets, s1, w1) \<Rightarrow>
         (case filter_matching env bMatchExpression evalCtx (svPrograms s1) budgets of
            (matched, progs) \<Rightarrow> (Inr matched, s1\<lparr>svPrograms := progs\<rparr>, w1)))"

definition sortBudgetsByHierarchy :: "budget list \<Rightarrow> budget list" where
  "sortBudgetsByHierarchy budgets =
     filter (\<lambda>b. bEntityType b = EntityTypeUser) budgets @
     filter (\<lambda>b. bEntityType b = EntityTypeTeam) budgets @
     filter (\<lambda>b. bEntityType b = EntityTypeOrg) budgets"

text \<open>\<open>s.budgetCache.expiresAt = time.Time{}\<close>.\<close>

definition invalidate_budget_cache :: "'p service \<Rightarrow> 'p service" where
  "invalidate_budget_cache s = s\<lparr>svBudgetExpiry := zero_time\<rparr>"

definition service_CleanupExpiredReservations :: "('p, nat) service_op" where
  "service_CleanupExpiredReservations s w =
     (case CleanupExpiredReservations w of (r, w') \<Rightarrow> (r, s, w'))"

definition service_ResetExpiredBudgets :: "('p, nat) service_op" where
  "service_ResetExpiredBudgets s w = (case ResetExpiredBudgets w of
       (Inl e, w') \<Rightarrow> (Inl e, s, w')
     | (Inr n, w') \<Rightarrow> (Inr n, if n > 0 then invalidate_budget_cache s else s, w'))"

definition service_CreateReservation ::
  "config \<Rightarrow> string \<Rightarrow> budget list \<Rightarrow> usd \<Rightarrow> world \<Rightarrow> world" where
  "service_CreateReservation cfg requestID budgets estimatedCost w =
     foldl (\<lambda>w b. snd (CreateReservation \<lparr>rsID = 0, rsBudgetID = bID b, rsRequestID = requestID,
         rsEstimatedCostUSD = estimatedCost, rsExpiresAt = clock w + cfgReservationTTL cfg,
         rsCreatedAt = zero_time\<rparr> w)) w budgets"

section \<open>Properties\<close>

lemma strip_version_suffix_prefix:
  obtains suffix where "modelID = strip_version_suffix modelID @ suffix"
    and "suffix = [] \<or> is_version_suffix suffix"
  by (induction modelID arbitrary: thesis rule: strip_version_suffix.induct)
    (simp, metis append_Cons append_Nil strip_version_suffix.simps(2))

lemma query_op_lookup_model_cost: "query_op (lookup_model_cost modelID)"
  unfolding lookup_model_cost_def Let_def
  by (intro op_contracts GetModelCostByID.query_op_axioms)
    (auto split: sum.splits db_error.splits intro: op_contracts GetModelCostByID.query_op_axioms)

interpretation lookup_model_cost: query_op "lookup_model_cost modelID" for modelID
  by (rule query_op_lookup_model_cost)

section \<open>Operations of the service that only read\<close>

definition query_frame :: "world \<Rightarrow> world \<Rightarrow> bool" where
  "query_frame w w' \<longleftrightarrow> db w' = db w \<and> open_txs w' = open_txs w \<and> tx_db w' = tx_db w \<and>
     tx_aborted w' = tx_aborted w \<and> clock w' = clock w \<and> uuids w \<le> uuids w' \<and>
     (faults w = [] \<longrightarrow> faults w' = [])"

lemma query_frame_refl [simp]: "query_frame w w"
  by (simp add: query_frame_def)

lemma query_frame_trans: "query_frame w w1 \<Longrightarrow> query_frame w1 w' \<Longrightarrow> query_frame w w'"
  by (auto simp: query_frame_def)

lemma query_op_frame: "query_op f \<Longrightarrow> f w = (r, w') \<Longrightarrow> query_frame w w'"
  using query_op.reads_only db_op.clock_frame db_op.uuids_frame db_op.quiet_frame query_op_imp_db
  unfolding query_frame_def by metis

text \<open>
  The contract of a service operation that reads the database and may fill caches. Its clients
  may run it in the middle of a transaction.
\<close>

locale service_query =
  fixes f :: "('p, 'a) service_op"
  assumes reads: "f s w = (r, s', w') \<Longrightarrow> query_frame w w'"
begin

lemma keeps_db: "f s w = (r, s', w') \<Longrightarrow> db w' = db w"
  by (auto dest: reads simp: query_frame_def)

lemma keeps_tx: "f s w = (r, s', w') \<Longrightarrow>
    tx_db w' = tx_db w \<and> tx_aborted w' = tx_aborted w \<and> open_txs w' = open_txs w"
  by (auto dest: reads simp: query_frame_def)

lemma keeps_clock: "f s w = (r, s', w') \<Longrightarrow> clock w' = clock w"
  by (auto dest: reads simp: query_frame_def)

end

interpretation GetModelCost: service_query "GetModelCost cfg modelID" for cfg modelID
  by unfold_locales
    (auto simp: GetModelCost_def split: option.splits prod.splits sum.splits if_splits
      dest!: query_op_frame [OF query_op_lookup_model_cost])

interpretation RefreshModelCostCache: service_query "RefreshModelCostCache cfg" for cfg
  by unfold_locales
    (auto simp: RefreshModelCostCache_def split: prod.splits sum.splits
      dest!: query_op_frame [OF ListModelCosts.query_op_axioms])

interpretation CalculateCost: service_query "CalculateCost cfg modelID i out" for cfg modelID i out
  by unfold_locales
    (auto simp: CalculateCost_def split: prod.splits sum.splits db_error.splits
      dest!: GetModelCost.reads)

interpretation GetMatchingBudgets: service_query "GetMatchingBudgets env cfg ctx" for env cfg ctx
  by unfold_locales
    (auto simp: GetMatchingBudgets_def split: prod.splits sum.splits if_splits
      dest!: query_op_frame [OF GetEnabledBudgets.query_op_axioms])

lemma EstimateCost_frame: "EstimateCost cfg modelID s w = (est, s', w') \<Longrightarrow> query_frame w w'"
  by (auto simp: EstimateCost_def split: prod.splits sum.splits dest!: CalculateCost.reads)

lemma GetModelCost_keeps:
  "GetModelCost cfg modelID s w = (r, s', w') \<Longrightarrow>
     svPrograms s' = svPrograms s \<and> svBudgets s' = svBudgets s \<and> svBudgetExpiry s' = svBudgetExpiry s"
  by (auto simp: GetModelCost_def split: option.splits prod.splits sum.splits if_splits)

lemma EstimateCost_keeps:
  assumes "EstimateCost cfg modelID s w = (est, s', w')"
  shows "svPrograms s' = svPrograms s \<and> svBudgets s' = svBudgets s \<and> svBudgetExpiry s' = svBudgetExpiry s"
  using assms
  by (auto simp: EstimateCost_def CalculateCost_def split: prod.splits sum.splits db_error.splits
      dest!: GetModelCost_keeps)

section \<open>Costs and estimates are amounts\<close>

definition priced :: "model_cost \<Rightarrow> bool" where
  "priced mc \<longleftrightarrow> 0 \<le> mcInputCostPerMillion mc \<and> 0 \<le> mcOutputCostPerMillion mc"

definition prices_ok :: "'p service \<Rightarrow> world \<Rightarrow> bool" where
  "prices_ok s w \<longleftrightarrow> (\<forall>mc \<in> set (model_costs (db w)). priced mc) \<and>
     (\<forall>m mc. svCosts s m = Some mc \<longrightarrow> priced mc)"

lemma token_cost_nonneg:
  "0 \<le> p \<Longrightarrow> 0 \<le> q \<Longrightarrow> 0 \<le> i \<Longrightarrow> 0 \<le> out \<Longrightarrow> 0 \<le> token_cost p q i out"
  by (simp add: token_cost_def)

lemma token_cost_mono:
  assumes "0 \<le> p" "0 \<le> q" "i \<le> i'" "out \<le> out'"
  shows "token_cost p q i out \<le> token_cost p q i' out'"
  using assms unfolding token_cost_def
  by (intro add_mono divide_right_mono mult_right_mono) auto

lemma lookup_model_cost_row:
  assumes "lookup_model_cost modelID w = (Inr cost, w')"
  shows "cost \<in> set (model_costs (db w))"
proof -
  have row: "cost \<in> set (model_costs (db w))"
    if "GetModelCostByID m w = (Inr cost, w')" for m w
    using that by (auto simp: GetModelCostByID_def sql_row_def pop_fault_def
        split: fault.splits option.splits list.splits dest: first_row_filterD)
  from assms show ?thesis
    unfolding lookup_model_cost_def Let_def
    by (elim try_op_cases)
      (auto split: sum.splits db_error.splits if_splits dest!: row dest: GetModelCostByID.db_frame)
qed

lemma GetModelCost_priced:
  assumes ok: "prices_ok s w" and run: "GetModelCost cfg modelID s w = (r, s', w')"
  shows "(case r of Inr cost \<Rightarrow> priced cost | Inl e \<Rightarrow> True) \<and> prices_ok s' w'"
  using GetModelCost.keeps_db [OF run] run ok
  by (auto simp: GetModelCost_def prices_ok_def split: option.splits prod.splits sum.splits if_splits
      dest!: lookup_model_cost_row)

lemma EstimateCost_nonneg:
  assumes "prices_ok s w" and "EstimateCost cfg modelID s w = (est, s', w')"
    and "0 \<le> cfgDefaultEstimatedInputTokens cfg" "0 \<le> cfgDefaultEstimatedOutputTokens cfg"
    and "0 \<le> cfgDefaultEstimationMultiplier cfg"
  shows "0 \<le> est"
  using assms GetModelCost_priced [OF assms(1)]
  by (fastforce simp: EstimateCost_def CalculateCost_def priced_def token_cost_nonneg
      split: prod.splits sum.splits db_error.splits)

end
