(* ===== verification/Ledger_Inv.thy ===== *)
theory Ledger_Inv
  imports Ledger_Repo
begin

text \<open>
  The constraints of the schema as an invariant. \<open>tables_ok\<close> says that the budgets, the
  reservations and the usage records satisfy the keys, the foreign keys and the enum columns of
  \<open>migrations/001_initial.sql\<close>; every statement keeps it, hence every operation does
  (\<open>wf_op\<close>). \<open>ledger_balanced\<close> is what the pending amounts are meant to be: the sum of the
  reservations of the budget.
\<close>

definition tables_ok :: "tables \<Rightarrow> bool" where
  "tables_ok t \<longleftrightarrow>
     distinct (map bID (budget_definitions t)) \<and>
     distinct (map (\<lambda>b. (bEntityType b, bName b)) (budget_definitions t)) \<and>
     (\<forall>b \<in> set (budget_definitions t). db_entity_type (bEntityType b) \<and> db_period (bPeriod b) \<and>
        parent_exists (bParentID b) (budget_definitions t)) \<and>
     distinct (map rsID (request_reservations t)) \<and>
     distinct (map (\<lambda>r. (rsBudgetID r, rsRequestID r)) (request_reservations t)) \<and>
     rsBudgetID ` set (request_reservations t) \<subseteq> bID ` set (budget_definitions t) \<and>
     distinct (map urID (usage_records t)) \<and>
     urBudgetID ` set (usage_records t) \<subseteq> bID ` set (budget_definitions t)"

definition stmt_ok :: "'a statement \<Rightarrow> bool" where
  "stmt_ok f \<longleftrightarrow> (\<forall>now t x t'. tables_ok t \<longrightarrow> f now t = Some (x, t') \<longrightarrow> tables_ok t')"

definition world_ok :: "world \<Rightarrow> bool" where
  "world_ok w \<longleftrightarrow> tables_ok (db w) \<and> tables_ok (tx_db w)"

locale wf_op =
  fixes f :: "'a op"
  assumes keeps_ok: "f w = (r, w') \<Longrightarrow> world_ok w \<Longrightarrow> world_ok w'"

section \<open>Every statement keeps the constraints\<close>

lemma distinct_map_delete: "distinct (map k rs) \<Longrightarrow> distinct (map k (delete_where p rs))"
  by (auto simp: delete_where_def intro: distinct_map_filter)

text \<open>The key columns of a budget; the other columns are free.\<close>

definition same_keys :: "(budget \<Rightarrow> budget) \<Rightarrow> bool" where
  "same_keys f \<longleftrightarrow> (\<forall>b. bID (f b) = bID b \<and> bEntityType (f b) = bEntityType b \<and>
     bName (f b) = bName b \<and> bParentID (f b) = bParentID b \<and> bPeriod (f b) = bPeriod b)"

lemma update_budgets_ids:
  "same_keys f \<Longrightarrow> map bID (budget_definitions (update_budgets p f now t)) = map bID (budget_definitions t)"
  by (auto simp: update_budgets_def same_keys_def intro: map_update_where)

lemma update_budgets_other [simp]:
  "request_reservations (update_budgets p f now t) = request_reservations t"
  "usage_records (update_budgets p f now t) = usage_records t"
  "model_costs (update_budgets p f now t) = model_costs t"
  "budget_approvals (update_budgets p f now t) = budget_approvals t"
  "budget_alerts (update_budgets p f now t) = budget_alerts t"
  "audit_log (update_budgets p f now t) = audit_log t"
  by (simp_all add: update_budgets_def)

lemma parent_exists_cong: "map bID bs = map bID cs \<Longrightarrow> parent_exists p bs = parent_exists p cs"
  by (cases p) (simp_all add: parent_exists_def)

lemma tables_ok_update_budgets:
  assumes "tables_ok t" and f: "same_keys f"
  shows "tables_ok (update_budgets p f now t)"
proof -
  let ?bs = "budget_definitions t" and ?cs = "budget_definitions (update_budgets p f now t)"
  have ids: "map bID ?cs = map bID ?bs" by (rule update_budgets_ids [OF f])
  have names: "map (\<lambda>b. (bEntityType b, bName b)) ?cs = map (\<lambda>b. (bEntityType b, bName b)) ?bs"
    using f by (auto simp: update_budgets_def same_keys_def intro: map_update_where)
  have id_set: "bID ` set ?cs = bID ` set ?bs"
    using ids by (metis set_map)
  have "db_entity_type (bEntityType c) \<and> db_period (bPeriod c) \<and> parent_exists (bParentID c) ?cs"
    if c: "c \<in> set ?cs" for c
  proof -
    obtain b where b: "b \<in> set ?bs"
      and "bEntityType c = bEntityType b" "bPeriod c = bPeriod b" "bParentID c = bParentID b"
      using c f by (auto simp: update_budgets_def set_update_where same_keys_def)
    then show ?thesis
      using assms(1) parent_exists_cong [OF ids] by (simp add: tables_ok_def)
  qed
  then show ?thesis
    using assms(1) unfolding tables_ok_def ids names id_set by simp
qed

lemma tables_ok_delete_reservations:
  assumes "tables_ok t"
  shows "tables_ok (t\<lparr>request_reservations := delete_where p (request_reservations t)\<rparr>)"
  using assms by (auto simp: tables_ok_def intro: distinct_map_delete)

lemma tables_ok_delete_usage:
  assumes "tables_ok t"
  shows "tables_ok (t\<lparr>usage_records := delete_where p (usage_records t)\<rparr>)"
  using assms by (auto simp: tables_ok_def intro: distinct_map_delete)

named_theorems stmt_contracts \<open>statements that keep the constraints\<close>

lemma stmt_ok_insert_reservation [stmt_contracts]: "stmt_ok (insert_reservation res)"
  by (auto simp: stmt_ok_def insert_reservation_def tables_ok_def split: if_splits)

lemma stmt_ok_insert_usage_record [stmt_contracts]: "stmt_ok (insert_usage_record ur)"
  by (auto simp: stmt_ok_def insert_usage_record_def tables_ok_def split: if_splits)

lemma stmt_ok_insert_budget [stmt_contracts]: "stmt_ok (insert_budget b)"
  by (auto simp: stmt_ok_def insert_budget_def tables_ok_def parent_exists_def
      split: if_splits option.splits)

lemma stmt_ok_pending [stmt_contracts]:
  "stmt_ok (add_pending i c)" "stmt_ok (subtract_pending i c)" "stmt_ok (add_usage i c)"
  "stmt_ok (increment_versioned i c v)" "stmt_ok (reset_where q)"
  unfolding stmt_ok_def add_pending_def subtract_pending_def add_usage_def increment_versioned_def
    reset_where_def Let_def
  by (auto intro!: tables_ok_update_budgets simp: same_keys_def reset_budget_def)

lemma stmt_ok_delete_reservations [stmt_contracts]: "stmt_ok (delete_reservations q)"
  by (auto simp: stmt_ok_def delete_reservations_def intro: tables_ok_delete_reservations)

lemma stmt_ok_prune_usage [stmt_contracts]: "stmt_ok (prune_usage i)"
  by (auto simp: stmt_ok_def prune_usage_def Let_def intro: tables_ok_delete_usage)

text \<open>A row no other row has for parent can go, with everything that refers to it.\<close>

lemma stmt_ok_delete_budget [stmt_contracts]: "stmt_ok (delete_budget i)"
proof -
  have "tables_ok t'" if ok: "tables_ok t" and run: "delete_budget i now t = Some (n, t')" for now t n t'
  proof (cases "count_budgets (\<lambda>b. bID b = i) t = 0")
    case True
    with ok run show ?thesis by (simp add: delete_budget_def)
  next
    case False
    let ?rest = "delete_where (\<lambda>b. bID b = i) (budget_definitions t)"
    have orphan: "\<forall>b \<in> set ?rest. bParentID b \<noteq> Some i"
      and t': "budget_definitions t' = ?rest"
        "request_reservations t' = delete_where (\<lambda>r. rsBudgetID r = i) (request_reservations t)"
        "usage_records t' = delete_where (\<lambda>u. urBudgetID u = i) (usage_records t)"
      using run False by (auto simp: delete_budget_def Let_def split: if_splits)
    have "parent_exists (bParentID b) ?rest" if b: "b \<in> set ?rest" for b
    proof -
      from b ok have "parent_exists (bParentID b) (budget_definitions t)"
        by (auto simp: tables_ok_def)
      with b orphan show ?thesis
        by (auto simp: parent_exists_def split: option.splits)
    qed
    moreover have "rsBudgetID ` set (request_reservations t') \<subseteq> bID ` set ?rest"
      "urBudgetID ` set (usage_records t') \<subseteq> bID ` set ?rest"
      using ok by (auto simp: t' tables_ok_def)
    ultimately show ?thesis
      using ok by (auto simp: tables_ok_def t' intro: distinct_map_delete)
  qed
  then show ?thesis by (auto simp: stmt_ok_def)
qed

lemma stmt_ok_update_budget [stmt_contracts]: "stmt_ok (update_budget b)"
proof -
  have "tables_ok t'" if ok: "tables_ok t" and run: "update_budget b now t = Some (n, t')" for now t n t'
  proof (cases "t' = t")
    case False
    let ?p = "\<lambda>r. bID r = bID b \<and> bVersion r = bVersion b"
    let ?bs = "budget_definitions t" and ?cs = "budget_definitions t'"
    from False run have period: "db_period (bPeriod b)" and parent: "parent_exists (bParentID b) ?bs"
      and t': "t' = update_budgets ?p (apply_budget_update b) now t"
      by (auto simp: update_budget_def Let_def split: if_splits)
    have ids: "map bID ?cs = map bID ?bs"
      and names: "map (\<lambda>b. (bEntityType b, bName b)) ?cs = map (\<lambda>b. (bEntityType b, bName b)) ?bs"
      unfolding t' update_budgets_def by (auto intro!: map_update_where simp: apply_budget_update_def)
    have id_set: "bID ` set ?cs = bID ` set ?bs"
      using ids by (metis set_map)
    have "db_entity_type (bEntityType c) \<and> db_period (bPeriod c) \<and> parent_exists (bParentID c) ?cs"
      if c: "c \<in> set ?cs" for c
      using c ok period parent parent_exists_cong [OF ids]
      by (auto simp: t' update_budgets_def set_update_where apply_budget_update_def tables_ok_def)
    then show ?thesis
      using ok unfolding tables_ok_def ids names id_set by (simp add: t')
  qed (use ok in simp)
  then show ?thesis by (auto simp: stmt_ok_def)
qed

section \<open>Every operation keeps the constraints\<close>

named_theorems wf_contracts \<open>operations that keep the constraints\<close>

lemma wf_op_query: "query_op f \<Longrightarrow> wf_op f"
  by unfold_locales (auto simp: world_ok_def dest!: query_op.reads_only)

lemma world_ok_fault [simp]: "world_ok (w\<lparr>faults := fs\<rparr>) = world_ok w"
  by (simp add: world_ok_def)

lemma wf_op_sql_exec [wf_contracts]: "stmt_ok f \<Longrightarrow> wf_op (sql_exec msg f)"
  by unfold_locales
    (auto simp: sql_exec_def pop_fault_def world_ok_def stmt_ok_def
      split: fault.splits list.splits option.splits)

lemma wf_op_tx_exec [wf_contracts]: "stmt_ok f \<Longrightarrow> wf_op (tx_exec msg f)"
  by unfold_locales
    (auto simp: tx_exec_def pop_fault_def world_ok_def stmt_ok_def
      split: fault.splits list.splits option.splits if_splits)

lemma wf_op_tx_rows [wf_contracts]: "wf_op (tx_rows msg q)"
  by unfold_locales
    (auto simp: tx_rows_def pop_fault_def world_ok_def split: fault.splits list.splits if_splits)

lemma wf_op_tx_begin [wf_contracts]: "wf_op tx_begin"
  by unfold_locales (auto simp: tx_begin_def pop_fault_def world_ok_def split: fault.splits list.splits)

lemma wf_op_tx_commit [wf_contracts]: "wf_op tx_commit"
  by unfold_locales
    (auto simp: tx_commit_def pop_fault_def world_ok_def split: fault.splits list.splits if_splits)

lemma wf_op_return [wf_contracts]: "wf_op (return_op x)"
  by (rule wf_op_query [OF query_op_return])

lemma wf_op_fail [wf_contracts]: "wf_op (fail_op e)"
  by (rule wf_op_query [OF query_op_fail])

lemma wf_op_uuid [wf_contracts]: "wf_op uuid_op"
  by (rule wf_op_query [OF query_op_uuid])

lemma wf_op_now [wf_contracts]: "wf_op now_op"
  by (rule wf_op_query [OF query_op_now])

lemma wf_op_sql_rows [wf_contracts]: "wf_op (sql_rows c msg q)"
  by (rule wf_op_query [OF query_op_sql_rows])

lemma wf_op_bind [wf_contracts]: "wf_op m \<Longrightarrow> (\<And>x. wf_op (k x)) \<Longrightarrow> wf_op (bind_op m k)"
  by unfold_locales (elim bind_op_cases; blast dest: wf_op.keeps_ok)

lemma wf_op_try [wf_contracts]: "wf_op m \<Longrightarrow> (\<And>r. wf_op (h r)) \<Longrightarrow> wf_op (try_op m h)"
  by unfold_locales (elim try_op_cases; blast dest: wf_op.keeps_ok)

lemma wf_op_affected_or [wf_contracts]: "wf_op m \<Longrightarrow> wf_op (affected_or e m)"
  unfolding affected_or_def by (intro wf_contracts) (auto intro: wf_contracts)

lemma wf_op_rollback [wf_contracts]: "wf_op m \<Longrightarrow> wf_op (rollback_on_error m)"
  by unfold_locales
    (auto simp: rollback_on_error_def tx_rollback_def world_ok_def
      split: prod.splits sum.splits dest: wf_op.keeps_ok [unfolded world_ok_def])

interpretation CreateBudget_wf: wf_op "CreateBudget b" for b
  unfolding CreateBudget_def Let_def by (intro wf_contracts stmt_contracts)

interpretation UpdateBudget_wf: wf_op "UpdateBudget b" for b
  unfolding UpdateBudget_def by (intro wf_contracts stmt_contracts)

interpretation DeleteBudget_wf: wf_op "DeleteBudget i" for i
  unfolding DeleteBudget_def by (intro wf_contracts stmt_contracts)

interpretation IncrementBudgetUsage_wf: wf_op "IncrementBudgetUsage i c v" for i c v
  unfolding IncrementBudgetUsage_def by (intro wf_contracts stmt_contracts)

interpretation ResetBudgetUsage_wf: wf_op "ResetBudgetUsage i" for i
  unfolding ResetBudgetUsage_def by (intro wf_contracts stmt_contracts)

lemma wf_op_reset_queries [wf_contracts]: "wf_op (reset_queries qs acc)"
  by (induction qs arbitrary: acc) (auto simp del: return_op_simp intro!: wf_contracts stmt_contracts)

interpretation ResetExpiredBudgets_wf: wf_op ResetExpiredBudgets
  unfolding ResetExpiredBudgets_def by (intro wf_contracts)

lemma wf_op_delete_each [wf_contracts]: "wf_op (delete_each is)"
  by (induction "is") (auto simp del: return_op_simp intro!: wf_contracts stmt_contracts)

interpretation DeleteBudgetCascade_wf: wf_op "DeleteBudgetCascade i" for i
  unfolding DeleteBudgetCascade_def
  by (intro wf_contracts stmt_contracts wf_op_query [OF GetAllDescendants.query_op_axioms])
    (auto intro: wf_contracts)

interpretation CreateReservation_wf: wf_op "CreateReservation res" for res
  unfolding CreateReservation_def Let_def by (intro wf_contracts stmt_contracts)

interpretation DeleteReservation_wf: wf_op "DeleteReservation r" for r
  unfolding DeleteReservation_def
  by (intro wf_contracts stmt_contracts wf_op_query [OF GetReservationByRequestID.query_op_axioms])

lemma wf_op_release_pending [wf_contracts]: "wf_op (release_pending bcs)"
  by (induction bcs rule: release_pending.induct) (auto simp del: return_op_simp intro!: wf_contracts stmt_contracts)

interpretation CleanupExpiredReservations_wf: wf_op CleanupExpiredReservations
  unfolding CleanupExpiredReservations_def by (intro wf_contracts stmt_contracts)

interpretation CreateUsageRecord_wf: wf_op "CreateUsageRecord ur" for ur
  unfolding CreateUsageRecord_def Let_def by (intro wf_contracts stmt_contracts)

interpretation CreateReservationInTx_wf: wf_op "CreateReservationInTx res" for res
  unfolding CreateReservationInTx_def Let_def by (intro wf_contracts stmt_contracts)

interpretation CreateUsageRecordInTx_wf: wf_op "CreateUsageRecordInTx ur" for ur
  unfolding CreateUsageRecordInTx_def Let_def by (intro wf_contracts stmt_contracts)

interpretation IncrementPendingUsageInTx_wf: wf_op "IncrementPendingUsageInTx i c" for i c
  unfolding IncrementPendingUsageInTx_def by (intro wf_contracts stmt_contracts)

interpretation DecrementPendingUsageInTx_wf: wf_op "DecrementPendingUsageInTx i c" for i c
  unfolding DecrementPendingUsageInTx_def by (intro wf_contracts stmt_contracts)

interpretation IncrementUsageInTx_wf: wf_op "IncrementUsageInTx i c" for i c
  unfolding IncrementUsageInTx_def by (intro wf_contracts stmt_contracts)

interpretation DeleteReservationInTx_wf: wf_op "DeleteReservationInTx r" for r
  unfolding DeleteReservationInTx_def by (intro wf_contracts stmt_contracts)

section \<open>The balance of the pending amounts\<close>

definition ledger_balanced :: "tables \<Rightarrow> bool" where
  "ledger_balanced t \<longleftrightarrow> (\<forall>b \<in> set (budget_definitions t).
     bPendingUsageUSD b = reserved_on (bID b) (request_reservations t))"

text \<open>A request that has no reservation.\<close>

definition unreserved :: "string \<Rightarrow> tables \<Rightarrow> bool" where
  "unreserved rid t \<longleftrightarrow> (\<forall>r \<in> set (request_reservations t). rsRequestID r \<noteq> rid)"

lemma reserved_on_append [simp]: "reserved_on i (rs @ ss) = reserved_on i rs + reserved_on i ss"
  by (simp add: reserved_on_def)

lemma reserved_on_Nil [simp]: "reserved_on i [] = 0"
  by (simp add: reserved_on_def)

lemma reserved_on_Cons [simp]:
  "reserved_on i (r # rs) = (if rsBudgetID r = i then rsEstimatedCostUSD r else 0) + reserved_on i rs"
  by (simp add: reserved_on_def)

lemma reserved_on_split:
  "reserved_on i rs = reserved_on i (filter p rs) + reserved_on i (delete_where p rs)"
  by (induction rs) (auto simp: delete_where_def)

lemma reserved_on_nonneg:
  "(\<forall>r \<in> set rs. 0 \<le> rsEstimatedCostUSD r) \<Longrightarrow> 0 \<le> reserved_on i rs"
  by (induction rs) auto

lemma reserved_on_pos:
  assumes "r \<in> set rs" and "rsBudgetID r = i" and "0 < rsEstimatedCostUSD r"
    and "\<forall>x \<in> set rs. 0 \<le> rsEstimatedCostUSD x"
  shows "0 < reserved_on i rs"
  using assms
proof (induction rs)
  case (Cons x rs)
  then show ?case
    using reserved_on_nonneg [of rs i] by (auto simp: add_pos_nonneg add_nonneg_pos)
qed simp

lemma reserved_on_none: "i \<notin> rsBudgetID ` set rs \<Longrightarrow> reserved_on i rs = 0"
  by (induction rs) auto

end
