(* ===== verification/Budget_Check.thy ===== *)
theory Budget_Check
  imports Budget_Service Ledger_Inv "HOL-Library.Multiset"
begin

text \<open>
  \<open>internal/budget/service.go\<close>, second part: the admission check. \<open>CheckBudget\<close> works on the
  cached budgets, \<open>CheckAndReserveBudget\<close> on locked rows inside a transaction in which it also
  writes the reservations. The row locks are not modelled: the body of a transaction runs
  without interleaving, which is what \<open>FOR UPDATE\<close> is there to ensure for these rows.
\<close>

record check_result =
  crAllowed :: bool
  crMatchedBudgets :: "budget list"
  crRateLimitedAt :: "uuid option"
  crFallbackBudgetID :: "uuid option"
  crEstimatedCost :: usd
  crRemainingBudget :: usd
  crRetryAfter :: duration

section \<open>The loop over the sorted budgets\<close>

text \<open>\<open>parentMap\<close>: for every budget whose parent is in the list too, the parent.\<close>

definition budget_with_id :: "uuid \<Rightarrow> budget list \<Rightarrow> budget option" where
  "budget_with_id i bs = first_row (filter (\<lambda>b. bID b = i) bs)"

fun parent_map :: "budget list \<Rightarrow> budget list \<Rightarrow> (uuid \<Rightarrow> budget option) \<Rightarrow> uuid \<Rightarrow> budget option"
where
  "parent_map sortedBudgets [] m = m"
| "parent_map sortedBudgets (b # bs) m = parent_map sortedBudgets bs
     (case bParentID b of None \<Rightarrow> m
      | Some p \<Rightarrow> (case budget_with_id p sortedBudgets of None \<Rightarrow> m | Some parent \<Rightarrow> m(bID b \<mapsto> parent)))"

record check_state =
  csRateLimitedAt :: "uuid option"
  csFallback :: "uuid option"
  csMinRemaining :: usd

definition fallback_parent :: "(uuid \<Rightarrow> budget option) \<Rightarrow> usd \<Rightarrow> budget \<Rightarrow> budget option" where
  "fallback_parent parentMap estimatedCost b =
     (if bAllowFallback b \<and> bParentID b \<noteq> None then
        (case parentMap (bID b) of None \<Rightarrow> None
         | Some parent \<Rightarrow> if CalculateRemaining parent \<ge> estimatedCost then Some parent else None)
      else None)"

definition track_min :: "usd \<Rightarrow> usd \<Rightarrow> usd" where
  "track_min minRemaining remaining =
     (if minRemaining < 0 \<or> remaining < minRemaining then remaining else minRemaining)"

fun check_loop ::
  "(uuid \<Rightarrow> budget option) \<Rightarrow> usd \<Rightarrow> budget list \<Rightarrow> check_state \<Rightarrow> check_state" where
  "check_loop parentMap estimatedCost [] st = st"
| "check_loop parentMap estimatedCost (b # bs) st =
     (let remaining = CalculateRemaining b;
          st1 = st\<lparr>csMinRemaining := track_min (csMinRemaining st) remaining\<rparr>
      in if remaining < estimatedCost then
           (case fallback_parent parentMap estimatedCost b of
              Some parent \<Rightarrow>
                check_loop parentMap estimatedCost bs (st1\<lparr>csFallback := Some (bID parent)\<rparr>)
            | None \<Rightarrow>
                (let st2 = st1\<lparr>csRateLimitedAt := Some (bID b)\<rparr>
                 in if bIsolated b then st2 else check_loop parentMap estimatedCost bs st2))
         else check_loop parentMap estimatedCost bs st1)"

definition check_sorted :: "usd \<Rightarrow> budget list \<Rightarrow> check_state" where
  "check_sorted estimatedCost sortedBudgets =
     check_loop (parent_map sortedBudgets sortedBudgets Map.empty) estimatedCost sortedBudgets
       \<lparr>csRateLimitedAt = None, csFallback = None, csMinRemaining = - 1\<rparr>"

text \<open>\<open>time.Until(b.NextPeriodStart())\<close> of the budget that was hit.\<close>

definition retry_after :: "time \<Rightarrow> uuid \<Rightarrow> budget list \<Rightarrow> duration" where
  "retry_after now i budgets = (case budget_with_id i budgets of
     None \<Rightarrow> 0 | Some b \<Rightarrow> time_sub (NextPeriodStart b) now)"

definition allow_unmatched :: check_result where
  "allow_unmatched = \<lparr>crAllowed = True, crMatchedBudgets = [], crRateLimitedAt = None,
     crFallbackBudgetID = None, crEstimatedCost = 0, crRemainingBudget = 0, crRetryAfter = 0\<rparr>"

definition deny_result :: "usd \<Rightarrow> budget list \<Rightarrow> check_state \<Rightarrow> uuid \<Rightarrow> duration \<Rightarrow> check_result" where
  "deny_result est sortedBudgets st i retryAfter =
     \<lparr>crAllowed = False, crMatchedBudgets = sortedBudgets, crRateLimitedAt = Some i,
      crFallbackBudgetID = None, crEstimatedCost = est, crRemainingBudget = csMinRemaining st,
      crRetryAfter = retryAfter\<rparr>"

definition allow_result :: "usd \<Rightarrow> budget list \<Rightarrow> check_state \<Rightarrow> check_result" where
  "allow_result est sortedBudgets st =
     \<lparr>crAllowed = True, crMatchedBudgets = sortedBudgets, crRateLimitedAt = None,
      crFallbackBudgetID = csFallback st, crEstimatedCost = est,
      crRemainingBudget = csMinRemaining st, crRetryAfter = 0\<rparr>"

section \<open>The two checks\<close>

definition CheckBudget ::
  "('a, 'p) cel_env \<Rightarrow> config \<Rightarrow> eval_context \<Rightarrow> string \<Rightarrow> ('p, check_result) service_op" where
  "CheckBudget env cfg evalCtx modelID s w =
     (case GetMatchingBudgets env cfg evalCtx s w of
       (Inl e, s1, w1) \<Rightarrow> (Inl e, s1, w1)
     | (Inr budgets, s1, w1) \<Rightarrow>
         if budgets = [] then (Inr allow_unmatched, s1, w1)
         else (case EstimateCost cfg modelID s1 w1 of (est, s2, w2) \<Rightarrow>
           (let sortedBudgets = sortBudgetsByHierarchy budgets; st = check_sorted est sortedBudgets in
            case csRateLimitedAt st of
              Some i \<Rightarrow> (Inr (deny_result est sortedBudgets st i (retry_after (clock w2) i budgets)), s2, w2)
            | None \<Rightarrow> (Inr (allow_result est sortedBudgets st), s2, w2))))"

text \<open>
  The reservations: a failure is logged and the loop goes on with the next budget (in a
  transaction that PostgreSQL has aborted).
\<close>

definition new_reservation :: "config \<Rightarrow> string \<Rightarrow> usd \<Rightarrow> time \<Rightarrow> budget \<Rightarrow> reservation" where
  "new_reservation cfg requestID est now b =
     \<lparr>rsID = 0, rsBudgetID = bID b, rsRequestID = requestID, rsEstimatedCostUSD = est,
      rsExpiresAt = now + cfgReservationTTL cfg, rsCreatedAt = zero_time\<rparr>"

fun reserve_each :: "config \<Rightarrow> string \<Rightarrow> usd \<Rightarrow> time \<Rightarrow> budget list \<Rightarrow> unit op" where
  "reserve_each cfg requestID est now [] = return_op ()"
| "reserve_each cfg requestID est now (b # bs) =
     try_op (bind_op (CreateReservationInTx (new_reservation cfg requestID est now b))
         (\<lambda>_. IncrementPendingUsageInTx (bID b) est))
       (\<lambda>_. reserve_each cfg requestID est now bs)"

text \<open>\<open>_ = tx.Commit(ctx)\<close>: the result of the commit is dropped.\<close>

definition commit_ignored :: "world \<Rightarrow> world" where
  "commit_ignored w = snd (tx_commit w)"

definition CheckAndReserveBudget ::
  "('a, 'p) cel_env \<Rightarrow> config \<Rightarrow> eval_context \<Rightarrow> string \<Rightarrow> string \<Rightarrow> ('p, check_result) service_op"
where
  "CheckAndReserveBudget env cfg evalCtx modelID requestID s w =
     (case tx_begin w of
       (Inl e, w1) \<Rightarrow> (Inl (ErrWrapped ''failed to begin transaction''), s, w1)
     | (Inr _, w1) \<Rightarrow> (case GetEnabledBudgetsForUpdate w1 of
         (Inl e, w2) \<Rightarrow> (Inl (ErrWrapped ''failed to get budgets for update''), s, tx_rollback w2)
       | (Inr budgets, w2) \<Rightarrow>
         if budgets = [] then (Inr allow_unmatched, s, commit_ignored w2)
         else (case filter_matching env bMatchExpression evalCtx (svPrograms s) budgets of
           (matched, progs) \<Rightarrow>
           (let s1 = s\<lparr>svPrograms := progs\<rparr> in
            if matched = [] then (Inr allow_unmatched, s1, commit_ignored w2)
            else (case EstimateCost cfg modelID s1 w2 of (est, s3, w3) \<Rightarrow>
              (let sortedBudgets = sortBudgetsByHierarchy matched; st = check_sorted est sortedBudgets in
               case csRateLimitedAt st of
                 Some i \<Rightarrow> (let w4 = tx_rollback w3 in
                   (Inr (deny_result est sortedBudgets st i (retry_after (clock w4) i sortedBudgets)), s3, w4))
               | None \<Rightarrow>
                   (case reserve_each cfg requestID est (clock w3) sortedBudgets w3 of (_, w4) \<Rightarrow>
                     (case tx_commit w4 of
                        (Inl e, w5) \<Rightarrow> (Inl (ErrWrapped ''failed to commit transaction''), s3, w5)
                      | (Inr _, w5) \<Rightarrow>
                          (Inr (allow_result est sortedBudgets st), invalidate_budget_cache s3, w5)))))))))"

section \<open>What the loop decides\<close>

definition admits :: "(uuid \<Rightarrow> budget option) \<Rightarrow> usd \<Rightarrow> budget \<Rightarrow> bool" where
  "admits parentMap est b \<longleftrightarrow> est \<le> CalculateRemaining b \<or> fallback_parent parentMap est b \<noteq> None"

lemma check_loop_admits:
  "csRateLimitedAt (check_loop pm est bs st) = None \<longleftrightarrow>
     csRateLimitedAt st = None \<and> (\<forall>b \<in> set bs. admits pm est b)"
  by (induction pm est bs st rule: check_loop.induct)
    (auto simp: admits_def Let_def split: option.splits)

text \<open>The budget reported is one that refused, and a refusal is always reported.\<close>

lemma check_loop_culprit:
  assumes "csRateLimitedAt (check_loop pm est bs st) = Some i"
  shows "csRateLimitedAt st = Some i \<or> (\<exists>b \<in> set bs. bID b = i \<and> \<not> admits pm est b)"
  using assms
  by (induction pm est bs st rule: check_loop.induct)
    (auto simp: admits_def Let_def split: option.splits if_splits)

lemma check_loop_min:
  assumes "csRateLimitedAt (check_loop pm est bs st) = None"
  shows "csMinRemaining (check_loop pm est bs st) =
    foldl track_min (csMinRemaining st) (map CalculateRemaining bs)"
  using assms
  by (induction pm est bs st rule: check_loop.induct)
    (auto simp: Let_def check_loop_admits split: option.splits if_splits)

lemma foldl_track_min:
  assumes "\<forall>x \<in> set xs. 0 \<le> x" and "0 \<le> m"
  shows "foldl track_min m xs = Min (insert m (set xs))"
  using assms
proof (induction xs arbitrary: m)
  case (Cons x xs)
  then have "track_min m x = min m x" by (auto simp: track_min_def)
  with Cons show ?case by (cases "xs = []") (auto simp: min.assoc)
qed simp

lemma foldl_track_min_start:
  assumes "\<forall>x \<in> set xs. 0 \<le> x" and "xs \<noteq> []" and "m < 0"
  shows "foldl track_min m xs = Min (set xs)"
  using assms foldl_track_min by (cases xs) (auto simp: track_min_def)

text \<open>The parent map holds parents.\<close>

lemma budget_with_idD:
  "budget_with_id i bs = Some b \<Longrightarrow> b \<in> set bs \<and> bID b = i"
  unfolding budget_with_id_def by (rule first_row_filterD)

lemma budget_with_id_None: "budget_with_id i bs = None \<longleftrightarrow> i \<notin> set (map bID bs)"
  by (auto simp: budget_with_id_def filter_empty_conv)

lemma budget_with_id_distinct:
  "distinct (map bID bs) \<Longrightarrow> b \<in> set bs \<Longrightarrow> budget_with_id (bID b) bs = Some b"
  by (simp add: budget_with_id_def distinct_map_filter_key)

lemma parent_map_other: "i \<notin> set (map bID bs) \<Longrightarrow> parent_map S bs m i = m i"
  by (induction S bs m rule: parent_map.induct) (auto split: option.splits)

lemma parent_map_lookup:
  assumes "distinct (map bID bs)" and "b \<in> set bs"
  shows "parent_map S bs m (bID b) = (case bParentID b of
      None \<Rightarrow> m (bID b)
    | Some p \<Rightarrow> (case budget_with_id p S of None \<Rightarrow> m (bID b) | Some parent \<Rightarrow> Some parent))"
  using assms
proof (induction S bs m rule: parent_map.induct)
  case (2 S b' bs m)
  then show ?case
    by (cases "b = b'") (auto simp: parent_map_other image_iff split: option.splits)
qed simp

lemma fallback_parent_eq:
  assumes "distinct (map bID bs)" and "b \<in> set bs"
  shows "fallback_parent (parent_map bs bs Map.empty) est b = Some parent \<longleftrightarrow>
    bAllowFallback b \<and> est \<le> CalculateRemaining parent \<and>
    (\<exists>p. bParentID b = Some p \<and> budget_with_id p bs = Some parent)"
  using parent_map_lookup [OF assms, of bs Map.empty]
  by (auto simp: fallback_parent_def split: option.splits if_splits)

text \<open>The admission condition, in terms of the budgets alone.\<close>

definition has_capacity :: "usd \<Rightarrow> budget list \<Rightarrow> budget \<Rightarrow> bool" where
  "has_capacity est bs b \<longleftrightarrow> est \<le> CalculateRemaining b \<or>
     (bAllowFallback b \<and> (\<exists>parent \<in> set bs. bParentID b = Some (bID parent) \<and>
        est \<le> CalculateRemaining parent))"

lemma admits_iff_has_capacity:
  assumes "distinct (map bID bs)" and "b \<in> set bs"
  shows "admits (parent_map bs bs Map.empty) est b \<longleftrightarrow> has_capacity est bs b"
proof -
  have "(\<exists>parent. fallback_parent (parent_map bs bs Map.empty) est b = Some parent) \<longleftrightarrow>
      bAllowFallback b \<and> (\<exists>parent \<in> set bs. bParentID b = Some (bID parent) \<and>
        est \<le> CalculateRemaining parent)"
    unfolding fallback_parent_eq [OF assms]
    by (auto dest: budget_with_idD intro: budget_with_id_distinct [OF assms(1)])
  then show ?thesis
    by (simp add: admits_def has_capacity_def)
qed

lemma check_sorted_admits:
  assumes "distinct (map bID bs)"
  shows "csRateLimitedAt (check_sorted est bs) = None \<longleftrightarrow> (\<forall>b \<in> set bs. has_capacity est bs b)"
  using admits_iff_has_capacity [OF assms]
  by (simp add: check_sorted_def check_loop_admits)

lemma check_sorted_culprit:
  assumes "distinct (map bID bs)" and "csRateLimitedAt (check_sorted est bs) = Some i"
  obtains b where "b \<in> set bs" and "bID b = i" and "\<not> has_capacity est bs b"
  using assms admits_iff_has_capacity [OF assms(1)] check_loop_culprit
  unfolding check_sorted_def by fastforce

lemma check_sorted_min:
  assumes "csRateLimitedAt (check_sorted est bs) = None" and "bs \<noteq> []"
    and "\<forall>b \<in> set bs. 0 \<le> CalculateRemaining b"
  shows "csMinRemaining (check_sorted est bs) = Min (CalculateRemaining ` set bs)"
  using assms check_loop_min foldl_track_min_start [of "map CalculateRemaining bs" "- 1"]
  unfolding check_sorted_def by fastforce

section \<open>Sorting by hierarchy\<close>

lemma set_sortBudgetsByHierarchy:
  "set (sortBudgetsByHierarchy bs) = {b \<in> set bs. db_entity_type (bEntityType b)}"
proof -
  have "db_entity_type e \<longleftrightarrow> e = EntityTypeUser \<or> e = EntityTypeTeam \<or> e = EntityTypeOrg" for e
    by (cases e) auto
  then show ?thesis by (auto simp: sortBudgetsByHierarchy_def)
qed

lemma distinct_sortBudgetsByHierarchy:
  "distinct (map bID bs) \<Longrightarrow> distinct (map bID (sortBudgetsByHierarchy bs))"
proof -
  assume d: "distinct (map bID bs)"
  then have i: "inj_on bID (set bs)" and "distinct bs" by (simp_all add: distinct_map)
  then show ?thesis
    unfolding distinct_map sortBudgetsByHierarchy_def
    by (auto intro: inj_on_subset [OF i])
qed

lemma sorted_sortBudgetsByHierarchy:
  "sorted_wrt (\<lambda>a b. bEntityType b \<le> bEntityType a) (sortBudgetsByHierarchy bs)"
proof -
  have const: "sorted_wrt (\<lambda>a b. bEntityType b \<le> bEntityType a) (filter (\<lambda>b. bEntityType b = e) bs)" for e
    by (induction bs) auto
  show ?thesis
    unfolding sortBudgetsByHierarchy_def
    using entity_type_order by (auto simp: sorted_wrt_append const intro: less_imp_le dest: less_trans)
qed

lemma mset_sortBudgetsByHierarchy:
  assumes "\<forall>b \<in> set bs. db_entity_type (bEntityType b)"
  shows "mset (sortBudgetsByHierarchy bs) = mset bs"
  using assms
proof (induction bs)
  case (Cons b bs)
  then show ?case by (cases "bEntityType b") (auto simp: sortBudgetsByHierarchy_def)
qed (simp add: sortBudgetsByHierarchy_def)

section \<open>The transaction of CheckAndReserveBudget\<close>

lemma tx_op_reserve_each [op_contracts]: "tx_op (reserve_each cfg rid est now bs)"
  by (induction bs)
    (auto simp del: return_op_simp
      intro!: op_contracts CreateReservationInTx.tx_op_axioms IncrementPendingUsageInTx.tx_op_axioms)

interpretation reserve_each: tx_op "reserve_each cfg rid est now bs" for cfg rid est now bs
  by (rule tx_op_reserve_each)

lemma wf_op_reserve_each [wf_contracts]: "wf_op (reserve_each cfg rid est now bs)"
  by (induction bs)
    (auto simp del: return_op_simp
      intro!: wf_contracts CreateReservationInTx_wf.wf_op_axioms IncrementPendingUsageInTx_wf.wf_op_axioms)

lemma tx_begin_frame:
  assumes "tx_begin w = (r, w')"
  shows "db w' = db w" "clock w' = clock w" "uuids w' = uuids w"
    "faults w = [] \<Longrightarrow> faults w' = []"
    "r = Inr () \<Longrightarrow> tx_db w' = db w \<and> \<not> tx_aborted w' \<and> open_txs w' = Suc (open_txs w)"
    "r = Inl e \<Longrightarrow> open_txs w' = open_txs w"
  using assms by (auto simp: tx_begin_def pop_fault_def split: fault.splits list.splits)

lemma tx_commit_frame:
  assumes "tx_commit w = (r, w')"
  shows "open_txs w' = open_txs w - 1" "clock w' = clock w" "uuids w' = uuids w"
    "r = Inl e \<Longrightarrow> db w' = db w" "r = Inr () \<Longrightarrow> db w' = tx_db w \<and> \<not> tx_aborted w"
    "tx_db w' = tx_db w" "faults w = [] \<Longrightarrow> faults w' = []"
  using assms by (auto simp: tx_commit_def pop_fault_def split: fault.splits list.splits if_splits)

lemma GetEnabledBudgetsForUpdate_run:
  assumes "GetEnabledBudgetsForUpdate w = (r, w')"
  shows "tx_db w' = tx_db w" "uuids w' = uuids w"
    and "r = Inr bs \<Longrightarrow> \<exists>n. bs = take n (enabled_budgets (tx_db w))"
    and "faults w = [] \<Longrightarrow> \<not> tx_aborted w \<Longrightarrow> r = Inr (enabled_budgets (tx_db w)) \<and> w' = w"
    and "r = Inr bs \<Longrightarrow> \<not> tx_aborted w' \<Longrightarrow> bs = enabled_budgets (tx_db w)"
  using assms
  by (auto simp: GetEnabledBudgetsForUpdate_def tx_rows_def pop_fault_def
      split: fault.splits list.splits if_splits intro: exI [where x = "length (enabled_budgets (tx_db w))"])

lemma commit_ignored_unchanged:
  assumes "tx_db w = db w"
  shows "db (commit_ignored w) = db w"
  using assms unfolding commit_ignored_def
  by (cases "tx_commit w"; cases "fst (tx_commit w)") (auto dest: tx_commit_frame(4,5))

lemma commit_ignored_open [simp]: "open_txs (commit_ignored w) = open_txs w - 1"
  unfolding commit_ignored_def using tx_commit_frame(1) [of w] by (cases "tx_commit w") auto

text \<open>
  Every way through the operation, with what the caller may rely on: an error, a request no
  budget matches, a refusal, or a set of reservations that has been committed.
\<close>

lemma CheckAndReserveBudget_cases:
  assumes run: "CheckAndReserveBudget env cfg ctx m rid s w = (r, s', w')"
  obtains (error) e where "r = Inl e" and "db w' = db w" and "open_txs w' = open_txs w"
    | (unmatched) "r = Inr allow_unmatched" and "db w' = db w" and "open_txs w' = open_txs w"
    | (denied) est bs i d where "r = Inr (deny_result est bs (check_sorted est bs) i d)"
        and "csRateLimitedAt (check_sorted est bs) = Some i"
        and "db w' = db w" and "open_txs w' = open_txs w"
    | (reserved) est budgets matched progs bs s3 w1 w2 w3 r4 w4 where
        "r = Inr (allow_result est bs (check_sorted est bs))"
        and "csRateLimitedAt (check_sorted est bs) = None"
        and "tx_begin w = (Inr (), w1)" and "GetEnabledBudgetsForUpdate w1 = (Inr budgets, w2)"
        and "filter_matching env bMatchExpression ctx (svPrograms s) budgets = (matched, progs)"
        and "matched \<noteq> []"
        and "EstimateCost cfg m (s\<lparr>svPrograms := progs\<rparr>) w2 = (est, s3, w3)"
        and "bs = sortBudgetsByHierarchy matched"
        and "reserve_each cfg rid est (clock w3) bs w3 = (r4, w4)"
        and "tx_commit w4 = (Inr (), w')" and "open_txs w' = open_txs w"
        and "s' = invalidate_budget_cache s3"
proof -
  obtain rb w1 where start: "tx_begin w = (rb, w1)" by fastforce
  show thesis
  proof (cases rb)
    case (Inl e)
    with run start tx_begin_frame [OF start] show thesis
      by (intro error [of "ErrWrapped ''failed to begin transaction''"])
        (auto simp: CheckAndReserveBudget_def)
  next
    case (Inr u)
    with start have start: "tx_begin w = (Inr (), w1)" by simp
    note b = tx_begin_frame [OF start]
    obtain rq w2 where query: "GetEnabledBudgetsForUpdate w1 = (rq, w2)" by fastforce
    note q = GetEnabledBudgetsForUpdate.db_frame [OF query]
      GetEnabledBudgetsForUpdate.open_frame [OF query] GetEnabledBudgetsForUpdate_run [OF query]
    have w2: "db w2 = db w" "tx_db w2 = db w" "open_txs w2 = Suc (open_txs w)"
      using b q by simp_all
    show thesis
    proof (cases rq)
      case (Inl e)
      with run start query w2 show thesis
        by (intro error [of "ErrWrapped ''failed to get budgets for update''"])
          (auto simp: CheckAndReserveBudget_def tx_rollback_def)
    next
      case (Inr budgets)
      obtain matched progs where
        filt: "filter_matching env bMatchExpression ctx (svPrograms s) budgets = (matched, progs)"
        by fastforce
      show thesis
      proof (cases "budgets = [] \<or> matched = []")
        case True
        with run start query Inr filt w2 show thesis
          by (intro unmatched)
            (auto simp: CheckAndReserveBudget_def commit_ignored_unchanged split: if_splits)
      next
        case False
        obtain est s3 w3 where est: "EstimateCost cfg m (s\<lparr>svPrograms := progs\<rparr>) w2 = (est, s3, w3)"
          by (cases "EstimateCost cfg m (s\<lparr>svPrograms := progs\<rparr>) w2") auto
        have w3: "db w3 = db w" "open_txs w3 = Suc (open_txs w)"
          using EstimateCost_frame [OF est] w2 by (simp_all add: query_frame_def)
        define bs where "bs = sortBudgetsByHierarchy matched"
        show thesis
        proof (cases "csRateLimitedAt (check_sorted est bs)")
          case (Some i)
          with run start query Inr filt False est w3 show thesis
            by (intro denied [of est bs i])
              (auto simp: CheckAndReserveBudget_def Let_def bs_def tx_rollback_def)
        next
          case None
          obtain r4 w4 where res: "reserve_each cfg rid est (clock w3) bs w3 = (r4, w4)" by fastforce
          obtain r5 w5 where com: "tx_commit w4 = (r5, w5)" by fastforce
          have w4: "db w4 = db w" "open_txs w4 = Suc (open_txs w)"
            using reserve_each.db_frame [OF res] reserve_each.open_frame [OF res] w3 by simp_all
          show thesis
          proof (cases r5)
            case (Inl e)
            with run start query Inr filt False est None res com w4 tx_commit_frame [OF com]
            show thesis
              by (intro error [of "ErrWrapped ''failed to commit transaction''"])
                (auto simp: CheckAndReserveBudget_def Let_def bs_def)
          next
            case (Inr u)
            with run start query \<open>rq = Inr budgets\<close> filt False est None res com w4
              tx_commit_frame [OF com]
            show thesis
              by (intro reserved [of est bs w1 budgets w2 matched progs s3 w3 r4 w4])
                (auto simp: CheckAndReserveBudget_def Let_def bs_def)
          qed
        qed
      qed
    qed
  qed
qed

section \<open>The effect of a committed reservation\<close>

fun reservation_rows :: "config \<Rightarrow> string \<Rightarrow> usd \<Rightarrow> time \<Rightarrow> uuid \<Rightarrow> budget list \<Rightarrow> reservation list" where
  "reservation_rows cfg rid est now u [] = []"
| "reservation_rows cfg rid est now u (b # bs) =
     (new_reservation cfg rid est now b)\<lparr>rsID := u, rsCreatedAt := now\<rparr>
       # reservation_rows cfg rid est now (Suc u) bs"

definition add_pending_to :: "usd \<Rightarrow> budget list \<Rightarrow> time \<Rightarrow> tables \<Rightarrow> tables" where
  "add_pending_to est bs = update_budgets (\<lambda>b. bID b \<in> set (map bID bs))
     (\<lambda>b. b\<lparr>bPendingUsageUSD := bPendingUsageUSD b + est\<rparr>)"

text \<open>The abstract effect: one reservation per budget, and its amount pending on each.\<close>

definition reserved_tables ::
  "config \<Rightarrow> string \<Rightarrow> usd \<Rightarrow> time \<Rightarrow> uuid \<Rightarrow> budget list \<Rightarrow> tables \<Rightarrow> tables" where
  "reserved_tables cfg rid est now u bs t =
     (add_pending_to est bs now t)
       \<lparr>request_reservations := request_reservations t @ reservation_rows cfg rid est now u bs\<rparr>"

lemma tx_exec_not_aborted:
  assumes "tx_exec msg f w = (r, w')" and "\<not> tx_aborted w'"
  obtains x where "f (clock w) (tx_db w) = Some (x, tx_db w')" and "r = Inr x"
    and "uuids w' = uuids w" and "clock w' = clock w" and "\<not> tx_aborted w"
  using assms
  by (auto simp: tx_exec_def pop_fault_def split: fault.splits list.splits option.splits if_splits)

lemma CreateReservationInTx_effect:
  assumes run: "CreateReservationInTx res w = (r, w')" and "\<not> tx_aborted w'"
  obtains x where "r = Inr x" and "uuids w' = Suc (uuids w)" and "clock w' = clock w"
    and "tx_db w' = (tx_db w)\<lparr>request_reservations := request_reservations (tx_db w) @
           [res\<lparr>rsID := uuids w, rsCreatedAt := clock w\<rparr>]\<rparr>"
    and "\<not> tx_aborted w"
proof -
  let ?res = "res\<lparr>rsID := uuids w, rsCreatedAt := clock w\<rparr>"
  obtain r1 w1 where exec: "tx_exec ''failed to create reservation in tx'' (insert_reservation ?res)
      (w\<lparr>uuids := Suc (uuids w)\<rparr>) = (r1, w1)" by fastforce
  have w1: "w1 = w'" and r: "r = (case r1 of Inl e \<Rightarrow> Inl e | Inr _ \<Rightarrow> Inr ?res)"
    using run exec
    by (simp_all add: CreateReservationInTx_def bind_op_def uuid_op_def uuid_New_def now_op_def Let_def
        split: sum.splits)
  obtain x where x: "insert_reservation ?res (clock w) (tx_db w) = Some (x, tx_db w')" "r1 = Inr x"
      "uuids w' = Suc (uuids w)" "clock w' = clock w" "\<not> tx_aborted w"
    using tx_exec_not_aborted [OF exec] assms(2) w1 by auto
  then have "tx_db w' = (tx_db w)\<lparr>request_reservations := request_reservations (tx_db w) @ [?res]\<rparr>"
    by (simp add: insert_reservation_def split: if_splits)
  with x r that show thesis by simp
qed

lemma IncrementPendingUsageInTx_effect:
  assumes "IncrementPendingUsageInTx i c w = (r, w')" and "\<not> tx_aborted w'"
  shows "tx_db w' = update_budgets (\<lambda>b. bID b = i)
      (\<lambda>b. b\<lparr>bPendingUsageUSD := bPendingUsageUSD b + c\<rparr>) (clock w) (tx_db w)"
    and "uuids w' = uuids w" and "clock w' = clock w" and "\<not> tx_aborted w"
  using assms unfolding IncrementPendingUsageInTx_def
  by (auto simp: add_pending_def elim!: tx_exec_not_aborted)

lemma update_where_compose:
  assumes "\<And>r. q r \<Longrightarrow> \<not> p (f r)"
  shows "update_where p f (update_where q f rs) = update_where (\<lambda>r. q r \<or> p r) f rs"
  using assms by (induction rs) auto

lemma add_pending_to_Cons:
  assumes "bID b \<notin> set (map bID bs)"
  shows "add_pending_to est bs now (update_budgets (\<lambda>x. bID x = bID b)
      (\<lambda>b. b\<lparr>bPendingUsageUSD := bPendingUsageUSD b + est\<rparr>) now t) = add_pending_to est (b # bs) now t"
proof -
  let ?f = "\<lambda>b. b\<lparr>bPendingUsageUSD := bPendingUsageUSD b + est, bUpdatedAt := now\<rparr>"
  have "update_where (\<lambda>b. bID b \<in> set (map bID bs)) ?f
      (update_where (\<lambda>x. bID x = bID b) ?f (budget_definitions t)) =
    update_where (\<lambda>x. bID x = bID b \<or> bID x \<in> set (map bID bs)) ?f (budget_definitions t)"
    using assms by (intro update_where_compose) auto
  then show ?thesis
    by (simp add: add_pending_to_def update_budgets_def)
qed

lemma add_pending_to_Nil [simp]: "add_pending_to est [] now t = t"
  by (simp add: add_pending_to_def update_budgets_def)

lemma add_pending_to_reservations [simp]:
  "add_pending_to est bs now (t\<lparr>request_reservations := rs\<rparr>) =
     (add_pending_to est bs now t)\<lparr>request_reservations := rs\<rparr>"
  "update_budgets p f now (t\<lparr>request_reservations := rs\<rparr>) =
     (update_budgets p f now t)\<lparr>request_reservations := rs\<rparr>"
  "request_reservations (add_pending_to est bs now t) = request_reservations t"
  by (simp_all add: add_pending_to_def update_budgets_def)

text \<open>
  Whether some statement met a fault or a constraint need not be assumed: had one failed, the
  transaction would be aborted.
\<close>

lemma reserve_each_effect:
  assumes "reserve_each cfg rid est now bs w = (r, w')" and "\<not> tx_aborted w'"
    and "clock w = now" and "distinct (map bID bs)"
  shows "tx_db w' = reserved_tables cfg rid est now (uuids w) bs (tx_db w) \<and> r = Inr ()"
  using assms
proof (induction bs arbitrary: w)
  case Nil
  then show ?case by (simp add: reserved_tables_def)
next
  case (Cons b bs)
  obtain r1 w1 where create:
    "CreateReservationInTx (new_reservation cfg rid est now b) w = (r1, w1)" by fastforce
  obtain r2 w2 where both: "bind_op (CreateReservationInTx (new_reservation cfg rid est now b))
      (\<lambda>_. IncrementPendingUsageInTx (bID b) est) w = (r2, w2)" by fastforce
  with Cons.prems have rest: "reserve_each cfg rid est now bs w2 = (r, w')" by simp
  have ok2: "\<not> tx_aborted w2"
    using reserve_each.aborted_frame [OF rest] Cons.prems(2) by blast
  have ok1: "\<not> tx_aborted w1"
    using both create ok2 IncrementPendingUsageInTx.aborted_frame
    by (cases r1) (auto simp: bind_op_def)
  from create ok1 obtain x where x: "r1 = Inr x" "uuids w1 = Suc (uuids w)" "clock w1 = clock w"
    "tx_db w1 = (tx_db w)\<lparr>request_reservations := request_reservations (tx_db w) @
       [(new_reservation cfg rid est now b)\<lparr>rsID := uuids w, rsCreatedAt := clock w\<rparr>]\<rparr>"
    by (rule CreateReservationInTx_effect)
  with both create have inc: "IncrementPendingUsageInTx (bID b) est w1 = (r2, w2)" by simp
  note i = IncrementPendingUsageInTx_effect [OF inc ok2]
  have "tx_db w' = reserved_tables cfg rid est now (uuids w2) bs (tx_db w2) \<and> r = Inr ()"
    using Cons.IH [OF rest Cons.prems(2)] Cons.prems(3,4) i x by simp
  then show ?case
    using Cons.prems(3,4) i x add_pending_to_Cons [of b bs]
    by (simp add: reserved_tables_def)
qed

text \<open>The budgets a request matches, as the operation finds them.\<close>

definition matching_budgets :: "('a, 'p) cel_env \<Rightarrow> eval_context \<Rightarrow> tables \<Rightarrow> budget list" where
  "matching_budgets env ctx t =
     sortBudgetsByHierarchy (filter (\<lambda>b. matches env ctx (bMatchExpression b)) (enabled_budgets t))"

lemma set_order_by [simp]: "set (order_by k rs) = set rs"
  by (simp add: order_by_def)

lemma set_enabled_budgets:
  "set (enabled_budgets t) = {b \<in> set (budget_definitions t). enforced_budget b}"
  by (auto simp: enabled_budgets_def)

lemma distinct_map_order_by: "distinct (map k rs) \<Longrightarrow> distinct (map k (order_by f rs))"
  by (simp add: order_by_def distinct_map)

lemma tables_ok_distinct: "tables_ok t \<Longrightarrow> distinct (map bID (budget_definitions t))"
  by (simp add: tables_ok_def)

lemma distinct_matching_budgets:
  assumes "tables_ok t"
  shows "distinct (map bID (matching_budgets env ctx t))"
  unfolding matching_budgets_def enabled_budgets_def
  by (intro distinct_sortBudgetsByHierarchy distinct_map_filter distinct_map_order_by
      tables_ok_distinct assms)

lemma set_matching_budgets:
  assumes "tables_ok t"
  shows "set (matching_budgets env ctx t) =
    {b \<in> set (budget_definitions t). enforced_budget b \<and> matches env ctx (bMatchExpression b)}"
  using assms
  by (auto simp: matching_budgets_def set_sortBudgetsByHierarchy set_enabled_budgets tables_ok_def)

lemma set_enabled_subset: "set (take n (enabled_budgets t)) \<subseteq> set (budget_definitions t)"
  using set_take_subset [of n "enabled_budgets t"] by (auto simp: set_enabled_budgets)

lemma reserved_run:
  assumes ok: "tables_ok (db w)" and sound: "cache_sound env (svPrograms s)"
    and start: "tx_begin w = (Inr (), w1)"
    and query: "GetEnabledBudgetsForUpdate w1 = (Inr budgets, w2)"
    and filt: "filter_matching env bMatchExpression ctx (svPrograms s) budgets = (matched, progs)"
    and est: "EstimateCost cfg m (s\<lparr>svPrograms := progs\<rparr>) w2 = (est, s3, w3)"
    and bs: "bs = sortBudgetsByHierarchy matched"
    and res: "reserve_each cfg rid est (clock w3) bs w3 = (r4, w4)"
    and com: "tx_commit w4 = (Inr (), w')"
  shows "bs = matching_budgets env ctx (db w)"
    and "db w' = reserved_tables cfg rid est (clock w) (uuids w3) bs (db w)"
    and "uuids w \<le> uuids w3"
proof -
  note b = tx_begin_frame [OF start] and c = tx_commit_frame [OF com]
  note e = EstimateCost_frame [OF est, unfolded query_frame_def]
  note q = GetEnabledBudgetsForUpdate_run [OF query]
  have "\<not> tx_aborted w3" using c(5) reserve_each.aborted_frame [OF res] by blast
  then have "\<not> tx_aborted w2" using e by simp
  then have "budgets = enabled_budgets (db w)" using q(5) [of budgets] b(5) by simp
  moreover have "matched = filter (\<lambda>b. matches env ctx (bMatchExpression b)) budgets"
    using filter_matching_fresh [OF sound, of bMatchExpression ctx budgets] filt by simp
  ultimately show bs_eq: "bs = matching_budgets env ctx (db w)"
    by (simp add: bs matching_budgets_def)
  have dist: "distinct (map bID bs)" unfolding bs_eq by (rule distinct_matching_budgets [OF ok])
  have aborted: "\<not> tx_aborted w4" and final: "db w' = tx_db w4" using c(5) by simp_all
  have tx3: "tx_db w3 = db w" and clk: "clock w3 = clock w"
    using e b q GetEnabledBudgetsForUpdate.clock_frame [OF query] by simp_all
  show "db w' = reserved_tables cfg rid est (clock w) (uuids w3) bs (db w)"
    using reserve_each_effect [OF res aborted refl dist] final tx3 clk by simp
  show "uuids w \<le> uuids w3" using e b q by simp
qed

section \<open>Main properties of the admission\<close>

lemma check_ends:
  assumes "CheckAndReserveBudget env cfg ctx m rid s w = (r, s', w')"
  shows "open_txs w' = open_txs w \<and>
    ((case r of Inl e \<Rightarrow> True | Inr c \<Rightarrow> \<not> crAllowed c \<or> crMatchedBudgets c = []) \<longrightarrow> db w' = db w)"
  using assms
proof (cases rule: CheckAndReserveBudget_cases)
  case (reserved est budgets matched progs bs s3 w1 w2 w3 r4 w4)
  show ?thesis
  proof (cases "bs = []")
    case True
    with reserved have "w4 = w3" by simp
    then show ?thesis
      using reserved(11) tx_commit_frame(5) [OF reserved(10)] EstimateCost_frame [OF reserved(7)]
        GetEnabledBudgetsForUpdate_run(1) [OF reserved(4)] tx_begin_frame(5) [OF reserved(3)]
      by (auto simp: query_frame_def)
  qed (simp add: reserved allow_result_def)
qed (simp_all add: deny_result_def allow_unmatched_def)

text \<open>
  C4: \<open>CheckAndReserveBudget\<close> is all or nothing. When it returns an error, or refuses the
  request, or no budget matches, the database is exactly what it was before, whatever statement
  of the transaction failed; and on every way out the transaction has been ended.
\<close>

theorem CheckAndReserveBudget_all_or_nothing:
  assumes "CheckAndReserveBudget env cfg ctx m rid s w = (r, s', w')"
  shows "open_txs w' = open_txs w \<and>
    ((case r of Inl e \<Rightarrow> True | Inr c \<Rightarrow> \<not> crAllowed c \<or> crMatchedBudgets c = []) \<longrightarrow> db w' = db w)"
  by (rule check_ends [OF assms])

lemma admission_effect:
  assumes "tables_ok (db w)" and "cache_sound env (svPrograms s)"
    and "CheckAndReserveBudget env cfg ctx m rid s w = (Inr c, s', w')"
    and "crAllowed c" and "crMatchedBudgets c \<noteq> []"
  shows "crMatchedBudgets c = matching_budgets env ctx (db w) \<and>
    (\<forall>b \<in> set (crMatchedBudgets c). has_capacity (crEstimatedCost c) (crMatchedBudgets c) b) \<and>
    (\<exists>u \<ge> uuids w. db w' =
       reserved_tables cfg rid (crEstimatedCost c) (clock w) u (crMatchedBudgets c) (db w))"
  using assms(3)
proof (cases rule: CheckAndReserveBudget_cases)
  case (reserved est budgets matched progs bs s3 w1 w2 w3 r4 w4)
  note run = reserved_run [OF assms(1,2) reserved(3-5,7-10)]
  have c: "crMatchedBudgets c = bs" "crEstimatedCost c = est"
    using reserved(1) by (simp_all add: allow_result_def)
  have "\<forall>b \<in> set bs. has_capacity est bs b"
    using reserved(2) check_sorted_admits distinct_matching_budgets [OF assms(1)] run(1) by metis
  with run show ?thesis unfolding c by blast
qed (use assms(4,5) in \<open>auto simp: deny_result_def allow_unmatched_def\<close>)

text \<open>
  C2: admission is sound and its effect is exact. When the request is allowed against budgets,
  these are all the enabled and approved budgets whose expression matches, each of them has the
  estimated amount left or falls back on a matching parent that has it, and the database
  differs from before by one reservation per budget and the estimate added to the pending amount
  of each. No assumption says that no statement failed: a commit that succeeds proves it.
\<close>

theorem CheckAndReserveBudget_allowed:
  assumes "tables_ok (db w)" and "cache_sound env (svPrograms s)"
    and "CheckAndReserveBudget env cfg ctx m rid s w = (Inr c, s', w')"
    and "crAllowed c" and "crMatchedBudgets c \<noteq> []"
  shows "crMatchedBudgets c = matching_budgets env ctx (db w) \<and>
    (\<forall>b \<in> set (crMatchedBudgets c). has_capacity (crEstimatedCost c) (crMatchedBudgets c) b) \<and>
    (\<exists>u \<ge> uuids w. db w' =
       reserved_tables cfg rid (crEstimatedCost c) (clock w) u (crMatchedBudgets c) (db w))"
  by (rule admission_effect [OF assms])

text \<open>
  After an admission, a matched budget that does not fall back has the estimate pending and
  is not overdrawn: what remains is what remained less the estimate, and it is not negative.
\<close>

lemma reserved_tables_budget:
  assumes "b' \<in> set (budget_definitions (reserved_tables cfg rid est now u bs t))"
  obtains b where "b \<in> set (budget_definitions t)" and "bID b' = bID b"
    and "bAllowFallback b' = bAllowFallback b"
    and "bPendingUsageUSD b' = bPendingUsageUSD b + (if bID b \<in> set (map bID bs) then est else 0)"
    and "CalculateRemaining b' = CalculateRemaining b - (if bID b \<in> set (map bID bs) then est else 0)"
  using assms
  by (auto simp: reserved_tables_def add_pending_to_def update_budgets_def set_update_where
      CalculateRemaining_def split: if_splits)

section \<open>Constraints across the transaction\<close>

lemma query_frame_world_ok: "query_frame w w' \<Longrightarrow> world_ok w \<Longrightarrow> world_ok w'"
  by (simp add: query_frame_def world_ok_def)

lemma commit_ignored_world_ok: "world_ok w \<Longrightarrow> world_ok (commit_ignored w)"
  unfolding commit_ignored_def by (cases "tx_commit w") (auto dest: wf_op.keeps_ok [OF wf_op_tx_commit])

lemma tx_rollback_world_ok: "world_ok w \<Longrightarrow> world_ok (tx_rollback w)"
  by (simp add: tx_rollback_def world_ok_def)

lemma CheckAndReserveBudget_world_ok:
  assumes run: "CheckAndReserveBudget env cfg ctx m rid s w = (r, s', w')" and ok: "world_ok w"
  shows "world_ok w'"
proof -
  obtain rb w1 where begin1: "tx_begin w = (rb, w1)" by fastforce
  obtain rq w2 where query: "GetEnabledBudgetsForUpdate w1 = (rq, w2)" by fastforce
  have ok1: "world_ok w1" and ok2: "world_ok w2"
    using wf_op.keeps_ok [OF wf_op_tx_begin begin1 ok]
      wf_op.keeps_ok [OF wf_op_tx_rows query [unfolded GetEnabledBudgetsForUpdate_def]] by blast+
  have later: "world_ok w4" if "EstimateCost cfg m s1 w2 = (est, s3, w3)"
    "reserve_each cfg rid est now bs w3 = (r4, w4)" for s1 est s3 w3 now bs r4 w4
    using that query_frame_world_ok [OF EstimateCost_frame ok2]
      wf_op.keeps_ok [OF wf_op_reserve_each] by blast
  note est_ok = query_frame_world_ok [OF EstimateCost_frame ok2]
    and commit_ok = wf_op.keeps_ok [OF wf_op_tx_commit _ later]
  show ?thesis
    using run begin1 query ok1 ok2
    unfolding CheckAndReserveBudget_def Let_def
    by (auto split: sum.splits prod.splits if_splits option.splits
        intro: commit_ignored_world_ok tx_rollback_world_ok est_ok commit_ok)
qed

section \<open>Sequences of requests\<close>

text \<open>
  The requests, the two periodic jobs and the passing of time, in any order. Charges are not
  steps of this relation: an actual cost may exceed its estimate.
\<close>

inductive admission_step ::
  "('a, 'p) cel_env \<Rightarrow> config \<Rightarrow> 'p service \<times> world \<Rightarrow> 'p service \<times> world \<Rightarrow> bool"
  for env cfg where
  request: "CheckAndReserveBudget env cfg ctx m rid s w = (r, s', w') \<Longrightarrow>
    admission_step env cfg (s, w) (s', w')"
| cleanup: "service_CleanupExpiredReservations s w = (r, s', w') \<Longrightarrow>
    admission_step env cfg (s, w) (s', w')"
| reset: "service_ResetExpiredBudgets s w = (r, s', w') \<Longrightarrow>
    admission_step env cfg (s, w) (s', w')"
| tick: "clock w \<le> now \<Longrightarrow> admission_step env cfg (s, w) (s, w\<lparr>clock := now, faults := fs\<rparr>)"

inductive_cases admission_stepE: "admission_step env cfg (s, w) (s', w')"

definition sane_config :: "config \<Rightarrow> bool" where
  "sane_config cfg \<longleftrightarrow> 0 \<le> cfgDefaultEstimatedInputTokens cfg \<and>
     0 \<le> cfgDefaultEstimatedOutputTokens cfg \<and> 0 \<le> cfgDefaultEstimationMultiplier cfg"

definition sane_budget :: "budget \<Rightarrow> bool" where
  "sane_budget b \<longleftrightarrow> 0 \<le> bBudgetAmountUSD b \<and> 0 \<le> bPendingUsageUSD b \<and>
     (\<not> bAllowFallback b \<longrightarrow> 0 \<le> CalculateRemaining b)"

definition sane_tables :: "tables \<Rightarrow> bool" where
  "sane_tables t \<longleftrightarrow> (\<forall>b \<in> set (budget_definitions t). sane_budget b) \<and>
     (\<forall>r \<in> set (request_reservations t). 0 \<le> rsEstimatedCostUSD r)"

definition never_overdrawn :: "('a, 'p) cel_env \<Rightarrow> 'p service \<times> world \<Rightarrow> bool" where
  "never_overdrawn env sw \<longleftrightarrow> (case sw of (s, w) \<Rightarrow>
     world_ok w \<and> cache_sound env (svPrograms s) \<and> prices_ok s w \<and> sane_tables (db w))"

lemma reservation_rows_cost:
  "r \<in> set (reservation_rows cfg rid est now u bs) \<Longrightarrow> rsEstimatedCostUSD r = est"
  by (induction bs arbitrary: u) (auto simp: new_reservation_def)

lemma reserved_tables_simps [simp]:
  "model_costs (reserved_tables cfg rid est now u bs t) = model_costs t"
  "request_reservations (reserved_tables cfg rid est now u bs t) =
     request_reservations t @ reservation_rows cfg rid est now u bs"
  by (simp_all add: reserved_tables_def add_pending_to_def)

lemma sane_reserved_tables:
  assumes ok: "tables_ok t" and sane: "sane_tables t" and est: "0 \<le> est"
    and bs: "set bs \<subseteq> set (budget_definitions t)"
    and cap: "\<forall>b \<in> set bs. \<not> bAllowFallback b \<longrightarrow> est \<le> CalculateRemaining b"
  shows "sane_tables (reserved_tables cfg rid est now u bs t)"
proof -
  have "sane_budget b'"
    if b': "b' \<in> set (budget_definitions (reserved_tables cfg rid est now u bs t))" for b'
  proof -
    from b' obtain b where b: "b \<in> set (budget_definitions t)"
      and b'_eq: "b' = (if bID b \<in> set (map bID bs)
        then b\<lparr>bPendingUsageUSD := bPendingUsageUSD b + est, bUpdatedAt := now\<rparr> else b)"
      by (auto simp: reserved_tables_def add_pending_to_def update_budgets_def set_update_where)
    have "sane_budget b" using sane b by (simp add: sane_tables_def)
    moreover have "b \<in> set bs" if "bID b \<in> set (map bID bs)"
      using that b bs tables_ok_distinct [OF ok] by (auto simp: distinct_map dest: inj_onD)
    ultimately show ?thesis
      using cap est unfolding b'_eq sane_budget_def CalculateRemaining_def by auto
  qed
  moreover have "0 \<le> rsEstimatedCostUSD r"
    if "r \<in> set (request_reservations (reserved_tables cfg rid est now u bs t))" for r
    using that sane est by (auto simp: sane_tables_def dest: reservation_rows_cost)
  ultimately show ?thesis by (simp add: sane_tables_def)
qed

section \<open>What every step keeps\<close>

lemma EstimateCost_state:
  assumes "EstimateCost cfg m s w = (est, s', w')"
  obtains r where "GetModelCost cfg m s w = (r, s', w')"
  using assms unfolding EstimateCost_def CalculateCost_def
  by (cases "GetModelCost cfg m s w"; cases "fst (GetModelCost cfg m s w)")
    (auto split: db_error.splits)

lemma EstimateCost_prices:
  assumes "prices_ok s w" and "EstimateCost cfg m s w = (est, s', w')"
  shows "prices_ok s' w'"
  using assms(2) by (rule EstimateCost_state) (auto dest: GetModelCost_priced [OF assms(1)])

lemma prices_ok_cong: "prices_ok s w \<Longrightarrow> svCosts s' = svCosts s \<Longrightarrow> db w' = db w \<Longrightarrow> prices_ok s' w'"
  by (simp add: prices_ok_def)

definition good_caches :: "('a, 'p) cel_env \<Rightarrow> 'p service \<Rightarrow> bool" where
  "good_caches env s \<longleftrightarrow> cache_sound env (svPrograms s) \<and> (\<forall>m mc. svCosts s m = Some mc \<longrightarrow> priced mc)"

lemma good_caches_invalidate: "good_caches env s \<Longrightarrow> good_caches env (invalidate_budget_cache s)"
  by (simp add: good_caches_def invalidate_budget_cache_def)

lemma CheckAndReserveBudget_caches:
  assumes run: "CheckAndReserveBudget env cfg ctx m rid s w = (r, s', w')"
    and good: "good_caches env s" and prices: "prices_ok s w"
  shows "good_caches env s'"
proof -
  obtain rb w1 where begin1: "tx_begin w = (rb, w1)" by fastforce
  obtain rq w2 where query: "GetEnabledBudgetsForUpdate w1 = (rq, w2)" by fastforce
  have db2: "db w2 = db w"
    using tx_begin_frame(1) [OF begin1] GetEnabledBudgetsForUpdate.db_frame [OF query] by simp
  have cached: "good_caches env (s\<lparr>svPrograms := progs\<rparr>)"
    if "filter_matching env bMatchExpression ctx (svPrograms s) bs = (ms, progs)" for bs ms progs
    using filter_matching_fresh [of env "svPrograms s" bMatchExpression ctx bs] that good
    by (simp add: good_caches_def)
  have est: "good_caches env s3"
    if f: "filter_matching env bMatchExpression ctx (svPrograms s) bs = (ms, progs)"
      and e: "EstimateCost cfg m (s\<lparr>svPrograms := progs\<rparr>) w2 = (est, s3, w3)" for bs ms progs est s3 w3
  proof -
    have "prices_ok (s\<lparr>svPrograms := progs\<rparr>) w2"
      by (rule prices_ok_cong [OF prices _ db2]) simp
    then have "prices_ok s3 w3" by (rule EstimateCost_prices [OF _ e])
    moreover have "cache_sound env progs"
      using cached [OF f] by (simp add: good_caches_def)
    moreover have "svPrograms s3 = progs"
      using EstimateCost_keeps [OF e] by simp
    ultimately show ?thesis
      unfolding good_caches_def prices_ok_def by blast
  qed
  show ?thesis
  proof (cases "(\<exists>e. rb = Inl e) \<or> (\<exists>e. rq = Inl e) \<or> rq = Inr []")
    case True
    have "s' = s" if "rb = Inl e" for e
      using run begin1 that by (simp add: CheckAndReserveBudget_def)
    moreover have "s' = s" if "rb = Inr u" "rq = Inl e \<or> rq = Inr []" for u e
      using run begin1 query that by (auto simp: CheckAndReserveBudget_def)
    ultimately have "s' = s" using True by (cases rb) auto
    with good show ?thesis by simp
  next
    case False
    then obtain u budgets where rbq: "rb = Inr u" "rq = Inr budgets" "budgets \<noteq> []"
      by (metis sum.exhaust)
    obtain ms progs where f: "filter_matching env bMatchExpression ctx (svPrograms s) budgets = (ms, progs)"
      by fastforce
    obtain est s3 w3 where e: "EstimateCost cfg m (s\<lparr>svPrograms := progs\<rparr>) w2 = (est, s3, w3)"
      by (cases "EstimateCost cfg m (s\<lparr>svPrograms := progs\<rparr>) w2") auto
    have "s' = s\<lparr>svPrograms := progs\<rparr> \<or> s' = s3 \<or> s' = invalidate_budget_cache s3"
      using run begin1 query rbq f e unfolding CheckAndReserveBudget_def Let_def
      by (simp split: if_splits option.splits prod.splits sum.splits)
    then show ?thesis
      using cached [OF f] est [OF f e] good_caches_invalidate by metis
  qed
qed

text \<open>A predicate on the tables that an operation keeps, whatever it returns.\<close>

definition db_keeps :: "(tables \<Rightarrow> bool) \<Rightarrow> 'a op \<Rightarrow> bool" where
  "db_keeps P f \<longleftrightarrow> (\<forall>w r w'. f w = (r, w') \<longrightarrow> P (db w) \<longrightarrow> P (db w'))"

lemma db_keepsD: "db_keeps P f \<Longrightarrow> f w = (r, w') \<Longrightarrow> P (db w) \<Longrightarrow> P (db w')"
  by (simp add: db_keeps_def)

lemma db_keeps_return: "db_keeps P (return_op x)"
  by (simp add: db_keeps_def)

lemma db_keeps_query: "tx_op f \<Longrightarrow> db_keeps P f"
  by (auto simp: db_keeps_def dest: tx_op.db_frame)

lemma db_keeps_exec:
  assumes "\<And>now t x t'. P t \<Longrightarrow> f now t = Some (x, t') \<Longrightarrow> P t'"
  shows "db_keeps P (sql_exec msg f)"
  using assms
  by (auto simp: db_keeps_def sql_exec_def pop_fault_def split: fault.splits list.splits option.splits)

lemma db_keeps_bind:
  assumes "db_keeps P m" and "\<And>w x w1. m w = (Inr x, w1) \<Longrightarrow> P (db w) \<Longrightarrow> db_keeps P (k x)"
  shows "db_keeps P (bind_op m k)"
  unfolding db_keeps_def
proof (intro allI impI)
  fix w r w'
  assume "bind_op m k w = (r, w')" and P: "P (db w)"
  then show "P (db w')"
    by (cases rule: bind_op_cases)
      (blast intro: db_keepsD [OF assms(1)] db_keepsD [OF assms(2)])+
qed

lemma sane_tables_update:
  assumes "sane_tables t" and "\<And>b. sane_budget b \<Longrightarrow> sane_budget (f b)"
  shows "sane_tables (update_budgets p f now t)"
proof -
  have "sane_budget (b\<lparr>bUpdatedAt := now\<rparr>) = sane_budget b" for b
    by (simp add: sane_budget_def CalculateRemaining_def)
  with assms show ?thesis
    by (auto simp: sane_tables_def update_budgets_def set_update_where)
qed

text \<open>Sane tables whose prices are those of the start.\<close>

definition sane_from :: "model_cost list \<Rightarrow> tables \<Rightarrow> bool" where
  "sane_from mcs t \<longleftrightarrow> sane_tables t \<and> model_costs t = mcs"

lemma sane_from_update:
  assumes "sane_from mcs t" and "\<And>b. sane_budget b \<Longrightarrow> sane_budget (f b)"
  shows "sane_from mcs (update_budgets p f now t)"
  using assms sane_tables_update by (simp add: sane_from_def)

lemma sane_release_pending:
  assumes "\<forall>bc \<in> set bcs. 0 \<le> snd bc"
  shows "db_keeps (sane_from mcs) (release_pending bcs)"
  using assms
proof (induction bcs rule: release_pending.induct)
  case (2 i cost bcs)
  have "sane_from mcs t'" if "sane_from mcs t" "subtract_pending i cost now t = Some (x, t')"
    for now t x t'
    using that 2(2) unfolding subtract_pending_def
    by (auto intro!: sane_from_update simp: sane_budget_def CalculateRemaining_def)
  with 2 show ?case
    by (auto intro!: db_keeps_bind db_keeps_exec)
qed (simp add: db_keeps_def)

lemma group_reservations_nonneg:
  "\<forall>r \<in> set rs. 0 \<le> rsEstimatedCostUSD r \<Longrightarrow> bc \<in> set (group_reservations rs) \<Longrightarrow> 0 \<le> snd bc"
  by (auto simp: group_reservations_def intro: reserved_on_nonneg)

lemma sql_rows_subset:
  assumes "sql_rows c msg q w = (Inr rs, w')"
  shows "set rs \<subseteq> set (q (clock w) (db w))"
  using assms
  by (auto simp: sql_rows_def pop_fault_def split: fault.splits list.splits if_splits dest: in_set_takeD)

lemma sane_CleanupExpiredReservations: "db_keeps (sane_from mcs) CleanupExpiredReservations"
  unfolding CleanupExpiredReservations_def
proof (rule db_keeps_bind [OF db_keeps_query [OF query_op_imp_tx [OF query_op_sql_rows]]])
  fix w bcs w1
  assume rows: "sql_rows False ''failed to query expired reservations''
      (\<lambda>now t. group_reservations (filter (expired_reservation now) (request_reservations t))) w
    = (Inr bcs, w1)"
    and sane: "sane_from mcs (db w)"
  have costs: "\<forall>r \<in> set (filter (expired_reservation (clock w)) (request_reservations (db w))).
      0 \<le> rsEstimatedCostUSD r"
    using sane by (simp add: sane_from_def sane_tables_def)
  have "\<forall>bc \<in> set bcs. 0 \<le> snd bc"
    using sql_rows_subset [OF rows] group_reservations_nonneg [OF costs] by blast
  moreover have "sane_from mcs t'"
    if "sane_from mcs t" "delete_reservations expired_reservation now t = Some (x, t')" for now t x t'
    using that by (auto simp: delete_reservations_def sane_from_def sane_tables_def)
  ultimately show "db_keeps (sane_from mcs)
      (bind_op (sql_exec ''failed to delete expired reservations'' (delete_reservations expired_reservation))
         (\<lambda>n. bind_op (release_pending bcs) (\<lambda>_. return_op n)))"
    by (intro db_keeps_bind db_keeps_exec sane_release_pending db_keeps_return) auto
qed

lemma sane_reset_queries: "db_keeps (sane_from mcs) (reset_queries qs n)"
proof (induction qs arbitrary: n)
  case (Cons q qs)
  have "sane_from mcs t'" if "sane_from mcs t" "reset_where q now t = Some (x, t')" for now t x t'
    using that unfolding reset_where_def
    by (auto intro!: sane_from_update simp: sane_budget_def reset_budget_def CalculateRemaining_def)
  with Cons show ?case
    by (auto intro!: db_keeps_bind db_keeps_exec)
qed (simp add: db_keeps_def)

end
