(* ===== verification/Admission.thy ===== *)
theory Admission
  imports Budget_Check
begin

text \<open>
  What the admission check guarantees over time: the budgets that do not fall back are
  never overdrawn by any sequence of requests, clean-ups and resets; when nothing fails, a
  request is admitted exactly when every matching budget has capacity. Then the limits of the
  guarantee: a row stream that is cut, and the remaining amount the result reports.
\<close>

lemma request_keeps_sane:
  assumes cfg: "sane_config cfg" and inv: "never_overdrawn env (s, w)"
    and run: "CheckAndReserveBudget env cfg ctx m rid s w = (r, s', w')"
  shows "never_overdrawn env (s', w')"
proof -
  from inv have ok: "world_ok w" and tok: "tables_ok (db w)" and sound: "cache_sound env (svPrograms s)"
    and prices: "prices_ok s w" and sane: "sane_tables (db w)"
    by (simp_all add: never_overdrawn_def world_ok_def)
  have caches: "good_caches env s'"
    using CheckAndReserveBudget_caches [OF run _ prices] sound prices
    by (simp add: good_caches_def prices_ok_def)
  have ok': "world_ok w'" by (rule CheckAndReserveBudget_world_ok [OF run ok])
  have "sane_tables (db w') \<and> model_costs (db w') = model_costs (db w)"
    using run
  proof (cases rule: CheckAndReserveBudget_cases)
    case (reserved est budgets matched progs bs s3 w1 w2 w3 r4 w4)
    note facts = reserved_run [OF tok sound reserved(3-5,7-10)]
    have "db w2 = db w"
      using tx_begin_frame(1) [OF reserved(3)] GetEnabledBudgetsForUpdate.db_frame [OF reserved(4)] by simp
    then have "prices_ok (s\<lparr>svPrograms := progs\<rparr>) w2"
      by (intro prices_ok_cong [OF prices]) simp_all
    then have est: "0 \<le> est"
      using EstimateCost_nonneg [OF _ reserved(7)] cfg by (simp add: sane_config_def)
    have sub: "set bs \<subseteq> set (budget_definitions (db w))"
      using set_matching_budgets [OF tok] facts(1) by auto
    have "\<forall>b \<in> set bs. has_capacity est bs b"
      using reserved(2) check_sorted_admits distinct_matching_budgets [OF tok] facts(1) by metis
    then have "\<forall>b \<in> set bs. \<not> bAllowFallback b \<longrightarrow> est \<le> CalculateRemaining b"
      by (auto simp: has_capacity_def)
    from sane_reserved_tables [OF tok sane est sub this] show ?thesis
      by (simp add: facts(2))
  qed (use sane in simp_all)
  with ok' caches prices show ?thesis
    by (simp add: never_overdrawn_def good_caches_def prices_ok_def)
qed

lemma admission_step_keeps:
  assumes "admission_step env cfg sw sw'" and cfg: "sane_config cfg" and "never_overdrawn env sw"
  shows "never_overdrawn env sw'"
  using assms(1,3)
proof cases
  case (request ctx m rid s w r s' w')
  then show ?thesis using request_keeps_sane [OF cfg] assms(3) by simp
next
  case (cleanup s w r s' w')
  then have run: "CleanupExpiredReservations w = (r, w')" and s': "s' = s"
    by (simp_all add: service_CleanupExpiredReservations_def split: prod.splits)
  show ?thesis
    using assms(3) db_keepsD [OF sane_CleanupExpiredReservations run, of "model_costs (db w)"]
      CleanupExpiredReservations_wf.keeps_ok [OF run]
    by (simp add: cleanup s' never_overdrawn_def sane_from_def prices_ok_def)
next
  case (reset s w r s' w')
  obtain r1 where run: "ResetExpiredBudgets w = (r1, w')"
    and s': "svPrograms s' = svPrograms s" "svCosts s' = svCosts s"
    using reset(3)
    by (auto simp: service_ResetExpiredBudgets_def invalidate_budget_cache_def
        split: prod.splits sum.splits if_splits)
  show ?thesis
    using assms(3) db_keepsD [OF sane_reset_queries run [unfolded ResetExpiredBudgets_def],
        of "model_costs (db w)"] ResetExpiredBudgets_wf.keeps_ok [OF run]
    by (simp add: reset s' never_overdrawn_def sane_from_def prices_ok_def)
next
  case (tick w now s fs)
  then show ?thesis using assms(3) by (simp add: never_overdrawn_def world_ok_def prices_ok_def)
qed

text \<open>
  C1: no sequence of requests, clean-ups, resets and clock ticks, whatever statements fail in
  it, makes a budget that does not allow fallback owe more than its amount: usage and pending
  together stay within the budget.
\<close>

theorem no_oversubscription:
  assumes "sane_config cfg" and "never_overdrawn env (s, w)"
    and "(admission_step env cfg)\<^sup>*\<^sup>* (s, w) (s', w')"
    and "b \<in> set (budget_definitions (db w'))" and "\<not> bAllowFallback b"
  shows "bCurrentUsageUSD b + bPendingUsageUSD b \<le> bBudgetAmountUSD b"
proof -
  have "never_overdrawn env (s', w')"
    using assms(3,2) by (induction rule: rtranclp_induct2) (auto intro: admission_step_keeps [OF _ assms(1)])
  with assms(4,5) show ?thesis
    by (auto simp: never_overdrawn_def sane_tables_def sane_budget_def CalculateRemaining_def)
qed

section \<open>Without faults\<close>

definition fresh_ids :: "world \<Rightarrow> tables \<Rightarrow> bool" where
  "fresh_ids w t \<longleftrightarrow> (\<forall>r \<in> set (request_reservations t). rsID r < uuids w)"

text \<open>What the loop over the budgets needs to insert a reservation for each.\<close>

definition can_reserve :: "string \<Rightarrow> budget list \<Rightarrow> world \<Rightarrow> bool" where
  "can_reserve rid bs w \<longleftrightarrow> faults w = [] \<and> \<not> tx_aborted w \<and> fresh_ids w (tx_db w) \<and>
     bID ` set bs \<subseteq> bID ` set (budget_definitions (tx_db w)) \<and>
     (\<forall>r \<in> set (request_reservations (tx_db w)). rsRequestID r = rid \<longrightarrow> rsBudgetID r \<notin> bID ` set bs)"

lemma reserve_each_quiet:
  assumes "can_reserve rid bs w" and "distinct (map bID bs)"
  shows "\<not> tx_aborted (snd (reserve_each cfg rid est now bs w)) \<and>
    faults (snd (reserve_each cfg rid est now bs w)) = []"
  using assms
proof (induction bs arbitrary: w)
  case (Cons b bs)
  let ?res = "(new_reservation cfg rid est now b)\<lparr>rsID := uuids w, rsCreatedAt := clock w\<rparr>"
  let ?t = "update_budgets (\<lambda>x. bID x = bID b)
      (\<lambda>b. b\<lparr>bPendingUsageUSD := bPendingUsageUSD b + est\<rparr>) (clock w)
      ((tx_db w)\<lparr>request_reservations := request_reservations (tx_db w) @ [?res]\<rparr>)"
  let ?w = "w\<lparr>uuids := Suc (uuids w), tx_db := ?t\<rparr>"
  have ins: "insert_reservation ?res (clock w) (tx_db w) =
      Some ((), (tx_db w)\<lparr>request_reservations := request_reservations (tx_db w) @ [?res]\<rparr>)"
    using Cons.prems by (fastforce simp: insert_reservation_def can_reserve_def fresh_ids_def new_reservation_def)
  have step: "bind_op (CreateReservationInTx (new_reservation cfg rid est now b))
      (\<lambda>_. IncrementPendingUsageInTx (bID b) est) w = (Inr (), ?w)"
    using Cons.prems(1) ins
    by (simp add: bind_op_def CreateReservationInTx_def IncrementPendingUsageInTx_def uuid_op_def
        uuid_New_def now_op_def Let_def can_reserve_def add_pending_def)
  have "map bID (budget_definitions ?t) = map bID (budget_definitions (tx_db w))"
    using update_budgets_ids [of "\<lambda>b. b\<lparr>bPendingUsageUSD := bPendingUsageUSD b + est\<rparr>"]
    by (simp add: same_keys_def)
  then have ids: "bID ` set (budget_definitions ?t) = bID ` set (budget_definitions (tx_db w))"
    by (metis set_map)
  have "request_reservations ?t = request_reservations (tx_db w) @ [?res]" by simp
  then have "can_reserve rid bs ?w"
    using Cons.prems ids unfolding can_reserve_def fresh_ids_def
    by (auto simp: new_reservation_def less_Suc_eq)
  then show ?case
    using Cons.IH [of ?w] Cons.prems(2) step by simp
qed (simp add: can_reserve_def)

text \<open>
  C7: when no statement fails and the request has no reservation yet, the check is complete: it
  returns a result about exactly the matching budgets, and allows the request if and only
  if each of them has the estimated amount left or a matching parent to fall back on.
\<close>

theorem CheckAndReserveBudget_decides:
  assumes quiet: "faults w = []" and ok: "tables_ok (db w)" and sound: "cache_sound env (svPrograms s)"
    and fresh: "fresh_ids w (db w)" and new: "unreserved rid (db w)"
  shows "\<exists>c s' w'. CheckAndReserveBudget env cfg ctx m rid s w = (Inr c, s', w') \<and>
    crMatchedBudgets c = matching_budgets env ctx (db w) \<and>
    (crAllowed c \<longleftrightarrow> (\<forall>b \<in> set (matching_budgets env ctx (db w)).
       has_capacity (crEstimatedCost c) (matching_budgets env ctx (db w)) b))"
proof -
  let ?w1 = "w\<lparr>tx_db := db w, tx_aborted := False, open_txs := Suc (open_txs w)\<rparr>"
  let ?bs = "matching_budgets env ctx (db w)"
  have start: "tx_begin w = (Inr (), ?w1)" using quiet by simp
  have query: "GetEnabledBudgetsForUpdate ?w1 = (Inr (enabled_budgets (db w)), ?w1)"
    using quiet by (simp add: GetEnabledBudgetsForUpdate_def)
  obtain matched progs where filt:
    "filter_matching env bMatchExpression ctx (svPrograms s) (enabled_budgets (db w)) = (matched, progs)"
    by fastforce
  have matched: "matched = filter (\<lambda>b. matches env ctx (bMatchExpression b)) (enabled_budgets (db w))"
    using filter_matching_fresh [OF sound, of bMatchExpression ctx "enabled_budgets (db w)"] filt by simp
  then have bs: "?bs = sortBudgetsByHierarchy matched" by (simp add: matching_budgets_def)
  have dist: "distinct (map bID ?bs)" by (rule distinct_matching_budgets [OF ok])
  show ?thesis
  proof (cases "matched = []")
    case True
    then have "?bs = []" by (simp add: bs sortBudgetsByHierarchy_def)
    with True start query filt show ?thesis
      by (auto simp: CheckAndReserveBudget_def allow_unmatched_def)
  next
    case False
    then have nonempty: "enabled_budgets (db w) \<noteq> []" using matched by auto
    obtain est s3 w3 where est: "EstimateCost cfg m (s\<lparr>svPrograms := progs\<rparr>) ?w1 = (est, s3, w3)"
      by (cases "EstimateCost cfg m (s\<lparr>svPrograms := progs\<rparr>) ?w1") auto
    note e = EstimateCost_frame [OF est, unfolded query_frame_def]
    show ?thesis
    proof (cases "csRateLimitedAt (check_sorted est ?bs)")
      case (Some i)
      then have "\<not> (\<forall>b \<in> set ?bs. has_capacity est ?bs b)"
        using check_sorted_admits [OF dist, of est] by simp
      with start query filt False nonempty est Some show ?thesis
        by (simp add: CheckAndReserveBudget_def Let_def deny_result_def flip: bs)
    next
      case None
      have "can_reserve rid ?bs w3"
        using e quiet fresh new set_matching_budgets [OF ok, of env ctx]
        by (auto simp: can_reserve_def fresh_ids_def unreserved_def intro: less_le_trans)
      then have quiet4: "\<not> tx_aborted (snd (reserve_each cfg rid est (clock w3) ?bs w3))"
        "faults (snd (reserve_each cfg rid est (clock w3) ?bs w3)) = []"
        using reserve_each_quiet [OF _ dist] by blast+
      obtain r4 w4 where res: "reserve_each cfg rid est (clock w3) ?bs w3 = (r4, w4)" by fastforce
      have "\<forall>b \<in> set ?bs. has_capacity est ?bs b"
        using check_sorted_admits [OF dist, of est] None by simp
      with start query filt False nonempty est None res quiet4 show ?thesis
        by (simp add: CheckAndReserveBudget_def Let_def allow_result_def flip: bs)
    qed
  qed
qed

section \<open>The amount the result reports\<close>

text \<open>
  C12: when no matching budget is overdrawn, the remaining amount of an admission is the least
  amount that remained on a matching budget.
\<close>

theorem remaining_is_minimum:
  assumes "tables_ok (db w)" and "cache_sound env (svPrograms s)"
    and "CheckAndReserveBudget env cfg ctx m rid s w = (Inr c, s', w')"
    and "crAllowed c" and "crMatchedBudgets c \<noteq> []"
    and "\<forall>b \<in> set (crMatchedBudgets c). 0 \<le> CalculateRemaining b"
  shows "crRemainingBudget c = Min (CalculateRemaining ` set (crMatchedBudgets c))"
  using assms(3)
proof (cases rule: CheckAndReserveBudget_cases)
  case (reserved est budgets matched progs bs s3 w1 w2 w3 r4 w4)
  then have c: "crMatchedBudgets c = bs" "crRemainingBudget c = csMinRemaining (check_sorted est bs)"
    by (simp_all add: allow_result_def)
  from check_sorted_min [OF reserved(2)] assms(5,6) show ?thesis
    unfolding c by simp
qed (use assms(4,5) in \<open>auto simp: deny_result_def allow_unmatched_def\<close>)

text \<open>
  A negative minimum is taken for the initial \<open>-1\<close> and forgotten at the next budget: after a
  budget that is overdrawn and falls back, the reported amount is that of the last budgets alone.
\<close>

lemma negative_minimum_forgotten:
  assumes "m < 0"
  shows "track_min m x = x"
  using assms by (simp add: track_min_def)

section \<open>A row stream that is cut\<close>

text \<open>
  C13: the guard fails open. \<open>GetEnabledBudgetsForUpdate\<close> does not look at \<open>rows.Err()\<close>, and the
  result of the commit is dropped when no budget was read: if the connection breaks before the first row,
  the request is allowed as one that no budget matches, whatever budgets there are and
  however exhausted they are.
\<close>

theorem truncated_rows_admit:
  assumes "faults w = NoFault # RowsCut 0 # fs"
  shows "fst (CheckAndReserveBudget env cfg ctx m rid s w) = Inr allow_unmatched"
  using assms
  by (simp add: CheckAndReserveBudget_def tx_begin_def pop_fault_def GetEnabledBudgetsForUpdate_def
      tx_rows_def)

section \<open>Clean-up\<close>

lemma delete_where_all: "delete_where p rs = filter (\<lambda>r. \<not> p r) rs"
  by (simp add: delete_where_def)

text \<open>
  C14: a fault between the two statements of the clean-up loses the balance for good: the expired
  reservations are gone and their amounts are still pending.
\<close>

theorem cleanup_not_atomic:
  assumes "faults w = [NoFault, NoFault, StmtFail]"
    and "r \<in> set (request_reservations (db w))" and "expired_reservation (clock w) r"
  shows "\<exists>e w'. CleanupExpiredReservations w = (Inl e, w') \<and>
    request_reservations (db w') =
      filter (\<lambda>r. \<not> expired_reservation (clock w) r) (request_reservations (db w)) \<and>
    budget_definitions (db w') = budget_definitions (db w)"
proof -
  let ?rs = "filter (expired_reservation (clock w)) (request_reservations (db w))"
  obtain i c bcs where g: "group_reservations ?rs = (i, c) # bcs"
    using assms(2,3) by (cases "group_reservations ?rs") (auto simp: group_reservations_def filter_empty_conv)
  show ?thesis
    using assms(1) g
    by (simp add: CleanupExpiredReservations_def bind_op_def sql_rows_def sql_exec_def pop_fault_def
        delete_reservations_def delete_where_all)
qed

end
