(* ===== verification/Budget_Charge.thy ===== *)
theory Budget_Charge
  imports Budget_Check
begin

text \<open>
  \<open>internal/budget/service.go\<close>, third part: \<open>DecrementBudgets\<close>, which turns the reservation of
  a finished request into a charge. \<open>charge_amount\<close> and \<open>spares_parent\<close> are the decisions of its
  loop, \<open>charge_each\<close> the loop with its statements.
\<close>

record charge =
  chBudgetID :: uuid
  chBudgetName :: string
  chEntityType :: string
  chAmount :: usd

record decrement_result =
  drActualCost :: usd
  drRemainingBudget :: usd
  drBudgetsCharged :: "uuid list"
  drCharges :: "charge list"

record charge_state =
  gsRemainingCost :: usd
  gsCharges :: "charge list"
  gsMinRemaining :: usd

text \<open>
  \<open>shouldCharge\<close> is false for a parent when the request was limited at another budget of the hierarchy that
  is isolated.
\<close>

definition spares_parent :: "uuid option \<Rightarrow> budget list \<Rightarrow> budget \<Rightarrow> bool" where
  "spares_parent rateLimitedAt sortedBudgets b = (case rateLimitedAt of
       None \<Rightarrow> False
     | Some i \<Rightarrow> bID b \<noteq> i \<and> (\<exists>x \<in> set sortedBudgets. bID x = i \<and> bIsolated x) \<and>
         (\<exists>ancestor \<in> set sortedBudgets. bParentID ancestor = Some (bID b)))"

text \<open>A non-isolated child is filled up to its amount; what is over goes on to the parent.\<close>

definition charge_amount :: "bool \<Rightarrow> usd \<Rightarrow> budget \<Rightarrow> usd" where
  "charge_amount shouldCharge remainingCost b =
     (if shouldCharge \<and> \<not> bIsolated b \<and> bParentID b \<noteq> None then
        (let budgetRemaining = bBudgetAmountUSD b - bCurrentUsageUSD b in
         if budgetRemaining \<le> 0 then 0
         else if remainingCost > budgetRemaining then budgetRemaining else remainingCost)
      else remainingCost)"

definition charge_of :: "budget \<Rightarrow> usd \<Rightarrow> charge" where
  "charge_of b amount = \<lparr>chBudgetID = bID b, chBudgetName = bName b,
     chEntityType = entity_type_string (bEntityType b), chAmount = amount\<rparr>"

text \<open>The state of the loop after one budget.\<close>

definition charge_step :: "uuid option \<Rightarrow> budget list \<Rightarrow> budget \<Rightarrow> charge_state \<Rightarrow> charge_state" where
  "charge_step rateLimitedAt sortedBudgets b st =
     (let shouldCharge = \<not> spares_parent rateLimitedAt sortedBudgets b;
          amount = charge_amount shouldCharge (gsRemainingCost st) b;
          st1 = (if shouldCharge \<and> amount > 0
                 then st\<lparr>gsCharges := gsCharges st @ [charge_of b amount],
                   gsRemainingCost := (if bIsolated b then gsRemainingCost st
                                       else gsRemainingCost st - amount)\<rparr>
                 else st);
          remaining = bBudgetAmountUSD b - bCurrentUsageUSD b - amount - bPendingUsageUSD b
      in st1\<lparr>gsMinRemaining := track_min (gsMinRemaining st) remaining\<rparr>)"

definition usage_of ::
  "string \<Rightarrow> string \<Rightarrow> int \<Rightarrow> int \<Rightarrow> uuid option \<Rightarrow> budget list \<Rightarrow> budget \<Rightarrow> charge_state \<Rightarrow> usage_record"
where
  "usage_of requestID modelID inputTokens outputTokens rateLimitedAt sortedBudgets b st =
     (let shouldCharge = \<not> spares_parent rateLimitedAt sortedBudgets b in
      \<lparr>urID = 0, urBudgetID = bID b, urRequestID = requestID, urModelID = modelID,
       urInputTokens = inputTokens, urOutputTokens = outputTokens,
       urCostUSD = charge_amount shouldCharge (gsRemainingCost st) b,
       urParentCharged = shouldCharge, urCreatedAt = zero_time\<rparr>)"

fun charge_each ::
  "string \<Rightarrow> string \<Rightarrow> int \<Rightarrow> int \<Rightarrow> uuid option \<Rightarrow> budget list \<Rightarrow> budget list \<Rightarrow> charge_state
    \<Rightarrow> charge_state op" where
  "charge_each rid m it ot rla sortedBudgets [] st = return_op st"
| "charge_each rid m it ot rla sortedBudgets (b # bs) st =
     (let shouldCharge = \<not> spares_parent rla sortedBudgets b;
          amount = charge_amount shouldCharge (gsRemainingCost st) b
      in bind_op (if shouldCharge \<and> amount > 0 then IncrementUsageInTx (bID b) amount else return_op ())
           (\<lambda>_. bind_op (CreateUsageRecordInTx (usage_of rid m it ot rla sortedBudgets b st))
             (\<lambda>_. charge_each rid m it ot rla sortedBudgets bs (charge_step rla sortedBudgets b st))))"

definition start_charge :: "usd \<Rightarrow> charge_state" where
  "start_charge actualCost = \<lparr>gsRemainingCost = actualCost, gsCharges = [], gsMinRemaining = - 1\<rparr>"

text \<open>
  After the loop the reservations of the request go, and the estimate is taken off the pending
  amount of the budget of the first reservation; an error of these two is logged only.
\<close>

definition settle :: "string \<Rightarrow> reservation \<Rightarrow> unit op" where
  "settle requestID res =
     try_op (DeleteReservationInTx requestID) (\<lambda>_.
       try_op (DecrementPendingUsageInTx (rsBudgetID res) (rsEstimatedCostUSD res)) (\<lambda>_. tx_commit))"

definition charge_transaction ::
  "string \<Rightarrow> string \<Rightarrow> int \<Rightarrow> int \<Rightarrow> uuid option \<Rightarrow> usd \<Rightarrow> reservation \<Rightarrow> budget list \<Rightarrow> charge_state op"
where
  "charge_transaction rid m it ot rla actualCost res budgets =
     bind_op tx_begin (\<lambda>_.
       (let sortedBudgets = sortBudgetsByHierarchy budgets in
        bind_op (rollback_on_error
            (charge_each rid m it ot rla sortedBudgets sortedBudgets (start_charge actualCost)))
          (\<lambda>st. bind_op (settle rid res) (\<lambda>_. return_op st))))"

definition DecrementBudgets ::
  "config \<Rightarrow> string \<Rightarrow> string \<Rightarrow> int \<Rightarrow> int \<Rightarrow> uuid option \<Rightarrow> ('p, decrement_result) service_op" where
  "DecrementBudgets cfg requestID modelID inputTokens outputTokens rateLimitedAt s w =
     (case CalculateCost cfg modelID inputTokens outputTokens s w of
       (Inl e, s1, w1) \<Rightarrow> (Inl e, s1, w1)
     | (Inr actualCost, s1, w1) \<Rightarrow> (case GetReservationByRequestID requestID w1 of
         (Inl ErrNotFound, w2) \<Rightarrow>
           (Inr \<lparr>drActualCost = actualCost, drRemainingBudget = 0, drBudgetsCharged = [],
              drCharges = []\<rparr>, s1, w2)
       | (Inl e, w2) \<Rightarrow> (Inl e, s1, w2)
       | (Inr res, w2) \<Rightarrow> (case GetBudgetsWithParent (rsBudgetID res) w2 of
           (Inl e, w3) \<Rightarrow> (Inl e, s1, w3)
         | (Inr budgets, w3) \<Rightarrow>
             (case charge_transaction requestID modelID inputTokens outputTokens rateLimitedAt
                 actualCost res budgets w3 of
                (Inl e, w4) \<Rightarrow> (Inl e, s1, w4)
              | (Inr st, w4) \<Rightarrow>
                  (Inr \<lparr>drActualCost = actualCost, drRemainingBudget = gsMinRemaining st,
                     drBudgetsCharged = map chBudgetID (gsCharges st), drCharges = gsCharges st\<rparr>,
                   invalidate_budget_cache s1, w4)))))"

section \<open>The plan of the charges\<close>

text \<open>The loop without its statements.\<close>

definition charge_plan :: "uuid option \<Rightarrow> budget list \<Rightarrow> usd \<Rightarrow> charge_state" where
  "charge_plan rla bs actualCost =
     foldl (\<lambda>st b. charge_step rla bs b st) (start_charge actualCost) bs"

lemma charge_each_result:
  assumes "charge_each rid m it ot rla S bs st w = (Inr st', w')"
  shows "st' = foldl (\<lambda>st b. charge_step rla S b st) st bs"
  using assms
proof (induction bs arbitrary: st w)
  case (Cons b bs)
  then show ?case
    by (auto simp: Let_def elim!: bind_op_cases split: if_splits)
qed simp

definition charged_total :: "charge list \<Rightarrow> usd" where
  "charged_total cs = (\<Sum>c \<leftarrow> cs. chAmount c)"

text \<open>The charge of a budget is never negative and never exceeds what is left to charge.\<close>

lemma charge_amount_bounds:
  assumes "0 \<le> c"
  shows "0 \<le> charge_amount should c b" and "charge_amount should c b \<le> c"
  using assms by (auto simp: charge_amount_def Let_def)

lemma charge_amount_fills:
  assumes "\<not> bIsolated b" and "bParentID b \<noteq> None" and "bCurrentUsageUSD b \<le> bBudgetAmountUSD b"
    and "0 \<le> c"
  shows "bCurrentUsageUSD b + charge_amount True c b \<le> bBudgetAmountUSD b"
  using assms by (auto simp: charge_amount_def Let_def)

lemma charge_step_conserves:
  assumes "\<not> bIsolated b" and "0 \<le> gsRemainingCost st"
  shows "charged_total (gsCharges (charge_step rla S b st)) + gsRemainingCost (charge_step rla S b st) =
    charged_total (gsCharges st) + gsRemainingCost st"
    and "0 \<le> gsRemainingCost (charge_step rla S b st)"
  using assms charge_amount_bounds [OF assms(2)]
  by (auto simp: charge_step_def Let_def charged_total_def charge_of_def)

lemma foldl_charge_step_conserves:
  assumes "\<forall>b \<in> set bs. \<not> bIsolated b" and "0 \<le> gsRemainingCost st"
  shows "charged_total (gsCharges (foldl (\<lambda>st b. charge_step rla S b st) st bs)) +
      gsRemainingCost (foldl (\<lambda>st b. charge_step rla S b st) st bs) =
    charged_total (gsCharges st) + gsRemainingCost st \<and>
    0 \<le> gsRemainingCost (foldl (\<lambda>st b. charge_step rla S b st) st bs)"
  using assms
proof (induction bs arbitrary: st)
  case (Cons b bs)
  then show ?case using charge_step_conserves [of b st rla S] by simp
qed simp

text \<open>The root takes everything that is left.\<close>

lemma charge_step_root:
  assumes "bParentID b = None" and "\<not> bIsolated b" and "0 \<le> gsRemainingCost st"
    and "\<not> spares_parent rla S b"
  shows "gsRemainingCost (charge_step rla S b st) = 0"
  using assms by (auto simp: charge_step_def Let_def charge_amount_def)

lemma charge_step_remaining_zero:
  assumes "gsRemainingCost st = 0"
  shows "gsRemainingCost (charge_step rla S b st) = 0"
  using assms charge_amount_bounds [of 0]
  by (auto simp: charge_step_def Let_def intro: antisym)

section \<open>The transaction\<close>

lemma tx_op_charge_each [op_contracts]: "tx_op (charge_each rid m it ot rla S bs st)"
proof (induction bs arbitrary: st)
  case (Cons b bs)
  then show ?case
    by (auto simp del: return_op_simp simp: Let_def
      intro!: op_contracts IncrementUsageInTx.tx_op_axioms CreateUsageRecordInTx.tx_op_axioms)
qed (simp del: return_op_simp add: op_contracts)

interpretation charge_each: tx_op "charge_each rid m it ot rla S bs st" for rid m it ot rla S bs st
  by (rule tx_op_charge_each)

text \<open>The usage amounts after a list of charges.\<close>

definition apply_charges :: "time \<Rightarrow> charge list \<Rightarrow> budget list \<Rightarrow> budget list" where
  "apply_charges now cs bs = foldl (\<lambda>bs c. update_where (\<lambda>b. bID b = chBudgetID c)
     (\<lambda>b. b\<lparr>bCurrentUsageUSD := bCurrentUsageUSD b + chAmount c, bVersion := bVersion b + 1,
        bUpdatedAt := now\<rparr>) bs) bs cs"

definition charged_to :: "uuid \<Rightarrow> charge list \<Rightarrow> usd" where
  "charged_to i cs = charged_total (filter (\<lambda>c. chBudgetID c = i) cs)"

lemma apply_charges_simps [simp]:
  "apply_charges now [] bs = bs"
  "apply_charges now (cs @ ds) bs = apply_charges now ds (apply_charges now cs bs)"
  by (simp_all add: apply_charges_def)

lemma charged_to_append [simp]: "charged_to i (cs @ ds) = charged_to i cs + charged_to i ds"
  by (simp add: charged_to_def charged_total_def)

lemma apply_charges_budget:
  assumes "b' \<in> set (apply_charges now cs bs)"
  shows "\<exists>b \<in> set bs. bID b' = bID b \<and> bPendingUsageUSD b' = bPendingUsageUSD b \<and>
    bBudgetAmountUSD b' = bBudgetAmountUSD b \<and>
    bCurrentUsageUSD b' = bCurrentUsageUSD b + charged_to (bID b) cs"
  using assms
proof (induction cs arbitrary: b' rule: rev_induct)
  case Nil
  then show ?case by (auto simp: charged_to_def charged_total_def)
next
  case (snoc c cs)
  then obtain b1 where b1: "b1 \<in> set (apply_charges now cs bs)"
    and b': "b' = (if bID b1 = chBudgetID c then b1\<lparr>bCurrentUsageUSD := bCurrentUsageUSD b1 + chAmount c,
        bVersion := bVersion b1 + 1, bUpdatedAt := now\<rparr> else b1)"
    by (auto simp: apply_charges_def set_update_where)
  from snoc.IH [OF b1] obtain b where b: "b \<in> set bs" and eq: "bID b1 = bID b"
    "bPendingUsageUSD b1 = bPendingUsageUSD b" "bBudgetAmountUSD b1 = bBudgetAmountUSD b"
    "bCurrentUsageUSD b1 = bCurrentUsageUSD b + charged_to (bID b) cs"
    by blast
  show ?case
    by (intro bexI [OF _ b]) (simp add: b' eq charged_to_def charged_total_def)
qed

lemma map_bID_apply_charges [simp]: "map bID (apply_charges now cs bs) = map bID bs"
  by (induction cs rule: rev_induct) (auto simp: apply_charges_def map_update_where)

lemma prune_usage_shape: "prune_usage i now t = Some (y, t') \<Longrightarrow> \<exists>us. t' = t\<lparr>usage_records := us\<rparr>"
  by (auto simp: prune_usage_def Let_def)

lemma CreateUsageRecordInTx_effect:
  assumes run: "CreateUsageRecordInTx ur w = (r, w')" and ok: "\<not> tx_aborted w'"
  shows "budget_definitions (tx_db w') = budget_definitions (tx_db w) \<and>
    request_reservations (tx_db w') = request_reservations (tx_db w) \<and> \<not> tx_aborted w \<and> clock w' = clock w"
proof -
  let ?ur = "ur\<lparr>urID := uuids w, urCreatedAt := clock w\<rparr>"
  let ?w = "w\<lparr>uuids := Suc (uuids w)\<rparr>"
  obtain r1 w1 where ins: "tx_exec ''failed to create usage record'' (insert_usage_record ?ur) ?w = (r1, w1)"
    by fastforce
  obtain r2 w2 where prune: "tx_exec ''failed to prune usage records'' (prune_usage (urBudgetID ?ur)) w1 = (r2, w2)"
    by fastforce
  have w': "w' = (case r1 of Inl e \<Rightarrow> w1 | Inr x \<Rightarrow> w2)"
    using run ins prune
    by (simp add: CreateUsageRecordInTx_def bind_op_def uuid_op_def uuid_New_def now_op_def Let_def
        split: sum.splits)
  have ok1: "\<not> tx_aborted w1"
    using w' ok tx_op.aborted_frame [OF tx_op_tx_exec prune] by (cases r1) auto
  obtain x where x: "insert_usage_record ?ur (clock ?w) (tx_db ?w) = Some (x, tx_db w1)" "r1 = Inr x"
      "clock w1 = clock w" "\<not> tx_aborted w"
    using tx_exec_not_aborted [OF ins ok1] by auto
  then have w2: "w' = w2" using w' by simp
  obtain y where y: "prune_usage (urBudgetID ?ur) (clock w1) (tx_db w1) = Some (y, tx_db w')"
      "clock w' = clock w1"
    using tx_exec_not_aborted [OF prune] ok w2 by auto
  have "tx_db w1 = (tx_db w)\<lparr>usage_records := usage_records (tx_db w) @ [?ur]\<rparr>"
    using x(1) by (simp add: insert_usage_record_def split: if_splits)
  moreover obtain us where "tx_db w' = (tx_db w1)\<lparr>usage_records := us\<rparr>"
    using prune_usage_shape [OF y(1)] by blast
  ultimately show ?thesis
    using x(3,4) y(2) by simp
qed

lemma IncrementUsageInTx_effect:
  assumes "IncrementUsageInTx i c w = (r, w')" and "\<not> tx_aborted w'"
  shows "tx_db w' = update_budgets (\<lambda>b. bID b = i)
      (\<lambda>b. b\<lparr>bCurrentUsageUSD := bCurrentUsageUSD b + c, bVersion := bVersion b + 1\<rparr>) (clock w) (tx_db w)"
    and "clock w' = clock w" and "\<not> tx_aborted w"
  using assms unfolding IncrementUsageInTx_def
  by (auto simp: add_usage_def elim!: tx_exec_not_aborted)

lemma charge_step_charges:
  "gsCharges (charge_step rla S b st) = gsCharges st @
     (let should = \<not> spares_parent rla S b; amount = charge_amount should (gsRemainingCost st) b
      in if should \<and> amount > 0 then [charge_of b amount] else [])"
  by (auto simp: charge_step_def Let_def)

lemma charge_each_effect:
  assumes "charge_each rid m it ot rla S bs st w = (Inr st', w')" and "\<not> tx_aborted w'"
  shows "\<exists>cs. gsCharges st' = gsCharges st @ cs \<and>
    budget_definitions (tx_db w') = apply_charges (clock w) cs (budget_definitions (tx_db w)) \<and>
    request_reservations (tx_db w') = request_reservations (tx_db w) \<and> clock w' = clock w"
  using assms
proof (induction bs arbitrary: st w)
  case (Cons b bs)
  define should where "should = (\<not> spares_parent rla S b)"
  define amount where "amount = charge_amount should (gsRemainingCost st) b"
  define c where "c = (if should \<and> amount > 0 then [charge_of b amount] else [])"
  let ?inc = "if should \<and> amount > 0 then IncrementUsageInTx (bID b) amount else return_op ()"
  from Cons.prems(1) obtain w1 w2 u1 u2 where inc: "?inc w = (Inr u1, w1)"
    and use: "CreateUsageRecordInTx (usage_of rid m it ot rla S b st) w1 = (Inr u2, w2)"
    and rest: "charge_each rid m it ot rla S bs (charge_step rla S b st) w2 = (Inr st', w')"
    unfolding charge_each.simps Let_def should_def [symmetric] amount_def [symmetric]
    by (auto elim!: bind_op_cases)
  have ok2: "\<not> tx_aborted w2" using charge_each.aborted_frame [OF rest] Cons.prems(2) by blast
  note u = CreateUsageRecordInTx_effect [OF use ok2]
  have "budget_definitions (tx_db w1) = apply_charges (clock w) c (budget_definitions (tx_db w)) \<and>
      request_reservations (tx_db w1) = request_reservations (tx_db w) \<and> clock w1 = clock w"
  proof (cases "should \<and> amount > 0")
    case True
    with inc IncrementUsageInTx_effect [of "bID b" amount w "Inr u1" w1] u show ?thesis
      by (simp add: c_def apply_charges_def charge_of_def update_budgets_def)
  qed (use inc in \<open>auto simp: c_def\<close>)
  moreover have "gsCharges (charge_step rla S b st) = gsCharges st @ c"
    by (cases "spares_parent rla S b") (simp_all add: charge_step_charges c_def should_def amount_def Let_def)
  moreover obtain cs where "gsCharges st' = gsCharges (charge_step rla S b st) @ cs"
    "budget_definitions (tx_db w') = apply_charges (clock w2) cs (budget_definitions (tx_db w2))"
    "request_reservations (tx_db w') = request_reservations (tx_db w2)" "clock w' = clock w2"
    using Cons.IH [OF rest Cons.prems(2)] by blast
  ultimately show ?case using u by (intro exI [of _ "c @ cs"]) simp
qed (simp add: apply_charges_def)

section \<open>What the transaction does\<close>

definition release_budget :: "reservation \<Rightarrow> time \<Rightarrow> tables \<Rightarrow> tables" where
  "release_budget res = update_budgets (\<lambda>b. bID b = rsBudgetID res)
     (\<lambda>b. b\<lparr>bPendingUsageUSD := max 0 (bPendingUsageUSD b - rsEstimatedCostUSD res)\<rparr>)"

definition drop_reservations :: "string \<Rightarrow> tables \<Rightarrow> tables" where
  "drop_reservations rid t =
     t\<lparr>request_reservations := delete_where (\<lambda>r. rsRequestID r = rid) (request_reservations t)\<rparr>"

lemma settle_effect:
  assumes run: "settle rid res w = (r, w')" and "0 < open_txs w"
  shows "open_txs w' = open_txs w - 1 \<and> clock w' = clock w"
    and "r = Inl e \<Longrightarrow> db w' = db w"
    and "r = Inr () \<Longrightarrow> \<not> tx_aborted w \<and>
      db w' = release_budget res (clock w) (drop_reservations rid (tx_db w))"
proof -
  obtain r1 w1 where del: "DeleteReservationInTx rid w = (r1, w1)" by fastforce
  obtain r2 w2 where dec: "DecrementPendingUsageInTx (rsBudgetID res) (rsEstimatedCostUSD res) w1 = (r2, w2)"
    by fastforce
  have com: "tx_commit w2 = (r, w')"
    using run del dec by (simp add: settle_def)
  note c = tx_commit_frame [OF com]
  have frames: "db w2 = db w" "open_txs w2 = open_txs w" "clock w2 = clock w"
    using DeleteReservationInTx.db_frame [OF del] DecrementPendingUsageInTx.db_frame [OF dec]
      DeleteReservationInTx.open_frame [OF del] DecrementPendingUsageInTx.open_frame [OF dec]
      DeleteReservationInTx.clock_frame [OF del] DecrementPendingUsageInTx.clock_frame [OF dec] by simp_all
  show "open_txs w' = open_txs w - 1 \<and> clock w' = clock w" using c frames by simp
  show "db w' = db w" if "r = Inl e" using c that frames by simp
  assume "r = Inr ()"
  then have ok2: "\<not> tx_aborted w2" and db': "db w' = tx_db w2" using c(5) by simp_all
  then have ok1: "\<not> tx_aborted w1" using DecrementPendingUsageInTx.aborted_frame [OF dec] by blast
  have t2: "tx_db w2 = release_budget res (clock w1) (tx_db w1)"
    by (rule tx_exec_not_aborted [OF dec [unfolded DecrementPendingUsageInTx_def] ok2])
      (simp add: subtract_pending_def release_budget_def)
  obtain r0 where del0: "tx_exec ''failed to delete reservation''
      (delete_reservations (\<lambda>now r. rsRequestID r = rid)) w = (r0, w1)"
    using del unfolding DeleteReservationInTx_def by (cases rule: bind_op_cases) auto
  have "tx_db w1 = drop_reservations rid (tx_db w) \<and> clock w1 = clock w \<and> \<not> tx_aborted w"
    by (rule tx_exec_not_aborted [OF del0 ok1])
      (simp add: delete_reservations_def drop_reservations_def)
  with t2 db' show "\<not> tx_aborted w \<and>
      db w' = release_budget res (clock w) (drop_reservations rid (tx_db w))"
    by simp
qed

lemma charge_transaction_effect:
  assumes run: "charge_transaction rid m it ot rla cost res budgets w = (r, w')"
  shows "open_txs w' = open_txs w \<and> clock w' = clock w"
    and "r = Inl e \<Longrightarrow> db w' = db w"
    and "r = Inr st \<Longrightarrow> st = charge_plan rla (sortBudgetsByHierarchy budgets) cost \<and>
      (\<exists>t. db w' = release_budget res (clock w) (drop_reservations rid t) \<and>
         budget_definitions t = apply_charges (clock w) (gsCharges st) (budget_definitions (db w)) \<and>
         request_reservations t = request_reservations (db w))"
proof -
  let ?S = "sortBudgetsByHierarchy budgets"
  have all: "open_txs w' = open_txs w \<and> clock w' = clock w \<and> (\<forall>e. r = Inl e \<longrightarrow> db w' = db w) \<and>
    (\<forall>st. r = Inr st \<longrightarrow> st = charge_plan rla ?S cost \<and>
      (\<exists>t. db w' = release_budget res (clock w) (drop_reservations rid t) \<and>
         budget_definitions t = apply_charges (clock w) (gsCharges st) (budget_definitions (db w)) \<and>
         request_reservations t = request_reservations (db w)))"
  proof (cases "fst (tx_begin w)")
    case (Inl e)
    then obtain w1 where start: "tx_begin w = (Inl e, w1)" by (cases "tx_begin w") auto
    with run have "r = Inl e" "w' = w1" by (simp_all add: charge_transaction_def)
    with tx_begin_frame [OF start] show ?thesis by simp
  next
    case (Inr u)
    then obtain w1 where start: "tx_begin w = (Inr (), w1)" by (cases "tx_begin w") auto
    note b = tx_begin_frame [OF start]
    obtain r2 w2 where loop: "charge_each rid m it ot rla ?S ?S (start_charge cost) w1 = (r2, w2)"
      by fastforce
    note l = charge_each.db_frame [OF loop] charge_each.open_frame [OF loop] charge_each.clock_frame [OF loop]
    show ?thesis
    proof (cases r2)
      case (Inl e)
      with run start loop have "r = Inl e" "w' = tx_rollback w2"
        by (simp_all add: charge_transaction_def Let_def rollback_on_error_def bind_op_def)
      with b l show ?thesis by (simp add: tx_rollback_def)
    next
      case (Inr st)
      obtain r3 w3 where fin: "settle rid res w2 = (r3, w3)" by fastforce
      have r: "w' = w3" "r = (case r3 of Inl e \<Rightarrow> Inl e | Inr _ \<Rightarrow> Inr st)"
        using run start loop Inr fin
        by (simp_all add: charge_transaction_def Let_def rollback_on_error_def bind_op_def split: sum.splits)
      have pos: "0 < open_txs w2" using b l by simp
      note f = settle_effect [OF fin pos]
      have plan: "st = charge_plan rla ?S cost"
        using charge_each_result [OF loop [unfolded Inr]] by (simp add: charge_plan_def)
      show ?thesis
      proof (cases r3)
        case (Inl e)
        with r b l f show ?thesis by simp
      next
        case (Inr u3)
        then have ok2: "\<not> tx_aborted w2"
          and db': "db w' = release_budget res (clock w2) (drop_reservations rid (tx_db w2))"
          using f(3) r by simp_all
        obtain cs where "gsCharges st = gsCharges (start_charge cost) @ cs"
          "budget_definitions (tx_db w2) = apply_charges (clock w1) cs (budget_definitions (tx_db w1))"
          "request_reservations (tx_db w2) = request_reservations (tx_db w1)"
          using charge_each_effect [OF loop [unfolded \<open>r2 = Inr st\<close>] ok2] by blast
        then have "budget_definitions (tx_db w2) = apply_charges (clock w) (gsCharges st) (budget_definitions (db w))"
          "request_reservations (tx_db w2) = request_reservations (db w)"
          using b by (simp_all add: start_charge_def)
        with plan db' f(1) r Inr b l show ?thesis by auto
      qed
    qed
  qed
  show "open_txs w' = open_txs w \<and> clock w' = clock w" using all by blast
  show "db w' = db w" if "r = Inl e" using all that by blast
  show "st = charge_plan rla ?S cost \<and>
      (\<exists>t. db w' = release_budget res (clock w) (drop_reservations rid t) \<and>
         budget_definitions t = apply_charges (clock w) (gsCharges st) (budget_definitions (db w)) \<and>
         request_reservations t = request_reservations (db w))" if "r = Inr st"
    using all that by blast
qed

end
