(* ===== verification/Budget_Tree.thy ===== *)
theory Budget_Tree
  imports Ledger_Inv
begin

text \<open>
  The recursive queries over the parent links: when \<open>GetBudgetsWithParent\<close> ends, that the fuel
  of the model is enough whenever it does, and what it returns; the deletion of a subtree.
\<close>

section \<open>Fuel\<close>

lemma ancestors_Suc: "ancestors n rows level = Some bs \<Longrightarrow> ancestors (Suc n) rows level = Some bs"
proof (induction n arbitrary: level bs)
  case 0
  then show ?case by (cases level) auto
next
  case (Suc n)
  show ?case
  proof (cases level)
    case (Cons b bl)
    with Suc.prems obtain cs where cs: "ancestors n rows (next_level rows level) = Some cs" "bs = level @ cs"
      by auto
    from Suc.IH [OF cs(1)] cs(2) Cons show ?thesis
      by simp
  qed (use Suc.prems in simp)
qed

lemma ancestors_mono: "n \<le> k \<Longrightarrow> ancestors n rows level = Some bs \<Longrightarrow> ancestors k rows level = Some bs"
  by (induction k rule: dec_induct) (auto dest: ancestors_Suc)

lemma ancestors_deterministic:
  "ancestors n rows level = Some bs \<Longrightarrow> ancestors k rows level = Some cs \<Longrightarrow> bs = cs"
  using ancestors_mono [of n "max n k" rows level bs] ancestors_mono [of k "max n k" rows level cs]
  by simp

text \<open>Every level that is not empty adds a row, so as many levels as rows returned are enough.\<close>

lemma ancestors_length: "ancestors n rows level = Some bs \<Longrightarrow> ancestors (length bs) rows level = Some bs"
proof (induction n arbitrary: level bs)
  case 0
  then show ?case by (cases level) auto
next
  case (Suc n)
  show ?case
  proof (cases level)
    case (Cons b bl)
    with Suc.prems obtain cs where cs: "ancestors n rows (next_level rows level) = Some cs" "bs = level @ cs"
      by auto
    have "ancestors (length bl + length cs) rows (next_level rows level) = Some cs"
      using ancestors_mono [OF _ Suc.IH [OF cs(1)]] by simp
    with cs(2) Cons show ?thesis by simp
  qed (use Suc.prems in simp)
qed

section \<open>The chain of parents\<close>

lemma next_level_single:
  assumes "distinct (map bID rows)"
  shows "next_level rows [b] = [] \<or> (\<exists>p \<in> set rows. bParentID b = Some (bID p) \<and> next_level rows [b] = [p])"
proof (cases "next_level rows [b]")
  case (Cons p ps)
  then have p: "p \<in> set rows" "bParentID b = Some (bID p)"
    by (auto simp: next_level_def dest!: arg_cong [where f = set] intro: list.set_intros)
  have "next_level rows [b] = filter (\<lambda>bd. bID bd = bID p) rows"
    unfolding next_level_def by (auto simp: p(2) intro: filter_cong)
  also have "\<dots> = [p]" using distinct_map_filter_key [OF assms p(1)] by simp
  finally show ?thesis using p by blast
qed simp

lemma ancestors_suffix:
  assumes dist: "distinct (map bID rows)" and "ancestors n rows [b] = Some bs" and "c \<in> set bs"
  shows "\<exists>k pre rest. bs = pre @ c # rest \<and> (pre = [] \<longrightarrow> c = b) \<and> ancestors k rows [c] = Some (c # rest)"
  using assms(2,3)
proof (induction n arbitrary: b bs)
  case (Suc n)
  then obtain cs where cs: "ancestors n rows (next_level rows [b]) = Some cs" "bs = b # cs"
    by auto
  show ?case
  proof (cases "c = b")
    case True
    with Suc.prems(1) cs(2) show ?thesis by (intro exI [of _ "Suc n"] exI [of _ "[]"] exI [of _ cs]) simp
  next
    case False
    with Suc.prems(2) cs(2) have c: "c \<in> set cs" by simp
    then have "next_level rows [b] \<noteq> []" using cs(1) by (cases n) auto
    with next_level_single [OF dist] obtain p where "next_level rows [b] = [p]" by blast
    with Suc.IH [of p cs] cs c obtain k pre rest
      where "cs = pre @ c # rest" "ancestors k rows [c] = Some (c # rest)" by auto
    with cs(2) show ?thesis by (intro exI [of _ k] exI [of _ "b # pre"] exI [of _ rest]) simp
  qed
qed simp

lemma ancestors_distinct:
  assumes dist: "distinct (map bID rows)" and "ancestors n rows [b] = Some bs"
  shows "distinct bs"
  using assms(2)
proof (induction n arbitrary: b bs)
  case (Suc n)
  then obtain cs where cs: "ancestors n rows (next_level rows [b]) = Some cs" "bs = b # cs"
    by auto
  have "distinct cs"
    using next_level_single [OF dist, of b] cs(1) Suc.IH by (cases n) auto
  moreover have "b \<notin> set cs"
  proof
    assume b: "b \<in> set cs"
    then have "next_level rows [b] \<noteq> []" using cs(1) by (cases n) auto
    with next_level_single [OF dist] obtain p where p: "next_level rows [b] = [p]" by blast
    with ancestors_suffix [OF dist, of n p cs b] cs(1) b obtain k pre rest
      where "cs = pre @ b # rest" "ancestors k rows [b] = Some (b # rest)" by auto
    with ancestors_deterministic [OF Suc.prems, of k "b # rest"] cs(2) show False by simp
  qed
  ultimately show ?case using cs(2) by simp
qed simp

lemma ancestors_rows:
  assumes "ancestors n rows level = Some bs" and "set level \<subseteq> set rows"
  shows "set bs \<subseteq> set rows"
  using assms
proof (induction n arbitrary: level bs)
  case 0
  then show ?case by (cases level) auto
next
  case (Suc n)
  have sub: "set (next_level rows level) \<subseteq> set rows" by (auto simp: next_level_def)
  show ?case
  proof (cases level)
    case (Cons b bl)
    with Suc.prems obtain cs where cs: "ancestors n rows (next_level rows level) = Some cs" "bs = level @ cs"
      by auto
    with Suc.IH [OF cs(1) sub] Suc.prems(2) show ?thesis by simp
  qed (use Suc.prems in simp)
qed

lemma hierarchy_fuel:
  assumes dist: "distinct (map bID rows)" and b: "b \<in> set rows"
    and "ancestors n rows [b] = Some bs"
  shows "ancestors (Suc (length rows)) rows [b] = Some bs"
proof -
  have "distinct bs" "set bs \<subseteq> set rows"
    using ancestors_distinct [OF dist assms(3)] ancestors_rows [OF assms(3)] b by simp_all
  then have "length bs \<le> length rows"
    using distinct_card [of bs] card_mono [of "set rows" "set bs"] card_length [of rows] by simp
  then show ?thesis
    by (intro ancestors_mono [OF _ ancestors_length [OF assms(3)]]) simp
qed

lemma level_of_id:
  assumes "distinct (map bID rows)"
  shows "filter (\<lambda>b. bID b = i) rows = [] \<or>
    (\<exists>b \<in> set rows. bID b = i \<and> filter (\<lambda>b. bID b = i) rows = [b])"
proof (cases "\<exists>b \<in> set rows. bID b = i")
  case True
  with distinct_map_filter_key [OF assms] show ?thesis by blast
qed (simp add: filter_empty_conv)


lemma budget_hierarchy_distinct:
  assumes "tables_ok t" and "budget_hierarchy i t = Some bs"
  shows "distinct (map bID bs)"
proof -
  have dist: "distinct (map bID (budget_definitions t))" using assms by (simp add: tables_ok_def)
  let ?l = "filter (\<lambda>b. bID b = i) (budget_definitions t)"
  have anc: "ancestors (Suc (length (budget_definitions t))) (budget_definitions t) ?l = Some bs"
    using assms(2) by (simp add: budget_hierarchy_def Let_def)
  have "distinct bs"
    using level_of_id [OF dist, of i]
  proof
    assume "?l = []"
    with anc show ?thesis by simp
  next
    assume "\<exists>b \<in> set (budget_definitions t). bID b = i \<and> ?l = [b]"
    then obtain b where "?l = [b]" by blast
    with anc ancestors_distinct [OF dist] show ?thesis by metis
  qed
  moreover have "set bs \<subseteq> set (budget_definitions t)"
    using ancestors_rows [OF anc] by auto
  ultimately show ?thesis
    using dist by (auto simp: distinct_map intro: inj_on_subset)
qed

section \<open>Deleting a subtree\<close>

text \<open>
  The early return of \<open>DeleteBudgetCascade\<close> for a budget that does not exist skips the deferred
  rollback (\<open>err\<close> is nil there): the transaction and its connection stay open.
\<close>

lemma all_descendants_missing:
  assumes "tables_ok t" and "i \<notin> bID ` set (budget_definitions t)"
  shows "all_descendants i t = Some []"
proof -
  have "filter (\<lambda>b. bParentID b = Some i) (budget_definitions t) = []"
    using assms by (auto simp: filter_empty_conv tables_ok_def parent_exists_def)
  then show ?thesis by (simp add: all_descendants_def Let_def)
qed

text \<open>
  C15: deleting a subtree whose root does not exist returns \<open>ErrNotFound\<close>, deletes nothing, and
  leaves its transaction open.
\<close>

theorem DeleteBudgetCascade_leaks_transaction:
  assumes "faults w = []" and "tables_ok (db w)" and "i \<notin> bID ` set (budget_definitions (db w))"
  shows "\<exists>w'. DeleteBudgetCascade i w = (Inl ErrNotFound, w') \<and> db w' = db w \<and>
    open_txs w' = Suc (open_txs w)"
proof -
  have "count_budgets (\<lambda>b. bID b = i) (db w) = 0"
    using assms(3) by (auto simp: count_budgets_def)
  then show ?thesis
    using assms all_descendants_missing [OF assms(2,3)]
    by (simp add: DeleteBudgetCascade_def GetAllDescendants_def bind_op_def rollback_on_error_def
        delete_budget_def Let_def)
qed

end
