(* ===== verification/Charging.thy ===== *)
theory Charging
  imports Budget_Charge Budget_Tree
begin

text \<open>
  What a charge guarantees: it is all or nothing, adds exactly the reported charges to the
  usage of the budgets, splits the actual cost over a hierarchy without loss, is applied at most
  once per request; and where it leaves the ledger: the pending amounts of all but one of the
  budgets the request had reserved stay.
\<close>

definition first_reservation :: "string \<Rightarrow> tables \<Rightarrow> reservation option" where
  "first_reservation rid t = first_row (order_by rsCreatedAt
     (filter (\<lambda>r. rsRequestID r = rid) (request_reservations t)))"

lemma first_reservation_None: "first_reservation rid t = None \<longleftrightarrow> unreserved rid t"
  using set_order_by [of rsCreatedAt "filter (\<lambda>r. rsRequestID r = rid) (request_reservations t)"]
  by (auto simp: first_reservation_def unreserved_def filter_empty_conv simp flip: set_empty)

lemma first_reservationD:
  assumes "first_reservation rid t = Some res"
  shows "res \<in> set (request_reservations t) \<and> rsRequestID res = rid"
proof -
  have "res \<in> set (order_by rsCreatedAt (filter (\<lambda>r. rsRequestID r = rid) (request_reservations t)))"
    using assms unfolding first_reservation_def
    by (cases "order_by rsCreatedAt (filter (\<lambda>r. rsRequestID r = rid) (request_reservations t))") auto
  then show ?thesis by simp
qed

lemma GetReservationByRequestID_run:
  assumes "GetReservationByRequestID rid w = (r, w')"
  shows "r = Inr res \<Longrightarrow> first_reservation rid (db w) = Some res"
    and "r = Inl ErrNotFound \<Longrightarrow> first_reservation rid (db w) = None"
    and "faults w = [] \<Longrightarrow> r = (case first_reservation rid (db w) of None \<Rightarrow> Inl ErrNotFound | Some x \<Rightarrow> Inr x)"
  using assms
  by (auto simp: GetReservationByRequestID_def sql_row_def pop_fault_def first_reservation_def
      split: fault.splits list.splits option.splits)

lemma DecrementBudgets_cases:
  assumes run: "DecrementBudgets cfg rid m it ot rla s w = (r, s', w')"
  obtains (error) e where "r = Inl e" and "db w' = db w" and "open_txs w' = open_txs w"
    | (unknown) cost where
        "r = Inr \<lparr>drActualCost = cost, drRemainingBudget = 0, drBudgetsCharged = [], drCharges = []\<rparr>"
        and "first_reservation rid (db w) = None"
        and "db w' = db w" and "open_txs w' = open_txs w"
    | (charged) cost res budgets st s1 w1 w2 w3 where
        "CalculateCost cfg m it ot s w = (Inr cost, s1, w1)"
        and "first_reservation rid (db w) = Some res"
        and "db w2 = db w" and "clock w2 = clock w" and "faults w = [] \<longrightarrow> faults w2 = []"
        and "GetBudgetsWithParent (rsBudgetID res) w2 = (Inr budgets, w3)"
        and "db w3 = db w" and "clock w3 = clock w"
        and "open_txs w3 = open_txs w"
        and "charge_transaction rid m it ot rla cost res budgets w3 = (Inr st, w')"
        and "r = Inr \<lparr>drActualCost = cost, drRemainingBudget = gsMinRemaining st,
               drBudgetsCharged = map chBudgetID (gsCharges st), drCharges = gsCharges st\<rparr>"
        and "open_txs w' = open_txs w"
proof -
  obtain r1 s1 w1 where cost: "CalculateCost cfg m it ot s w = (r1, s1, w1)"
    by (metis prod_cases3)
  note f1 = CalculateCost.reads [OF cost, unfolded query_frame_def]
  obtain r2 w2 where res: "GetReservationByRequestID rid w1 = (r2, w2)" by fastforce
  note f2 = GetReservationByRequestID.reads_only [OF res] GetReservationByRequestID.clock_frame [OF res]
    GetReservationByRequestID.quiet_frame [OF res] GetReservationByRequestID_run [OF res]
  show thesis
  proof (cases r1)
    case (Inl e)
    with run cost f1 show thesis by (intro error [of e]) (simp_all add: DecrementBudgets_def)
  next
    case (Inr actual)
    note r1 = this
    show thesis
    proof (cases r2)
      case (Inl e)
      show thesis
      proof (cases "e = ErrNotFound")
        case True
        with run cost r1 res Inl f1 f2 show thesis
          by (intro unknown [of actual]) (simp_all add: DecrementBudgets_def)
      next
        case False
        with run cost r1 res Inl f1 f2 show thesis
          by (intro error [of e]) (cases e; simp add: DecrementBudgets_def)+
      qed
    next
      case (Inr rs)
      note r2 = this
      obtain r3 w3 where hier: "GetBudgetsWithParent (rsBudgetID rs) w2 = (r3, w3)" by fastforce
      note f3 = GetBudgetsWithParent.reads_only [OF hier] GetBudgetsWithParent.clock_frame [OF hier]
      show thesis
      proof (cases r3)
        case (Inl e)
        with run cost r1 res r2 hier f1 f2 f3 show thesis
          by (intro error [of e]) (simp_all add: DecrementBudgets_def)
      next
        case (Inr budgets)
        note r3 = this
        obtain r4 w4 where tx: "charge_transaction rid m it ot rla actual rs budgets w3 = (r4, w4)"
          by fastforce
        note t = charge_transaction_effect [OF tx]
        show thesis
        proof (cases r4)
          case (Inl e)
          with run cost r1 res r2 hier r3 tx f1 f2 f3 t show thesis
            by (intro error [of e]) (simp_all add: DecrementBudgets_def)
        next
          case (Inr st)
          with run cost r1 res r2 hier r3 tx have w4: "w4 = w'"
            and r: "r = Inr \<lparr>drActualCost = actual, drRemainingBudget = gsMinRemaining st,
               drBudgetsCharged = map chBudgetID (gsCharges st), drCharges = gsCharges st\<rparr>"
            by (simp_all add: DecrementBudgets_def)
          show thesis
          proof (rule charged)
            show "CalculateCost cfg m it ot s w = (Inr actual, s1, w1)" using cost r1 by simp
            show "first_reservation rid (db w) = Some rs" using f1 f2(4) r2 by simp
            show "GetBudgetsWithParent (rsBudgetID rs) w2 = (Inr budgets, w3)" using hier r3 by simp
            show "charge_transaction rid m it ot rla actual rs budgets w3 = (Inr st, w')"
              using tx Inr w4 by simp
            show "faults w = [] \<longrightarrow> faults w2 = []" using f1 f2(3) by blast
          qed (use f1 f2 f3 t(1) w4 r in simp_all)
        qed
      qed
    qed
  qed
qed

text \<open>
  C6: a charge is all or nothing. If \<open>DecrementBudgets\<close> returns an error, at whatever statement,
  no usage, no record, no reservation and no pending amount has changed; and it never leaves its
  transaction open.
\<close>

theorem DecrementBudgets_all_or_nothing:
  assumes "DecrementBudgets cfg rid m it ot rla s w = (r, s', w')"
  shows "open_txs w' = open_txs w \<and> ((\<exists>e. r = Inl e) \<longrightarrow> db w' = db w)"
  using assms by (cases rule: DecrementBudgets_cases) auto

lemma DecrementBudgets_reservations:
  assumes "DecrementBudgets cfg rid m it ot rla s w = (Inr d, s', w')"
    and "first_reservation rid (db w) = Some res"
  shows "request_reservations (db w') =
    filter (\<lambda>r. rsRequestID r \<noteq> rid) (request_reservations (db w))"
  using assms(1)
proof (cases rule: DecrementBudgets_cases)
  case (charged cost res' budgets st s1 w1 w2 w3)
  obtain t where db': "db w' = release_budget res' (clock w3) (drop_reservations rid t)"
    and rs: "request_reservations t = request_reservations (db w)"
    using charge_transaction_effect(3) [OF charged(10) refl] charged(7) by auto
  then show ?thesis by (simp add: release_budget_def drop_reservations_def delete_where_def)
qed (use assms(2) in simp_all)

lemma charge_effect:
  assumes "DecrementBudgets cfg rid m it ot rla s w = (Inr d, s', w')"
    and "first_reservation rid (db w) = Some res"
  shows "request_reservations (db w') =
      filter (\<lambda>r. rsRequestID r \<noteq> rid) (request_reservations (db w)) \<and>
    map bID (budget_definitions (db w')) = map bID (budget_definitions (db w)) \<and>
    (\<forall>b' \<in> set (budget_definitions (db w')). \<exists>b \<in> set (budget_definitions (db w)).
       bID b' = bID b \<and> bBudgetAmountUSD b' = bBudgetAmountUSD b \<and>
       bCurrentUsageUSD b' = bCurrentUsageUSD b + charged_to (bID b) (drCharges d) \<and>
       bPendingUsageUSD b' = (if bID b = rsBudgetID res
         then max 0 (bPendingUsageUSD b - rsEstimatedCostUSD res) else bPendingUsageUSD b))"
  using assms(1)
proof (cases rule: DecrementBudgets_cases)
  case (charged cost res' budgets st s1 w1 w2 w3)
  have d: "drCharges d = gsCharges st" and res: "res' = res"
    using charged(2,11) assms(2) by simp_all
  obtain t where db': "db w' = release_budget res (clock w3) (drop_reservations rid t)"
    and bs: "budget_definitions t = apply_charges (clock w3) (gsCharges st) (budget_definitions (db w))"
    and rs: "request_reservations t = request_reservations (db w)"
    using charge_transaction_effect(3) [OF charged(10) refl] charged(7) res by auto
  have "\<exists>b \<in> set (budget_definitions (db w)). bID b' = bID b \<and> bBudgetAmountUSD b' = bBudgetAmountUSD b \<and>
       bCurrentUsageUSD b' = bCurrentUsageUSD b + charged_to (bID b) (drCharges d) \<and>
       bPendingUsageUSD b' = (if bID b = rsBudgetID res
         then max 0 (bPendingUsageUSD b - rsEstimatedCostUSD res) else bPendingUsageUSD b)"
    if "b' \<in> set (budget_definitions (db w'))" for b'
  proof -
    from that obtain b1 where b1: "b1 \<in> set (apply_charges (clock w3) (gsCharges st) (budget_definitions (db w)))"
      and b': "b' = (if bID b1 = rsBudgetID res then b1\<lparr>bPendingUsageUSD :=
          max 0 (bPendingUsageUSD b1 - rsEstimatedCostUSD res), bUpdatedAt := clock w3\<rparr> else b1)"
      by (auto simp: db' release_budget_def drop_reservations_def update_budgets_def set_update_where bs)
    from apply_charges_budget [OF b1] obtain b where b: "b \<in> set (budget_definitions (db w))"
      and eq: "bID b1 = bID b" "bPendingUsageUSD b1 = bPendingUsageUSD b"
        "bBudgetAmountUSD b1 = bBudgetAmountUSD b"
        "bCurrentUsageUSD b1 = bCurrentUsageUSD b + charged_to (bID b) (gsCharges st)" by blast
    show ?thesis by (intro bexI [OF _ b]) (simp add: b' eq d)
  qed
  moreover have "map bID (budget_definitions (db w')) = map bID (budget_definitions (db w))"
    by (simp add: db' release_budget_def drop_reservations_def update_budgets_def map_update_where bs)
  ultimately show ?thesis
    by (simp add: db' release_budget_def drop_reservations_def delete_where_def rs)
qed (use assms(2) in simp_all)

text \<open>
  C5: the effect of a charge is exactly what the result reports. Every budget of the database
  afterwards is one from before whose usage has grown by its reported charges; its pending
  amount has changed only for the budget of the request's first reservation, by the estimate and not below
  zero; and the reservations that are left are those of the other requests.
\<close>

theorem DecrementBudgets_effect:
  assumes "DecrementBudgets cfg rid m it ot rla s w = (Inr d, s', w')"
    and "first_reservation rid (db w) = Some res"
  shows "request_reservations (db w') =
      filter (\<lambda>r. rsRequestID r \<noteq> rid) (request_reservations (db w)) \<and>
    map bID (budget_definitions (db w')) = map bID (budget_definitions (db w)) \<and>
    (\<forall>b' \<in> set (budget_definitions (db w')). \<exists>b \<in> set (budget_definitions (db w)).
       bID b' = bID b \<and> bBudgetAmountUSD b' = bBudgetAmountUSD b \<and>
       bCurrentUsageUSD b' = bCurrentUsageUSD b + charged_to (bID b) (drCharges d) \<and>
       bPendingUsageUSD b' = (if bID b = rsBudgetID res
         then max 0 (bPendingUsageUSD b - rsEstimatedCostUSD res) else bPendingUsageUSD b))"
  by (rule charge_effect [OF assms])

section \<open>The split of the cost over a hierarchy\<close>

text \<open>A hierarchy that ends, ends in a budget without parent.\<close>

lemma ancestors_root:
  assumes "ancestors n rows level = Some bs" and "level \<noteq> []"
    and "\<forall>b \<in> set rows. parent_exists (bParentID b) rows" and "set level \<subseteq> set rows"
  shows "\<exists>rb \<in> set bs. bParentID rb = None"
  using assms
proof (induction n rows level arbitrary: bs rule: ancestors.induct)
  case (3 n rows b level)
  let ?next = "next_level rows (b # level)"
  from 3(2) obtain cs where cs: "ancestors n rows ?next = Some cs" "bs = (b # level) @ cs" by auto
  show ?case
  proof (cases "?next = []")
    case True
    have "bParentID b = None"
    proof (rule ccontr)
      assume "bParentID b \<noteq> None"
      then obtain p where p: "bParentID b = Some p" by blast
      with 3(4,5) obtain bd where "bd \<in> set rows" "bID bd = p"
        by (fastforce simp: parent_exists_def)
      then have "bd \<in> set ?next" using p by (auto simp: next_level_def)
      with True show False by simp
    qed
    with cs show ?thesis by auto
  next
    case False
    have "set ?next \<subseteq> set rows" by (auto simp: next_level_def)
    with 3(1) [OF cs(1) False 3(4)] cs show ?thesis by auto
  qed
qed simp_all

lemma budget_hierarchy_root:
  assumes ok: "tables_ok t" and run: "budget_hierarchy i t = Some bs" and "bs \<noteq> []"
  shows "\<exists>rb \<in> set bs. bParentID rb = None" and "set bs \<subseteq> set (budget_definitions t)"
proof -
  let ?rows = "budget_definitions t"
  let ?level = "filter (\<lambda>b. bID b = i) ?rows"
  have anc: "ancestors (Suc (length ?rows)) ?rows ?level = Some bs"
    using run by (simp add: budget_hierarchy_def Let_def)
  then have "?level \<noteq> []" using assms(3) by (metis ancestors.simps(1) option.inject)
  then show "\<exists>rb \<in> set bs. bParentID rb = None"
    using ancestors_root [OF anc] ok by (simp add: tables_ok_def)
  show "set bs \<subseteq> set ?rows" by (rule ancestors_rows [OF anc]) auto
qed

lemma foldl_charge_step_zero:
  "gsRemainingCost st = 0 \<Longrightarrow> gsRemainingCost (foldl (\<lambda>st b. charge_step rla S b st) st bs) = 0"
  by (induction bs arbitrary: st) (simp_all add: charge_step_remaining_zero)

lemma foldl_charge_step_root:
  assumes "rb \<in> set bs" and "bParentID rb = None" and "\<forall>b \<in> set bs. \<not> bIsolated b"
    and "0 \<le> gsRemainingCost st" and "rla = None"
  shows "gsRemainingCost (foldl (\<lambda>st b. charge_step rla S b st) st bs) = 0"
  using assms
proof (induction bs arbitrary: st)
  case (Cons b bs)
  show ?case
  proof (cases "b = rb")
    case True
    then have "gsRemainingCost (charge_step rla S b st) = 0"
      using Cons.prems by (intro charge_step_root) (simp_all add: spares_parent_def)
    then show ?thesis by (simp add: foldl_charge_step_zero)
  next
    case False
    with Cons charge_step_conserves [of b st rla S] show ?thesis by simp
  qed
qed simp

lemma charge_plan_conserves:
  assumes "rb \<in> set bs" and "bParentID rb = None" and "\<forall>b \<in> set bs. \<not> bIsolated b" and "0 \<le> cost"
  shows "charged_total (gsCharges (charge_plan None bs cost)) = cost"
  using foldl_charge_step_conserves [of bs "start_charge cost" None bs]
    foldl_charge_step_root [of rb bs "start_charge cost" None bs] assms
  by (simp add: charge_plan_def start_charge_def charged_total_def)

lemma GetBudgetsWithParent_quiet:
  assumes "GetBudgetsWithParent i w = (Inr bs, w')" and "faults w = []"
  shows "budget_hierarchy i (db w) = Some bs"
  using assms by (auto simp: GetBudgetsWithParent_def sql_reject_def split: option.splits)


text \<open>
  C9: a request is charged once. After a charge has succeeded its reservations are gone, so a second
  call, whatever tokens it reports, charges nothing and changes nothing.
\<close>

theorem DecrementBudgets_once:
  assumes "DecrementBudgets cfg rid m it ot rla s w = (Inr d, s1, w1)"
    and "DecrementBudgets cfg rid m2 it2 ot2 rla2 s1 w1 = (r, s2, w2)"
  shows "db w2 = db w1 \<and> (case r of Inl e \<Rightarrow> True | Inr d2 \<Rightarrow> drCharges d2 = [])"
proof -
  have "first_reservation rid (db w1) = None"
  proof (cases "first_reservation rid (db w)")
    case None
    with assms(1) show ?thesis by (cases rule: DecrementBudgets_cases) simp_all
  next
    case (Some res)
    then have "request_reservations (db w1) =
        filter (\<lambda>r. rsRequestID r \<noteq> rid) (request_reservations (db w))"
      using DecrementBudgets_reservations [OF assms(1)] by blast
    then show ?thesis by (simp add: first_reservation_None unreserved_def)
  qed
  with assms(2) show ?thesis
    by (cases rule: DecrementBudgets_cases) simp_all
qed

section \<open>Limits of the charge\<close>

lemma charged_to_step:
  "charged_to i (gsCharges (charge_step rla S b st)) = charged_to i (gsCharges st) +
     (if i = bID b \<and> \<not> spares_parent rla S b \<and> 0 < charge_amount True (gsRemainingCost st) b
      then charge_amount True (gsRemainingCost st) b else 0)"
  by (cases "spares_parent rla S b")
    (auto simp: charge_step_charges Let_def charged_to_def charged_total_def charge_of_def)

lemma charged_to_other:
  "i \<notin> bID ` set bs \<Longrightarrow>
     charged_to i (gsCharges (foldl (\<lambda>st b. charge_step rla S b st) st bs)) = charged_to i (gsCharges st)"
  by (induction bs arbitrary: st) (auto simp: charged_to_step)

lemma charge_amount_room:
  assumes "\<not> bIsolated b" and "bParentID b \<noteq> None"
  shows "charge_amount True c b \<le> max 0 (bBudgetAmountUSD b - bCurrentUsageUSD b)"
  using assms by (auto simp: charge_amount_def Let_def)

lemma charged_to_child:
  assumes "distinct (map bID bs)" and "b \<in> set bs" and "\<not> bIsolated b" and "bParentID b \<noteq> None"
    and "charged_to (bID b) (gsCharges st) = 0"
  shows "charged_to (bID b) (gsCharges (foldl (\<lambda>st b. charge_step rla S b st) st bs))
    \<le> max 0 (bBudgetAmountUSD b - bCurrentUsageUSD b)"
  using assms
proof (induction bs arbitrary: st)
  case (Cons x bs)
  show ?case
  proof (cases "x = b")
    case True
    with Cons.prems charge_amount_room [of b "gsRemainingCost st"] show ?thesis
      by (simp add: charged_to_other charged_to_step)
  next
    case False
    then have "bID b \<noteq> bID x" using Cons.prems by (metis distinct.simps(2) image_eqI list.map(2) set_ConsD set_map)
    with Cons.prems Cons.IH [of "charge_step rla S x st"] False show ?thesis
      by (simp add: charged_to_step)
  qed
qed simp


section \<open>The pending amounts that stay\<close>

text \<open>
  C10: admission reserves on every matching budget, but a charge releases the pending amount of
  one. If the pending amounts were the sums of the reservations and the request had a reservation of
  a positive amount on a second budget, then after the charge that budget's pending amount is
  more than the sum of its reservations, and nothing is left in the database that would release
  it before the next reset.
\<close>

theorem pending_amount_leaks:
  assumes "DecrementBudgets cfg rid m it ot rla s w = (Inr d, s', w')"
    and "first_reservation rid (db w) = Some res"
    and "tables_ok (db w)" and "ledger_balanced (db w)"
    and "r \<in> set (request_reservations (db w))" and "rsRequestID r = rid"
    and "rsBudgetID r \<noteq> rsBudgetID res" and "0 < rsEstimatedCostUSD r"
    and "\<forall>x \<in> set (request_reservations (db w)). 0 \<le> rsEstimatedCostUSD x"
  shows "\<exists>b' \<in> set (budget_definitions (db w')). bID b' = rsBudgetID r \<and>
    reserved_on (bID b') (request_reservations (db w')) < bPendingUsageUSD b'"
proof -
  let ?rs = "request_reservations (db w)" and ?i = "rsBudgetID r"
  obtain b where b: "b \<in> set (budget_definitions (db w))" "bID b = ?i"
    using assms(3,5) by (auto simp: tables_ok_def)
  note eff = charge_effect [OF assms(1,2)]
  have "?i \<in> set (map bID (budget_definitions (db w')))"
    using eff b by (metis image_eqI set_map)
  then obtain b' where b': "b' \<in> set (budget_definitions (db w'))" "bID b' = ?i" by auto
  then obtain b0 where b0: "b0 \<in> set (budget_definitions (db w))" "bID b0 = ?i"
      "bPendingUsageUSD b' = bPendingUsageUSD b0"
    using eff assms(7) by fastforce
  have "bPendingUsageUSD b0 = reserved_on ?i ?rs"
    using assms(4) b0 by (auto simp: ledger_balanced_def)
  also have "\<dots> = reserved_on ?i (filter (\<lambda>x. rsRequestID x = rid) ?rs) +
      reserved_on ?i (filter (\<lambda>x. rsRequestID x \<noteq> rid) ?rs)"
    using reserved_on_split [of ?i ?rs "\<lambda>x. rsRequestID x = rid"] by (simp add: delete_where_def)
  finally have pending: "bPendingUsageUSD b0 = \<dots>" .
  have "0 < reserved_on ?i (filter (\<lambda>x. rsRequestID x = rid) ?rs)"
    using assms(5,6,8,9) by (intro reserved_on_pos [of r]) auto
  with pending b0 b' eff show ?thesis by (intro bexI [OF _ b'(1)]) simp
qed

end
