(* ===== verification/Samples.thy ===== *)
theory Samples
  imports Admission Charging
begin

text \<open>
  A small concrete system: an organisation with a budget of 100 and a team below it with a budget
  of 10, a request that matches both, and one that has been admitted. The theorems of the
  development are applied to it, so that their hypotheses are seen to hold together.
\<close>

definition sample_budget ::
  "uuid \<Rightarrow> entity_type \<Rightarrow> string \<Rightarrow> usd \<Rightarrow> uuid option \<Rightarrow> usd \<Rightarrow> usd \<Rightarrow> budget" where
  "sample_budget i et nm amount parent used pending =
     \<lparr>bID = i, bEntityType = et, bName = nm, bMatchExpression = ''true'', bBudgetAmountUSD = amount,
      bPeriod = PeriodDaily, bCustomPeriodSeconds = None, bWarningThresholdPct = 80,
      bParentID = parent, bIsolated = False, bAllowFallback = False, bEnabled = True,
      bDisabledByUserID = None, bDisabledByEmail = None, bDisabledByIsOrg = False,
      bDisabledAt = None, bCurrentPeriodStart = 0, bCurrentUsageUSD = used,
      bPendingUsageUSD = pending, bDescription = None, bOwnerOrgID = Some ''acme'',
      bOwnerTeamID = None, bOwnerUserID = None, bApprovalStatus = ApprovalStatusApproved,
      bCreatedByUserID = None, bCreatedByEmail = None, bRejectionCount = 0, bVersion = 1,
      bCreatedAt = 0, bUpdatedAt = 0\<rparr>"

definition sample_env :: "(string, string) cel_env" where
  "sample_env = \<lparr>ceCompile = (\<lambda>e. if e = ''('' then None else Some e), ceProgram = Some,
     ceEval = (\<lambda>p a. Some (DBool (p = ''true'')))\<rparr>"

definition sample_config :: config where
  "sample_config = \<lparr>cfgModelCostCacheTTL = 60 * Second, cfgBudgetCacheTTL = 30 * Second,
     cfgReservationTTL = 5 * Minute, cfgDefaultEstimationMultiplier = 3 / 2,
     cfgDefaultEstimatedInputTokens = 1000, cfgDefaultEstimatedOutputTokens = 1000,
     cfgForecastAlertDaysThreshold = 3, cfgOrgIDHeader = ''x-gw-org-id'',
     cfgTeamIDHeader = ''x-gw-team-id'', cfgUserIDHeader = ''x-user-id'',
     cfgModelHeader = ''x-gateway-model-name'', cfgOrgIDClaim = ''org_id'', cfgTeamIDClaim = ''team_id''\<rparr>"

definition sample_service :: "string service" where
  "sample_service = NewService Map.empty"

definition sample_ctx :: eval_context where
  "sample_ctx = \<lparr>ecHeaders = [], ecPath = ''/'', ecMethod = ''POST'', ecHost = ''h'', ecClaims = [],
     ecIssuer = '''', ecAPIKeyID = '''', ecAPIKeyName = '''', ecAPIKeyMetadata = [], ecModel = ''m'',
     ecProvider = '''', ecStreaming = False, ecSourceAddress = '''', ecSourcePort = 0, ecMetadata = []\<rparr>"

definition sample_tables :: "budget list \<Rightarrow> reservation list \<Rightarrow> tables" where
  "sample_tables bs rs = \<lparr>model_costs = [], budget_definitions = bs, usage_records = [],
     request_reservations = rs, budget_approvals = [], budget_alerts = [], audit_log = [],
     rate_limit_allocations = [], rate_limit_approvals = []\<rparr>"

definition sample_world :: "tables \<Rightarrow> fault list \<Rightarrow> world" where
  "sample_world t fs = \<lparr>db = t, clock = 1000 * Second, uuids = 10, tx_db = t, tx_aborted = False,
     open_txs = 0, faults = fs\<rparr>"

definition two_budgets :: "usd \<Rightarrow> usd \<Rightarrow> budget list" where
  "two_budgets used pending =
     [sample_budget 0 EntityTypeOrg ''acme'' 100 None used pending,
      sample_budget 1 EntityTypeTeam ''blue'' 10 (Some 0) used pending]"

definition sample_reservation :: "uuid \<Rightarrow> uuid \<Rightarrow> reservation" where
  "sample_reservation i b = \<lparr>rsID = i, rsBudgetID = b, rsRequestID = ''r1'', rsEstimatedCostUSD = 3,
     rsExpiresAt = 2000 * Second, rsCreatedAt = 0\<rparr>"

definition fresh_world :: "fault list \<Rightarrow> world" where
  "fresh_world fs = sample_world (sample_tables (two_budgets 0 0) []) fs"

definition admitted_world :: world where
  "admitted_world = sample_world
     (sample_tables (two_budgets 0 3) [sample_reservation 2 1, sample_reservation 3 0]) []"

lemmas sample_defs = sample_budget_def sample_env_def sample_config_def sample_service_def
  sample_ctx_def sample_tables_def sample_world_def two_budgets_def sample_reservation_def
  fresh_world_def admitted_world_def NewService_def

end
