(* ===== verification/Auth.thy ===== *)
theory Auth
  imports Models Cel
begin

text \<open>
  \<open>internal/auth\<close>: the identity taken from the claims of the token (\<open>middleware.go\<close>) and the
  decisions of the access rules (\<open>rbac.go\<close>). A missing identity is \<open>None\<close>. Splitting and decoding the
  token (\<open>ParseJWT\<close> up to its claims) is not modelled; its signature is not checked by this
  program at all.
\<close>

record identity =
  idSubject :: string
  idEmail :: string
  idOrgID :: string
  idTeamID :: string
  idIsOrg :: bool
  idIsTeamAdmin :: bool
  idUserID :: string

section \<open>Claims\<close>

definition claim :: "string \<Rightarrow> (string \<times> dyn) list \<Rightarrow> dyn option" where
  "claim k claims = map_of (rev claims) k"

definition string_claim :: "string \<Rightarrow> (string \<times> dyn) list \<Rightarrow> string" where
  "string_claim k claims = (case claim k claims of Some (DString s) \<Rightarrow> s | _ \<Rightarrow> '''')"

definition bool_claim :: "string \<Rightarrow> (string \<times> dyn) list \<Rightarrow> bool" where
  "bool_claim k claims = (case claim k claims of
     Some (DBool b) \<Rightarrow> b | Some (DString s) \<Rightarrow> s = ''true'' | _ \<Rightarrow> False)"

definition identity_of_claims :: "(string \<times> dyn) list \<Rightarrow> identity" where
  "identity_of_claims claims =
     \<lparr>idSubject = string_claim ''sub'' claims, idEmail = string_claim ''email'' claims,
      idOrgID = string_claim ''org_id'' claims, idTeamID = string_claim ''team_id'' claims,
      idIsOrg = bool_claim ''is_org'' claims, idIsTeamAdmin = bool_claim ''is_team_admin'' claims,
      idUserID = string_claim ''sub'' claims\<rparr>"

text \<open>
  \<open>OptionalAuthMiddleware\<close>: without a header, or with one that does not parse, the request goes
  on without identity. \<open>decode\<close> is the parsing of the token to its claims.
\<close>

definition optional_identity ::
  "(string \<Rightarrow> (string \<times> dyn) list option) \<Rightarrow> string \<Rightarrow> identity option" where
  "optional_identity decode jwtHeader =
     (if jwtHeader = '''' then None else map_option identity_of_claims (decode jwtHeader))"

section \<open>Access rules\<close>

definition CanViewBudget :: "identity option \<Rightarrow> string \<Rightarrow> string \<Rightarrow> bool" where
  "CanViewBudget identity ownerOrgID ownerTeamID = (case identity of
       None \<Rightarrow> False
     | Some i \<Rightarrow>
         if idIsOrg i \<and> idOrgID i \<noteq> '''' \<and> idOrgID i = ownerOrgID then True
         else if idTeamID i \<noteq> '''' \<and> idTeamID i = ownerTeamID then True
         else if ownerOrgID = '''' \<and> ownerTeamID = '''' then True
         else False)"

definition CanManageBudget :: "identity option \<Rightarrow> string \<Rightarrow> string \<Rightarrow> bool" where
  "CanManageBudget identity ownerOrgID ownerTeamID = CanViewBudget identity ownerOrgID ownerTeamID"

definition CanViewUserBudget :: "identity option \<Rightarrow> string \<Rightarrow> string \<Rightarrow> bool" where
  "CanViewUserBudget identity ownerUserID ownerTeamID = (case identity of
       None \<Rightarrow> False
     | Some i \<Rightarrow>
         if idIsOrg i then True
         else if idIsTeamAdmin i \<and> idTeamID i \<noteq> '''' \<and> idTeamID i = ownerTeamID then True
         else if idSubject i \<noteq> '''' \<and> idSubject i = ownerUserID then True
         else False)"

definition CanCreateBudgetForOrg :: "identity option \<Rightarrow> string \<Rightarrow> bool" where
  "CanCreateBudgetForOrg identity orgID = (case identity of
     None \<Rightarrow> False | Some i \<Rightarrow> idIsOrg i \<and> idOrgID i = orgID)"

definition CanCreateBudgetForTeam :: "identity option \<Rightarrow> string \<Rightarrow> string \<Rightarrow> bool" where
  "CanCreateBudgetForTeam identity orgID teamID = (case identity of
       None \<Rightarrow> False
     | Some i \<Rightarrow>
         if idIsOrg i \<and> idOrgID i = orgID then True
         else if \<not> idIsOrg i \<and> idOrgID i \<noteq> '''' \<and> idOrgID i = orgID then True
         else False)"

record budget_ownership =
  boIndex :: nat
  boOwnerOrgID :: string
  boOwnerTeamID :: string

definition FilterBudgetsByIdentity :: "identity option \<Rightarrow> budget_ownership list \<Rightarrow> nat list" where
  "FilterBudgetsByIdentity identity budgets =
     map boIndex (filter (\<lambda>b. CanViewBudget identity (boOwnerOrgID b) (boOwnerTeamID b)) budgets)"

definition GetOwnershipFromIdentity :: "identity option \<Rightarrow> string \<times> string" where
  "GetOwnershipFromIdentity identity = (case identity of
     None \<Rightarrow> ('''', '''') | Some i \<Rightarrow> (idOrgID i, idTeamID i))"

definition CanApproveOrReject :: "identity option \<Rightarrow> string \<Rightarrow> string \<Rightarrow> bool" where
  "CanApproveOrReject identity budgetOrgID budgetTeamID = (case identity of
       None \<Rightarrow> False
     | Some i \<Rightarrow>
         if idIsOrg i \<and> idOrgID i \<noteq> '''' \<and> idOrgID i = budgetOrgID then True
         else if idIsTeamAdmin i \<and> idTeamID i \<noteq> '''' \<and> idTeamID i = budgetTeamID then True
         else False)"

definition CanResubmit :: "identity option \<Rightarrow> string \<Rightarrow> bool" where
  "CanResubmit identity createdByUserID = (case identity of
     None \<Rightarrow> False | Some i \<Rightarrow> idSubject i \<noteq> '''' \<and> idSubject i = createdByUserID)"

section \<open>Properties of the rules\<close>

lemma unauthenticated_denied [simp]:
  "\<not> CanViewBudget None o1 t" "\<not> CanManageBudget None o1 t" "\<not> CanViewUserBudget None u t"
  "\<not> CanCreateBudgetForOrg None o1" "\<not> CanCreateBudgetForTeam None o1 t"
  "\<not> CanApproveOrReject None o1 t" "\<not> CanResubmit None u"
  by (simp_all add: CanViewBudget_def CanManageBudget_def CanViewUserBudget_def
      CanCreateBudgetForOrg_def CanCreateBudgetForTeam_def CanApproveOrReject_def CanResubmit_def)

text \<open>Who may decide on a budget may see it.\<close>

lemma CanApproveOrReject_views:
  "CanApproveOrReject identity ownerOrg ownerTeam \<Longrightarrow> CanViewBudget identity ownerOrg ownerTeam"
  by (auto simp: CanApproveOrReject_def CanViewBudget_def split: option.splits if_splits)

text \<open>
  Organisations are separated. Of a budget that has an owning organisation, only an
  organisation admin of that organisation or a caller whose team has the budget's team id can
  view it; in particular an admin of another organisation who is in no team cannot.
\<close>

theorem CanViewBudget_separates:
  assumes "CanViewBudget (Some i) ownerOrg ownerTeam" and "ownerOrg \<noteq> ''''"
  shows "(idIsOrg i \<and> idOrgID i = ownerOrg) \<or> (idTeamID i \<noteq> '''' \<and> idTeamID i = ownerTeam)"
  using assms by (auto simp: CanViewBudget_def split: if_splits)

end
