(* ===== verification/Approvals.thy ===== *)
theory Approvals
  imports Budget_Repo Auth
begin

text \<open>
  The approval workflow of budgets: \<open>internal/db/approval_repository.go\<close>,
  \<open>internal/db/audit_repository.go\<close>, \<open>internal/audit/service.go\<close> and the handlers of
  \<open>internal/api/approval_handlers.go\<close>.

  A handler takes what it reads from the request (the parsed identifier, \<open>None\<close> when it does not
  parse; the decoded body; the identity the middleware found) and returns a status code with
  an error message, or with the value it writes as JSON. \<open>Panic\<close> is a run-time panic of
  the handler: the server recovers it and drops the connection.
\<close>

datatype 'a response = ErrorResponse int string | Response int 'a | Panic

type_synonym 'a handler = "world \<Rightarrow> 'a response \<times> world"

fun response_status :: "'a response \<Rightarrow> int" where
  "response_status (ErrorResponse s m) = s"
| "response_status (Response s x) = s"
| "response_status Panic = 0"

definition ok_response :: "'a response \<Rightarrow> bool" where
  "ok_response r \<longleftrightarrow> 200 \<le> response_status r \<and> response_status r < 300"

section \<open>The audit log\<close>

definition insert_audit :: "audit_entry \<Rightarrow> unit statement" where
  "insert_audit e now t = Some ((), t\<lparr>audit_log := audit_log t @ [e]\<rparr>)"

definition CreateAuditLog :: "audit_entry \<Rightarrow> unit op" where
  "CreateAuditLog entry =
     bind_op uuid_op (\<lambda>i. bind_op now_op (\<lambda>now.
       sql_exec ''failed to create audit log'' (insert_audit (entry\<lparr>auID := i, auCreatedAt := now\<rparr>))))"

record audit_filter =
  afEntityType :: string
  afEntityID :: string
  afAction :: string
  afOrgID :: string
  afTeamID :: string

text \<open>A filter on the identifier compares with the rendering \<open>render\<close> of the entry's reference.\<close>

definition audit_matches :: "(entity_ref \<Rightarrow> string) \<Rightarrow> audit_filter \<Rightarrow> audit_entry \<Rightarrow> bool" where
  "audit_matches render f e \<longleftrightarrow>
     (afEntityType f = '''' \<or> auEntityType e = afEntityType f) \<and>
     (afEntityID f = '''' \<or> render (auEntityID e) = afEntityID f) \<and>
     (afAction f = '''' \<or> auAction e = afAction f) \<and>
     (afOrgID f = '''' \<or> auOrgID e = afOrgID f) \<and>
     (afTeamID f = '''' \<or> auTeamID e = afTeamID f)"

definition ListAuditLogs ::
  "(entity_ref \<Rightarrow> string) \<Rightarrow> audit_filter \<Rightarrow> int \<Rightarrow> int \<Rightarrow> (audit_entry list \<times> nat) op" where
  "ListAuditLogs render f offset limit =
     bind_op (sql_row ''failed to count audit logs''
         (\<lambda>now t. Some (count_where (audit_matches render f) (audit_log t))))
       (\<lambda>totalCount. bind_op (sql_page ''failed to query audit logs'' offset limit
           (\<lambda>now t. order_by_desc auCreatedAt (filter (audit_matches render f) (audit_log t))))
         (\<lambda>entries. return_op (entries, totalCount)))"

text \<open>The statement names a table \<open>audit_logs\<close>, which the schema does not have.\<close>

definition DeleteOldAuditLogs :: "int \<Rightarrow> nat op" where
  "DeleteOldAuditLogs retentionDays = sql_exec ''failed to delete old audit logs'' (\<lambda>now t. None)"

definition CleanupOldEntries :: "int \<Rightarrow> nat op" where
  "CleanupOldEntries retentionDays = DeleteOldAuditLogs retentionDays"

definition LogAction ::
  "string \<Rightarrow> entity_ref \<Rightarrow> string \<Rightarrow> identity option \<Rightarrow> (string \<times> meta_value) list \<Rightarrow> world \<Rightarrow> world"
where
  "LogAction entityType entityID action identity metadata w =
     snd (CreateAuditLog \<lparr>auID = 0, auEntityType = entityType, auEntityID = entityID, auAction = action,
       auActorUserID = (case identity of None \<Rightarrow> '''' | Some i \<Rightarrow> idSubject i),
       auActorEmail = (case identity of None \<Rightarrow> '''' | Some i \<Rightarrow> idEmail i),
       auOrgID = (case identity of None \<Rightarrow> '''' | Some i \<Rightarrow> idOrgID i),
       auTeamID = (case identity of None \<Rightarrow> '''' | Some i \<Rightarrow> idTeamID i),
       auMetadata = Some metadata, auCreatedAt = zero_time\<rparr> w)"

section \<open>The repository\<close>

definition insert_budget_approval :: "budget_approval \<Rightarrow> unit statement" where
  "insert_budget_approval a now t =
     (if apBudgetID a \<in> set (map bID (budget_definitions t)) \<and> apID a \<notin> set (map apID (budget_approvals t))
      then Some ((), t\<lparr>budget_approvals := budget_approvals t @ [a]\<rparr>) else None)"

definition CreateBudgetApproval :: "budget_approval \<Rightarrow> budget_approval op" where
  "CreateBudgetApproval a =
     bind_op uuid_op (\<lambda>i. bind_op now_op (\<lambda>now.
       let a' = a\<lparr>apID := i, apCreatedAt := now, apUpdatedAt := now\<rparr>
       in bind_op (sql_exec ''failed to create budget approval'' (insert_budget_approval a'))
            (\<lambda>_. return_op a')))"

definition set_approval_status :: "uuid \<Rightarrow> approval_status \<Rightarrow> bool \<Rightarrow> nat statement" where
  "set_approval_status i status incrementRejection now t =
     Some (count_budgets (\<lambda>b. bID b = i) t, update_budgets (\<lambda>b. bID b = i)
       (\<lambda>b. b\<lparr>bApprovalStatus := status,
          bRejectionCount := (if incrementRejection then bRejectionCount b + 1 else bRejectionCount b)\<rparr>)
       now t)"

definition UpdateBudgetApprovalStatus :: "uuid \<Rightarrow> approval_status \<Rightarrow> bool \<Rightarrow> unit op" where
  "UpdateBudgetApprovalStatus i status incrementRejection = affected_or ErrNotFound
     (sql_exec ''failed to update budget approval status'' (set_approval_status i status incrementRejection))"

definition CountPendingApprovals :: "string \<Rightarrow> nat op" where
  "CountPendingApprovals orgID = sql_row ''failed to count pending approvals''
     (\<lambda>now t. Some (count_where
        (\<lambda>b. bApprovalStatus b = ApprovalStatusPending \<and> bOwnerOrgID b = Some orgID)
        (budget_definitions t)))"

text \<open>
  \<open>ListPendingApprovals\<close> scans \<open>created_by_email\<close>, which may be \<open>NULL\<close>, into a Go string: a row
  without e-mail makes the whole call fail.
\<close>

definition ListPendingApprovals :: "string \<Rightarrow> int \<Rightarrow> int \<Rightarrow> (budget list \<times> nat) op" where
  "ListPendingApprovals orgID offset limit =
     (let p = (\<lambda>b. bApprovalStatus b = ApprovalStatusPending \<and>
          (orgID = '''' \<or> bOwnerOrgID b = Some orgID)) in
      bind_op (sql_row ''failed to count pending approvals''
          (\<lambda>now t. Some (count_where p (budget_definitions t))))
        (\<lambda>totalCount. bind_op (sql_page ''failed to query pending approvals'' offset limit
            (\<lambda>now t. order_by bCreatedAt (filter p (budget_definitions t))))
          (\<lambda>results. if \<forall>b \<in> set results. bCreatedByEmail b \<noteq> None then return_op (results, totalCount)
             else fail_op (ErrWrapped ''failed to scan pending approval''))))"

definition ListApprovalHistory :: "uuid \<Rightarrow> budget_approval list op" where
  "ListApprovalHistory i = sql_rows False ''failed to query approval history''
     (\<lambda>now t. order_by (\<lambda>a. (apAttemptNumber a, apCreatedAt a))
        (filter (\<lambda>a. apBudgetID a = i) (budget_approvals t)))"

record approval_history_filter =
  hfOrgID :: string
  hfTeamID :: string

definition history_budget :: "approval_history_filter \<Rightarrow> budget \<Rightarrow> bool" where
  "history_budget f b \<longleftrightarrow>
     (if hfTeamID f \<noteq> '''' then bOwnerTeamID b = Some (hfTeamID f)
      else if hfOrgID f \<noteq> '''' then bOwnerOrgID b = Some (hfOrgID f) else True)"

definition approval_join :: "tables \<Rightarrow> (budget_approval \<times> budget) list" where
  "approval_join t = concat (map (\<lambda>a. map (Pair a)
     (filter (\<lambda>b. apBudgetID a = bID b) (budget_definitions t))) (budget_approvals t))"

definition ListAllApprovalHistory ::
  "approval_history_filter \<Rightarrow> int \<Rightarrow> int \<Rightarrow> ((budget_approval \<times> budget) list \<times> nat) op" where
  "ListAllApprovalHistory f offset limit =
     (let p = (\<lambda>(a, b). history_budget f b) in
      bind_op (sql_row ''failed to count approval history''
          (\<lambda>now t. Some (count_where p (approval_join t))))
        (\<lambda>totalCount. bind_op (sql_page ''failed to query approval history'' offset limit
            (\<lambda>now t. order_by_desc (\<lambda>(a, b). apCreatedAt a) (filter p (approval_join t))))
          (\<lambda>results. return_op (results, totalCount))))"

section \<open>The handlers\<close>

definition approval_record ::
  "uuid \<Rightarrow> int \<Rightarrow> string \<Rightarrow> identity \<Rightarrow> string \<Rightarrow> budget_approval" where
  "approval_record i attempt action who reason =
     \<lparr>apID = 0, apBudgetID = i, apAttemptNumber = attempt, apAction = action,
      apActorUserID = idSubject who, apActorEmail = idEmail who, apReason = reason,
      apCreatedAt = zero_time, apUpdatedAt = zero_time\<rparr>"

text \<open>The result of \<open>CreateBudgetApproval\<close> is dropped by its callers.\<close>

definition record_approval :: "budget_approval \<Rightarrow> world \<Rightarrow> world" where
  "record_approval a w = snd (CreateBudgetApproval a w)"

definition may_decide :: "identity \<Rightarrow> budget \<Rightarrow> bool" where
  "may_decide who b \<longleftrightarrow> bOwnerOrgID b \<noteq> None \<and>
     CanApproveOrReject (Some who) (null_string (bOwnerOrgID b)) (null_string (bOwnerTeamID b))"

definition handle_ApproveBudget :: "uuid option \<Rightarrow> identity option \<Rightarrow> string handler" where
  "handle_ApproveBudget budget_id ident w = (case budget_id of
     None \<Rightarrow> (ErrorResponse 400 ''invalid budget_id'', w)
   | Some i \<Rightarrow> (case ident of
     None \<Rightarrow> (ErrorResponse 401 ''authentication required'', w)
   | Some who \<Rightarrow>
     if \<not> idIsOrg who \<and> \<not> idIsTeamAdmin who then (ErrorResponse 403 ''access denied'', w)
     else (case GetBudgetByID i w of
       (Inl ErrNotFound, w1) \<Rightarrow> (ErrorResponse 404 ''budget not found'', w1)
     | (Inl e, w1) \<Rightarrow> (ErrorResponse 500 ''failed to get budget'', w1)
     | (Inr b, w1) \<Rightarrow>
       if \<not> may_decide who b then (ErrorResponse 403 ''forbidden: org admin role required'', w1)
       else if bApprovalStatus b \<noteq> ApprovalStatusPending
       then (ErrorResponse 409 ''budget is not in pending status'', w1)
       else (case UpdateBudgetApprovalStatus i ApprovalStatusApproved False w1 of
         (Inl e, w2) \<Rightarrow> (ErrorResponse 500 ''failed to approve budget'', w2)
       | (Inr _, w2) \<Rightarrow>
         (let w3 = record_approval (approval_record i (bRejectionCount b + 1) ''approved'' who '''') w2;
              w4 = LogAction ''budget'' (RefUUID i) ''approved'' (Some who)
                     [(''budget_name'', MetaString (bName b))] w3
          in (Response 200 ''budget approved'', w4))))))"

text \<open>The budget closes at its third rejection.\<close>

definition rejection_status :: "int \<Rightarrow> approval_status" where
  "rejection_status newRejectionCount =
     (if newRejectionCount \<ge> 3 then ApprovalStatusClosed else ApprovalStatusRejected)"

definition handle_RejectBudget ::
  "uuid option \<Rightarrow> identity option \<Rightarrow> string option \<Rightarrow> (int \<times> approval_status) handler" where
  "handle_RejectBudget budget_id ident body w = (case budget_id of
     None \<Rightarrow> (ErrorResponse 400 ''invalid budget_id'', w)
   | Some i \<Rightarrow> (case ident of
     None \<Rightarrow> (ErrorResponse 401 ''authentication required'', w)
   | Some who \<Rightarrow>
     if \<not> idIsOrg who \<and> \<not> idIsTeamAdmin who then (ErrorResponse 403 ''access denied'', w)
     else (case body of
       None \<Rightarrow> (ErrorResponse 400 ''invalid request body'', w)
     | Some reason \<Rightarrow>
       if reason = '''' then (ErrorResponse 400 ''reason is required'', w)
       else (case GetBudgetByID i w of
         (Inl ErrNotFound, w1) \<Rightarrow> (ErrorResponse 404 ''budget not found'', w1)
       | (Inl e, w1) \<Rightarrow> (ErrorResponse 500 ''failed to get budget'', w1)
       | (Inr b, w1) \<Rightarrow>
         if \<not> may_decide who b then (ErrorResponse 403 ''forbidden: org admin role required'', w1)
         else if bApprovalStatus b \<noteq> ApprovalStatusPending
         then (ErrorResponse 409 ''budget is not in pending status'', w1)
         else (let newRejectionCount = bRejectionCount b + 1;
                   newStatus = rejection_status newRejectionCount
           in case UpdateBudgetApprovalStatus i newStatus True w1 of
             (Inl e, w2) \<Rightarrow> (ErrorResponse 500 ''failed to reject budget'', w2)
           | (Inr _, w2) \<Rightarrow>
             (let w3 = record_approval (approval_record i newRejectionCount ''rejected'' who reason) w2;
                  w4 = LogAction ''budget'' (RefUUID i) ''rejected'' (Some who)
                         [(''budget_name'', MetaString (bName b)), (''reason'', MetaString reason),
                          (''rejection_count'', MetaInt newRejectionCount),
                          (''final_status'', MetaString (approval_status_string newStatus))] w3
              in (Response 200 (newRejectionCount, newStatus), w4)))))))"

definition handle_ResubmitBudget :: "uuid option \<Rightarrow> identity option \<Rightarrow> string handler" where
  "handle_ResubmitBudget budget_id ident w = (case budget_id of
     None \<Rightarrow> (ErrorResponse 400 ''invalid budget_id'', w)
   | Some i \<Rightarrow> (case ident of
     None \<Rightarrow> (ErrorResponse 401 ''authentication required'', w)
   | Some who \<Rightarrow> (case GetBudgetByID i w of
       (Inl ErrNotFound, w1) \<Rightarrow> (ErrorResponse 404 ''budget not found'', w1)
     | (Inl e, w1) \<Rightarrow> (ErrorResponse 500 ''failed to get budget'', w1)
     | (Inr b, w1) \<Rightarrow>
       if bApprovalStatus b \<noteq> ApprovalStatusRejected
       then (ErrorResponse 409 ''budget is not in rejected status'', w1)
       else if bRejectionCount b \<ge> 3
       then (ErrorResponse 409 ''budget has been rejected too many times and cannot be resubmitted'', w1)
       else if \<not> CanResubmit (Some who) (null_string (bCreatedByUserID b))
       then (ErrorResponse 403 ''forbidden: only the original creator can resubmit'', w1)
       else (case UpdateBudgetApprovalStatus i ApprovalStatusPending False w1 of
         (Inl e, w2) \<Rightarrow> (ErrorResponse 500 ''failed to resubmit budget'', w2)
       | (Inr _, w2) \<Rightarrow>
         (let w3 = record_approval (approval_record i (bRejectionCount b + 1) ''resubmitted'' who '''') w2;
              w4 = LogAction ''budget'' (RefUUID i) ''resubmitted'' (Some who)
                     [(''budget_name'', MetaString (bName b)),
                      (''rejection_count'', MetaInt (bRejectionCount b))] w3
          in (Response 200 ''budget resubmitted for approval'', w4))))))"

definition no_admin :: "identity option \<Rightarrow> bool" where
  "no_admin ident \<longleftrightarrow> (case ident of None \<Rightarrow> False | Some who \<Rightarrow> \<not> idIsOrg who \<and> \<not> idIsTeamAdmin who)"

definition handle_CountPendingApprovals :: "identity option \<Rightarrow> nat handler" where
  "handle_CountPendingApprovals ident w =
     (if no_admin ident then (ErrorResponse 403 ''access denied'', w)
      else (case ident of
        None \<Rightarrow> (Response 200 0, w)
      | Some who \<Rightarrow>
        if idOrgID who = '''' then (Response 200 0, w)
        else (case CountPendingApprovals (idOrgID who) w of
          (Inl e, w1) \<Rightarrow> (ErrorResponse 500 ''failed to count pending approvals'', w1)
        | (Inr n, w1) \<Rightarrow> (Response 200 n, w1))))"

text \<open>A page of rows with its metadata.\<close>

definition paginated :: "'a list \<Rightarrow> pagination_params \<Rightarrow> int \<Rightarrow> ('a list \<times> pagination_meta) response" where
  "paginated rows params totalCount = (case NewPaginationMeta params totalCount of
     None \<Rightarrow> Panic | Some m \<Rightarrow> Response 200 (rows, m))"

definition handle_ListPendingApprovals ::
  "pagination_params \<Rightarrow> identity option \<Rightarrow> (budget list \<times> pagination_meta) handler" where
  "handle_ListPendingApprovals params ident w =
     (if no_admin ident then (ErrorResponse 403 ''access denied'', w)
      else (case ident of
        None \<Rightarrow> (paginated [] params 0, w)
      | Some who \<Rightarrow>
        if idOrgID who = '''' then (paginated [] params 0, w)
        else (case ListPendingApprovals (idOrgID who) (Offset params) (ppPageSize params) w of
          (Inl e, w1) \<Rightarrow> (ErrorResponse 500 ''failed to list pending approvals'', w1)
        | (Inr (rows, totalCount), w1) \<Rightarrow> (paginated rows params (int totalCount), w1))))"

text \<open>
  \<open>approvals[start:end]\<close> with the two bounds clamped from above only; a slice whose bounds are out of
  order or negative panics.
\<close>

definition go_slice :: "'a list \<Rightarrow> int \<Rightarrow> int \<Rightarrow> 'a list option" where
  "go_slice xs i j =
     (if 0 \<le> i \<and> i \<le> j \<and> j \<le> int (length xs) then Some (take (nat (j - i)) (drop (nat i) xs)) else None)"

definition history_page :: "'a list \<Rightarrow> pagination_params \<Rightarrow> 'a list option" where
  "history_page xs params =
     (let totalCount = int (length xs); start = Offset params;
          stop = go_int64 (start + ppPageSize params);
          start' = (if start > totalCount then totalCount else start);
          stop' = (if stop > totalCount then totalCount else stop)
      in go_slice xs start' stop')"

text \<open>
  \<open>budget_id\<close> of the query string: absent, present but no UUID (\<open>Some None\<close>), or a UUID.
\<close>

definition handle_ListApprovalHistory ::
  "uuid option option \<Rightarrow> pagination_params \<Rightarrow> identity option
    \<Rightarrow> ((budget_approval list + (budget_approval \<times> budget) list) \<times> pagination_meta) handler" where
  "handle_ListApprovalHistory budget_id params ident w =
     (if no_admin ident then (ErrorResponse 403 ''access denied'', w)
      else (case budget_id of
        Some None \<Rightarrow> (ErrorResponse 400 ''invalid budget_id'', w)
      | Some (Some i) \<Rightarrow> (case ListApprovalHistory i w of
          (Inl e, w1) \<Rightarrow> (ErrorResponse 500 ''failed to list approval history'', w1)
        | (Inr approvals, w1) \<Rightarrow> (case history_page approvals params of
            None \<Rightarrow> (Panic, w1)
          | Some rows \<Rightarrow> (case NewPaginationMeta params (int (length approvals)) of
              None \<Rightarrow> (Panic, w1) | Some m \<Rightarrow> (Response 200 (Inl rows, m), w1))))
      | None \<Rightarrow>
          (let f = (case ident of
               None \<Rightarrow> \<lparr>hfOrgID = '''', hfTeamID = ''''\<rparr>
             | Some who \<Rightarrow>
                 if idIsOrg who then \<lparr>hfOrgID = idOrgID who, hfTeamID = ''''\<rparr>
                 else \<lparr>hfOrgID = '''', hfTeamID = idTeamID who\<rparr>)
           in case ListAllApprovalHistory f (Offset params) (ppPageSize params) w of
             (Inl e, w1) \<Rightarrow> (ErrorResponse 500 ''failed to list approval history'', w1)
           | (Inr (rows, totalCount), w1) \<Rightarrow> (case NewPaginationMeta params (int totalCount) of
               None \<Rightarrow> (Panic, w1) | Some m \<Rightarrow> (Response 200 (Inr rows, m), w1)))))"

section \<open>Pages of the history\<close>

text \<open>Within the pages that exist the slice is the page; later pages are empty.\<close>

lemma go_slice_clamped:
  fixes a b :: nat
  assumes "a \<le> b"
  shows "go_slice xs (if int a > int (length xs) then int (length xs) else int a)
      (if int b > int (length xs) then int (length xs) else int b) = Some (take (b - a) (drop a xs))"
proof (cases "b \<le> length xs")
  case True
  with assms show ?thesis by (simp add: go_slice_def nat_diff_distrib)
next
  case False
  have "nat (int (length xs) - int a) = length xs - a" by simp
  moreover have "take (b - a) (drop a xs) = drop a xs" using False by simp
  ultimately show ?thesis
    using False by (cases "a \<le> length xs") (simp_all add: go_slice_def)
qed

text \<open>
  C16: a page of the history holds exactly its rows. For every page number and size whose product
  fits in 63 bits the handler's clamped slice is rows \<open>(page - 1) * size\<close> to \<open>page * size - 1\<close> of the
  history, as far as they exist, and the slice never panics.
\<close>

theorem history_page_exact:
  assumes "1 \<le> ppPage p" and "1 \<le> ppPageSize p" and "ppPage p * ppPageSize p < 2 ^ 63"
  shows "history_page xs p =
    Some (take (nat (ppPageSize p)) (drop (nat ((ppPage p - 1) * ppPageSize p)) xs))"
proof -
  define start where "start = nat ((ppPage p - 1) * ppPageSize p)"
  define stop where "stop = nat (ppPage p * ppPageSize p)"
  have prod: "(ppPage p - 1) * ppPageSize p + ppPageSize p = ppPage p * ppPageSize p"
    by (simp add: left_diff_distrib)
  have "0 \<le> (ppPage p - 1) * ppPageSize p" using assms by simp
  then have start: "int start = (ppPage p - 1) * ppPageSize p" by (simp add: start_def)
  have nonneg: "0 \<le> ppPage p * ppPageSize p" using assms by simp
  then have stop: "int stop = ppPage p * ppPageSize p" by (simp add: stop_def)
  have "int stop = int start + ppPageSize p" unfolding start stop using prod by simp
  then have le: "start \<le> stop" and size: "stop - start = nat (ppPageSize p)" using assms by simp_all
  have o: "Offset p = int start"
    unfolding start using assms by (intro Offset_exact) auto
  have "go_int64 (int start + ppPageSize p) = int stop"
    unfolding start stop prod
    by (intro go_int64_id order_trans [OF _ nonneg] assms(3)) simp
  then have "history_page xs p = Some (take (nat (ppPageSize p)) (drop start xs))"
    unfolding history_page_def Let_def o
    using go_slice_clamped [OF le, of xs] by (simp only: size)
  then show ?thesis by (simp only: start_def)
qed

text \<open>A huge page number wraps the offset around to a negative number and the slice panics.\<close>

lemma history_page_wraps:
  "history_page xs \<lparr>ppPage = 2 ^ 62, ppPageSize = 2\<rparr> = None"
proof -
  have "go_int64 (2 ^ 63 - 2) = 2 ^ 63 - 2" by (intro go_int64_id) simp_all
  have "Offset \<lparr>ppPage = 2 ^ 62, ppPageSize = 2\<rparr> = 2 ^ 63 - 2"
    by (simp add: Offset_def go_int64_id)
  then show ?thesis
    by (simp add: history_page_def Let_def go_slice_def go_int64_def)
qed

section \<open>Contracts\<close>

interpretation CreateAuditLog: atomic_op "CreateAuditLog e" for e
  unfolding CreateAuditLog_def by (intro op_contracts)

interpretation CreateBudgetApproval: atomic_op "CreateBudgetApproval a" for a
  unfolding CreateBudgetApproval_def Let_def by (intro op_contracts)

lemma counts_changes_status [op_contracts]: "counts_changes (set_approval_status i s b)"
  by (auto simp: counts_changes_def set_approval_status_def update_budgets_def count_budgets_def)

interpretation UpdateBudgetApprovalStatus: atomic_op "UpdateBudgetApprovalStatus i s b" for i s b
  unfolding UpdateBudgetApprovalStatus_def by (intro op_contracts)

interpretation CountPendingApprovals: query_op "CountPendingApprovals o1" for o1
  unfolding CountPendingApprovals_def by (intro op_contracts)

interpretation ListPendingApprovals: query_op "ListPendingApprovals o1 offset limit" for o1 offset limit
  unfolding ListPendingApprovals_def Let_def
  by (intro op_contracts) (simp add: query_op_return query_op_fail)

interpretation ListApprovalHistory: query_op "ListApprovalHistory i" for i
  unfolding ListApprovalHistory_def by (intro op_contracts)

interpretation ListAllApprovalHistory: query_op "ListAllApprovalHistory f offset limit" for f offset limit
  unfolding ListAllApprovalHistory_def Let_def by (intro op_contracts)

interpretation ListAuditLogs: query_op "ListAuditLogs render f offset limit" for render f offset limit
  unfolding ListAuditLogs_def by (intro op_contracts)

text \<open>
  The clean-up of the audit log never deletes anything: its statement names a table that does
  not exist, so every run fails and the entries are kept for ever.
\<close>

theorem CleanupOldEntries_always_fails:
  "\<exists>e w'. CleanupOldEntries retentionDays w = (Inl e, w') \<and> audit_log (db w') = audit_log (db w)"
  by (auto simp: CleanupOldEntries_def DeleteOldAuditLogs_def sql_exec_def pop_fault_def
      split: fault.splits list.splits)

end
