(* ===== verification/Witnesses.thy ===== *)
theory Witnesses
  imports Samples Budget_Tree Approvals
begin

text \<open>
  The theorems of the admission and of the charge, applied to the sample system.
\<close>

lemma run_eq: "\<not> isl (fst x) \<Longrightarrow> x = (Inr (projr (fst x)), fst (snd x), snd (snd x))"
  by (cases x; cases "fst x") auto

lemma run_err: "isl (fst x) \<Longrightarrow> x = (Inl (projl (fst x)), fst (snd x), snd (snd x))"
  by (cases x; cases "fst x") auto

definition sample_admission ::
  "fault list \<Rightarrow> (db_error + check_result) \<times> string service \<times> world" where
  "sample_admission fs = CheckAndReserveBudget sample_env sample_config sample_ctx ''m'' ''r1''
     sample_service (fresh_world fs)"

definition admission_result :: "fault list \<Rightarrow> check_result" where
  "admission_result fs = projr (fst (sample_admission fs))"

definition admission_world :: "fault list \<Rightarrow> world" where
  "admission_world fs = snd (snd (sample_admission fs))"

lemma sample_admission_run:
  assumes "\<not> isl (fst (sample_admission fs))"
  shows "CheckAndReserveBudget sample_env sample_config sample_ctx ''m'' ''r1'' sample_service
    (fresh_world fs) = (Inr (admission_result fs), fst (snd (sample_admission fs)), admission_world fs)"
  using run_eq [OF assms] by (simp add: sample_admission_def admission_result_def admission_world_def)

lemma sample_admission_returns: "\<not> isl (fst (sample_admission []))"
  by code_simp

lemma sample_admission_allowed:
  "crAllowed (admission_result []) \<and> crMatchedBudgets (admission_result []) \<noteq> []"
  by code_simp

lemma fresh_tables_ok: "tables_ok (db (fresh_world fs))"
  by (simp add: tables_ok_def sample_defs parent_exists_def)

lemma sample_cache_sound: "cache_sound sample_env (svPrograms sample_service)"
  by (simp add: sample_defs)

theorem CheckAndReserveBudget_all_or_nothing_witness:
  "open_txs (admission_world [StmtFail]) = 0 \<and> db (admission_world [StmtFail]) = db (fresh_world [])"
proof -
  have err: "isl (fst (sample_admission [StmtFail]))" by code_simp
  have "CheckAndReserveBudget sample_env sample_config sample_ctx ''m'' ''r1'' sample_service
      (fresh_world [StmtFail]) = (Inl (projl (fst (sample_admission [StmtFail]))),
        fst (snd (sample_admission [StmtFail])), admission_world [StmtFail])"
    using run_err [OF err] by (simp add: sample_admission_def admission_world_def)
  from CheckAndReserveBudget_all_or_nothing [OF this] show ?thesis
    by (simp add: sample_defs)
qed

theorem CheckAndReserveBudget_allowed_witness:
  "crMatchedBudgets (admission_result []) = matching_budgets sample_env sample_ctx (db (fresh_world []))"
  using CheckAndReserveBudget_allowed [OF fresh_tables_ok sample_cache_sound
      sample_admission_run [OF sample_admission_returns]] sample_admission_allowed
  by blast

lemma fresh_never_overdrawn: "never_overdrawn sample_env (sample_service, fresh_world [])"
  using fresh_tables_ok [of "[]"] sample_cache_sound
  by (simp add: never_overdrawn_def world_ok_def prices_ok_def sane_tables_def sane_budget_def
      CalculateRemaining_def sample_defs)

lemma sample_sane_config: "sane_config sample_config"
  by (simp add: sane_config_def sample_defs)

theorem no_oversubscription_witness:
  "list_all (\<lambda>b. bCurrentUsageUSD b + bPendingUsageUSD b \<le> bBudgetAmountUSD b)
     (budget_definitions (db (admission_world [])))"
  unfolding list_all_iff
proof
  fix b
  assume b: "b \<in> set (budget_definitions (db (admission_world [])))"
  have step: "admission_step sample_env sample_config (sample_service, fresh_world [])
      (fst (snd (sample_admission [])), admission_world [])"
    by (rule admission_step.request [OF sample_admission_run [OF sample_admission_returns]])
  have "\<forall>b \<in> set (budget_definitions (db (admission_world []))). \<not> bAllowFallback b"
    by code_simp
  with no_oversubscription [OF sample_sane_config fresh_never_overdrawn r_into_rtranclp [where r = "admission_step sample_env sample_config", OF step] b]
  show "bCurrentUsageUSD b + bPendingUsageUSD b \<le> bBudgetAmountUSD b"
    using b by blast
qed

theorem CheckAndReserveBudget_decides_witness:
  "\<exists>c s' w'. CheckAndReserveBudget sample_env sample_config sample_ctx ''m'' ''r1'' sample_service
      (fresh_world []) = (Inr c, s', w') \<and>
    crMatchedBudgets c = matching_budgets sample_env sample_ctx (db (fresh_world []))"
proof -
  have "faults (fresh_world []) = []" "fresh_ids (fresh_world []) (db (fresh_world []))"
    "unreserved ''r1'' (db (fresh_world []))"
    by (simp_all add: sample_defs fresh_ids_def unreserved_def)
  from CheckAndReserveBudget_decides [OF this(1) fresh_tables_ok sample_cache_sound this(2,3),
      of sample_config sample_ctx "''m''"]
  show ?thesis by blast
qed

theorem remaining_is_minimum_witness:
  "crRemainingBudget (admission_result []) =
     Min (CalculateRemaining ` set (crMatchedBudgets (admission_result [])))"
proof -
  have "\<forall>b \<in> set (crMatchedBudgets (admission_result [])). 0 \<le> CalculateRemaining b" by code_simp
  from remaining_is_minimum [OF fresh_tables_ok sample_cache_sound
      sample_admission_run [OF sample_admission_returns] _ _ this] sample_admission_allowed
  show ?thesis by blast
qed

section \<open>Charges\<close>

definition sample_charge :: "(db_error + decrement_result) \<times> string service \<times> world" where
  "sample_charge = DecrementBudgets sample_config ''r1'' ''m'' 1000000 3000000 None
     sample_service admitted_world"

definition charge_result :: decrement_result where
  "charge_result = projr (fst sample_charge)"

definition charge_world :: world where
  "charge_world = snd (snd sample_charge)"

lemma sample_charge_run: "DecrementBudgets sample_config ''r1'' ''m'' 1000000 3000000 None
    sample_service admitted_world = (Inr charge_result, fst (snd sample_charge), charge_world)"
proof -
  have "\<not> isl (fst sample_charge)" by code_simp
  from run_eq [OF this] show ?thesis
    by (simp add: sample_charge_def charge_result_def charge_world_def)
qed

lemma admitted_reservation: "first_reservation ''r1'' (db admitted_world) = Some (sample_reservation 2 1)"
  by code_simp

lemma admitted_tables_ok: "tables_ok (db admitted_world)"
  by (simp add: tables_ok_def sample_defs parent_exists_def)

lemma admitted_quiet: "faults admitted_world = []"
  by (simp add: sample_defs)

theorem DecrementBudgets_all_or_nothing_witness: "open_txs charge_world = 0"
  using DecrementBudgets_all_or_nothing [OF sample_charge_run] by (simp add: sample_defs)

theorem DecrementBudgets_effect_witness:
  "request_reservations (db charge_world) = []"
  using DecrementBudgets_effect [OF sample_charge_run admitted_reservation]
  by (simp add: sample_defs)


theorem DecrementBudgets_once_witness:
  "db (snd (snd (DecrementBudgets sample_config ''r1'' ''m'' 5 5 None (fst (snd sample_charge)) charge_world)))
    = db charge_world"
proof -
  let ?second = "DecrementBudgets sample_config ''r1'' ''m'' 5 5 None (fst (snd sample_charge)) charge_world"
  have "?second = (fst ?second, fst (snd ?second), snd (snd ?second))" by simp
  from DecrementBudgets_once [OF sample_charge_run this] show ?thesis by blast
qed


theorem pending_amount_leaks_witness:
  "\<exists>b' \<in> set (budget_definitions (db charge_world)). bID b' = 0 \<and>
    reserved_on (bID b') (request_reservations (db charge_world)) < bPendingUsageUSD b'"
proof -
  have "ledger_balanced (db admitted_world)"
    "sample_reservation 3 0 \<in> set (request_reservations (db admitted_world))"
    "\<forall>x \<in> set (request_reservations (db admitted_world)). 0 \<le> rsEstimatedCostUSD x"
    by (simp_all add: ledger_balanced_def sample_defs)
  with pending_amount_leaks [OF sample_charge_run admitted_reservation admitted_tables_ok,
      of "sample_reservation 3 0"] show ?thesis
    by (simp add: sample_reservation_def)
qed

theorem DeleteBudgetCascade_leaks_transaction_witness:
  "\<exists>w'. DeleteBudgetCascade 7 admitted_world = (Inl ErrNotFound, w') \<and> open_txs w' = 1"
  using DeleteBudgetCascade_leaks_transaction [OF admitted_quiet admitted_tables_ok, of 7]
  by (auto simp: sample_defs)

section \<open>Faults, hierarchies, access\<close>

theorem truncated_rows_admit_witness:
  "fst (CheckAndReserveBudget sample_env sample_config sample_ctx ''m'' ''r1'' sample_service
     (fresh_world [NoFault, RowsCut 0])) = Inr allow_unmatched"
proof -
  have "faults (fresh_world [NoFault, RowsCut 0]) = [NoFault, RowsCut 0]" by (simp add: sample_defs)
  then show ?thesis by (rule truncated_rows_admit)
qed

theorem cleanup_not_atomic_witness:
  "\<exists>e w'. CleanupExpiredReservations
      (admitted_world\<lparr>clock := 3000 * Second, faults := [NoFault, NoFault, StmtFail]\<rparr>) = (Inl e, w') \<and>
    request_reservations (db w') = [] \<and> budget_definitions (db w') = two_budgets 0 3"
  using cleanup_not_atomic [of "admitted_world\<lparr>clock := 3000 * Second,
      faults := [NoFault, NoFault, StmtFail]\<rparr>" "sample_reservation 2 1"]
  by (simp add: sample_defs expired_reservation_def Second_def)


theorem CanViewBudget_separates_witness:
  "\<exists>i. CanViewBudget (Some i) ''acme'' ''blue'' \<and> \<not> idIsOrg i \<and> idTeamID i = ''blue''"
proof -
  let ?i = "\<lparr>idSubject = ''u'', idEmail = ''e'', idOrgID = ''acme'', idTeamID = ''blue'', idIsOrg = False,
    idIsTeamAdmin = False, idUserID = ''u''\<rparr>"
  have view: "CanViewBudget (Some ?i) ''acme'' ''blue''" by (simp add: CanViewBudget_def)
  have "(idIsOrg ?i \<and> idOrgID ?i = ''acme'') \<or> (idTeamID ?i \<noteq> '''' \<and> idTeamID ?i = ''blue'')"
    by (rule CanViewBudget_separates [OF view]) simp
  with view show ?thesis by (intro exI [of _ ?i]) simp
qed

theorem history_page_exact_witness:
  "history_page [1, 2, 3, 4, 5 :: nat] \<lparr>ppPage = 2, ppPageSize = 2\<rparr> = Some [3, 4]"
  using history_page_exact [of "\<lparr>ppPage = 2, ppPageSize = 2\<rparr>" "[1, 2, 3, 4, 5 :: nat]"] by simp

end
