(* ===== verification/Go_Strings.thy ===== *)
theory Go_Strings
  imports Prelude
begin

text \<open>
  What the program uses of Go's \<open>strings\<close>, \<open>strconv\<close>, \<open>fmt\<close> and \<open>encoding/base64\<close>. A Go string is
  the list of its bytes. Case folding and white space are those of ASCII: the other letters
  and spaces of Unicode are left alone.
\<close>

section \<open>strings\<close>

definition lower_char :: "char \<Rightarrow> char" where
  "lower_char c = (if CHR ''A'' \<le> c \<and> c \<le> CHR ''Z'' then char_of (of_char c + 32 :: nat) else c)"

definition ToLower :: "string \<Rightarrow> string" where
  "ToLower s = map lower_char s"

definition EqualFold :: "string \<Rightarrow> string \<Rightarrow> bool" where
  "EqualFold s t \<longleftrightarrow> ToLower s = ToLower t"

definition HasPrefix :: "string \<Rightarrow> string \<Rightarrow> bool" where
  "HasPrefix s p \<longleftrightarrow> take (length p) s = p"

definition TrimPrefix :: "string \<Rightarrow> string \<Rightarrow> string" where
  "TrimPrefix s p = (if HasPrefix s p then drop (length p) s else s)"

fun Contains :: "string \<Rightarrow> string \<Rightarrow> bool" where
  "Contains [] p \<longleftrightarrow> p = []"
| "Contains (c # s) p \<longleftrightarrow> HasPrefix (c # s) p \<or> Contains s p"

fun split_from :: "char \<Rightarrow> string \<Rightarrow> string \<Rightarrow> string list" where
  "split_from sep acc [] = [rev acc]"
| "split_from sep acc (c # s) = (if c = sep then rev acc # split_from sep [] s else split_from sep (c # acc) s)"

text \<open>\<open>strings.Split\<close> with a separator of one byte.\<close>

definition Split :: "string \<Rightarrow> char \<Rightarrow> string list" where
  "Split s sep = split_from sep [] s"

definition is_space :: "char \<Rightarrow> bool" where
  "is_space c \<longleftrightarrow> c = CHR '' '' \<or> (CHR 0x09 \<le> c \<and> c \<le> CHR 0x0D)"

definition TrimSpace :: "string \<Rightarrow> string" where
  "TrimSpace s = rev (dropWhile is_space (rev (dropWhile is_space s)))"

definition replace_char :: "char \<Rightarrow> char \<Rightarrow> string \<Rightarrow> string" where
  "replace_char a b s = map (\<lambda>c. if c = a then b else c) s"

lemma split_from_no_sep: "sep \<notin> set s \<Longrightarrow> split_from sep acc s = [rev acc @ s]"
  by (induction s arbitrary: acc) auto

lemma split_from_append:
  "sep \<notin> set s \<Longrightarrow> split_from sep acc (s @ sep # t) = (rev acc @ s) # split_from sep [] t"
  by (induction s arbitrary: acc) auto

lemma Split_single [simp]: "sep \<notin> set s \<Longrightarrow> Split s sep = [s]"
  by (simp add: Split_def split_from_no_sep)

lemma Split_append: "sep \<notin> set s \<Longrightarrow> Split (s @ sep # t) sep = s # Split t sep"
  by (simp add: Split_def split_from_append)

lemma ToLower_idem [simp]: "ToLower (ToLower s) = ToLower s"
proof -
  have "lower_char (lower_char c) = lower_char c" for c
    by (cases "CHR ''A'' \<le> c \<and> c \<le> CHR ''Z''")
      (auto simp: lower_char_def less_eq_char_def of_char_of take_bit_nat_def)
  then show ?thesis by (simp add: ToLower_def)
qed

lemma HasPrefix_append [simp]: "HasPrefix (p @ s) p"
  by (simp add: HasPrefix_def)

lemma TrimPrefix_append [simp]: "TrimPrefix (p @ s) p = s"
  by (simp add: TrimPrefix_def)

lemma TrimSpace_id: "s \<noteq> [] \<Longrightarrow> \<not> is_space (hd s) \<Longrightarrow> \<not> is_space (last s) \<Longrightarrow> TrimSpace s = s"
  using dropWhile_eq_self_iff [of is_space s] dropWhile_eq_self_iff [of is_space "rev s"]
  by (simp add: TrimSpace_def hd_rev)

lemma TrimSpace_no_space: "list_all (\<lambda>c. \<not> is_space c) s \<Longrightarrow> TrimSpace s = s"
  by (cases "s = []") (simp_all add: TrimSpace_id list_all_iff, simp add: TrimSpace_def)

section \<open>Numbers\<close>

text \<open>
  \<open>strconv.Atoi\<close> and \<open>strconv.ParseInt(s, 10, 64)\<close>: an optional sign and at least one decimal digit, in the
  range of a 64-bit integer.
\<close>

definition digit_value :: "char \<Rightarrow> int" where
  "digit_value c = int (of_char c) - 48"

definition decimal :: "string \<Rightarrow> int option" where
  "decimal s = (if s \<noteq> [] \<and> list_all is_digit s
     then Some (foldl (\<lambda>n c. 10 * n + digit_value c) 0 s) else None)"

definition Atoi :: "string \<Rightarrow> int option" where
  "Atoi s = (case (case s of [] \<Rightarrow> None
       | c # r \<Rightarrow> if c = CHR ''-'' then map_option uminus (decimal r)
                  else if c = CHR ''+'' then decimal r else decimal s) of
       None \<Rightarrow> None
     | Some n \<Rightarrow> if - (2 ^ 63) \<le> n \<and> n < 2 ^ 63 then Some n else None)"

definition digit_char :: "nat \<Rightarrow> char" where
  "digit_char n = char_of (48 + n :: nat)"

function decimal_digits :: "int \<Rightarrow> string" where
  "decimal_digits n = (if n < 10 then [digit_char (nat n)]
     else decimal_digits (n div 10) @ [digit_char (nat (n mod 10))])"
  by pat_completeness auto
termination by (relation "measure nat") auto

declare decimal_digits.simps [simp del]

definition Itoa :: "int \<Rightarrow> string" where
  "Itoa i = (if i < 0 then CHR ''-'' # decimal_digits (- i) else decimal_digits i)"

text \<open>\<open>%.nf\<close>: rounded to \<open>n\<close> decimals, ties to even.\<close>

definition round_even :: "rat \<Rightarrow> int" where
  "round_even q = (let f = \<lfloor>q\<rfloor>; d = q - of_int f in
     if d < 1 / 2 then f else if d > 1 / 2 then f + 1 else if even f then f else f + 1)"

definition fixed :: "nat \<Rightarrow> rat \<Rightarrow> string" where
  "fixed n q =
     (let m = round_even (\<bar>q\<bar> * 10 ^ n); ip = decimal_digits (m div 10 ^ n);
          fp = decimal_digits (m mod 10 ^ n)
      in (if q < 0 then ''-'' else '''') @ ip @
         (if n = 0 then '''' else CHR ''.'' # replicate (n - length fp) (CHR ''0'') @ fp))"

section \<open>base64\<close>

text \<open>
  The standard and the URL alphabet differ in the characters for 62 and 63. A quantum of four characters gives
  three bytes; only the last may be padded. Line breaks are skipped, unused trailing bits ignored.
\<close>

definition base64_value :: "char \<Rightarrow> char \<Rightarrow> char \<Rightarrow> nat option" where
  "base64_value c62 c63 c =
     (if CHR ''A'' \<le> c \<and> c \<le> CHR ''Z'' then Some (of_char c - 65)
      else if CHR ''a'' \<le> c \<and> c \<le> CHR ''z'' then Some (of_char c - 71)
      else if is_digit c then Some (of_char c + 4)
      else if c = c62 then Some 62 else if c = c63 then Some 63 else None)"

definition bytes_of :: "nat \<Rightarrow> nat \<Rightarrow> nat \<Rightarrow> nat \<Rightarrow> string" where
  "bytes_of p q r s = (let v = p * 262144 + q * 4096 + r * 64 + s in
     [char_of (v div 65536), char_of (v div 256 mod 256), char_of (v mod 256)])"

fun base64_quanta :: "(char \<Rightarrow> nat option) \<Rightarrow> string \<Rightarrow> string option" where
  "base64_quanta val [] = Some []"
| "base64_quanta val (a # b # c # d # rest) =
     (case (val a, val b) of
        (Some p, Some q) \<Rightarrow>
          if d = CHR ''='' then
            (if rest \<noteq> [] then None
             else if c = CHR ''='' then Some (take 1 (bytes_of p q 0 0))
             else (case val c of None \<Rightarrow> None | Some r \<Rightarrow> Some (take 2 (bytes_of p q r 0))))
          else (case (val c, val d) of
             (Some r, Some s) \<Rightarrow> map_option (\<lambda>t. bytes_of p q r s @ t) (base64_quanta val rest)
           | _ \<Rightarrow> None)
      | _ \<Rightarrow> None)"
| "base64_quanta val _ = None"

definition strip_newlines :: "string \<Rightarrow> string" where
  "strip_newlines s = filter (\<lambda>c. c \<noteq> CHR 0x0A \<and> c \<noteq> CHR 0x0D) s"

definition URLDecode :: "string \<Rightarrow> string option" where
  "URLDecode s = base64_quanta (base64_value (CHR ''-'') (CHR ''_'')) (strip_newlines s)"

definition StdDecode :: "string \<Rightarrow> string option" where
  "StdDecode s = base64_quanta (base64_value (CHR ''+'') (CHR ''/'')) (strip_newlines s)"

text \<open>
  The encoder of RFC 4648 with the URL alphabet and without padding, as tokens are made with it.
\<close>

definition base64_char :: "nat \<Rightarrow> char" where
  "base64_char n = (if n < 26 then char_of (n + 65) else if n < 52 then char_of (n + 71)
     else if n < 62 then char_of (n - 4) else if n = 62 then CHR ''-'' else CHR ''_'')"

definition sextets :: "nat \<Rightarrow> nat list" where
  "sextets v = [v div 262144, v div 4096 mod 64, v div 64 mod 64, v mod 64]"

fun base64url :: "string \<Rightarrow> string" where
  "base64url (a # b # c # rest) =
     map base64_char (sextets (of_char a * 65536 + of_char b * 256 + of_char c)) @ base64url rest"
| "base64url [a, b] = take 3 (map base64_char (sextets (of_char a * 65536 + of_char b * 256)))"
| "base64url [a] = take 2 (map base64_char (sextets (of_char a * 65536)))"
| "base64url [] = []"

definition pad4 :: "string \<Rightarrow> string" where
  "pad4 s = s @ (if length s mod 4 = 2 then ''=='' else if length s mod 4 = 3 then ''='' else '''')"

lemma base64_char_table:
  "list_all (\<lambda>n. base64_value (CHR ''-'') (CHR ''_'') (base64_char n) = Some n \<and>
     base64_char n \<noteq> CHR ''='' \<and> base64_char n \<noteq> CHR ''.'' \<and> \<not> is_space (base64_char n)) [0..<64]"
  by code_simp

lemma base64_char:
  assumes "n < 64"
  shows "base64_value (CHR ''-'') (CHR ''_'') (base64_char n) = Some n"
    and "base64_char n \<noteq> CHR ''=''" and "base64_char n \<noteq> CHR ''.''" and "\<not> is_space (base64_char n)"
  using base64_char_table assms by (auto simp: list_all_iff)

lemma of_char_less [simp]: "(of_char c :: nat) < 256"
  by (rule nat_of_char_less_256)

lemma sextets_value:
  "v div 262144 * 262144 + v div 4096 mod 64 * 4096 + v div 64 mod 64 * 64 + v mod 64 = (v :: nat)"
proof -
  have "v div 4096 div 64 = v div 262144" and "v div 64 div 64 = v div 4096"
    by (simp_all add: div_mult2_eq [symmetric])
  then have "v div 4096 = 64 * (v div 262144) + v div 4096 mod 64"
    and "v div 64 = 64 * (v div 4096) + v div 64 mod 64" and "v = 64 * (v div 64) + v mod 64"
    by (metis mult_div_mod_eq)+
  then show ?thesis by linarith
qed

lemma bytes_of_sextets:
  "bytes_of (v div 262144) (v div 4096 mod 64) (v div 64 mod 64) (v mod 64) =
    [char_of (v div 65536), char_of (v div 256 mod 256), char_of (v mod 256)]"
  unfolding bytes_of_def Let_def sextets_value by simp

lemma byte_digits:
  fixes x y z :: nat
  assumes "y < 256" and "z < 256"
  shows "(x * 65536 + y * 256 + z) div 65536 = x" and "(x * 65536 + y * 256 + z) mod 256 = z"
    and "(x * 65536 + y * 256 + z) div 256 mod 256 = y"
proof -
  have d: "(x * 65536 + y * 256 + z) div 256 = x * 256 + y"
    using assms(2) by (intro div_nat_eqI) simp_all
  show "(x * 65536 + y * 256 + z) div 65536 = x"
    using assms by (intro div_nat_eqI) simp_all
  show "(x * 65536 + y * 256 + z) div 256 mod 256 = y"
    unfolding d using assms(1) by simp
  have "x * 65536 + y * 256 + z = z + 256 * (x * 256 + y)" by simp
  then show "(x * 65536 + y * 256 + z) mod 256 = z"
    using assms(2) by (metis mod_less mod_mult_self2)
qed

lemma char_of_byte [simp]:
  "char_of ((of_char a * 65536 + of_char b * 256 + of_char c :: nat) div 65536) = a"
  "char_of ((of_char a * 65536 + of_char b * 256 + of_char c :: nat) div 256 mod 256) = b"
  "char_of ((of_char a * 65536 + of_char b * 256 + of_char c :: nat) mod 256) = c"
  by (simp_all only: byte_digits of_char_less char_of_char)

definition block :: "char \<Rightarrow> char \<Rightarrow> char \<Rightarrow> nat" where
  "block a b c = of_char a * 65536 + of_char b * 256 + of_char c"

lemma block_less: "block a b c < 16777216"
  using of_char_less [of a] of_char_less [of b] of_char_less [of c] unfolding block_def by linarith

lemma sextets_less: "v < 16777216 \<Longrightarrow> x \<in> set (sextets v) \<Longrightarrow> x < 64"
  by (auto simp: sextets_def less_mult_imp_div_less)

abbreviation url_value :: "char \<Rightarrow> nat option" where
  "url_value \<equiv> base64_value (CHR ''-'') (CHR ''_'')"

lemma url_quantum:
  "base64_quanta url_value (map base64_char (sextets (block a b c)) @ rest) =
    map_option (\<lambda>t. a # b # c # t) (base64_quanta url_value rest)"
proof -
  let ?v = "block a b c"
  have small: "?v div 262144 < 64" "?v div 4096 mod 64 < 64" "?v div 64 mod 64 < 64" "?v mod 64 < 64"
    using block_less by (auto simp: less_mult_imp_div_less)
  then have "base64_quanta url_value (map base64_char (sextets ?v) @ rest) =
    map_option (\<lambda>t. bytes_of (?v div 262144) (?v div 4096 mod 64) (?v div 64 mod 64) (?v mod 64) @ t)
      (base64_quanta url_value rest)"
    by (simp add: sextets_def base64_char)
  also have "\<dots> = map_option (\<lambda>t. a # b # c # t) (base64_quanta url_value rest)"
    unfolding bytes_of_sextets unfolding block_def char_of_byte by simp
  finally show ?thesis .
qed

lemma url_tail_2:
  "base64_quanta url_value (take 3 (map base64_char (sextets (block a b (CHR 0x00)))) @ ''='') = Some [a, b]"
proof -
  let ?v = "block a b (CHR 0x00)"
  have small: "?v div 262144 < 64" "?v div 4096 mod 64 < 64" "?v div 64 mod 64 < 64"
    using block_less by (auto simp: less_mult_imp_div_less)
  have "?v mod 64 = 0" by (simp add: block_def mod_add_eq [symmetric] mod_mult_eq [symmetric])
  then have "take 2 (bytes_of (?v div 262144) (?v div 4096 mod 64) (?v div 64 mod 64) 0) = [a, b]"
    using bytes_of_sextets [of ?v] char_of_byte [of a b "CHR 0x00"] by (simp add: block_def)
  with small show ?thesis by (simp add: sextets_def base64_char)
qed

lemma url_tail_1:
  "base64_quanta url_value (take 2 (map base64_char (sextets (block a (CHR 0x00) (CHR 0x00)))) @ ''=='') = Some [a]"
proof -
  let ?v = "block a (CHR 0x00) (CHR 0x00)"
  have small: "?v div 262144 < 64" "?v div 4096 mod 64 < 64"
    using block_less by (auto simp: less_mult_imp_div_less)
  have "?v = of_char a * 1024 * 64" and "?v div 64 = of_char a * 16 * 64" by (simp_all add: block_def)
  then have "?v mod 64 = 0" and "?v div 64 mod 64 = 0" by simp_all
  then have "take 1 (bytes_of (?v div 262144) (?v div 4096 mod 64) 0 0) = [a]"
    using bytes_of_sextets [of ?v] char_of_byte [of a "CHR 0x00" "CHR 0x00"] by (simp add: block_def)
  with small show ?thesis by (simp add: sextets_def base64_char)
qed

lemma base64url_block: "base64url (a # b # c # rest) = map base64_char (sextets (block a b c)) @ base64url rest"
  "base64url [a, b] = take 3 (map base64_char (sextets (block a b (CHR 0x00))))"
  "base64url [a] = take 2 (map base64_char (sextets (block a (CHR 0x00) (CHR 0x00))))"
  by (simp_all add: block_def)

lemma pad4_quantum: "length q = 4 \<Longrightarrow> pad4 (q @ t) = q @ pad4 t"
  by (simp add: pad4_def)

lemma quanta_base64url: "base64_quanta url_value (pad4 (base64url s)) = Some s"
proof (induction s rule: base64url.induct)
  case (1 a b c rest)
  have "length (map base64_char (sextets (block a b c))) = 4" by (simp add: sextets_def)
  from pad4_quantum [OF this] 1 show ?case
    unfolding base64url_block by (simp add: url_quantum)
next
  case (2 a b)
  have "pad4 (base64url [a, b]) = base64url [a, b] @ ''=''" by (simp add: pad4_def sextets_def)
  then show ?case unfolding base64url_block by (simp only: url_tail_2)
next
  case (3 a)
  have "pad4 (base64url [a]) = base64url [a] @ ''==''" by (simp add: pad4_def sextets_def)
  then show ?case unfolding base64url_block by (simp only: url_tail_1)
next
  case 4
  then show ?case by (simp add: pad4_def)
qed

text \<open>The characters the encoder makes are neither padding, dots nor white space.\<close>

lemma sextets_chars:
  "x \<in> set (map base64_char (sextets (block a b c))) \<Longrightarrow> x \<noteq> CHR ''.'' \<and> \<not> is_space x"
  using base64_char(3,4) sextets_less [OF block_less] by auto

lemma base64url_chars: "x \<in> set (base64url s) \<Longrightarrow> x \<noteq> CHR ''.'' \<and> \<not> is_space x"
proof (induction s rule: base64url.induct)
  case (1 a b c rest)
  then show ?case
    unfolding base64url_block using sextets_chars [of x a b c] by (auto simp del: set_map)
qed (auto simp only: base64url_block base64url.simps(4) list.set dest: in_set_takeD sextets_chars)

lemma url_roundtrip: "URLDecode (pad4 (base64url s)) = Some s"
proof -
  have nl: "is_space (CHR 0x0A)" "is_space (CHR 0x0D)" by code_simp+
  have "x \<noteq> CHR 0x0A \<and> x \<noteq> CHR 0x0D" if "x \<in> set (base64url s)" for x
    using base64url_chars [OF that] nl by auto
  then have "strip_newlines (pad4 (base64url s)) = pad4 (base64url s)"
    by (auto simp: strip_newlines_def pad4_def filter_id_conv)
  then show ?thesis by (simp add: URLDecode_def quanta_base64url)
qed

end
