(* ===== verification/Go_Json.thy ===== *)
theory Go_Json
  imports Go_Strings Cel
begin

text \<open>
  What the program uses of \<open>encoding/json\<close>: the syntax of JSON texts, decoding into a struct by named
  fields and into \<open>interface{}\<close>, and the encoding of a string. Field names match up to the case of ASCII
  letters. The limit of ten thousand nested values, and the replacement of invalid UTF-8 are not modelled.
\<close>

datatype json = JNull | JBool bool | JNumber string | JString string
  | JArray "json list" | JObject "(string \<times> json) list"

section \<open>Strings\<close>

definition hex_value :: "char \<Rightarrow> nat option" where
  "hex_value c = (if is_digit c then Some (of_char c - 48)
     else if CHR ''a'' \<le> c \<and> c \<le> CHR ''f'' then Some (of_char c - 87)
     else if CHR ''A'' \<le> c \<and> c \<le> CHR ''F'' then Some (of_char c - 55) else None)"

fun hex4 :: "string \<Rightarrow> nat option" where
  "hex4 (a # b # c # d # _) = (case (hex_value a, hex_value b, hex_value c, hex_value d) of
     (Some p, Some q, Some r, Some s) \<Rightarrow> Some (p * 4096 + q * 256 + r * 16 + s) | _ \<Rightarrow> None)"
| "hex4 _ = None"

definition utf8 :: "nat \<Rightarrow> string" where
  "utf8 n = map char_of
     (if n < 128 then [n]
      else if n < 2048 then [192 + n div 64, 128 + n mod 64]
      else if n < 65536 then [224 + n div 4096, 128 + n div 64 mod 64, 128 + n mod 64]
      else [240 + n div 262144, 128 + n div 4096 mod 64, 128 + n div 64 mod 64, 128 + n mod 64])"

text \<open>
  The bytes of an escape after its backslash, and how many characters it takes. A high surrogate and
  the low one after it make one character, a surrogate alone becomes the replacement character.
\<close>

definition unicode_escape :: "string \<Rightarrow> (string \<times> nat) option" where
  "unicode_escape h = (case hex4 h of
     None \<Rightarrow> None
   | Some n \<Rightarrow>
     if 0xD800 \<le> n \<and> n < 0xE000 then
       (case (if take 2 (drop 4 h) = [CHR 0x5C, CHR ''u''] then hex4 (drop 6 h) else None) of
          Some m \<Rightarrow> if n < 0xDC00 \<and> 0xDC00 \<le> m \<and> m < 0xE000
             then Some (utf8 (0x10000 + (n - 0xD800) * 1024 + (m - 0xDC00)), 11)
             else Some (utf8 0xFFFD, 5)
        | None \<Rightarrow> Some (utf8 0xFFFD, 5))
     else Some (utf8 n, 5))"

definition escape :: "string \<Rightarrow> (string \<times> nat) option" where
  "escape s = (case s of [] \<Rightarrow> None
   | e # h \<Rightarrow>
     if e = CHR 0x22 \<or> e = CHR 0x5C \<or> e = CHR ''/'' then Some ([e], 1)
     else if e = CHR ''b'' then Some ([CHR 0x08], 1)
     else if e = CHR ''f'' then Some ([CHR 0x0C], 1)
     else if e = CHR ''n'' then Some ([CHR 0x0A], 1)
     else if e = CHR ''r'' then Some ([CHR 0x0D], 1)
     else if e = CHR ''t'' then Some ([CHR 0x09], 1)
     else if e = CHR ''u'' then unicode_escape h
     else None)"

text \<open>The rest of a string literal after its opening quote.\<close>

function string_rest :: "string \<Rightarrow> (string \<times> string) option" where
  "string_rest [] = None"
| "string_rest (c # s) =
     (if c = CHR 0x22 then Some ([], s)
      else if c = CHR 0x5C then
        (case escape s of None \<Rightarrow> None
         | Some (bytes, n) \<Rightarrow> map_option (\<lambda>(t, u). (bytes @ t, u)) (string_rest (drop n s)))
      else if c < CHR 0x20 then None
      else map_option (\<lambda>(t, u). (c # t, u)) (string_rest s))"
  by pat_completeness auto
termination by (relation "measure length") auto

section \<open>Numbers\<close>

definition take_digits :: "string \<Rightarrow> string \<times> string" where
  "take_digits s = (takeWhile is_digit s, dropWhile is_digit s)"

text \<open>
  A number literal: its integer, fraction and exponent parts as written, and the rest.
\<close>

definition integer_part :: "string \<Rightarrow> (string \<times> string) option" where
  "integer_part s = (case s of [] \<Rightarrow> None
     | c # r \<Rightarrow> if c = CHR ''0'' then Some ([c], r)
                else if is_digit c then Some (take_digits s) else None)"

definition fraction_part :: "string \<Rightarrow> (string \<times> string) option" where
  "fraction_part s = (case s of [] \<Rightarrow> Some ([], [])
     | c # r \<Rightarrow> if c = CHR ''.''
         then (case take_digits r of (ds, r') \<Rightarrow> if ds = [] then None else Some (c # ds, r'))
         else Some ([], s))"

definition exponent_part :: "string \<Rightarrow> (string \<times> string) option" where
  "exponent_part s = (case s of [] \<Rightarrow> Some ([], [])
     | c # r \<Rightarrow> if c = CHR ''e'' \<or> c = CHR ''E'' then
         (let (sg, r1) = (case r of [] \<Rightarrow> ([], []) | d # q \<Rightarrow>
                if d = CHR ''+'' \<or> d = CHR ''-'' then ([d], q) else ([], r));
              (ds, r2) = take_digits r1
          in if ds = [] then None else Some (c # sg @ ds, r2))
         else Some ([], s))"

definition number_literal :: "string \<Rightarrow> (string \<times> string) option" where
  "number_literal s =
     (let (sg, s1) = (case s of [] \<Rightarrow> ([], []) | c # r \<Rightarrow> if c = CHR ''-'' then ([c], r) else ([], s))
      in case integer_part s1 of None \<Rightarrow> None | Some (ip, s2) \<Rightarrow>
        (case fraction_part s2 of None \<Rightarrow> None | Some (fp, s3) \<Rightarrow>
          (case exponent_part s3 of None \<Rightarrow> None | Some (ep, s4) \<Rightarrow> Some (sg @ ip @ fp @ ep, s4))))"

text \<open>The number a literal stands for, exactly (\<open>float64\<close> would round it).\<close>

definition nat_value :: "string \<Rightarrow> int" where
  "nat_value s = foldl (\<lambda>n c. 10 * n + digit_value c) 0 s"

definition number_value :: "string \<Rightarrow> rat" where
  "number_value s =
     (let neg = (take 1 s = ''-''); s1 = (if neg then drop 1 s else s);
          ip = takeWhile is_digit s1; s2 = dropWhile is_digit s1;
          fp = (if take 1 s2 = ''.'' then takeWhile is_digit (drop 1 s2) else []);
          s3 = (if take 1 s2 = ''.'' then dropWhile is_digit (drop 1 s2) else s2);
          eneg = (take 1 (drop 1 s3) = ''-'');
          ep = nat (nat_value (filter is_digit s3));
          m = of_int (nat_value (ip @ fp)) / 10 ^ length fp;
          v = (if eneg then m / 10 ^ ep else m * 10 ^ ep)
      in if neg then - v else v)"

section \<open>Values\<close>

definition skip_ws :: "string \<Rightarrow> string" where
  "skip_ws s = dropWhile (\<lambda>c. c = CHR '' '' \<or> c = CHR 0x09 \<or> c = CHR 0x0A \<or> c = CHR 0x0D) s"

text \<open>
  A value, the items of an array after its bracket, the members of an object after its brace. Every
  nested call has consumed a character, so fuel beyond the length of the text is enough.
\<close>

fun json_value :: "nat \<Rightarrow> string \<Rightarrow> (json \<times> string) option"
  and json_items :: "nat \<Rightarrow> string \<Rightarrow> (json list \<times> string) option"
  and json_members :: "nat \<Rightarrow> string \<Rightarrow> ((string \<times> json) list \<times> string) option" where
  "json_value 0 s = None"
| "json_value (Suc n) s = (case skip_ws s of [] \<Rightarrow> None
     | c # r \<Rightarrow>
       if c = CHR 0x22 then map_option (\<lambda>(t, u). (JString t, u)) (string_rest r)
       else if c = CHR 0x7B then
         (if take 1 (skip_ws r) = [CHR 0x7D] then Some (JObject [], drop 1 (skip_ws r))
          else map_option (\<lambda>(ms, u). (JObject ms, u)) (json_members n r))
       else if c = CHR 0x5B then
         (if take 1 (skip_ws r) = [CHR 0x5D] then Some (JArray [], drop 1 (skip_ws r))
          else map_option (\<lambda>(vs, u). (JArray vs, u)) (json_items n r))
       else if HasPrefix (c # r) ''true'' then Some (JBool True, drop 4 (c # r))
       else if HasPrefix (c # r) ''false'' then Some (JBool False, drop 5 (c # r))
       else if HasPrefix (c # r) ''null'' then Some (JNull, drop 4 (c # r))
       else map_option (\<lambda>(t, u). (JNumber t, u)) (number_literal (c # r)))"
| "json_items 0 s = None"
| "json_items (Suc n) s = (case json_value n s of None \<Rightarrow> None
     | Some (v, s1) \<Rightarrow> (case skip_ws s1 of [] \<Rightarrow> None
         | c # r \<Rightarrow> if c = CHR 0x5D then Some ([v], r)
                    else if c = CHR '','' then map_option (\<lambda>(vs, u). (v # vs, u)) (json_items n r)
                    else None))"
| "json_members 0 s = None"
| "json_members (Suc n) s = (case skip_ws s of [] \<Rightarrow> None
     | q # s0 \<Rightarrow> if q \<noteq> CHR 0x22 then None else
       (case string_rest s0 of None \<Rightarrow> None
        | Some (k, s1) \<Rightarrow>
          (case skip_ws s1 of [] \<Rightarrow> None
           | c # s2 \<Rightarrow> if c \<noteq> CHR '':'' then None else
             (case json_value n s2 of None \<Rightarrow> None
              | Some (v, s3) \<Rightarrow> (case skip_ws s3 of [] \<Rightarrow> None
                 | d # r \<Rightarrow> if d = CHR 0x7D then Some ([(k, v)], r)
                            else if d = CHR '','' then map_option (\<lambda>(ms, u). ((k, v) # ms, u)) (json_members n r)
                            else None)))))"

text \<open>A whole text: one value with nothing but white space around it.\<close>

definition json_text :: "string \<Rightarrow> json option" where
  "json_text s = (case json_value (2 * length s + 2) s of
     Some (v, r) \<Rightarrow> if skip_ws r = [] then Some v else None | None \<Rightarrow> None)"

section \<open>Decoding\<close>

text \<open>
  \<open>json.Unmarshal\<close> into a Go value: a decoder takes the JSON value and the value the target has, \<open>None\<close> is an
  error. \<open>null\<close> leaves the target alone, unknown members are skipped, a later member overrides an earlier
  one. The program never looks at a target after an error.
\<close>

definition decode_string :: "json \<Rightarrow> string \<Rightarrow> string option" where
  "decode_string v x = (case v of JString s \<Rightarrow> Some s | JNull \<Rightarrow> Some x | _ \<Rightarrow> None)"

definition decode_int64 :: "json \<Rightarrow> int \<Rightarrow> int option" where
  "decode_int64 v x = (case v of JNumber s \<Rightarrow> Atoi s | JNull \<Rightarrow> Some x | _ \<Rightarrow> None)"

fun decode_members ::
  "(string \<times> (json \<Rightarrow> 'a \<Rightarrow> 'a option)) list \<Rightarrow> (string \<times> json) list \<Rightarrow> 'a \<Rightarrow> 'a option" where
  "decode_members fs [] x = Some x"
| "decode_members fs ((k, v) # ms) x = (case find (\<lambda>(n, d). EqualFold k n) fs of
     None \<Rightarrow> decode_members fs ms x
   | Some (n, d) \<Rightarrow> (case d v x of None \<Rightarrow> None | Some x' \<Rightarrow> decode_members fs ms x'))"

definition decode_struct ::
  "(string \<times> (json \<Rightarrow> 'a \<Rightarrow> 'a option)) list \<Rightarrow> json \<Rightarrow> 'a \<Rightarrow> 'a option" where
  "decode_struct fs v x = (case v of
     JObject ms \<Rightarrow> decode_members fs ms x | JNull \<Rightarrow> Some x | _ \<Rightarrow> None)"

text \<open>Into \<open>interface{}\<close>. A number out of the range of \<open>float64\<close> is no error here.\<close>

fun dyn_of_json :: "json \<Rightarrow> dyn" where
  "dyn_of_json JNull = DNull"
| "dyn_of_json (JBool b) = DBool b"
| "dyn_of_json (JNumber s) = DNumber (number_value s)"
| "dyn_of_json (JString s) = DString s"
| "dyn_of_json (JArray vs) = DList (map dyn_of_json vs)"
| "dyn_of_json (JObject ms) = DMap (map (\<lambda>(k, v). (k, dyn_of_json v)) ms)"

section \<open>Encoding a string\<close>

definition hex_char :: "nat \<Rightarrow> char" where
  "hex_char n = (if n < 10 then char_of (48 + n) else char_of (87 + n))"

definition json_char :: "char \<Rightarrow> string" where
  "json_char c =
     (if c = CHR 0x22 \<or> c = CHR 0x5C then [CHR 0x5C, c]
      else if c = CHR 0x08 then [CHR 0x5C, CHR ''b'']
      else if c = CHR 0x0C then [CHR 0x5C, CHR ''f'']
      else if c = CHR 0x0A then [CHR 0x5C, CHR ''n'']
      else if c = CHR 0x0D then [CHR 0x5C, CHR ''r'']
      else if c = CHR 0x09 then [CHR 0x5C, CHR ''t'']
      else if c < CHR 0x20 \<or> c = CHR ''<'' \<or> c = CHR ''>'' \<or> c = CHR ''&'' then
        [CHR 0x5C, CHR ''u'', CHR ''0'', CHR ''0'', hex_char (of_char c div 16), hex_char (of_char c mod 16)]
      else [c])"

definition MarshalString :: "string \<Rightarrow> string" where
  "MarshalString s = CHR 0x22 # concat (map json_char s) @ [CHR 0x22]"

lemma hex_value_table: "list_all (\<lambda>n. hex_value (hex_char n) = Some n) [0..<16]"
  by code_simp

lemma hex_value_hex_char [simp]: "n < 16 \<Longrightarrow> hex_value (hex_char n) = Some n"
  using hex_value_table by (simp add: list_all_iff)

lemma unicode_escape_byte:
  assumes "of_char c < (128 :: nat)"
  shows "unicode_escape (CHR ''0'' # CHR ''0'' # hex_char (of_char c div 16) # hex_char (of_char c mod 16) # t)
    = Some ([c], 5)"
proof -
  have z: "hex_value (CHR ''0'') = Some 0" by code_simp
  have "of_char c div 16 < (16 :: nat)" "of_char c mod 16 < (16 :: nat)" using assms by auto
  moreover have "of_char c div 16 * 16 + of_char c mod 16 = (of_char c :: nat)" by simp
  ultimately have "hex4 (CHR ''0'' # CHR ''0'' # hex_char (of_char c div 16) # hex_char (of_char c mod 16) # t)
      = Some (of_char c)"
    by (simp add: z)
  with assms show ?thesis by (simp add: unicode_escape_def utf8_def)
qed

lemma string_rest_json_char:
  "string_rest (json_char c @ t) = map_option (\<lambda>(s, u). (c # s, u)) (string_rest t)"
proof (cases "c < CHR 0x20 \<or> c = CHR ''<'' \<or> c = CHR ''>'' \<or> c = CHR ''&''")
  case True
  then have "of_char c < (128 :: nat)" by (auto simp: less_char_def)
  from unicode_escape_byte [OF this] True show ?thesis
    by (auto simp: json_char_def escape_def)
next
  case False
  then show ?thesis by (auto simp: json_char_def escape_def)
qed

lemma string_rest_encoded: "string_rest (concat (map json_char s) @ CHR 0x22 # r) = Some (s, r)"
  by (induction s) (simp_all add: string_rest_json_char del: string_rest.simps(2), simp)

lemma json_value_string:
  "json_value (Suc n) (MarshalString s @ r) = Some (JString s, r)"
  by (simp add: MarshalString_def skip_ws_def string_rest_encoded)

text \<open>The objects whose keys are encoded strings, as the templates of the program write them.\<close>

lemma skip_ws_quote: "skip_ws (MarshalString s @ r) = MarshalString s @ r"
  by (simp add: MarshalString_def skip_ws_def)

lemma json_value_object:
  "json_value (Suc n) (CHR 0x7B # MarshalString k @ r) =
    map_option (\<lambda>(ms, u). (JObject ms, u)) (json_members n (MarshalString k @ r))"
  by (simp add: skip_ws_quote) (simp add: skip_ws_def MarshalString_def)

lemma json_members_more:
  assumes "json_value n t = Some (v, CHR '','' # r)"
  shows "json_members (Suc n) (MarshalString k @ CHR '':'' # t) =
    map_option (\<lambda>(ms, u). ((k, v) # ms, u)) (json_members n r)"
  using assms
  by (simp add: skip_ws_quote) (simp add: MarshalString_def string_rest_encoded skip_ws_def)

lemma json_members_last:
  assumes "json_value n t = Some (v, CHR 0x7D # r)"
  shows "json_members (Suc n) (MarshalString k @ CHR '':'' # t) = Some ([(k, v)], r)"
  using assms
  by (simp add: skip_ws_quote) (simp add: MarshalString_def string_rest_encoded skip_ws_def)

end
