(* ===== verification/Extproc_Common.thy ===== *)
theory Extproc_Common
  imports Auth Go_Json "HOL-Library.AList"
begin

text \<open>
  \<open>internal/extproc/common.go\<close> and \<open>model.go\<close>: what the two external processors share. The messages of the
  Envoy protocol are datatypes with the fields the program reads or sets; a header mutation is the list of the
  headers it sets, \<open>None\<close> the nil mutation.
\<close>

section \<open>Messages\<close>

record header =
  hKey :: string
  hValue :: string
  hRawValue :: string

text \<open>
  A request of the stream: the headers with the filter metadata (a list of namespaces in the order in which
  the map is ranged over, each with its fields or nil), chunks of the two bodies with the
  end-of-stream flag, or a kind the servers do not know (trailers).
\<close>

type_synonym filter_metadata = "(string \<times> (string \<times> dyn) list option) list"

datatype processing_request =
    RequestHeaders "header list option" filter_metadata
  | RequestBody string bool
  | ResponseHeaders
  | ResponseBody string bool
  | OtherRequest

type_synonym header_mutation = "(string \<times> string) list option"

datatype processing_response =
    ImmediateResponse int "(string \<times> string) list" string string
  | RequestHeadersResponse header_mutation "(string \<times> dyn) list option"
  | RequestBodyResponse header_mutation string bool
  | ResponseHeadersResponse
  | ResponseBodyResponse header_mutation string bool

text \<open>
  What a turn of the loop over the stream meets: a cancelled context, a failed \<open>Recv\<close>, or a request,
  with whether the \<open>Send\<close> of its answer succeeds. The end of the list is the end of the stream.
\<close>

datatype stream_event = Cancelled | RecvFailed | Received processing_request bool

datatype stream_end = StreamEOF | StreamCancelled | StreamRecvFailed | StreamSendFailed

section \<open>Headers\<close>

definition getHeaderValue :: "header \<Rightarrow> string" where
  "getHeaderValue h = (if hRawValue h \<noteq> [] then hRawValue h else hValue h)"

definition header_list :: "header list option \<Rightarrow> header list" where
  "header_list hs = (case hs of None \<Rightarrow> [] | Some l \<Rightarrow> l)"

text \<open>\<open>headersMap[strings.ToLower(h.Key)] = getHeaderValue(h)\<close> for every header: the last one of a name counts.\<close>

definition headers_map :: "header list option \<Rightarrow> (string \<times> string) list" where
  "headers_map hs = fold (\<lambda>h. AList.update (ToLower (hKey h)) (getHeaderValue h)) (header_list hs) []"

text \<open>A lookup in a Go map of strings: the empty string when the key is absent.\<close>

definition header_value :: "string \<Rightarrow> (string \<times> string) list \<Rightarrow> string" where
  "header_value k m = null_string (map_of m k)"

text \<open>The first header with one of the names.\<close>

definition first_header :: "(string \<Rightarrow> bool) \<Rightarrow> header list option \<Rightarrow> string" where
  "first_header p hs = (case find (\<lambda>h. p (hKey h)) (header_list hs) of
     None \<Rightarrow> '''' | Some h \<Rightarrow> getHeaderValue h)"

section \<open>The claims of the token\<close>

text \<open>The payload in the URL alphabet or, where that fails, read with the standard alphabet after replacement.\<close>

definition decode_payload :: "string \<Rightarrow> string option" where
  "decode_payload p = (case URLDecode (pad4 p) of
     Some d \<Rightarrow> Some d
   | None \<Rightarrow> StdDecode (pad4 (replace_char (CHR ''_'') (CHR ''/'') (replace_char (CHR ''-'') (CHR ''+'') p))))"

text \<open>\<open>json.Unmarshal\<close> into a map: an object; the map stays nil on \<open>null\<close>.\<close>

definition unmarshal_map :: "string \<Rightarrow> (string \<times> dyn) list option" where
  "unmarshal_map s = (case json_text s of
     Some (JObject ms) \<Rightarrow> Some (map (\<lambda>(k, v). (k, dyn_of_json v)) ms) | _ \<Rightarrow> None)"

definition extractJWTClaims :: "string \<Rightarrow> (string \<times> dyn) list option" where
  "extractJWTClaims authHeader =
     (if authHeader = '''' then None
      else if \<not> HasPrefix (ToLower authHeader) ''bearer '' then None
      else (case Split (TrimSpace (drop 7 authHeader)) (CHR ''.'') of
          [_, payload, _] \<Rightarrow> Option.bind (decode_payload payload) unmarshal_map
        | _ \<Rightarrow> None))"

text \<open>\<open>%v\<close> of the values that are neither string nor number; lists and maps are left to \<open>fmtv\<close>.\<close>

definition getClaimString ::
  "(dyn \<Rightarrow> string) \<Rightarrow> (string \<times> dyn) list option \<Rightarrow> string \<Rightarrow> string" where
  "getClaimString fmtv claims key =
     (case claims of None \<Rightarrow> ''''
      | Some cs \<Rightarrow> if key = '''' then '''' else (case claim key cs of
          None \<Rightarrow> ''''
        | Some (DString s) \<Rightarrow> s
        | Some (DNumber q) \<Rightarrow> fixed 0 q
        | Some (DBool b) \<Rightarrow> (if b then ''true'' else ''false'')
        | Some DNull \<Rightarrow> ''<nil>''
        | Some v \<Rightarrow> fmtv v))"

section \<open>Rejecting\<close>

definition error_body :: "string \<Rightarrow> string \<Rightarrow> string" where
  "error_body requestPath message =
     (let q = (\<lambda>s. CHR 0x22 # s @ [CHR 0x22]); m = MarshalString message in
      if Contains requestPath ''/v1/messages''
      then CHR 0x7B # q ''type'' @ '':'' @ q ''error'' @ '','' @ q ''error'' @ '':'' @ [CHR 0x7B] @
           q ''type'' @ '':'' @ q ''insufficient_quota'' @ '','' @ q ''message'' @ '':'' @ m @ [CHR 0x7D, CHR 0x7D]
      else CHR 0x7B # q ''error'' @ '':'' @ [CHR 0x7B] @ q ''message'' @ '':'' @ m @ '','' @
           q ''type'' @ '':'' @ q ''insufficient_quota'' @ '','' @ q ''code'' @ '':'' @ q ''budget_exceeded'' @
           [CHR 0x7D, CHR 0x7D])"

definition immediateResponse :: "int \<Rightarrow> string \<Rightarrow> int \<Rightarrow> string \<Rightarrow> processing_response" where
  "immediateResponse statusCode message retryAfter requestPath =
     ImmediateResponse statusCode
       ((''content-type'', ''application/json'') #
        (if statusCode = 429 \<and> retryAfter > 0 then [(''retry-after'', Itoa retryAfter)] else []))
       (error_body requestPath message) (''budget-rate-limit: '' @ message)"

section \<open>The model\<close>

text \<open>The field \<open>model\<close> of a body, empty where the body is no such JSON text.\<close>

definition body_model :: "string \<Rightarrow> string" where
  "body_model body = (case Option.bind (json_text body) (\<lambda>v. decode_struct [(''model'', decode_string)] v '''') of
     None \<Rightarrow> '''' | Some m \<Rightarrow> m)"

definition extractModel :: "string \<Rightarrow> (string \<times> string) list \<Rightarrow> string \<Rightarrow> string" where
  "extractModel body headers modelHeader =
     (if body \<noteq> [] \<and> body_model body \<noteq> '''' then body_model body
      else if modelHeader \<noteq> '''' then header_value (ToLower modelHeader) headers
      else '''')"

section \<open>The loop over a stream\<close>

text \<open>
  The loop both servers have: a cancelled context, a failed \<open>Recv\<close> or a failed \<open>Send\<close> ends it, a request
  without an answer is skipped. \<open>handle\<close> is the switch of the server.
\<close>

fun serve ::
  "(processing_request \<Rightarrow> 's \<Rightarrow> processing_response option \<times> 's) \<Rightarrow> stream_event list \<Rightarrow> 's
    \<Rightarrow> processing_response list \<times> stream_end \<times> 's" where
  "serve handle [] ss = ([], StreamEOF, ss)"
| "serve handle (Cancelled # es) ss = ([], StreamCancelled, ss)"
| "serve handle (RecvFailed # es) ss = ([], StreamRecvFailed, ss)"
| "serve handle (Received req sent # es) ss =
     (case handle req ss of
        (None, ss1) \<Rightarrow> serve handle es ss1
      | (Some resp, ss1) \<Rightarrow>
          if sent then (case serve handle es ss1 of (rs, e, ss2) \<Rightarrow> (resp # rs, e, ss2))
          else ([], StreamSendFailed, ss1))"

text \<open>What the answer to a request may be: of the same kind, a body chunk handed on as it came.\<close>

definition answers :: "processing_request \<Rightarrow> processing_response \<Rightarrow> bool" where
  "answers req resp = (case req of
     RequestHeaders hs md \<Rightarrow> (case resp of RequestHeadersResponse m d \<Rightarrow> True
       | ImmediateResponse c h b d \<Rightarrow> True | _ \<Rightarrow> False)
   | RequestBody body eos \<Rightarrow> (\<exists>m. resp = RequestBodyResponse m body eos)
   | ResponseHeaders \<Rightarrow> resp = ResponseHeadersResponse
   | ResponseBody body eos \<Rightarrow> (\<exists>m. resp = ResponseBodyResponse m body eos)
   | OtherRequest \<Rightarrow> False)"

definition known_request :: "processing_request \<Rightarrow> bool" where
  "known_request req \<longleftrightarrow> req \<noteq> OtherRequest"

fun requests :: "stream_event list \<Rightarrow> processing_request list" where
  "requests [] = []"
| "requests (Received req sent # es) = req # requests es"
| "requests (_ # es) = requests es"

lemma serve_invariant:
  assumes "serve handle es ss = (rs, e, ss')" and "P ss"
    and "\<And>req ss r ss'. handle req ss = (r, ss') \<Longrightarrow> P ss \<Longrightarrow> P ss' \<and> (\<forall>x. r = Some x \<longrightarrow> Q x)"
  shows "P ss' \<and> (\<forall>x \<in> set rs. Q x)"
  using assms(1,2)
proof (induction es arbitrary: ss rs)
  case (Cons ev es)
  show ?case
  proof (cases ev)
    case (Received req sent)
    obtain r ss1 where h: "handle req ss = (r, ss1)" by fastforce
    from assms(3) [OF h Cons.prems(2)] Cons h Received show ?thesis
      by (cases r) (fastforce split: if_splits prod.splits)+
  qed (use Cons.prems in auto)
qed simp

text \<open>The contract of a server: it answers every request of a kind it knows, in kind, and no other.\<close>

locale stream_processor =
  fixes handle :: "processing_request \<Rightarrow> 's \<Rightarrow> processing_response option \<times> 's"
  assumes answered: "known_request req \<Longrightarrow> \<exists>resp ss'. handle req ss = (Some resp, ss') \<and> answers req resp"
    and skipped: "\<not> known_request req \<Longrightarrow> handle req ss = (None, ss)"
begin

lemma served:
  assumes "serve handle es ss = (rs, e, ss')"
  shows "\<exists>n. list_all2 answers (take n (filter known_request (requests es))) rs \<and>
    (e = StreamEOF \<longrightarrow> list_all2 answers (filter known_request (requests es)) rs)"
  using assms
proof (induction es arbitrary: ss rs)
  case (Cons ev es)
  show ?case
  proof (cases ev)
    case (Received req sent)
    show ?thesis
    proof (cases "known_request req")
      case True
      then obtain resp ss1 where h: "handle req ss = (Some resp, ss1)" "answers req resp"
        using answered by blast
      show ?thesis
      proof (cases sent)
        case sent: True
        obtain rs1 where run: "serve handle es ss1 = (rs1, e, ss')" and rs: "rs = resp # rs1"
          using Cons.prems h sent Received by (auto split: prod.splits)
        from Cons.IH [OF run] obtain n where
          "list_all2 answers (take n (filter known_request (requests es))) rs1"
          "e = StreamEOF \<longrightarrow> list_all2 answers (filter known_request (requests es)) rs1"
          by blast
        then show ?thesis
          using True h(2) Received rs by (intro exI [of _ "Suc n"]) simp
      qed (use Cons.prems h Received in \<open>auto intro: exI [of _ 0]\<close>)
    next
      case False
      then show ?thesis using Cons.prems Cons.IH [of ss rs] skipped Received by simp
    qed
  qed (use Cons.prems in \<open>auto intro: exI [of _ 0]\<close>)
qed (auto intro: exI [of _ 0])

end

section \<open>What an issuer encodes is what the claims are\<close>

lemma decode_payload_base64url [simp]: "decode_payload (base64url p) = Some p"
  by (simp add: decode_payload_def url_roundtrip)

lemma Split_token:
  "Split (base64url h @ ''.'' @ base64url p @ ''.'' @ base64url s) (CHR ''.'') =
    [base64url h, base64url p, base64url s]"
proof -
  have nd: "CHR ''.'' \<notin> set (base64url x)" for x using base64url_chars by blast
  show ?thesis by (simp add: Split_append nd)
qed

lemma token_no_space:
  "TrimSpace (base64url h @ ''.'' @ base64url p @ ''.'' @ base64url s) =
    base64url h @ ''.'' @ base64url p @ ''.'' @ base64url s"
proof -
  have "\<not> is_space (CHR ''.'')" by code_simp
  then show ?thesis
    using base64url_chars by (intro TrimSpace_no_space) (auto simp: list_all_iff)
qed

text \<open>
  C32: reading the claims inverts issuing them. Of a token in the compact form (header, payload and signature
  in unpadded URL base64, whatever their bytes are) behind the word bearer in any case, the claims are
  the JSON object that is the payload.
\<close>

theorem extractJWTClaims_token:
  assumes "ToLower bearer = ''bearer ''"
  shows "extractJWTClaims (bearer @ base64url h @ ''.'' @ base64url p @ ''.'' @ base64url s) = unmarshal_map p"
proof -
  let ?token = "base64url h @ ''.'' @ base64url p @ ''.'' @ base64url s"
  have len: "length bearer = 7"
    using arg_cong [OF assms, of length] by (simp add: ToLower_def)
  then have "bearer \<noteq> []" by auto
  moreover have "HasPrefix (ToLower (bearer @ ?token)) ''bearer ''"
    using assms HasPrefix_append [of "''bearer ''" "ToLower ?token"] by (simp add: ToLower_def)
  moreover have "drop 7 (bearer @ ?token) = ?token" using len by simp
  ultimately show ?thesis
    unfolding extractJWTClaims_def by (simp only: token_no_space Split_token) simp
qed

section \<open>The body of a rejection\<close>

lemma quoted_constants:
  "CHR 0x22 # ''type'' @ [CHR 0x22] = MarshalString ''type''"
  "CHR 0x22 # ''error'' @ [CHR 0x22] = MarshalString ''error''"
  "CHR 0x22 # ''message'' @ [CHR 0x22] = MarshalString ''message''"
  "CHR 0x22 # ''code'' @ [CHR 0x22] = MarshalString ''code''"
  "CHR 0x22 # ''insufficient_quota'' @ [CHR 0x22] = MarshalString ''insufficient_quota''"
  "CHR 0x22 # ''budget_exceeded'' @ [CHR 0x22] = MarshalString ''budget_exceeded''"
  by code_simp+

lemma error_body_marshalled:
  "error_body path message =
    (if Contains path ''/v1/messages''
     then CHR 0x7B # MarshalString ''type'' @ CHR '':'' # MarshalString ''error'' @ CHR '','' #
       MarshalString ''error'' @ CHR '':'' # CHR 0x7B # MarshalString ''type'' @ CHR '':'' #
       MarshalString ''insufficient_quota'' @ CHR '','' # MarshalString ''message'' @ CHR '':'' #
       MarshalString message @ CHR 0x7D # CHR 0x7D # []
     else CHR 0x7B # MarshalString ''error'' @ CHR '':'' # CHR 0x7B # MarshalString ''message'' @ CHR '':'' #
       MarshalString message @ CHR '','' # MarshalString ''type'' @ CHR '':'' #
       MarshalString ''insufficient_quota'' @ CHR '','' # MarshalString ''code'' @ CHR '':'' #
       MarshalString ''budget_exceeded'' @ CHR 0x7D # CHR 0x7D # [])"
  unfolding error_body_def Let_def quoted_constants by simp

lemma anthropic_body:
  "json_value (Suc (Suc (Suc (Suc (Suc (Suc (Suc n))))))) (CHR 0x7B # MarshalString ''type'' @ CHR '':'' #
      MarshalString ''error'' @ CHR '','' # MarshalString ''error'' @ CHR '':'' # CHR 0x7B #
      MarshalString ''type'' @ CHR '':'' # MarshalString ''insufficient_quota'' @ CHR '','' #
      MarshalString ''message'' @ CHR '':'' # MarshalString m @ CHR 0x7D # CHR 0x7D # []) =
    Some (JObject [(''type'', JString ''error''), (''error'', JObject [(''type'', JString ''insufficient_quota''),
            (''message'', JString m)])], [])"
  by (simp only: json_value_object json_members_more [OF json_value_string]
      json_members_last [OF json_value_string] json_members_last option.map prod.case)

lemma openai_body:
  "json_value (Suc (Suc (Suc (Suc (Suc (Suc (Suc n))))))) (CHR 0x7B # MarshalString ''error'' @ CHR '':'' #
      CHR 0x7B # MarshalString ''message'' @ CHR '':'' # MarshalString m @ CHR '','' #
      MarshalString ''type'' @ CHR '':'' # MarshalString ''insufficient_quota'' @ CHR '','' #
      MarshalString ''code'' @ CHR '':'' # MarshalString ''budget_exceeded'' @ CHR 0x7D # CHR 0x7D # []) =
    Some (JObject [(''error'', JObject [(''message'', JString m), (''type'', JString ''insufficient_quota''),
            (''code'', JString ''budget_exceeded'')])], [])"
  by (simp only: json_value_object json_members_more [OF json_value_string]
      json_members_last [OF json_value_string] json_members_last option.map prod.case)

text \<open>
  C33: the body of a rejection is a JSON text, whatever the name of the budget in the message is, and the client finds
  the message in it unchanged, below \<open>error\<close>, in the shape the API of the request has.
\<close>

theorem error_body_json:
  "json_text (error_body path message) = Some (JObject
    (if Contains path ''/v1/messages''
     then [(''type'', JString ''error''), (''error'', JObject [(''type'', JString ''insufficient_quota''),
            (''message'', JString message)])]
     else [(''error'', JObject [(''message'', JString message), (''type'', JString ''insufficient_quota''),
            (''code'', JString ''budget_exceeded'')])]))"
proof -
  have "7 \<le> 2 * length (error_body path message) + 2" by (simp add: error_body_marshalled)
  then obtain n where "2 * length (error_body path message) + 2 = 7 + n" by (auto simp: le_iff_add)
  then have n: "2 * length (error_body path message) + 2 = Suc (Suc (Suc (Suc (Suc (Suc (Suc n))))))" by simp
  have "skip_ws [] = []" by (simp add: skip_ws_def)
  then show ?thesis
    unfolding json_text_def n unfolding error_body_marshalled
    by (cases "Contains path ''/v1/messages''") (simp_all only: if_True if_False anthropic_body openai_body
        option.case prod.case simp_thms)
qed

end
