(* ===== verification/Extproc_Budget.thy ===== *)
theory Extproc_Budget
  imports Budget_Charge Extproc_Common
begin

text \<open>
  \<open>internal/extproc/budget_server.go\<close>: the external processor that admits a request at its headers and
  charges it at the end of its response. One stream carries one request at a time: \<open>Process\<close> is its loop, with
  the request it works on as local state. \<open>requestStates\<close> is only ever written and deleted from: the
  model keeps its keys. The counters of Prometheus and the log are not modelled.
\<close>

record budget_info =
  biEntityType :: string
  biName :: string
  biPeriod :: string

record request_state =
  qsRequestID :: string
  qsModelID :: string
  qsTeamID :: string
  qsHeaders :: "(string \<times> string) list"
  qsMatchedBudgets :: "budget_info list"
  qsRateLimitedAt :: "uuid option"
  qsEstimatedCost :: usd
  qsStartTime :: time
  qsStreamingBuffer :: string
  qsEvalContext :: eval_context
  qsBudgetChecked :: bool
  qsRequestBody :: string

record 'p budget_server =
  bsService :: "'p service"
  bsRequestStates :: "string list"

section \<open>Reading the headers\<close>

definition getRequestID :: "header list option \<Rightarrow> string" where
  "getRequestID hs =
     first_header (\<lambda>k. ToLower k = ''x-request-id'' \<or> ToLower k = ''x-budget-request-id'') hs"

definition extractTeamIDFromHeaders :: "config \<Rightarrow> header list option \<Rightarrow> string" where
  "extractTeamIDFromHeaders cfg hs =
     (let teamHeader = (if cfgTeamIDHeader cfg = '''' then ''x-gw-team-id'' else cfgTeamIDHeader cfg)
      in first_header (\<lambda>k. EqualFold k teamHeader) hs)"

text \<open>One header in \<open>buildEvalContext\<close>; the cases of the switch are tried in their order.\<close>

definition context_header :: "config \<Rightarrow> header \<Rightarrow> eval_context \<Rightarrow> eval_context" where
  "context_header cfg h ctx =
     (let key = ToLower (hKey h); value = getHeaderValue h;
          c = ctx\<lparr>ecHeaders := AList.update key value (ecHeaders ctx)\<rparr>;
          meta = (\<lambda>k. c\<lparr>ecMetadata := AList.update k (DString value) (ecMetadata c)\<rparr>)
      in if key = '':path'' then c\<lparr>ecPath := value\<rparr>
         else if key = '':method'' then c\<lparr>ecMethod := value\<rparr>
         else if key = '':authority'' \<or> key = ''host'' then c\<lparr>ecHost := value\<rparr>
         else if key = cfgOrgIDHeader cfg then meta ''org_id''
         else if key = cfgTeamIDHeader cfg then meta ''team_id''
         else if key = cfgUserIDHeader cfg then meta ''user_id''
         else c)"

definition empty_context :: eval_context where
  "empty_context = \<lparr>ecHeaders = [], ecPath = '''', ecMethod = '''', ecHost = '''', ecClaims = [],
     ecIssuer = '''', ecAPIKeyID = '''', ecAPIKeyName = '''', ecAPIKeyMetadata = [], ecModel = '''',
     ecProvider = '''', ecStreaming = False, ecSourceAddress = '''', ecSourcePort = 0, ecMetadata = []\<rparr>"

definition context_metadata :: "filter_metadata \<Rightarrow> (string \<times> dyn) list \<Rightarrow> (string \<times> dyn) list" where
  "context_metadata md m = fold (\<lambda>(ns, fs). case fs of None \<Rightarrow> id
     | Some kvs \<Rightarrow> fold (\<lambda>(k, v). AList.update (ns @ ''.'' @ k) v) kvs) md m"

definition buildEvalContext :: "config \<Rightarrow> header list option \<Rightarrow> filter_metadata \<Rightarrow> eval_context" where
  "buildEvalContext cfg hs md =
     (let ctx = fold (context_header cfg) (header_list hs) empty_context
      in ctx\<lparr>ecMetadata := context_metadata md (ecMetadata ctx)\<rparr>)"

section \<open>Token usage\<close>

text \<open>Decoders of one component of the target.\<close>

definition into_fst :: "(json \<Rightarrow> 'a \<Rightarrow> 'a option) \<Rightarrow> json \<Rightarrow> 'a \<times> 'b \<Rightarrow> ('a \<times> 'b) option" where
  "into_fst d v x = map_option (\<lambda>a. (a, snd x)) (d v (fst x))"

definition into_snd :: "(json \<Rightarrow> 'b \<Rightarrow> 'b option) \<Rightarrow> json \<Rightarrow> 'a \<times> 'b \<Rightarrow> ('a \<times> 'b) option" where
  "into_snd d v x = map_option (\<lambda>b. (fst x, b)) (d v (snd x))"

text \<open>A pointer field: \<open>null\<close> makes it nil, another value is decoded into what it points to.\<close>

definition decode_pointer :: "'a \<Rightarrow> (json \<Rightarrow> 'a \<Rightarrow> 'a option) \<Rightarrow> json \<Rightarrow> 'a option \<Rightarrow> 'a option option" where
  "decode_pointer zero d v x = (if v = JNull then Some None
     else map_option Some (d v (case x of None \<Rightarrow> zero | Some y \<Rightarrow> y)))"

definition usage_pair :: "string \<Rightarrow> string \<Rightarrow> json \<Rightarrow> int \<times> int \<Rightarrow> (int \<times> int) option" where
  "usage_pair inName outName =
     decode_struct [(inName, into_fst decode_int64), (outName, into_snd decode_int64)]"

text \<open>A body that is one JSON text: \<open>usage\<close> in the names of OpenAI, then of Anthropic.\<close>

definition body_usage :: "string \<Rightarrow> string \<Rightarrow> string \<Rightarrow> (int \<times> int) option" where
  "body_usage inName outName body = (case Option.bind (json_text body)
       (\<lambda>v. decode_struct [(''usage'', usage_pair inName outName)] v (0, 0)) of
     Some (i, ot) \<Rightarrow> if i > 0 \<or> ot > 0 then Some (i, ot) else None
   | None \<Rightarrow> None)"

definition anthropic_start :: "json \<Rightarrow> (string \<times> int \<times> int) option" where
  "anthropic_start v = decode_struct [(''type'', into_fst decode_string),
     (''message'', into_snd (decode_struct [(''usage'', usage_pair ''input_tokens'' ''output_tokens'')]))]
     v ('''', 0, 0)"

definition anthropic_delta :: "json \<Rightarrow> (string \<times> int) option" where
  "anthropic_delta v = decode_struct [(''type'', into_fst decode_string),
     (''usage'', into_snd (decode_struct [(''output_tokens'', decode_int64)]))] v ('''', 0)"

definition openai_chunk :: "json \<Rightarrow> (string \<times> (int \<times> int) option) option" where
  "openai_chunk v = decode_struct [(''object'', into_fst decode_string),
     (''usage'', into_snd (decode_pointer (0, 0) (usage_pair ''prompt_tokens'' ''completion_tokens'')))]
     v ('''', None)"

text \<open>
  The counts after one \<open>data:\<close> line: the three kinds of event in the order they are tried, \<open>None\<close> when the
  line is not of the kind.
\<close>

definition start_usage :: "json \<Rightarrow> int \<times> int \<Rightarrow> (int \<times> int) option" where
  "start_usage v tokens = (case anthropic_start v of
     Some (ty, mi, mo) \<Rightarrow> if ty = ''message_start''
       then Some (if mi > 0 then mi else fst tokens, if mo > 0 then go_int64 (snd tokens + mo) else snd tokens)
       else None
   | None \<Rightarrow> None)"

definition delta_usage :: "json \<Rightarrow> int \<times> int \<Rightarrow> (int \<times> int) option" where
  "delta_usage v tokens = (case anthropic_delta v of
     Some (ty, mo) \<Rightarrow> if ty = ''message_delta''
       then Some (fst tokens, if mo > 0 then go_int64 (snd tokens + mo) else snd tokens) else None
   | None \<Rightarrow> None)"

definition chunk_usage :: "json \<Rightarrow> int \<times> int \<Rightarrow> (int \<times> int) option" where
  "chunk_usage v tokens = (case openai_chunk v of
     Some (ob, Some (p, c)) \<Rightarrow>
       Some (if p > 0 then p else fst tokens, if c > 0 then c else snd tokens)
   | _ \<Rightarrow> None)"

definition sse_data :: "string \<Rightarrow> int \<times> int \<Rightarrow> int \<times> int" where
  "sse_data payload tokens = (case json_text payload of None \<Rightarrow> tokens
   | Some v \<Rightarrow> (case start_usage v tokens of Some t \<Rightarrow> t
     | None \<Rightarrow> (case delta_usage v tokens of Some t \<Rightarrow> t
       | None \<Rightarrow> (case chunk_usage v tokens of Some t \<Rightarrow> t | None \<Rightarrow> tokens))))"

definition sse_line :: "string \<Rightarrow> int \<times> int \<Rightarrow> int \<times> int" where
  "sse_line raw tokens = (let line = TrimSpace raw in
     if \<not> HasPrefix line ''data: '' then tokens
     else (let payload = TrimPrefix line ''data: '' in
       if payload = ''[DONE]'' then tokens else sse_data payload tokens))"

definition parseSSETokenUsage :: "string \<Rightarrow> int \<times> int" where
  "parseSSETokenUsage body = fold sse_line (Split body (CHR 0x0A)) (0, 0)"

definition parseTokenUsage :: "string \<Rightarrow> int \<times> int" where
  "parseTokenUsage body =
     (if Contains body ''data: '' then parseSSETokenUsage body
      else (case body_usage ''prompt_tokens'' ''completion_tokens'' body of
          Some t \<Rightarrow> t
        | None \<Rightarrow> (case body_usage ''input_tokens'' ''output_tokens'' body of
            Some t \<Rightarrow> t | None \<Rightarrow> (0, 0))))"

definition extractModelFromResponse :: "string \<Rightarrow> string" where
  "extractModelFromResponse body = body_model body"

section \<open>Admission\<close>

definition buildBudgetHeadersResponse :: "request_state \<Rightarrow> processing_response" where
  "buildBudgetHeadersResponse st =
     RequestHeadersResponse (Some [(''x-budget-request-id'', qsRequestID st)]) None"

definition rejection_message :: "check_result \<Rightarrow> int \<Rightarrow> string" where
  "rejection_message result retryAfter =
     (let budgetName = (case crMatchedBudgets result of [] \<Rightarrow> '''' | b # _ \<Rightarrow> bName b)
      in ''Budget exceeded for '' @ [CHR 0x27] @ budgetName @ [CHR 0x27] @ ''. Remaining: $'' @
         fixed 5 (crRemainingBudget result) @ ''. Resets in ~'' @ Itoa (go_quot retryAfter 60) @
         '' min. Stop current task and notify the user.'')"

definition retry_seconds :: "duration \<Rightarrow> int" where
  "retry_seconds d = (let n = go_trunc (Seconds d) in if n < 1 then 3600 else n)"

definition info_of :: "budget \<Rightarrow> budget_info" where
  "info_of b = \<lparr>biEntityType = entity_type_string (bEntityType b), biName = bName b,
     biPeriod = budget_period_string (bPeriod b)\<rparr>"

text \<open>The state and its context are never nil where the function is called.\<close>

definition doBudgetCheckAndRespond ::
  "('a, 'p) cel_env \<Rightarrow> config \<Rightarrow> bool \<Rightarrow> request_state \<Rightarrow> 'p service \<Rightarrow> world
    \<Rightarrow> processing_response option \<times> request_state \<times> 'p service \<times> world" where
  "doBudgetCheckAndRespond env cfg isHeadersPhase st s w =
     (let requestPath = ecPath (qsEvalContext st) in
      case CheckAndReserveBudget env cfg (qsEvalContext st) (qsModelID st) (qsRequestID st) s w of
        (Inl e, s1, w1) \<Rightarrow> (Some (immediateResponse 429 ''Budget check failed'' 0 requestPath), st, s1, w1)
      | (Inr result, s1, w1) \<Rightarrow>
          (let st1 = st\<lparr>qsBudgetChecked := True\<rparr> in
           if \<not> crAllowed result then
             (let retryAfter = retry_seconds (crRetryAfter result)
              in (Some (immediateResponse 400 (rejection_message result retryAfter) retryAfter requestPath),
                  st1, s1, w1))
           else
             (let st2 = st1\<lparr>qsMatchedBudgets := map info_of (crMatchedBudgets result),
                    qsRateLimitedAt := crRateLimitedAt result, qsEstimatedCost := crEstimatedCost result\<rparr>
              in (if isHeadersPhase then Some (buildBudgetHeadersResponse st2) else None, st2, s1, w1))))"

section \<open>The stream\<close>

record 'p stream_state =
  ssRequestID :: string
  ssRequest :: "request_state option"
  ssServer :: "'p budget_server"
  ssWorld :: world

text \<open>\<open>RequestHeaders\<close>: \<open>show_uuid\<close> renders a new identifier.\<close>

definition new_request ::
  "config \<Rightarrow> string \<Rightarrow> time \<Rightarrow> header list option \<Rightarrow> filter_metadata \<Rightarrow> request_state" where
  "new_request cfg requestID now hs md =
     \<lparr>qsRequestID = requestID,
      qsModelID = (if cfgModelHeader cfg \<noteq> '''' then header_value (ToLower (cfgModelHeader cfg)) (headers_map hs)
                   else ''''),
      qsTeamID = extractTeamIDFromHeaders cfg hs, qsHeaders = headers_map hs, qsMatchedBudgets = [],
      qsRateLimitedAt = None, qsEstimatedCost = 0, qsStartTime = now, qsStreamingBuffer = [],
      qsEvalContext = buildEvalContext cfg hs md, qsBudgetChecked = False, qsRequestBody = []\<rparr>"

definition request_id :: "(uuid \<Rightarrow> string) \<Rightarrow> header list option \<Rightarrow> world \<Rightarrow> string \<times> world" where
  "request_id show_uuid hs w = (if getRequestID hs = ''''
     then (case uuid_New w of (i, w1) \<Rightarrow> (show_uuid i, w1)) else (getRequestID hs, w))"

definition on_request_headers ::
  "(uuid \<Rightarrow> string) \<Rightarrow> ('a, 'p) cel_env \<Rightarrow> config \<Rightarrow> header list option \<Rightarrow> filter_metadata
    \<Rightarrow> 'p stream_state \<Rightarrow> processing_response \<times> 'p stream_state" where
  "on_request_headers show_uuid env cfg hs md ss = (case request_id show_uuid hs (ssWorld ss) of (rid, w1) \<Rightarrow>
     (let srv = ssServer ss; srv1 = srv\<lparr>bsRequestStates := List.insert rid (bsRequestStates srv)\<rparr>;
          st = new_request cfg rid (clock w1) hs md
      in case doBudgetCheckAndRespond env cfg False st (bsService srv1) w1 of (reject, st1, s1, w2) \<Rightarrow>
           (case reject of Some resp \<Rightarrow> resp | None \<Rightarrow> buildBudgetHeadersResponse st1,
            \<lparr>ssRequestID = rid, ssRequest = Some st1, ssServer = srv1\<lparr>bsService := s1\<rparr>, ssWorld = w2\<rparr>)))"

definition on_request_body ::
  "config \<Rightarrow> string \<Rightarrow> bool \<Rightarrow> 'p stream_state \<Rightarrow> processing_response \<times> 'p stream_state" where
  "on_request_body cfg body eos ss =
     (RequestBodyResponse None body eos,
      case ssRequest ss of None \<Rightarrow> ss
      | Some st \<Rightarrow>
        (let st1 = st\<lparr>qsRequestBody := qsRequestBody st @ body\<rparr>;
             st2 = (if qsModelID st1 = '''' \<and> eos
                    then st1\<lparr>qsModelID := extractModel (qsRequestBody st1) (qsHeaders st1) (cfgModelHeader cfg)\<rparr>
                    else st1)
         in ss\<lparr>ssRequest := Some st2\<rparr>))"

definition cost_headers :: "decrement_result \<Rightarrow> (string \<times> string) list" where
  "cost_headers r = [(''x-budget-cost-usd'', fixed 6 (drActualCost r)),
     (''x-budget-remaining-usd'', fixed 6 (drRemainingBudget r))]"

text \<open>The end of the response: the usage is read, the request charged, its state dropped.\<close>

definition finish_request ::
  "config \<Rightarrow> request_state \<Rightarrow> 'p stream_state \<Rightarrow> header_mutation \<times> 'p stream_state" where
  "finish_request cfg st ss =
     (let responseBody = qsStreamingBuffer st; tokens = parseTokenUsage responseBody;
          st1 = (if qsModelID st = '''' then st\<lparr>qsModelID := extractModelFromResponse responseBody\<rparr> else st);
          srv = ssServer ss
      in case DecrementBudgets cfg (ssRequestID ss) (qsModelID st1) (fst tokens) (snd tokens)
             (qsRateLimitedAt st1) (bsService srv) (ssWorld ss) of
           (r, s1, w1) \<Rightarrow>
             (case r of Inl e \<Rightarrow> None | Inr result \<Rightarrow> Some (cost_headers result),
              ss\<lparr>ssRequest := Some st1, ssWorld := w1,
                ssServer := srv\<lparr>bsService := s1,
                  bsRequestStates := removeAll (ssRequestID ss) (bsRequestStates srv)\<rparr>\<rparr>))"

definition on_response_body ::
  "config \<Rightarrow> string \<Rightarrow> bool \<Rightarrow> 'p stream_state \<Rightarrow> processing_response \<times> 'p stream_state" where
  "on_response_body cfg body eos ss = (case ssRequest ss of
     None \<Rightarrow> (ResponseBodyResponse None body eos, ss)
   | Some st \<Rightarrow>
     (let st1 = st\<lparr>qsStreamingBuffer := qsStreamingBuffer st @ body\<rparr>; ss1 = ss\<lparr>ssRequest := Some st1\<rparr> in
      if eos then (case finish_request cfg st1 ss1 of (mutation, ss2) \<Rightarrow>
          (ResponseBodyResponse mutation body eos, ss2))
      else (ResponseBodyResponse None body eos, ss1)))"

text \<open>The switch on the kind of the request; \<open>None\<close> when it is skipped without an answer.\<close>

definition process_request ::
  "(uuid \<Rightarrow> string) \<Rightarrow> ('a, 'p) cel_env \<Rightarrow> config \<Rightarrow> processing_request \<Rightarrow> 'p stream_state
    \<Rightarrow> processing_response option \<times> 'p stream_state" where
  "process_request show_uuid env cfg req ss = (case req of
     RequestHeaders hs md \<Rightarrow> apfst Some (on_request_headers show_uuid env cfg hs md ss)
   | RequestBody body eos \<Rightarrow> apfst Some (on_request_body cfg body eos ss)
   | ResponseHeaders \<Rightarrow> (Some ResponseHeadersResponse, ss)
   | ResponseBody body eos \<Rightarrow> apfst Some (on_response_body cfg body eos ss)
   | OtherRequest \<Rightarrow> (None, ss))"

definition Process ::
  "(uuid \<Rightarrow> string) \<Rightarrow> ('a, 'p) cel_env \<Rightarrow> config \<Rightarrow> stream_event list \<Rightarrow> 'p stream_state
    \<Rightarrow> processing_response list \<times> stream_end \<times> 'p stream_state" where
  "Process show_uuid env cfg es ss = serve (process_request show_uuid env cfg) es ss"

definition open_stream :: "'p budget_server \<Rightarrow> world \<Rightarrow> 'p stream_state" where
  "open_stream srv w = \<lparr>ssRequestID = '''', ssRequest = None, ssServer = srv, ssWorld = w\<rparr>"

end
