(* ===== verification/Completion.thy ===== *)
theory Completion
  imports Admission Charging
begin

text \<open>
  Progress: when no statement fails, the charge of a request that has been admitted goes through and leaves no
  reservation behind.
\<close>

section \<open>The cost\<close>

lemma GetModelCostByID_quiet:
  assumes "faults w = []"
  shows "\<exists>r. GetModelCostByID m w = (r, w) \<and> (r = Inl ErrNotFound \<or> (\<exists>c. r = Inr c))"
  using assms by (auto simp: GetModelCostByID_def split: option.splits)

lemma lookup_model_cost_quiet:
  assumes "faults w = []"
  shows "\<exists>r. lookup_model_cost m w = (r, w) \<and> (r = Inl ErrNotFound \<or> (\<exists>c. r = Inr c))"
proof -
  obtain r where r: "GetModelCostByID m w = (r, w)" "r = Inl ErrNotFound \<or> (\<exists>c. r = Inr c)"
    using GetModelCostByID_quiet [OF assms] by blast
  obtain r2 where r2: "GetModelCostByID (strip_version_suffix m) w = (r2, w)"
      "r2 = Inl ErrNotFound \<or> (\<exists>c. r2 = Inr c)"
    using GetModelCostByID_quiet [OF assms] by blast
  from r r2 show ?thesis
    by (auto simp: lookup_model_cost_def try_op_def Let_def)
qed

lemma CalculateCost_quiet:
  assumes "faults w = []"
  shows "\<exists>cost s'. CalculateCost cfg m it ot s w = (Inr cost, s', w)"
proof -
  obtain r where "lookup_model_cost m w = (r, w)" "r = Inl ErrNotFound \<or> (\<exists>c. r = Inr c)"
    using lookup_model_cost_quiet [OF assms] by blast
  then show ?thesis
    by (auto simp: CalculateCost_def GetModelCost_def split: option.splits)
qed

section \<open>The charges\<close>

definition fresh_usage :: "world \<Rightarrow> tables \<Rightarrow> bool" where
  "fresh_usage w t \<longleftrightarrow> (\<forall>u \<in> set (usage_records t). urID u < uuids w)"

text \<open>What the loop needs to go through.\<close>

definition can_charge :: "budget list \<Rightarrow> world \<Rightarrow> bool" where
  "can_charge bs w \<longleftrightarrow> faults w = [] \<and> \<not> tx_aborted w \<and> fresh_usage w (tx_db w) \<and>
     bID ` set bs \<subseteq> bID ` set (budget_definitions (tx_db w))"

lemma prune_usage_keeps:
  "\<exists>n us. prune_usage i now t = Some (n, t\<lparr>usage_records := us\<rparr>) \<and> set us \<subseteq> set (usage_records t)"
  by (auto simp: prune_usage_def Let_def delete_where_def)

lemma CreateUsageRecordInTx_quiet:
  assumes "can_charge bs w" and "urBudgetID ur \<in> bID ` set (budget_definitions (tx_db w))"
  shows "\<exists>w'. CreateUsageRecordInTx ur w = (Inr (ur\<lparr>urID := uuids w, urCreatedAt := clock w\<rparr>), w') \<and> can_charge bs w'"
proof -
  let ?ur = "ur\<lparr>urID := uuids w, urCreatedAt := clock w\<rparr>"
  let ?t = "(tx_db w)\<lparr>usage_records := usage_records (tx_db w) @ [?ur]\<rparr>"
  have ins: "insert_usage_record ?ur (clock w) (tx_db w) = Some ((), ?t)"
    using assms by (auto simp: insert_usage_record_def can_charge_def fresh_usage_def)
  obtain n us where prune: "prune_usage (urBudgetID ur) (clock w) ?t = Some (n, ?t\<lparr>usage_records := us\<rparr>)"
      "set us \<subseteq> insert ?ur (set (usage_records (tx_db w)))"
    using prune_usage_keeps [of "urBudgetID ur" "clock w" ?t] by auto
  have "can_charge bs (w\<lparr>uuids := Suc (uuids w), tx_db := ?t\<lparr>usage_records := us\<rparr>\<rparr>)"
    using assms(1) prune(2) by (auto simp: can_charge_def fresh_usage_def less_Suc_eq)
  then show ?thesis
    using assms(1) ins prune(1)
    by (auto simp: CreateUsageRecordInTx_def bind_op_def uuid_op_def uuid_New_def now_op_def Let_def can_charge_def)
qed

lemma update_budgets_bIDs:
  assumes "\<And>b. bID (f b) = bID b"
  shows "bID ` set (budget_definitions (update_budgets p f now t)) = bID ` set (budget_definitions t)"
proof -
  have "map bID (budget_definitions (update_budgets p f now t)) = map bID (budget_definitions t)"
    by (simp add: update_budgets_def map_update_where assms)
  then show ?thesis by (metis set_map)
qed

lemma can_charge_update_budgets:
  assumes "can_charge bs w" and "\<And>b. bID (f b) = bID b"
  shows "can_charge bs (w\<lparr>tx_db := update_budgets p f now (tx_db w)\<rparr>)"
  using assms(1) update_budgets_bIDs [of f p now "tx_db w", OF assms(2)]
  by (simp add: can_charge_def fresh_usage_def update_budgets_def)

lemma IncrementUsageInTx_quiet:
  assumes "can_charge bs w"
  shows "\<exists>w'. IncrementUsageInTx i c w = (Inr (), w') \<and> can_charge bs w' \<and>
    bID ` set (budget_definitions (tx_db w')) = bID ` set (budget_definitions (tx_db w))"
  using assms can_charge_update_budgets [OF assms] update_budgets_bIDs
  by (simp add: IncrementUsageInTx_def add_usage_def can_charge_def)

lemma charge_each_quiet:
  assumes "can_charge bs w"
  shows "\<exists>st' w'. charge_each rid m it ot rla S bs st w = (Inr st', w') \<and> faults w' = [] \<and> \<not> tx_aborted w'"
  using assms
proof (induction bs arbitrary: st w)
  case (Cons b bs)
  define amount where "amount = charge_amount (\<not> spares_parent rla S b) (gsRemainingCost st) b"
  define pay where "pay = (\<not> spares_parent rla S b \<and> amount > 0)"
  let ?inc = "if pay then IncrementUsageInTx (bID b) amount else return_op ()"
  have can: "can_charge bs w" using Cons.prems by (simp add: can_charge_def)
  then have "\<exists>w1. ?inc w = (Inr (), w1) \<and> can_charge bs w1 \<and>
      bID ` set (budget_definitions (tx_db w1)) = bID ` set (budget_definitions (tx_db w))"
    using IncrementUsageInTx_quiet [OF can] by simp
  then obtain w1 where inc: "?inc w = (Inr (), w1)" and w1: "can_charge bs w1"
    and ids: "bID ` set (budget_definitions (tx_db w1)) = bID ` set (budget_definitions (tx_db w))"
    by blast
  have "bID b \<in> bID ` set (budget_definitions (tx_db w1))" using Cons.prems ids by (simp add: can_charge_def)
  then obtain w2 u where use: "CreateUsageRecordInTx (usage_of rid m it ot rla S b st) w1 = (Inr u, w2)"
    and w2: "can_charge bs w2"
    using CreateUsageRecordInTx_quiet [OF w1, of "usage_of rid m it ot rla S b st"]
    by (auto simp: usage_of_def Let_def)
  obtain st' w' where rest: "charge_each rid m it ot rla S bs (charge_step rla S b st) w2 = (Inr st', w')"
    and quiet: "faults w' = []" "\<not> tx_aborted w'"
    using Cons.IH [OF w2] by blast
  have "charge_each rid m it ot rla S (b # bs) st w = (Inr st', w')"
    unfolding charge_each.simps Let_def amount_def [symmetric] pay_def [symmetric]
    by (simp add: bind_op_def inc use rest)
  with quiet show ?case by blast
qed (simp add: can_charge_def)

lemma settle_quiet:
  assumes "faults w = []" and "\<not> tx_aborted w"
  shows "\<exists>w'. settle rid res w = (Inr (), w')"
  using assms by (simp add: settle_def try_op_def DeleteReservationInTx_def bind_op_def delete_reservations_def
      DecrementPendingUsageInTx_def subtract_pending_def)

lemma charge_transaction_quiet:
  assumes "faults w = []" and "fresh_usage w (db w)" and "set budgets \<subseteq> set (budget_definitions (db w))"
  shows "\<exists>st w'. charge_transaction rid m it ot rla cost res budgets w = (Inr st, w')"
proof -
  let ?w1 = "w\<lparr>tx_db := db w, tx_aborted := False, open_txs := Suc (open_txs w)\<rparr>"
  let ?S = "sortBudgetsByHierarchy budgets"
  have "can_charge ?S ?w1"
    using assms by (auto simp: can_charge_def fresh_usage_def set_sortBudgetsByHierarchy)
  then obtain st w2 where loop: "charge_each rid m it ot rla ?S ?S (start_charge cost) ?w1 = (Inr st, w2)"
    and quiet: "faults w2 = []" "\<not> tx_aborted w2"
    using charge_each_quiet by blast
  then obtain w3 where "settle rid res w2 = (Inr (), w3)" using settle_quiet by blast
  with loop assms(1) show ?thesis
    by (simp add: charge_transaction_def bind_op_def rollback_on_error_def Let_def)
qed

text \<open>Every chain of parents ends, the condition under which the query for a hierarchy does.\<close>

definition hierarchies_end :: "tables \<Rightarrow> bool" where
  "hierarchies_end t \<longleftrightarrow> (\<forall>b \<in> set (budget_definitions t). budget_hierarchy (bID b) t \<noteq> None)"

lemma budget_hierarchy_rows:
  assumes "budget_hierarchy i t = Some bs"
  shows "set bs \<subseteq> set (budget_definitions t)"
proof -
  have "set bs \<subseteq> set rows" if "ancestors n rows level = Some bs" "set level \<subseteq> set rows" for n rows level bs
    using that
  proof (induction n rows level arbitrary: bs rule: ancestors.induct)
    case (3 n rows b level)
    have "set (next_level rows (b # level)) \<subseteq> set rows" by (auto simp: next_level_def)
    with 3 show ?case by auto
  qed auto
  from this [of "Suc (length (budget_definitions t))" "budget_definitions t"
      "filter (\<lambda>b. bID b = i) (budget_definitions t)" bs] assms
  show ?thesis by (simp add: budget_hierarchy_def Let_def)
qed

lemma charge_completes:
  assumes quiet: "faults w = []" and ok: "tables_ok (db w)" and fresh: "fresh_usage w (db w)"
    and ends: "hierarchies_end (db w)"
  shows "\<exists>d s' w'. DecrementBudgets cfg rid m it ot rla s w = (Inr d, s', w') \<and>
    request_reservations (db w') = filter (\<lambda>r. rsRequestID r \<noteq> rid) (request_reservations (db w))"
proof -
  obtain cost s1 where cost: "CalculateCost cfg m it ot s w = (Inr cost, s1, w)"
    using CalculateCost_quiet [OF quiet] by blast
  obtain r1 w1 where get: "GetReservationByRequestID rid w = (r1, w1)" by fastforce
  have r1: "r1 = (case first_reservation rid (db w) of None \<Rightarrow> Inl ErrNotFound | Some x \<Rightarrow> Inr x)" and w1: "w1 = w"
    using GetReservationByRequestID_run(3) [OF get quiet] get quiet
    by (auto simp: GetReservationByRequestID_def split: option.splits)
  show ?thesis
  proof (cases "first_reservation rid (db w)")
    case None
    then have "filter (\<lambda>r. rsRequestID r \<noteq> rid) (request_reservations (db w)) = request_reservations (db w)"
      by (simp add: first_reservation_None unreserved_def filter_id_conv)
    with cost get r1 w1 None show ?thesis by (simp add: DecrementBudgets_def)
  next
    case (Some res)
    have "rsBudgetID res \<in> bID ` set (budget_definitions (db w))"
      using first_reservationD [OF Some] ok by (auto simp: tables_ok_def)
    then obtain bs where bs: "budget_hierarchy (rsBudgetID res) (db w) = Some bs"
      using ends by (auto simp: hierarchies_end_def)
    have hier: "GetBudgetsWithParent (rsBudgetID res) w = (Inr bs, w)"
      using bs quiet by (simp add: GetBudgetsWithParent_def)
    obtain st w2 where tx: "charge_transaction rid m it ot rla cost res bs w = (Inr st, w2)"
      using charge_transaction_quiet [OF quiet fresh budget_hierarchy_rows [OF bs]] by blast
    obtain d s2 where run: "DecrementBudgets cfg rid m it ot rla s w = (Inr d, s2, w2)"
      using cost get r1 w1 Some hier tx by (simp add: DecrementBudgets_def)
    with DecrementBudgets_reservations [OF run Some] show ?thesis by blast
  qed
qed

text \<open>
  C25: a charge completes. When no statement fails and every chain of parents ends, \<open>DecrementBudgets\<close> returns a result,
  whatever the model, the tokens and the request are, and afterwards the request holds no reservation.
\<close>

theorem DecrementBudgets_completes:
  assumes "faults w = []" and "tables_ok (db w)" and "fresh_usage w (db w)" and "hierarchies_end (db w)"
  shows "\<exists>d s' w'. DecrementBudgets cfg rid m it ot rla s w = (Inr d, s', w') \<and> unreserved rid (db w')"
proof -
  obtain d s' w' where run: "DecrementBudgets cfg rid m it ot rla s w = (Inr d, s', w')"
    "request_reservations (db w') = filter (\<lambda>r. rsRequestID r \<noteq> rid) (request_reservations (db w))"
    using charge_completes [OF assms] by blast
  then have "unreserved rid (db w')" by (simp add: unreserved_def)
  with run(1) show ?thesis by blast
qed

section \<open>What an admission leaves for the charge\<close>

text \<open>The parts of the state that only ever move forward.\<close>

definition goes_on :: "world \<Rightarrow> world \<Rightarrow> bool" where
  "goes_on w w' \<longleftrightarrow> clock w' = clock w \<and> uuids w \<le> uuids w' \<and> (faults w = [] \<longrightarrow> faults w' = [])"

lemma goes_on_trans: "goes_on w w1 \<Longrightarrow> goes_on w1 w' \<Longrightarrow> goes_on w w'"
  by (auto simp: goes_on_def)

lemma goes_on_op: "db_op f \<Longrightarrow> f w = (r, w') \<Longrightarrow> goes_on w w'"
  unfolding goes_on_def using db_op.clock_frame db_op.uuids_frame db_op.quiet_frame by metis

lemma goes_on_query: "query_frame w w' \<Longrightarrow> goes_on w w'"
  by (simp add: query_frame_def goes_on_def)

lemma goes_on_rollback [simp]: "goes_on w (tx_rollback w') \<longleftrightarrow> goes_on w w'"
  by (simp add: tx_rollback_def goes_on_def)

lemma CheckAndReserveBudget_goes_on:
  assumes run: "CheckAndReserveBudget env cfg ctx m rid s w = (r, s', w')"
  shows "goes_on w w'"
proof -
  obtain rb w1 where begin1: "tx_begin w = (rb, w1)" by fastforce
  obtain rq w2 where query: "GetEnabledBudgetsForUpdate w1 = (rq, w2)" by fastforce
  have one: "goes_on w w1"
    by (rule goes_on_op [OF atomic_op_imp_db [OF atomic_op_tx_begin] begin1])
  have two: "goes_on w w2"
    by (rule goes_on_trans [OF one goes_on_op [OF GetEnabledBudgetsForUpdate.db_op_axioms query]])
  have commit: "goes_on w w4" if "goes_on w w3" "tx_commit w3 = (r3, w4)" for w3 r3 w4
    by (rule goes_on_trans [OF that(1) goes_on_op [OF atomic_op_imp_db [OF atomic_op_tx_commit] that(2)]])
  have ignored: "goes_on w (commit_ignored w2)"
    using commit [OF two] by (cases "tx_commit w2") (simp add: commit_ignored_def)
  have three: "goes_on w w3" if "EstimateCost cfg m s1 w2 = (est, s3, w3)" for s1 est s3 w3
    by (rule goes_on_trans [OF two goes_on_query [OF EstimateCost_frame [OF that]]])
  have four: "goes_on w w4" if "EstimateCost cfg m s1 w2 = (est, s3, w3)"
    "reserve_each cfg rid est now bs w3 = (r4, w4)" for s1 est s3 w3 now bs r4 w4
    by (rule goes_on_trans [OF three [OF that(1)] goes_on_op [OF reserve_each.db_op_axioms that(2)]])
  show ?thesis
    using run begin1 query one two
    unfolding CheckAndReserveBudget_def Let_def
    by (auto split: sum.splits prod.splits if_splits option.splits intro: ignored three commit [OF four])
qed

lemma ancestors_map:
  assumes "\<And>b. bID (f b) = bID b" and "\<And>b. bParentID (f b) = bParentID b"
  shows "ancestors n (map f rows) (map f level) = map_option (map f) (ancestors n rows level)"
proof (induction n rows level rule: ancestors.induct)
  case (3 n rows b level)
  have "next_level (map f rows) (map f (b # level)) = map f (next_level rows (b # level))"
    by (simp add: next_level_def map_concat comp_def filter_map assms)
  with 3 show ?case by (simp add: option.map_comp comp_def)
qed simp_all

lemma hierarchies_end_map:
  assumes "hierarchies_end t" and "budget_definitions t' = map f (budget_definitions t)"
    and "\<And>b. bID (f b) = bID b" and "\<And>b. bParentID (f b) = bParentID b"
  shows "hierarchies_end t'"
proof -
  have "budget_hierarchy i t' = map_option (map f) (budget_hierarchy i t)" for i
    using ancestors_map [of f "Suc (length (budget_definitions t))" "budget_definitions t"
        "filter (\<lambda>b. bID b = i) (budget_definitions t)", OF assms(3,4)]
    by (simp add: budget_hierarchy_def Let_def assms(2,3) filter_map comp_def)
  with assms show ?thesis by (auto simp: hierarchies_end_def)
qed

lemma reserved_tables_rows:
  "\<exists>f. budget_definitions (reserved_tables cfg rid est now u bs t) = map f (budget_definitions t) \<and>
    (\<forall>b. bID (f b) = bID b \<and> bParentID (f b) = bParentID b)"
  "usage_records (reserved_tables cfg rid est now u bs t) = usage_records t"
proof -
  let ?f = "\<lambda>b. if bID b \<in> set (map bID bs)
    then b\<lparr>bPendingUsageUSD := bPendingUsageUSD b + est, bUpdatedAt := now\<rparr> else b"
  have "budget_definitions (reserved_tables cfg rid est now u bs t) = map ?f (budget_definitions t)"
    by (simp add: reserved_tables_def add_pending_to_def update_budgets_def update_where_def)
  moreover have "\<forall>b. bID (?f b) = bID b \<and> bParentID (?f b) = bParentID b" by simp
  ultimately show "\<exists>f. budget_definitions (reserved_tables cfg rid est now u bs t) = map f (budget_definitions t) \<and>
    (\<forall>b. bID (f b) = bID b \<and> bParentID (f b) = bParentID b)" by blast
  show "usage_records (reserved_tables cfg rid est now u bs t) = usage_records t"
    by (simp add: reserved_tables_def add_pending_to_def update_budgets_def)
qed

text \<open>A world in which a charge completes, as it is before and after an admission.\<close>

definition chargeable :: "world \<Rightarrow> bool" where
  "chargeable w \<longleftrightarrow> faults w = [] \<and> world_ok w \<and> fresh_usage w (db w) \<and> hierarchies_end (db w)"

lemma admission_chargeable:
  assumes run: "CheckAndReserveBudget env cfg ctx m rid s w = (r, s', w')"
    and ok: "chargeable w" and sound: "cache_sound env (svPrograms s)"
  shows "chargeable w'"
    and "\<exists>rows. request_reservations (db w') = request_reservations (db w) @ rows \<and>
      (\<forall>x \<in> set rows. rsRequestID x = rid)"
proof -
  have wok: "world_ok w'" using ok by (auto simp: chargeable_def intro: CheckAndReserveBudget_world_ok [OF run])
  have on: "goes_on w w'" by (rule CheckAndReserveBudget_goes_on [OF run])
  have tok: "tables_ok (db w)" using ok by (simp add: chargeable_def world_ok_def)
  have "chargeable w' \<and> (\<exists>rows. request_reservations (db w') = request_reservations (db w) @ rows \<and>
      (\<forall>x \<in> set rows. rsRequestID x = rid))"
  proof (cases "db w' = db w")
    case True
    then show ?thesis
      using ok wok on by (auto simp: chargeable_def goes_on_def fresh_usage_def)
  next
    case False
    then obtain c where c: "r = Inr c" "crAllowed c" "crMatchedBudgets c \<noteq> []"
      using check_ends [OF run] by (cases r) auto
    obtain u where t: "db w' = reserved_tables cfg rid (crEstimatedCost c) (clock w) u (crMatchedBudgets c) (db w)"
      using admission_effect [OF tok sound run [unfolded c(1)] c(2,3)] by blast
    have "usage_records (db w') = usage_records (db w)" unfolding t by (rule reserved_tables_rows)
    then have "fresh_usage w' (db w')"
      using ok on by (auto simp: chargeable_def goes_on_def fresh_usage_def)
    moreover have "hierarchies_end (db w')"
      using hierarchies_end_map ok reserved_tables_rows(1) unfolding t chargeable_def by metis
    moreover have "rsRequestID x = rid" if "x \<in> set (reservation_rows cfg rid est now u bs)" for x est now u bs
      using that by (induction bs arbitrary: u) (auto simp: new_reservation_def)
    moreover have "request_reservations (db w') = request_reservations (db w) @
        reservation_rows cfg rid (crEstimatedCost c) (clock w) u (crMatchedBudgets c)"
      unfolding t by (simp add: reserved_tables_def add_pending_to_def update_budgets_def)
    ultimately show ?thesis using ok wok on by (auto simp: chargeable_def goes_on_def)
  qed
  then show "chargeable w'"
    and "\<exists>rows. request_reservations (db w') = request_reservations (db w) @ rows \<and>
      (\<forall>x \<in> set rows. rsRequestID x = rid)" by simp_all
qed

end
