(* ===== verification/Budget_Stream.thy ===== *)
theory Budget_Stream
  imports Extproc_Budget Completion
begin

text \<open>
  Properties of the external processor for budgets: it is transparent for the bodies, its accounting does not
  depend on the chunks they come in, a refusal leaves no trace, and what a request has reserved is gone
  once its response has ended.
\<close>

section \<open>Transparency\<close>

lemma doBudgetCheck_reject:
  assumes "doBudgetCheckAndRespond env cfg False st s w = (Some resp, st', s', w')"
  shows "\<exists>c body details. resp = ImmediateResponse c [(''content-type'', ''application/json'')] body details \<and>
    (c = 400 \<or> c = 429)"
  using assms
  by (auto simp: doBudgetCheckAndRespond_def immediateResponse_def Let_def split: prod.splits sum.splits if_splits)

interpretation budget_stream: stream_processor "process_request show_uuid env cfg" for show_uuid env cfg
proof unfold_locales
  fix req and ss :: "'b stream_state"
  assume known: "known_request req"
  show "\<exists>resp ss'. process_request show_uuid env cfg req ss = (Some resp, ss') \<and> answers req resp"
  proof (cases req)
    case (RequestHeaders hs md)
    obtain rid w1 where r: "request_id show_uuid hs (ssWorld ss) = (rid, w1)" by fastforce
    obtain reject st1 s1 w2 where d: "doBudgetCheckAndRespond env cfg False (new_request cfg rid (clock w1) hs md)
        (bsService (ssServer ss)) w1 = (reject, st1, s1, w2)" by (metis prod_cases4)
    then show ?thesis
      using doBudgetCheck_reject [of env cfg "new_request cfg rid (clock w1) hs md"]
      by (cases reject) (fastforce simp: RequestHeaders process_request_def on_request_headers_def r Let_def
          answers_def buildBudgetHeadersResponse_def)+
  qed (use known in \<open>auto simp: process_request_def answers_def on_request_body_def on_response_body_def
      known_request_def Let_def split: option.splits prod.splits\<close>)
next
  show "\<not> known_request req \<Longrightarrow> process_request show_uuid env cfg req ss = (None, ss)" for req ss
    by (simp add: known_request_def process_request_def)
qed

text \<open>
  C29: the processor is transparent. On a stream that ends regularly every request of a known kind gets one answer,
  in the order of the requests and of its kind, and each chunk of either body is handed on unchanged.
\<close>

theorem Process_transparent:
  assumes "Process show_uuid env cfg es ss = (rs, StreamEOF, ss')"
  shows "list_all2 answers (filter known_request (requests es)) rs"
  using budget_stream.served [of show_uuid env cfg es ss rs StreamEOF ss'] assms by (simp add: Process_def)

section \<open>Chunks\<close>

definition response_chunk :: "bool \<Rightarrow> string \<Rightarrow> stream_event" where
  "response_chunk eos body = Received (ResponseBody body eos) True"

lemma on_response_body_merge:
  "snd (on_response_body cfg b2 eos (snd (on_response_body cfg b1 False ss))) =
    snd (on_response_body cfg (b1 @ b2) eos ss)"
  by (simp add: on_response_body_def Let_def split: option.splits prod.splits)

lemma process_response_body:
  "process_request show_uuid env cfg (ResponseBody body eos) ss = apfst Some (on_response_body cfg body eos ss)"
  by (simp add: process_request_def)

lemma serve_chunk:
  "snd (Process show_uuid env cfg (response_chunk eos body # es) ss) =
    snd (Process show_uuid env cfg es (snd (on_response_body cfg body eos ss)))"
  by (simp add: Process_def response_chunk_def process_response_body apfst_def map_prod_def split: prod.splits)

text \<open>
  C27: the accounting does not depend on the chunks. However the response body is cut into chunks, the stream ends in
  the same state, with the same usage counted, the same charges and the same database, as if the body
  had come in one piece.
\<close>

theorem response_chunks_irrelevant:
  "snd (Process show_uuid env cfg (map (response_chunk False) chunks @ response_chunk True body # es) ss) =
   snd (Process show_uuid env cfg (response_chunk True (concat chunks @ body) # es) ss)"
proof (induction chunks arbitrary: ss)
  case (Cons c chunks)
  have "snd (on_response_body cfg (concat chunks @ body) True (snd (on_response_body cfg c False ss))) =
      snd (on_response_body cfg (c @ concat chunks @ body) True ss)"
    by (rule on_response_body_merge)
  then show ?case by (simp add: serve_chunk Cons.IH)
qed simp

section \<open>Refusals\<close>

lemma doBudgetCheck_world:
  assumes "doBudgetCheckAndRespond env cfg False st s w = (Some resp, st', s', w')"
  shows "db w' = db w" and "open_txs w' = open_txs w"
proof -
  obtain r where run: "CheckAndReserveBudget env cfg (qsEvalContext st) (qsModelID st) (qsRequestID st) s w = (r, s', w')"
    and no: "case r of Inl e \<Rightarrow> True | Inr c \<Rightarrow> \<not> crAllowed c"
    using assms by (auto simp: doBudgetCheckAndRespond_def Let_def split: prod.splits sum.splits if_splits)
  from check_ends [OF run] no show "db w' = db w" and "open_txs w' = open_txs w"
    by (auto split: sum.splits)
qed


text \<open>
  The key of a refused request stays in \<open>requestStates\<close> for good: only the end of a response
  deletes it.
\<close>

lemma refused_request_key_stays:
  assumes "process_request show_uuid env cfg (RequestHeaders hs md) ss = (Some resp, ss')"
  shows "ssRequestID ss' \<in> set (bsRequestStates (ssServer ss'))"
  using assms by (auto simp: process_request_def on_request_headers_def Let_def split: prod.splits)

section \<open>The life of a request\<close>

text \<open>The events between the headers and the end of the response.\<close>

definition middle_event :: "stream_event \<Rightarrow> bool" where
  "middle_event ev \<longleftrightarrow> (case ev of
     Received req sent \<Rightarrow> sent \<and> (case req of RequestHeaders hs md \<Rightarrow> False
       | ResponseBody body eos \<Rightarrow> \<not> eos | _ \<Rightarrow> True)
   | _ \<Rightarrow> False)"

text \<open>What the end of the response uses of the state.\<close>

definition same_request :: "'p stream_state \<Rightarrow> 'p stream_state \<Rightarrow> bool" where
  "same_request ss ss' \<longleftrightarrow> ssRequestID ss' = ssRequestID ss \<and> ssWorld ss' = ssWorld ss \<and>
     ssServer ss' = ssServer ss \<and> (ssRequest ss' = None \<longleftrightarrow> ssRequest ss = None)"

lemma middle_events:
  assumes "list_all middle_event es"
  shows "\<exists>ss'. snd (Process show_uuid env cfg (es @ rest) ss) = snd (Process show_uuid env cfg rest ss') \<and>
    same_request ss ss'"
  using assms
proof (induction es arbitrary: ss)
  case Nil
  then show ?case by (auto simp: same_request_def)
next
  case (Cons ev es)
  then obtain req where ev: "ev = Received req True"
    by (cases ev) (auto simp: middle_event_def)
  obtain resp ss1 where h: "process_request show_uuid env cfg req ss = (resp, ss1)" by fastforce
  have same: "same_request ss ss1"
    using h Cons.prems
    by (cases req) (auto simp: ev middle_event_def process_request_def on_request_body_def on_response_body_def
        same_request_def Let_def split: option.splits)
  obtain ss' where ss': "snd (Process show_uuid env cfg (es @ rest) ss1) = snd (Process show_uuid env cfg rest ss')"
    "same_request ss1 ss'"
    using Cons.IH [of ss1] Cons.prems by auto
  have "snd (Process show_uuid env cfg ((ev # es) @ rest) ss) = snd (Process show_uuid env cfg (es @ rest) ss1)"
    using h by (cases resp) (simp_all add: Process_def ev split: prod.splits)
  with ss' same show ?case by (auto simp: same_request_def)
qed

lemma on_request_headers_effect:
  assumes "on_request_headers show_uuid env cfg hs md ss = (resp, ss')"
    and "chargeable (ssWorld ss)" and "cache_sound env (svPrograms (bsService (ssServer ss)))"
    and "request_id show_uuid hs (ssWorld ss) = (rid, w1)"
  shows "chargeable (ssWorld ss')" and "ssRequestID ss' = rid" and "ssRequest ss' \<noteq> None"
    and "\<exists>rows. request_reservations (db (ssWorld ss')) = request_reservations (db (ssWorld ss)) @ rows \<and>
      (\<forall>x \<in> set rows. rsRequestID x = rid)"
proof -
  let ?st = "new_request cfg rid (clock w1) hs md"
  have w1: "db w1 = db (ssWorld ss)" "chargeable w1"
    using assms(2,4)
    by (auto simp: request_id_def uuid_New_def chargeable_def world_ok_def fresh_usage_def less_Suc_eq split: if_splits)
  obtain reject st1 s1 w2 where d: "doBudgetCheckAndRespond env cfg False ?st (bsService (ssServer ss)) w1 =
      (reject, st1, s1, w2)" by (metis prod_cases4)
  have ss': "ssRequestID ss' = rid" "ssRequest ss' = Some st1" "ssWorld ss' = w2"
    using assms(1,4) d by (auto simp: on_request_headers_def Let_def)
  obtain r where run: "CheckAndReserveBudget env cfg (qsEvalContext ?st) (qsModelID ?st) (qsRequestID ?st)
      (bsService (ssServer ss)) w1 = (r, s1, w2)"
    using d by (auto simp: doBudgetCheckAndRespond_def Let_def split: prod.splits sum.splits if_splits)
  have "qsRequestID ?st = rid" by (simp add: new_request_def)
  with admission_chargeable [OF run w1(2) assms(3)] ss' w1(1)
  show "chargeable (ssWorld ss')" and "ssRequestID ss' = rid" and "ssRequest ss' \<noteq> None"
    and "\<exists>rows. request_reservations (db (ssWorld ss')) = request_reservations (db (ssWorld ss)) @ rows \<and>
      (\<forall>x \<in> set rows. rsRequestID x = rid)" by simp_all
qed

lemma finish_request_effect:
  assumes "chargeable (ssWorld ss)" and "ssRequest ss \<noteq> None"
    and "on_response_body cfg body True ss = (resp, ss')"
  shows "request_reservations (db (ssWorld ss')) =
      filter (\<lambda>r. rsRequestID r \<noteq> ssRequestID ss) (request_reservations (db (ssWorld ss))) \<and>
    ssRequestID ss \<notin> set (bsRequestStates (ssServer ss')) \<and>
    (\<exists>h. resp = ResponseBodyResponse (Some h) body True)"
proof -
  obtain st where st: "ssRequest ss = Some st" using assms(2) by blast
  have world: "faults (ssWorld ss) = []" "tables_ok (db (ssWorld ss))" "fresh_usage (ssWorld ss) (db (ssWorld ss))"
    "hierarchies_end (db (ssWorld ss))"
    using assms(1) by (simp_all add: chargeable_def world_ok_def)
  define st1 where "st1 = st\<lparr>qsStreamingBuffer := qsStreamingBuffer st @ body\<rparr>"
  define tokens where "tokens = parseTokenUsage (qsStreamingBuffer st1)"
  define st2 where "st2 = (if qsModelID st1 = ''''
    then st1\<lparr>qsModelID := extractModelFromResponse (qsStreamingBuffer st1)\<rparr> else st1)"
  obtain d s' w' where run: "DecrementBudgets cfg (ssRequestID ss) (qsModelID st2) (fst tokens) (snd tokens)
      (qsRateLimitedAt st2) (bsService (ssServer ss)) (ssWorld ss) = (Inr d, s', w')"
    "request_reservations (db w') = filter (\<lambda>r. rsRequestID r \<noteq> ssRequestID ss)
      (request_reservations (db (ssWorld ss)))"
    using charge_completes [OF world] by blast
  have "resp = ResponseBodyResponse (Some (cost_headers d)) body True \<and> ssWorld ss' = w' \<and>
    bsRequestStates (ssServer ss') = removeAll (ssRequestID ss) (bsRequestStates (ssServer ss))"
    using assms(3) st run(1)
    by (auto simp: on_response_body_def finish_request_def Let_def st1_def [symmetric] tokens_def [symmetric]
        st2_def [symmetric])
  with run(2) show ?thesis by auto
qed


section \<open>Usage in an event stream\<close>

text \<open>
  An event stream as a provider sends it: for every payload a line \<open>data: payload\<close> and an empty line. A
  payload is one line that ends neither in white space nor is empty.
\<close>

definition event_stream :: "string list \<Rightarrow> string" where
  "event_stream ps = concat (map (\<lambda>p. ''data: '' @ p @ [CHR 0x0A, CHR 0x0A]) ps)"

definition payload_ok :: "string \<Rightarrow> bool" where
  "payload_ok p \<longleftrightarrow> p \<noteq> [] \<and> CHR 0x0A \<notin> set p \<and> \<not> is_space (last p)"

lemma Split_event_stream:
  "list_all payload_ok ps \<Longrightarrow>
    Split (event_stream ps) (CHR 0x0A) = concat (map (\<lambda>p. [''data: '' @ p, []]) ps) @ [[]]"
proof (induction ps)
  case (Cons p ps)
  have "CHR 0x0A \<notin> set (''data: '' @ p)" using Cons.prems by (simp add: payload_ok_def)
  from Split_append [OF this, of "CHR 0x0A # event_stream ps"]
    Split_append [of "CHR 0x0A" "[]" "event_stream ps"] Cons
  show ?case by (simp add: event_stream_def)
qed (simp add: event_stream_def)

lemma sse_line_data:
  assumes "payload_ok p"
  shows "sse_line (''data: '' @ p) t = (if p = ''[DONE]'' then t else sse_data p t)"
proof -
  have "\<not> is_space (hd (''data: '' @ p))" by code_simp
  then have "TrimSpace (''data: '' @ p) = ''data: '' @ p"
    using assms by (intro TrimSpace_id) (auto simp: payload_ok_def)
  then show ?thesis
    unfolding sse_line_def Let_def by (simp only: HasPrefix_append TrimPrefix_append simp_thms if_False)
qed

lemma sse_line_empty: "sse_line [] t = t"
  by (simp add: sse_line_def TrimSpace_def HasPrefix_def)

text \<open>
  C28: what is counted of an event stream is what its payloads say. The usage read off the bytes of the body is
  the events of the stream applied in their order, the end marker skipped.
\<close>

theorem parseTokenUsage_event_stream:
  assumes "list_all payload_ok ps" and "ps \<noteq> []"
  shows "parseTokenUsage (event_stream ps) =
    fold (\<lambda>p t. if p = ''[DONE]'' then t else sse_data p t) ps (0, 0)"
proof -
  have sse: "Contains (event_stream ps) ''data: ''"
    using assms(2) by (cases ps) (simp_all add: event_stream_def HasPrefix_def)
  have "fold sse_line (concat (map (\<lambda>p. [''data: '' @ p, []]) ps)) t =
      fold (\<lambda>p t. if p = ''[DONE]'' then t else sse_data p t) ps t" for t
    using assms(1)
  proof (induction ps arbitrary: t)
    case (Cons p ps)
    then have "payload_ok p" by simp
    from Cons sse_line_data [OF this] show ?case by (simp add: sse_line_empty del: append.simps)
  qed simp
  then show ?thesis
    using sse by (simp add: parseTokenUsage_def parseSSETokenUsage_def Split_event_stream [OF assms(1)] sse_line_empty)
qed

end
