(* ===== verification/RateLimit_Repo.thy ===== *)
theory RateLimit_Repo
  imports Approvals
begin

text \<open>
  \<open>internal/db/ratelimit_repository.go\<close>: the allocations of rate limits to teams and the
  record of their approvals.

  The constraints of \<open>rate_limit_allocations\<close> are one predicate on its rows,
  \<open>allocations_ok\<close>: a statement that would break it is rejected. It holds of every table
  the server hands out, so to test the new table is to test the rows the statement touches.
\<close>

section \<open>Patterns\<close>

text \<open>
  \<open>s LIKE p\<close>: a percent sign stands for any text, an underscore for one character, a backslash
  takes the next character literally. A pattern that ends in a lone backslash, for which the server
  raises an error when it gets there, matches nothing here.
\<close>

function (sequential) sql_like :: "string \<Rightarrow> string \<Rightarrow> bool" where
  "sql_like [] s \<longleftrightarrow> s = []"
| "sql_like (c # p) s \<longleftrightarrow>
     (if c = CHR ''%'' then sql_like p s \<or> (case s of [] \<Rightarrow> False | _ # t \<Rightarrow> sql_like (c # p) t)
      else if c = CHR ''_'' then (case s of [] \<Rightarrow> False | _ # t \<Rightarrow> sql_like p t)
      else if c = CHR 0x5C then
        (case (p, s) of (d # q, e # t) \<Rightarrow> d = e \<and> sql_like q t | _ \<Rightarrow> False)
      else (case s of [] \<Rightarrow> False | e # t \<Rightarrow> c = e \<and> sql_like p t))"
  by pat_completeness auto
termination by (relation "measure (\<lambda>(p, s). length p + length s)") auto

text \<open>\<open>replace(model_pattern, '*', '%')\<close>.\<close>

definition star_to_percent :: "string \<Rightarrow> string" where
  "star_to_percent p = map (\<lambda>c. if c = CHR ''*'' then CHR ''%'' else c) p"

definition pattern_covers :: "string \<Rightarrow> string \<Rightarrow> bool" where
  "pattern_covers p model \<longleftrightarrow> p = model \<or> p = ''*'' \<or> sql_like (star_to_percent p) model"

definition pattern_rank :: "string \<Rightarrow> string \<Rightarrow> nat" where
  "pattern_rank model p = (if p = model then 0 else if p = ''*'' then 2 else 1)"

section \<open>Reading\<close>

definition ListAllocations :: "allocation list op" where
  "ListAllocations = sql_rows False ''failed to query rate limit allocations''
     (\<lambda>now t. order_by (\<lambda>a. (raOrgID a, raTeamID a, raModelPattern a)) (rate_limit_allocations t))"

definition allocation_by_id :: "uuid \<Rightarrow> tables \<Rightarrow> allocation option" where
  "allocation_by_id i t = first_row (filter (\<lambda>a. raID a = i) (rate_limit_allocations t))"

definition GetAllocationByID :: "uuid \<Rightarrow> allocation op" where
  "GetAllocationByID i = sql_row ''failed to get rate limit allocation'' (\<lambda>now t. allocation_by_id i t)"

definition active_for :: "string \<Rightarrow> string \<Rightarrow> allocation \<Rightarrow> bool" where
  "active_for teamID model a \<longleftrightarrow> raTeamID a = teamID \<and> raEnabled a \<and>
     raApprovalStatus a = ApprovalStatusApproved \<and> pattern_covers (raModelPattern a) model"

definition GetAllocationsForTeamModel :: "string \<Rightarrow> string \<Rightarrow> allocation list op" where
  "GetAllocationsForTeamModel teamID model = sql_rows True ''failed to get allocations for team/model''
     (\<lambda>now t. order_by (\<lambda>a. pattern_rank model (raModelPattern a))
        (filter (active_for teamID model) (rate_limit_allocations t)))"

text \<open>No row is no error here: the caller gets \<open>nil\<close>.\<close>

definition GetAllocationByTeamAndPattern :: "string \<Rightarrow> string \<Rightarrow> allocation option op" where
  "GetAllocationByTeamAndPattern teamID modelPattern =
     try_op (sql_row ''failed to get allocation by team and pattern''
         (\<lambda>now t. first_row (filter (\<lambda>a. raTeamID a = teamID \<and> raModelPattern a = modelPattern)
            (rate_limit_allocations t))))
       (\<lambda>r. case r of Inr a \<Rightarrow> return_op (Some a) | Inl ErrNotFound \<Rightarrow> return_op None
          | Inl e \<Rightarrow> fail_op e)"

definition CountPendingAllocations :: "string \<Rightarrow> nat op" where
  "CountPendingAllocations orgID = sql_row ''failed to count pending allocations''
     (\<lambda>now t. Some (count_where
        (\<lambda>a. raOrgID a = orgID \<and> raApprovalStatus a = ApprovalStatusPending) (rate_limit_allocations t)))"

definition ListPendingAllocations :: "string \<Rightarrow> allocation list op" where
  "ListPendingAllocations orgID = sql_rows False ''failed to query pending allocations''
     (\<lambda>now t. order_by_desc raCreatedAt
        (filter (\<lambda>a. raOrgID a = orgID \<and> raApprovalStatus a = ApprovalStatusPending)
          (rate_limit_allocations t)))"

definition ListAllocationsByOrgFiltered :: "string \<Rightarrow> bool \<Rightarrow> allocation list op" where
  "ListAllocationsByOrgFiltered orgID enabledOnly = sql_rows False ''failed to query allocations by org''
     (\<lambda>now t. order_by (\<lambda>a. (raTeamID a, raModelPattern a))
        (filter (\<lambda>a. raOrgID a = orgID \<and>
             (enabledOnly \<longrightarrow> raEnabled a \<and> raApprovalStatus a = ApprovalStatusApproved))
          (rate_limit_allocations t)))"

definition ListAllocationsByOrg :: "string \<Rightarrow> allocation list op" where
  "ListAllocationsByOrg orgID = ListAllocationsByOrgFiltered orgID False"

section \<open>Constraints\<close>

definition unit_ok :: "string option \<Rightarrow> bool" where
  "unit_ok u \<longleftrightarrow> (case u of None \<Rightarrow> True
     | Some s \<Rightarrow> s \<in> set [''SECOND'', ''MINUTE'', ''HOUR'', ''DAY''])"

definition allocation_checks :: "allocation \<Rightarrow> bool" where
  "allocation_checks a \<longleftrightarrow> unit_ok (raTokenUnit a) \<and> unit_ok (raRequestUnit a) \<and>
     db_enforcement (raEnforcement a) \<and> (raTokenLimit a \<noteq> None \<or> raRequestLimit a \<noteq> None)"

definition not_rejected :: "allocation \<Rightarrow> bool" where
  "not_rejected a \<longleftrightarrow> raApprovalStatus a \<noteq> ApprovalStatusRejected"

definition allocation_key :: "allocation \<Rightarrow> string \<times> string \<times> string" where
  "allocation_key a = (raOrgID a, raTeamID a, raModelPattern a)"

definition allocations_ok :: "allocation list \<Rightarrow> bool" where
  "allocations_ok rows \<longleftrightarrow> distinct (map raID rows) \<and>
     distinct (map allocation_key (filter not_rejected rows)) \<and> (\<forall>a \<in> set rows. allocation_checks a)"

definition put_allocations :: "'a \<Rightarrow> allocation list \<Rightarrow> tables \<Rightarrow> ('a \<times> tables) option" where
  "put_allocations r rows t =
     (if allocations_ok rows then Some (r, t\<lparr>rate_limit_allocations := rows\<rparr>) else None)"

text \<open>An \<open>UPDATE\<close>, with the trigger that refreshes \<open>updated_at\<close>.\<close>

definition update_allocations ::
  "(allocation \<Rightarrow> bool) \<Rightarrow> (allocation \<Rightarrow> allocation) \<Rightarrow> nat statement" where
  "update_allocations p f now t =
     (let n = count_where p (rate_limit_allocations t) in
      if n = 0 then Some (0, t)
      else put_allocations n
        (update_where p (\<lambda>a. (f a)\<lparr>raUpdatedAt := now\<rparr>) (rate_limit_allocations t)) t)"

text \<open>A \<open>DELETE\<close> cascades to the approvals of the rows.\<close>

definition delete_allocations :: "(allocation \<Rightarrow> bool) \<Rightarrow> nat statement" where
  "delete_allocations p now t =
     (let gone = set (map raID (filter p (rate_limit_allocations t))) in
      Some (count_where p (rate_limit_allocations t),
        t\<lparr>rate_limit_allocations := delete_where p (rate_limit_allocations t),
          rate_limit_approvals :=
            delete_where (\<lambda>r. rpAllocationID r \<in> gone) (rate_limit_approvals t)\<rparr>))"

section \<open>Writing\<close>

text \<open>
  The duplicate check looks at team and pattern only, the clean-up of rejected rows and the unique
  index at the organisation too. The row gets \<open>rejection_count\<close> 0, the default of the column. The
  default for a missing approval status is not modelled: \<open>approval_status\<close> has no empty value
  and the only caller sets it.
\<close>

definition CreateAllocation :: "allocation \<Rightarrow> allocation op" where
  "CreateAllocation a =
     bind_op uuid_op (\<lambda>i. bind_op now_op (\<lambda>now.
       let a' = a\<lparr>raID := i, raVersion := 1, raCreatedAt := now, raUpdatedAt := now,
             raEnforcement := (if raEnforcement a = EnforcementOther '''' then EnforcementEnforced
                               else raEnforcement a)\<rparr>
       in try_op (sql_row ''failed to check for existing allocation''
              (\<lambda>now t. map_option raID (first_row (filter
                 (\<lambda>r. raTeamID r = raTeamID a \<and> raModelPattern r = raModelPattern a \<and> not_rejected r)
                 (rate_limit_allocations t)))))
            (\<lambda>r. case r of
               Inr _ \<Rightarrow> fail_op ErrDuplicateEntity
             | Inl ErrNotFound \<Rightarrow>
                 try_op (sql_exec ''delete'' (delete_allocations
                     (\<lambda>r. raOrgID r = raOrgID a \<and> raTeamID r = raTeamID a \<and>
                        raModelPattern r = raModelPattern a \<and> \<not> not_rejected r)))
                   (\<lambda>_. bind_op (sql_exec ''failed to create rate limit allocation''
                       (\<lambda>now t. put_allocations ()
                          (rate_limit_allocations t @ [a'\<lparr>raRejectionCount := 0\<rparr>]) t))
                     (\<lambda>_. return_op a'))
             | Inl e \<Rightarrow> fail_op e)))"

definition apply_allocation_update :: "allocation \<Rightarrow> allocation \<Rightarrow> allocation" where
  "apply_allocation_update a r = r\<lparr>raModelPattern := raModelPattern a, raTokenLimit := raTokenLimit a,
     raTokenUnit := raTokenUnit a, raRequestLimit := raRequestLimit a,
     raRequestUnit := raRequestUnit a, raBurstPercentage := raBurstPercentage a,
     raEnforcement := raEnforcement a, raEnabled := raEnabled a,
     raDisabledByUserID := raDisabledByUserID a, raDisabledByEmail := raDisabledByEmail a,
     raDisabledByIsOrg := raDisabledByIsOrg a, raDisabledAt := raDisabledAt a,
     raDescription := raDescription a, raVersion := raVersion r + 1\<rparr>"

text \<open>The caller's struct gets the new \<open>UpdatedAt\<close>, but keeps its old version.\<close>

definition UpdateAllocation :: "allocation \<Rightarrow> allocation op" where
  "UpdateAllocation a = bind_op now_op (\<lambda>now. bind_op
     (affected_or ErrOptimisticLock (sql_exec ''failed to update rate limit allocation''
        (update_allocations (\<lambda>r. raID r = raID a \<and> raVersion r = raVersion a)
           (apply_allocation_update a))))
     (\<lambda>_. return_op (a\<lparr>raUpdatedAt := now\<rparr>)))"

definition pending_row :: "uuid \<Rightarrow> allocation \<Rightarrow> bool" where
  "pending_row i r \<longleftrightarrow> raID r = i \<and> raApprovalStatus r = ApprovalStatusPending"

definition rejected_row :: "uuid \<Rightarrow> allocation \<Rightarrow> bool" where
  "rejected_row i r \<longleftrightarrow> raID r = i \<and> raApprovalStatus r = ApprovalStatusRejected"

definition approve_allocation :: "uuid \<Rightarrow> string \<Rightarrow> enforcement \<Rightarrow> nat statement" where
  "approve_allocation i approvedBy e now = update_allocations (pending_row i)
     (\<lambda>r. r\<lparr>raApprovalStatus := ApprovalStatusApproved, raApprovedBy := Some approvedBy,
        raApprovedAt := Some now, raEnforcement := e, raVersion := raVersion r + 1\<rparr>) now"

definition ApproveAllocation :: "uuid \<Rightarrow> string \<Rightarrow> enforcement \<Rightarrow> unit op" where
  "ApproveAllocation i approvedBy e = affected_or ErrNotFound
     (sql_exec ''failed to approve allocation'' (approve_allocation i approvedBy e))"

definition reject_allocation :: "uuid \<Rightarrow> nat statement" where
  "reject_allocation i = update_allocations (pending_row i)
     (\<lambda>r. r\<lparr>raApprovalStatus := ApprovalStatusRejected, raRejectionCount := raRejectionCount r + 1,
        raVersion := raVersion r + 1\<rparr>)"

definition RejectAllocation :: "uuid \<Rightarrow> unit op" where
  "RejectAllocation i = affected_or ErrNotFound
     (sql_exec ''failed to reject allocation'' (reject_allocation i))"

definition reset_allocation :: "uuid \<Rightarrow> nat statement" where
  "reset_allocation i = update_allocations (rejected_row i)
     (\<lambda>r. r\<lparr>raApprovalStatus := ApprovalStatusPending, raApprovedBy := None, raApprovedAt := None,
        raVersion := raVersion r + 1\<rparr>)"

definition ResetAllocationForResubmit :: "uuid \<Rightarrow> unit op" where
  "ResetAllocationForResubmit i = affected_or ErrNotFound
     (sql_exec ''failed to reset allocation for resubmit'' (reset_allocation i))"

definition DeleteAllocation :: "uuid \<Rightarrow> unit op" where
  "DeleteAllocation i = affected_or ErrNotFound
     (sql_exec ''failed to delete rate limit allocation'' (delete_allocations (\<lambda>r. raID r = i)))"

section \<open>Approvals\<close>

definition insert_rl_approval :: "rl_approval \<Rightarrow> unit statement" where
  "insert_rl_approval r now t =
     (if rpAllocationID r \<in> set (map raID (rate_limit_allocations t)) \<and>
         rpID r \<notin> set (map rpID (rate_limit_approvals t))
      then Some ((), t\<lparr>rate_limit_approvals := rate_limit_approvals t @ [r]\<rparr>) else None)"

definition CreateApproval :: "rl_approval \<Rightarrow> unit op" where
  "CreateApproval r = bind_op uuid_op (\<lambda>i. bind_op now_op (\<lambda>now.
     sql_exec ''failed to create approval''
       (insert_rl_approval (r\<lparr>rpID := i, rpCreatedAt := now, rpUpdatedAt := now\<rparr>))))"

definition max_or_zero :: "int list \<Rightarrow> int" where
  "max_or_zero xs = (case xs of [] \<Rightarrow> 0 | y # ys \<Rightarrow> foldl max y ys)"

definition GetLatestAttemptNumber :: "uuid \<Rightarrow> int op" where
  "GetLatestAttemptNumber i = sql_row ''failed to get latest attempt number''
     (\<lambda>now t. Some (max_or_zero (map rpAttemptNumber
        (filter (\<lambda>r. rpAllocationID r = i) (rate_limit_approvals t)))))"

definition rl_history_row :: "approval_history_filter \<Rightarrow> allocation \<Rightarrow> bool" where
  "rl_history_row f r \<longleftrightarrow>
     (if hfTeamID f \<noteq> '''' then raTeamID r = hfTeamID f
      else if hfOrgID f \<noteq> '''' then raOrgID r = hfOrgID f else True)"

definition rl_approval_join :: "tables \<Rightarrow> (rl_approval \<times> allocation) list" where
  "rl_approval_join t = concat (map (\<lambda>a. map (Pair a)
     (filter (\<lambda>r. rpAllocationID a = raID r) (rate_limit_allocations t))) (rate_limit_approvals t))"

definition ListRateLimitHistory ::
  "approval_history_filter \<Rightarrow> int \<Rightarrow> int \<Rightarrow> ((rl_approval \<times> allocation) list \<times> nat) op" where
  "ListRateLimitHistory f page pageSize =
     (let offset = go_int64 (go_int64 (page - 1) * pageSize); p = (\<lambda>(a, r). rl_history_row f r) in
      bind_op (sql_row ''failed to count approval history''
          (\<lambda>now t. Some (count_where p (rl_approval_join t))))
        (\<lambda>totalCount. bind_op (sql_page ''failed to query approval history'' offset pageSize
            (\<lambda>now t. order_by_desc (\<lambda>(a, r). rpCreatedAt a) (filter p (rl_approval_join t))))
          (\<lambda>results. return_op (results, totalCount))))"

section \<open>Contracts\<close>

interpretation ListAllocations: query_op ListAllocations
  unfolding ListAllocations_def by (intro op_contracts)

interpretation GetAllocationByID: query_op "GetAllocationByID i" for i
  unfolding GetAllocationByID_def by (intro op_contracts)

interpretation GetAllocationsForTeamModel: query_op "GetAllocationsForTeamModel o1 m" for o1 m
  unfolding GetAllocationsForTeamModel_def by (intro op_contracts)

interpretation GetAllocationByTeamAndPattern: query_op "GetAllocationByTeamAndPattern o1 m" for o1 m
  unfolding GetAllocationByTeamAndPattern_def
  by (intro op_contracts) (auto split: sum.splits db_error.splits intro: op_contracts)

interpretation CountPendingAllocations: query_op "CountPendingAllocations o1" for o1
  unfolding CountPendingAllocations_def by (intro op_contracts)

interpretation ListPendingAllocations: query_op "ListPendingAllocations o1" for o1
  unfolding ListPendingAllocations_def by (intro op_contracts)

interpretation ListAllocationsByOrgFiltered: query_op "ListAllocationsByOrgFiltered o1 e" for o1 e
  unfolding ListAllocationsByOrgFiltered_def by (intro op_contracts)

interpretation GetLatestAttemptNumber: query_op "GetLatestAttemptNumber i" for i
  unfolding GetLatestAttemptNumber_def by (intro op_contracts)

interpretation ListRateLimitHistory: query_op "ListRateLimitHistory f page pageSize" for f page pageSize
  unfolding ListRateLimitHistory_def Let_def by (intro op_contracts)

lemma counts_changes_update_allocations [op_contracts]: "counts_changes (update_allocations p f)"
  by (auto simp: counts_changes_def update_allocations_def put_allocations_def Let_def
      split: if_splits)

lemma counts_changes_update_allocations_now [op_contracts]:
  "counts_changes (approve_allocation i s e)"
  by (auto simp: counts_changes_def approve_allocation_def update_allocations_def put_allocations_def
      Let_def split: if_splits)

lemma counts_changes_delete_allocations [op_contracts]: "counts_changes (delete_allocations p)"
proof -
  have "t' = t" if run: "delete_allocations p now t = Some (0, t')" for now t t'
  proof -
    from run have none: "\<forall>r \<in> set (rate_limit_allocations t). \<not> p r"
      by (simp add: delete_allocations_def Let_def)
    then have "filter p (rate_limit_allocations t) = []" by (simp add: filter_empty_conv)
    with run none show ?thesis by (simp add: delete_allocations_def Let_def)
  qed
  then show ?thesis by (auto simp: counts_changes_def)
qed

interpretation ApproveAllocation: atomic_op "ApproveAllocation i s e" for i s e
  unfolding ApproveAllocation_def by (intro op_contracts)

interpretation RejectAllocation: atomic_op "RejectAllocation i" for i
  unfolding RejectAllocation_def reject_allocation_def by (intro op_contracts)

interpretation ResetAllocationForResubmit: atomic_op "ResetAllocationForResubmit i" for i
  unfolding ResetAllocationForResubmit_def reset_allocation_def by (intro op_contracts)

interpretation DeleteAllocation: atomic_op "DeleteAllocation i" for i
  unfolding DeleteAllocation_def by (intro op_contracts)

interpretation CreateApproval: atomic_op "CreateApproval r" for r
  unfolding CreateApproval_def by (intro op_contracts)

end
