(* ===== verification/RateLimit_Api.thy ===== *)
theory RateLimit_Api
  imports RateLimit_Repo Go_Strings
begin

text \<open>
  \<open>internal/api/ratelimit_handlers.go\<close> and \<open>parsePagination\<close>: the HTTP handlers of the rate limit
  allocations. As for the budget approvals a handler takes what it reads from the request and
  returns a status with an error message or with the value it writes as JSON. A JSON object is the list
  of its fields.
\<close>

datatype field_value =
    FNull | FUUID uuid | FString string | FInt int | FBool bool | FTime time | FUSD usd
  | FStatus approval_status | FEnforcement enforcement | FEntity entity_type | FPeriod budget_period

type_synonym json_fields = "(string \<times> field_value) list"

text \<open>\<open>err.Error()\<close>, without the text of the wrapped cause.\<close>

fun error_string :: "db_error \<Rightarrow> string" where
  "error_string ErrNotFound = ''not found''"
| "error_string ErrOptimisticLock = ''optimistic lock failed''"
| "error_string ErrDuplicateEntity = ''duplicate entity''"
| "error_string (ErrWrapped s) = s"

section \<open>Pagination parameters\<close>

definition defaultPageSize :: int where "defaultPageSize = 30"
definition maxPageSize :: int where "maxPageSize = 30"

text \<open>The two query parameters; an absent one is the empty string.\<close>

definition parsePagination :: "string \<Rightarrow> string \<Rightarrow> pagination_params" where
  "parsePagination page page_size =
     \<lparr>ppPage = (case Atoi page of Some v \<Rightarrow> if v > 0 then v else 1 | None \<Rightarrow> 1),
      ppPageSize = (case Atoi page_size of
        Some v \<Rightarrow> if v > 0 then (if v > maxPageSize then maxPageSize else v) else defaultPageSize
      | None \<Rightarrow> defaultPageSize)\<rparr>"

section \<open>Requests and responses\<close>

record create_allocation_request =
  caOrgID :: string
  caTeamID :: string
  caModelPattern :: string
  caTokenLimit :: "int option"
  caTokenUnit :: "string option"
  caRequestLimit :: "int option"
  caRequestUnit :: "string option"
  caBurstPercentage :: int
  caDescription :: string

record update_allocation_request =
  uaModelPattern :: string
  uaTokenLimit :: "int option"
  uaTokenUnit :: "string option"
  uaRequestLimit :: "int option"
  uaRequestUnit :: "string option"
  uaBurstPercentage :: "int option"
  uaEnforcement :: string
  uaEnabled :: "bool option"
  uaDescription :: string
  uaVersion :: int

definition opt_field :: "string \<Rightarrow> ('a \<Rightarrow> field_value) \<Rightarrow> 'a option \<Rightarrow> json_fields" where
  "opt_field k f v = (case v of None \<Rightarrow> [] | Some x \<Rightarrow> [(k, f x)])"

definition allocationToMap :: "allocation \<Rightarrow> json_fields" where
  "allocationToMap a =
     [(''id'', FUUID (raID a)), (''org_id'', FString (raOrgID a)), (''team_id'', FString (raTeamID a)),
      (''model_pattern'', FString (raModelPattern a)),
      (''burst_percentage'', FInt (raBurstPercentage a)),
      (''enforcement'', FEnforcement (raEnforcement a)), (''enabled'', FBool (raEnabled a)),
      (''approval_status'', FStatus (raApprovalStatus a)),
      (''rejection_count'', FInt (raRejectionCount a)), (''version'', FInt (raVersion a)),
      (''created_at'', FTime (raCreatedAt a)), (''updated_at'', FTime (raUpdatedAt a))] @
     opt_field ''token_limit'' FInt (raTokenLimit a) @ opt_field ''token_unit'' FString (raTokenUnit a) @
     opt_field ''request_limit'' FInt (raRequestLimit a) @
     opt_field ''request_unit'' FString (raRequestUnit a) @
     opt_field ''approved_by'' FString (raApprovedBy a) @ opt_field ''approved_at'' FTime (raApprovedAt a) @
     opt_field ''created_by_user_id'' FString (raCreatedByUserID a) @
     opt_field ''created_by_email'' FString (raCreatedByEmail a) @
     opt_field ''description'' FString (raDescription a)"

definition allocationsToMaps :: "allocation list \<Rightarrow> json_fields list" where
  "allocationsToMaps as = map allocationToMap as"

definition canEnableRateLimit :: "allocation \<Rightarrow> identity \<Rightarrow> bool" where
  "canEnableRateLimit alloc who =
     (if raEnabled alloc then True else if raDisabledByIsOrg alloc \<and> \<not> idIsOrg who then False else True)"

section \<open>Reading\<close>

definition no_org :: "identity option \<Rightarrow> bool" where
  "no_org ident \<longleftrightarrow> (case ident of None \<Rightarrow> True | Some who \<Rightarrow> idOrgID who = '''')"

definition caller_org :: "identity option \<Rightarrow> string" where
  "caller_org ident = (case ident of None \<Rightarrow> '''' | Some who \<Rightarrow> idOrgID who)"

definition handle_ListAllocations :: "bool \<Rightarrow> identity option \<Rightarrow> json_fields list handler" where
  "handle_ListAllocations enabledOnly ident w =
     (if no_org ident then (Response 200 [], w)
      else (case ListAllocationsByOrgFiltered (caller_org ident) enabledOnly w of
        (Inl e, w1) \<Rightarrow> (ErrorResponse 500 (error_string e), w1)
      | (Inr as, w1) \<Rightarrow> (Response 200 (allocationsToMaps as), w1)))"

definition handle_ListPendingAllocations :: "identity option \<Rightarrow> json_fields list handler" where
  "handle_ListPendingAllocations ident w =
     (if no_org ident then (Response 200 [], w)
      else (case ListPendingAllocations (caller_org ident) w of
        (Inl e, w1) \<Rightarrow> (ErrorResponse 500 (error_string e), w1)
      | (Inr as, w1) \<Rightarrow> (Response 200 (allocationsToMaps as), w1)))"

definition handle_CountPendingAllocations :: "identity option \<Rightarrow> nat handler" where
  "handle_CountPendingAllocations ident w =
     (if no_org ident then (Response 200 0, w)
      else (case CountPendingAllocations (caller_org ident) w of
        (Inl e, w1) \<Rightarrow> (ErrorResponse 500 (error_string e), w1)
      | (Inr n, w1) \<Rightarrow> (Response 200 n, w1)))"

definition handle_GetAllocation :: "uuid option \<Rightarrow> json_fields handler" where
  "handle_GetAllocation alloc_id w = (case alloc_id of
     None \<Rightarrow> (ErrorResponse 400 ''invalid id'', w)
   | Some i \<Rightarrow> (case GetAllocationByID i w of
       (Inl ErrNotFound, w1) \<Rightarrow> (ErrorResponse 404 ''not found'', w1)
     | (Inl e, w1) \<Rightarrow> (ErrorResponse 500 (error_string e), w1)
     | (Inr a, w1) \<Rightarrow> (Response 200 (allocationToMap a), w1)))"

text \<open>The page, its size, the number of rows and the number of pages, at least one.\<close>

definition handle_ListRateLimitHistory ::
  "string \<Rightarrow> string \<Rightarrow> identity option
    \<Rightarrow> ((rl_approval \<times> allocation) list \<times> pagination_meta) handler" where
  "handle_ListRateLimitHistory page page_size ident w =
     (case ident of
        None \<Rightarrow> (Response 200 ([], \<lparr>pmPage = 1, pmPageSize = 30, pmTotalCount = 0, pmTotalPages = 1\<rparr>), w)
      | Some who \<Rightarrow>
        if idOrgID who = ''''
        then (Response 200 ([], \<lparr>pmPage = 1, pmPageSize = 30, pmTotalCount = 0, pmTotalPages = 1\<rparr>), w)
        else
          (let f = (if idIsOrg who then \<lparr>hfOrgID = idOrgID who, hfTeamID = ''''\<rparr>
                    else \<lparr>hfOrgID = '''', hfTeamID = idTeamID who\<rparr>);
               p = parsePagination page page_size
           in case ListRateLimitHistory f (ppPage p) (ppPageSize p) w of
             (Inl e, w1) \<Rightarrow> (ErrorResponse 500 (error_string e), w1)
           | (Inr (rows, totalCount), w1) \<Rightarrow>
               (let pages = go_quot (int totalCount + ppPageSize p - 1) (ppPageSize p)
                in (Response 200 (rows, \<lparr>pmPage = ppPage p, pmPageSize = ppPageSize p,
                      pmTotalCount = int totalCount,
                      pmTotalPages = (if pages = 0 then 1 else pages)\<rparr>), w1))))"

section \<open>Creating\<close>

text \<open>A caller without identity and an organisation admin need no approval.\<close>

definition new_allocation :: "create_allocation_request \<Rightarrow> identity option \<Rightarrow> allocation" where
  "new_allocation req ident =
     \<lparr>raID = 0, raOrgID = caOrgID req, raTeamID = caTeamID req, raModelPattern = caModelPattern req,
      raTokenLimit = caTokenLimit req, raTokenUnit = caTokenUnit req,
      raRequestLimit = caRequestLimit req, raRequestUnit = caRequestUnit req,
      raBurstPercentage = caBurstPercentage req, raEnforcement = EnforcementEnforced,
      raEnabled = True, raDisabledByUserID = None, raDisabledByEmail = None,
      raDisabledByIsOrg = False, raDisabledAt = None,
      raApprovalStatus = (case ident of None \<Rightarrow> ApprovalStatusApproved
        | Some who \<Rightarrow> if idIsOrg who then ApprovalStatusApproved else ApprovalStatusPending),
      raApprovedBy = (case ident of None \<Rightarrow> None
        | Some who \<Rightarrow> if idIsOrg who then nonempty_string (idEmail who) else None),
      raApprovedAt = None, raCreatedByUserID = map_option idSubject ident,
      raCreatedByEmail = map_option idEmail ident,
      raDescription = nonempty_string (caDescription req), raRejectionCount = 0, raVersion = 0,
      raCreatedAt = zero_time, raUpdatedAt = zero_time\<rparr>"

definition rl_approval_record ::
  "uuid \<Rightarrow> int \<Rightarrow> string \<Rightarrow> identity option \<Rightarrow> string \<Rightarrow> rl_approval" where
  "rl_approval_record i attempt action ident reason =
     \<lparr>rpID = 0, rpAllocationID = i, rpAttemptNumber = attempt, rpAction = action,
      rpActorUserID = (case ident of None \<Rightarrow> None | Some who \<Rightarrow> nonempty_string (idSubject who)),
      rpActorEmail = (case ident of None \<Rightarrow> None | Some who \<Rightarrow> nonempty_string (idEmail who)),
      rpReason = nonempty_string reason, rpCreatedAt = zero_time, rpUpdatedAt = zero_time\<rparr>"

text \<open>\<open>_ = h.repo.CreateApproval(ctx, approval)\<close>.\<close>

definition record_rl_approval :: "rl_approval \<Rightarrow> world \<Rightarrow> world" where
  "record_rl_approval r w = snd (CreateApproval r w)"

definition handle_CreateAllocation ::
  "create_allocation_request option \<Rightarrow> identity option \<Rightarrow> json_fields handler" where
  "handle_CreateAllocation body ident w = (case body of
     None \<Rightarrow> (ErrorResponse 400 ''invalid request body'', w)
   | Some req \<Rightarrow>
     if caOrgID req = '''' \<or> caTeamID req = '''' \<or> caModelPattern req = ''''
     then (ErrorResponse 400 ''org_id, team_id, and model_pattern are required'', w)
     else if caTokenLimit req = None \<and> caRequestLimit req = None
     then (ErrorResponse 400 ''at least one of token_limit or request_limit is required'', w)
     else (case CreateAllocation (new_allocation req ident) w of
       (Inl ErrDuplicateEntity, w1) \<Rightarrow>
         (ErrorResponse 409 ''a rate limit for this team and model pattern already exists'', w1)
     | (Inl e, w1) \<Rightarrow> (ErrorResponse 500 (error_string e), w1)
     | (Inr a, w1) \<Rightarrow>
         (let w2 = (if raApprovalStatus a = ApprovalStatusPending
                    then record_rl_approval (rl_approval_record (raID a) 1 ''submitted'' ident '''') w1
                    else w1);
              w3 = LogAction ''rate_limit'' (RefUUID (raID a)) ''created'' ident
                     [(''team_id'', MetaString (raTeamID a)),
                      (''model_pattern'', MetaString (raModelPattern a)),
                      (''auto_approved'', MetaBool (raApprovalStatus a = ApprovalStatusApproved))] w2
          in (Response 201 (allocationToMap a), w3))))"

section \<open>Updating\<close>

definition override :: "'a option \<Rightarrow> 'a option \<Rightarrow> 'a option" where
  "override req old = (case req of None \<Rightarrow> old | Some x \<Rightarrow> Some x)"

definition updated_fields :: "update_allocation_request \<Rightarrow> allocation \<Rightarrow> allocation" where
  "updated_fields req a = a\<lparr>
     raModelPattern := (if uaModelPattern req \<noteq> '''' then uaModelPattern req else raModelPattern a),
     raTokenLimit := override (uaTokenLimit req) (raTokenLimit a),
     raTokenUnit := override (uaTokenUnit req) (raTokenUnit a),
     raRequestLimit := override (uaRequestLimit req) (raRequestLimit a),
     raRequestUnit := override (uaRequestUnit req) (raRequestUnit a),
     raBurstPercentage := (case uaBurstPercentage req of Some n \<Rightarrow> n | None \<Rightarrow> raBurstPercentage a),
     raEnforcement := (if uaEnforcement req \<noteq> '''' then enforcement_of_string (uaEnforcement req)
                       else raEnforcement a),
     raDescription := (if uaDescription req \<noteq> '''' then Some (uaDescription req) else raDescription a)\<rparr>"

definition enable_allocation :: "allocation \<Rightarrow> allocation" where
  "enable_allocation a = a\<lparr>raEnabled := True, raDisabledByUserID := None, raDisabledByEmail := None,
     raDisabledByIsOrg := False, raDisabledAt := None\<rparr>"

definition disable_allocation :: "time \<Rightarrow> identity option \<Rightarrow> allocation \<Rightarrow> allocation" where
  "disable_allocation now ident a = (case ident of
     None \<Rightarrow> a\<lparr>raEnabled := False\<rparr>
   | Some who \<Rightarrow> a\<lparr>raEnabled := False, raDisabledByUserID := Some (idSubject who),
       raDisabledByEmail := Some (idEmail who), raDisabledByIsOrg := idIsOrg who,
       raDisabledAt := Some now\<rparr>)"

text \<open>
  The switch of \<open>enabled\<close>: \<open>None\<close> when the caller may not enable. The audit entry is written before
  the update; its \<open>previous_disabled_by_is_org\<close> is read after the field was cleared.
\<close>

definition switch_allocation ::
  "bool option \<Rightarrow> identity option \<Rightarrow> allocation \<Rightarrow> world \<Rightarrow> (allocation \<times> world) option" where
  "switch_allocation enabled ident a w = (case enabled of
     None \<Rightarrow> Some (a, w)
   | Some True \<Rightarrow>
       if (case ident of None \<Rightarrow> False | Some who \<Rightarrow> \<not> canEnableRateLimit a who) then None
       else (let a' = enable_allocation a in
         Some (a', if ident = None then w
           else LogAction ''rate_limit'' (RefUUID (raID a)) ''rate_limit_enabled'' ident
             [(''previous_disabled_by_is_org'', MetaBool (raDisabledByIsOrg a'))] w))
   | Some False \<Rightarrow>
       Some (disable_allocation (clock w) ident a,
         case ident of None \<Rightarrow> w
         | Some who \<Rightarrow> LogAction ''rate_limit'' (RefUUID (raID a)) ''rate_limit_disabled'' ident
             [(''disabled_by_is_org'', MetaBool (idIsOrg who))] w))"

definition handle_UpdateAllocation ::
  "uuid option \<Rightarrow> update_allocation_request option \<Rightarrow> identity option \<Rightarrow> json_fields handler" where
  "handle_UpdateAllocation alloc_id body ident w = (case alloc_id of
     None \<Rightarrow> (ErrorResponse 400 ''invalid id'', w)
   | Some i \<Rightarrow> (case GetAllocationByID i w of
       (Inl ErrNotFound, w1) \<Rightarrow> (ErrorResponse 404 ''not found'', w1)
     | (Inl e, w1) \<Rightarrow> (ErrorResponse 500 (error_string e), w1)
     | (Inr existing, w1) \<Rightarrow> (case body of
         None \<Rightarrow> (ErrorResponse 400 ''invalid request body'', w1)
       | Some req \<Rightarrow>
         if uaVersion req > 0 \<and> uaVersion req \<noteq> raVersion existing
         then (ErrorResponse 409 ''concurrent modification'', w1)
         else (case switch_allocation (uaEnabled req) ident (updated_fields req existing) w1 of
           None \<Rightarrow> (ErrorResponse 403 ''You don't have permission to update this rate limit'', w1)
         | Some (a, w2) \<Rightarrow> (case UpdateAllocation a w2 of
             (Inl ErrOptimisticLock, w3) \<Rightarrow> (ErrorResponse 409 ''concurrent modification'', w3)
           | (Inl e, w3) \<Rightarrow> (ErrorResponse 500 (error_string e), w3)
           | (Inr a', w3) \<Rightarrow>
               (let w4 = LogAction ''rate_limit'' (RefUUID i) ''updated'' ident
                      [(''team_id'', MetaString (raTeamID a')),
                       (''model_pattern'', MetaString (raModelPattern a'))] w3
                in (Response 200 (allocationToMap a'), w4)))))))"

definition handle_DeleteAllocation :: "uuid option \<Rightarrow> identity option \<Rightarrow> unit handler" where
  "handle_DeleteAllocation alloc_id ident w = (case alloc_id of
     None \<Rightarrow> (ErrorResponse 400 ''invalid id'', w)
   | Some i \<Rightarrow> (case GetAllocationByID i w of (found, w1) \<Rightarrow>
       (case DeleteAllocation i w1 of
         (Inl ErrNotFound, w2) \<Rightarrow> (ErrorResponse 404 ''not found'', w2)
       | (Inl e, w2) \<Rightarrow> (ErrorResponse 500 (error_string e), w2)
       | (Inr _, w2) \<Rightarrow>
           (let metadata = (case found of Inl e \<Rightarrow> []
                  | Inr a \<Rightarrow> [(''team_id'', MetaString (raTeamID a)),
                       (''model_pattern'', MetaString (raModelPattern a))]);
                w3 = LogAction ''rate_limit'' (RefUUID i) ''deleted'' ident metadata w2
            in (Response 204 (), w3)))))"

section \<open>Deciding\<close>

text \<open>\<open>attemptNumber, _ := h.repo.GetLatestAttemptNumber(ctx, id)\<close>.\<close>

definition latest_attempt :: "uuid \<Rightarrow> world \<Rightarrow> int \<times> world" where
  "latest_attempt i w = (case GetLatestAttemptNumber i w of
     (Inl e, w1) \<Rightarrow> (0, w1) | (Inr n, w1) \<Rightarrow> (n, w1))"

definition decision_attempt :: "int \<Rightarrow> int" where
  "decision_attempt n = (if n = 0 then 1 else n)"

definition approver_name :: "identity option \<Rightarrow> string" where
  "approver_name ident = (case ident of None \<Rightarrow> ''admin''
     | Some who \<Rightarrow> if idEmail who = '''' then idSubject who else idEmail who)"

text \<open>Neither approving nor rejecting looks at who the caller is.\<close>

definition handle_ApproveAllocation ::
  "uuid option \<Rightarrow> string \<Rightarrow> identity option \<Rightarrow> json_fields handler" where
  "handle_ApproveAllocation alloc_id enforcementField ident w = (case alloc_id of
     None \<Rightarrow> (ErrorResponse 400 ''invalid id'', w)
   | Some i \<Rightarrow>
     (let e = (if enforcementField = ''monitoring'' then EnforcementMonitoring else EnforcementEnforced)
      in case latest_attempt i w of (n, w1) \<Rightarrow>
        (case ApproveAllocation i (approver_name ident) e w1 of
          (Inl ErrNotFound, w2) \<Rightarrow> (ErrorResponse 404 ''not found or already processed'', w2)
        | (Inl err, w2) \<Rightarrow> (ErrorResponse 500 (error_string err), w2)
        | (Inr _, w2) \<Rightarrow>
            (let w3 = record_rl_approval
                  (rl_approval_record i (decision_attempt n) ''approved'' ident '''') w2
             in case GetAllocationByID i w3 of
               (Inl err, w4) \<Rightarrow> (ErrorResponse 500 (error_string err), w4)
             | (Inr a, w4) \<Rightarrow>
                 (let w5 = LogAction ''rate_limit'' (RefUUID i) ''approved'' ident
                        [(''team_id'', MetaString (raTeamID a)),
                         (''model_pattern'', MetaString (raModelPattern a)),
                         (''enforcement'', MetaString (case e of EnforcementMonitoring \<Rightarrow> ''monitoring''
                            | _ \<Rightarrow> ''enforced''))] w4
                  in (Response 200 (allocationToMap a), w5))))))"

definition handle_RejectAllocation ::
  "uuid option \<Rightarrow> string \<Rightarrow> identity option \<Rightarrow> json_fields handler" where
  "handle_RejectAllocation alloc_id reason ident w = (case alloc_id of
     None \<Rightarrow> (ErrorResponse 400 ''invalid id'', w)
   | Some i \<Rightarrow> (case latest_attempt i w of (n, w1) \<Rightarrow>
       (case RejectAllocation i w1 of
         (Inl ErrNotFound, w2) \<Rightarrow> (ErrorResponse 404 ''not found or already processed'', w2)
       | (Inl err, w2) \<Rightarrow> (ErrorResponse 500 (error_string err), w2)
       | (Inr _, w2) \<Rightarrow>
           (let w3 = record_rl_approval
                 (rl_approval_record i (decision_attempt n) ''rejected'' ident reason) w2
            in case GetAllocationByID i w3 of
              (Inl err, w4) \<Rightarrow> (ErrorResponse 500 (error_string err), w4)
            | (Inr a, w4) \<Rightarrow>
                (let w5 = LogAction ''rate_limit'' (RefUUID i) ''rejected'' ident
                       [(''team_id'', MetaString (raTeamID a)),
                        (''model_pattern'', MetaString (raModelPattern a)),
                        (''reason'', MetaString reason)] w4
                 in (Response 200 (allocationToMap a), w5))))))"

text \<open>
  When the refresh fails the allocation is \<open>nil\<close>, and reading its team for the audit entry panics.
\<close>

definition handle_ResubmitAllocation :: "uuid option \<Rightarrow> identity option \<Rightarrow> json_fields handler" where
  "handle_ResubmitAllocation alloc_id ident w = (case alloc_id of
     None \<Rightarrow> (ErrorResponse 400 ''invalid id'', w)
   | Some i \<Rightarrow> (case GetAllocationByID i w of
       (Inl ErrNotFound, w1) \<Rightarrow> (ErrorResponse 404 ''not found'', w1)
     | (Inl e, w1) \<Rightarrow> (ErrorResponse 500 (error_string e), w1)
     | (Inr a, w1) \<Rightarrow>
       if raApprovalStatus a \<noteq> ApprovalStatusRejected
       then (ErrorResponse 400 ''can only resubmit rejected allocations'', w1)
       else (case latest_attempt i w1 of (n, w2) \<Rightarrow>
         (case ResetAllocationForResubmit i w2 of
           (Inl e, w3) \<Rightarrow> (ErrorResponse 500 (error_string e), w3)
         | (Inr _, w3) \<Rightarrow>
             (let w4 = record_rl_approval (rl_approval_record i (n + 1) ''resubmitted'' ident '''') w3
              in case GetAllocationByID i w4 of
                (Inl e, w5) \<Rightarrow> (Panic, w5)
              | (Inr a', w5) \<Rightarrow>
                  (let w6 = LogAction ''rate_limit'' (RefUUID i) ''resubmitted'' ident
                         [(''team_id'', MetaString (raTeamID a')),
                          (''model_pattern'', MetaString (raModelPattern a')),
                          (''attempt_number'', MetaInt (n + 1))] w5
                   in (Response 200 (allocationToMap a'), w6)))))))"

end
