(* ===== verification/Approval_Workflow.thy ===== *)
theory Approval_Workflow
  imports RateLimit_Api Ledger_Inv
begin

text \<open>
  The approval of budgets and of rate limit allocations as a state machine. \<open>status_workflow\<close> is the
  interface both implement: a step moves the status of a known entity along an edge or leaves it, and
  no step brings a deleted entity back. The lemmas about runs are proved once, in the locale,
  and hold for both by interpretation.

  A step on budgets is a whole handler, because the handlers test the status and the statement
  that sets it does not. A step on allocations is a single repository operation, because there the
  statements test the status themselves, so their interleaving does not matter.
\<close>

locale status_workflow =
  fixes step :: "'s \<Rightarrow> 's \<Rightarrow> bool"
    and inv :: "'s \<Rightarrow> bool"
    and status :: "'s \<Rightarrow> uuid \<Rightarrow> 'st option"
    and fresh :: "'s \<Rightarrow> uuid"
    and edge :: "'st \<Rightarrow> 'st \<Rightarrow> bool"
  assumes keeps_inv: "inv s \<Longrightarrow> step s s' \<Longrightarrow> inv s'"
    and fresh_mono: "inv s \<Longrightarrow> step s s' \<Longrightarrow> fresh s \<le> fresh s'"
    and moves: "inv s \<Longrightarrow> step s s' \<Longrightarrow> i < fresh s \<Longrightarrow> status s' i = Some b \<Longrightarrow>
      \<exists>a. status s i = Some a \<and> (a = b \<or> edge a b)"
begin

lemma run_inv:
  assumes "step\<^sup>*\<^sup>* s s'" and "inv s"
  shows "inv s' \<and> fresh s \<le> fresh s'"
  using assms by (induction rule: rtranclp_induct) (auto dest: keeps_inv fresh_mono order_trans)

lemma run_path:
  assumes "step\<^sup>*\<^sup>* s s'" and "inv s" and "i < fresh s" and "status s' i = Some b"
  shows "\<exists>a. status s i = Some a \<and> edge\<^sup>*\<^sup>* a b"
  using assms
proof (induction arbitrary: b rule: rtranclp_induct)
  case (step s1 s2)
  have "inv s1" "i < fresh s1" using run_inv [OF step(1) step(4)] step(5) by simp_all
  then obtain c where c: "status s1 i = Some c" "c = b \<or> edge c b"
    using moves [OF _ step(2) _ step(6)] by blast
  from step.IH [OF step(4,5) c(1)] c(2) show ?case
    by (auto intro: rtranclp.rtrancl_into_rtrancl)
qed auto

lemma terminal_stays:
  assumes "\<And>b. \<not> edge a b" and "step\<^sup>*\<^sup>* s s'" and "inv s" and "i < fresh s" and "status s i = Some a"
  shows "status s' i = Some a \<or> status s' i = None"
proof (cases "status s' i")
  case (Some b)
  have "edge\<^sup>*\<^sup>* a b" using run_path [OF assms(2-4) Some] assms(5) by simp
  then have "a = b" using assms(1) by (metis converse_rtranclpE)
  with Some show ?thesis by simp
qed simp

lemma deleted_stays:
  assumes "step\<^sup>*\<^sup>* s s'" and "inv s" and "i < fresh s" and "status s i = None"
  shows "status s' i = None"
  using run_path [OF assms(1-3)] assms(4) by (cases "status s' i") auto

end

section \<open>What one statement does\<close>

lemma sql_exec_cases:
  assumes "sql_exec msg f w = (r, w')"
  obtains (failed) e where "r = Inl e" and "db w' = db w" and "uuids w' = uuids w" and "clock w' = clock w"
    | (ran) x where "r = Inr x" and "f (clock w) (db w) = Some (x, db w')" and "uuids w' = uuids w"
        and "clock w' = clock w"
  using assms
  by (auto simp: sql_exec_def pop_fault_def split: fault.splits list.splits option.splits)

lemma affected_or_cases:
  assumes "affected_or e0 (sql_exec msg f) w = (r, w')"
  obtains (failed) e where "r = Inl e" and "db w' = db w" and "uuids w' = uuids w"
    | (none) "r = Inl e0" and "f (clock w) (db w) = Some (0, db w')" and "uuids w' = uuids w"
    | (ran) n where "r = Inr ()" and "0 < n" and "f (clock w) (db w) = Some (n, db w')"
        and "uuids w' = uuids w"
  using assms
proof -
  from assms have "bind_op (sql_exec msg f) (\<lambda>n. if n = 0 then fail_op e0 else return_op ()) w = (r, w')"
    by (simp add: affected_or_def)
  then show thesis
  proof (cases rule: bind_op_cases)
    case (err e)
    from err(1) show thesis by (rule sql_exec_cases) (use err(2) in \<open>auto intro: failed\<close>)
  next
    case (val n w1)
    from val(1) show thesis
    proof (rule sql_exec_cases)
      fix x
      assume "Inr n = (Inr x :: db_error + nat)" "f (clock w) (db w) = Some (x, db w1)" "uuids w1 = uuids w"
      with val(2) show thesis by (cases "n = 0") (auto intro: none ran)
    qed simp
  qed
qed

text \<open>Looking up a row by a unique key.\<close>

lemma first_row_key:
  assumes "distinct (map key rs)"
  shows "first_row (filter (\<lambda>r. key r = i) rs) = Some r \<longleftrightarrow> r \<in> set rs \<and> key r = i"
  using distinct_map_filter_key [OF assms, of r] by (auto dest: first_row_filterD)

section \<open>Budgets\<close>

definition budget_status :: "world \<Rightarrow> uuid \<Rightarrow> approval_status option" where
  "budget_status w i = map_option bApprovalStatus (budget_by_id i (db w))"

inductive budget_edge :: "approval_status \<Rightarrow> approval_status \<Rightarrow> bool" where
  "budget_edge ApprovalStatusPending ApprovalStatusApproved"
| "budget_edge ApprovalStatusPending ApprovalStatusRejected"
| "budget_edge ApprovalStatusPending ApprovalStatusClosed"
| "budget_edge ApprovalStatusRejected ApprovalStatusPending"

inductive_simps budget_edge_simps [simp]:
  "budget_edge ApprovalStatusApproved b" "budget_edge ApprovalStatusClosed b"
  "budget_edge ApprovalStatusPending b" "budget_edge ApprovalStatusRejected b"

text \<open>
  The rejections of a budget: it is closed exactly when it has had three, and only a budget that has
  been rejected is in the rejected state.
\<close>

definition rejections_ok :: "budget \<Rightarrow> bool" where
  "rejections_ok b \<longleftrightarrow> 0 \<le> bRejectionCount b \<and>
     (3 \<le> bRejectionCount b \<longleftrightarrow> bApprovalStatus b = ApprovalStatusClosed) \<and>
     (bApprovalStatus b = ApprovalStatusRejected \<longrightarrow> 1 \<le> bRejectionCount b)"

definition approvals_ok :: "world \<Rightarrow> bool" where
  "approvals_ok w \<longleftrightarrow> world_ok w \<and> (\<forall>b \<in> set (budget_definitions (db w)). rejections_ok b)"

text \<open>
  Whatever else the program does, charging, reservations, cascading deletes, writes to other tables, keeps
  the approval columns of the budgets that remain.
\<close>

definition approvals_untouched :: "world \<Rightarrow> world \<Rightarrow> bool" where
  "approvals_untouched w w' \<longleftrightarrow> (\<forall>b' \<in> set (budget_definitions (db w')). \<exists>b \<in> set (budget_definitions (db w)).
     bID b' = bID b \<and> bApprovalStatus b' = bApprovalStatus b \<and> bRejectionCount b' = bRejectionCount b)"

inductive budget_step :: "world \<Rightarrow> world \<Rightarrow> bool" where
  approve: "handle_ApproveBudget i ident w = (r, w') \<Longrightarrow> budget_step w w'"
| reject: "handle_RejectBudget i ident body w = (r, w') \<Longrightarrow> budget_step w w'"
| resubmit: "handle_ResubmitBudget i ident w = (r, w') \<Longrightarrow> budget_step w w'"
| create: "CreateBudget b w = (r, w') \<Longrightarrow>
    bApprovalStatus b = ApprovalStatusApproved \<or> bApprovalStatus b = ApprovalStatusPending \<Longrightarrow>
    bRejectionCount b = 0 \<Longrightarrow> budget_step w w'"
| update: "UpdateBudget b w = (r, w') \<Longrightarrow> budget_step w w'"
| delete: "DeleteBudget i w = (r, w') \<Longrightarrow> budget_step w w'"
| reset: "ResetExpiredBudgets w = (r, w') \<Longrightarrow> budget_step w w'"
| elsewhere: "approvals_untouched w w' \<Longrightarrow> uuids w \<le> uuids w' \<Longrightarrow> world_ok w' \<Longrightarrow> budget_step w w'"

subsection \<open>The rows a step leaves\<close>

text \<open>What one step may do to the approval columns of a row.\<close>

definition budget_change :: "budget \<Rightarrow> budget \<Rightarrow> bool" where
  "budget_change b b' \<longleftrightarrow> bID b' = bID b \<and>
     ((bApprovalStatus b' = bApprovalStatus b \<and> bRejectionCount b' = bRejectionCount b) \<or>
      (bApprovalStatus b = ApprovalStatusPending \<and> bApprovalStatus b' = ApprovalStatusApproved \<and>
        bRejectionCount b' = bRejectionCount b) \<or>
      (bApprovalStatus b = ApprovalStatusPending \<and> bRejectionCount b' = bRejectionCount b + 1 \<and>
        bApprovalStatus b' = rejection_status (bRejectionCount b + 1)) \<or>
      (bApprovalStatus b = ApprovalStatusRejected \<and> bApprovalStatus b' = ApprovalStatusPending \<and>
        bRejectionCount b < 3 \<and> bRejectionCount b' = bRejectionCount b))"

definition new_budget :: "uuid \<Rightarrow> budget \<Rightarrow> bool" where
  "new_budget u b \<longleftrightarrow> u \<le> bID b \<and> bRejectionCount b = 0 \<and>
     (bApprovalStatus b = ApprovalStatusApproved \<or> bApprovalStatus b = ApprovalStatusPending)"

lemma reflp_budget_change [simp]: "reflp budget_change"
  by (simp add: reflp_def budget_change_def)

lemma stmt_ok_approvals [stmt_contracts]:
  "stmt_ok (set_approval_status i s inc)" "stmt_ok (insert_budget_approval a)" "stmt_ok (insert_audit e)"
  unfolding stmt_ok_def set_approval_status_def insert_budget_approval_def insert_audit_def
  by (auto intro!: tables_ok_update_budgets simp: same_keys_def split: if_splits)
    (auto simp: tables_ok_def)

interpretation UpdateBudgetApprovalStatus_wf: wf_op "UpdateBudgetApprovalStatus i s inc" for i s inc
  unfolding UpdateBudgetApprovalStatus_def by (intro wf_contracts stmt_contracts)

interpretation CreateBudgetApproval_wf: wf_op "CreateBudgetApproval a" for a
  unfolding CreateBudgetApproval_def Let_def by (intro wf_contracts stmt_contracts)

interpretation CreateAuditLog_wf: wf_op "CreateAuditLog e" for e
  unfolding CreateAuditLog_def by (intro wf_contracts stmt_contracts)

text \<open>An operation after which the budgets' approval columns are as they were.\<close>

definition approvals_kept :: "world \<Rightarrow> world \<Rightarrow> bool" where
  "approvals_kept w w' \<longleftrightarrow> rows_follow (new_budget (uuids w)) budget_change (budget_definitions (db w)) (budget_definitions (db w')) \<and>
     uuids w \<le> uuids w' \<and> (world_ok w \<longrightarrow> world_ok w')"

lemma LogAction_world_ok: "world_ok w \<Longrightarrow> world_ok (LogAction ty i a ident md w)"
  unfolding LogAction_def by (rule CreateAuditLog_wf.keeps_ok [OF prod.collapse [symmetric]])

lemma record_approval_world_ok: "world_ok w \<Longrightarrow> world_ok (record_approval a w)"
  unfolding record_approval_def by (rule CreateBudgetApproval_wf.keeps_ok [OF prod.collapse [symmetric]])

lemma LogAction_frame:
  "budget_definitions (db (LogAction ty i a ident md w)) = budget_definitions (db w) \<and>
   rate_limit_allocations (db (LogAction ty i a ident md w)) = rate_limit_allocations (db w) \<and>
   uuids w \<le> uuids (LogAction ty i a ident md w) \<and> clock (LogAction ty i a ident md w) = clock w"
  by (auto simp: LogAction_def CreateAuditLog_def bind_op_def uuid_op_def uuid_New_def now_op_def
      sql_exec_def pop_fault_def insert_audit_def split: fault.splits list.splits option.splits)

lemma record_approval_frame:
  "budget_definitions (db (record_approval a w)) = budget_definitions (db w) \<and>
   rate_limit_allocations (db (record_approval a w)) = rate_limit_allocations (db w) \<and>
   uuids w \<le> uuids (record_approval a w) \<and> clock (record_approval a w) = clock w"
  by (auto simp: record_approval_def CreateBudgetApproval_def bind_op_def uuid_op_def uuid_New_def
      now_op_def sql_exec_def pop_fault_def insert_budget_approval_def Let_def
      split: fault.splits list.splits option.splits if_splits)

lemma GetBudgetByID_row:
  assumes "GetBudgetByID i w = (r, w')"
  shows "db w' = db w \<and> uuids w \<le> uuids w' \<and> clock w' = clock w \<and>
    (\<forall>b. r = Inr b \<longrightarrow> b \<in> set (budget_definitions (db w)) \<and> bID b = i)"
  using assms
  by (auto simp: GetBudgetByID_def budget_by_id_def sql_row_def pop_fault_def
      split: fault.splits list.splits option.splits dest: first_row_filterD)

lemma GetBudgetByID_world_ok:
  "GetBudgetByID i w = (r, w') \<Longrightarrow> world_ok w \<Longrightarrow> world_ok w'"
  by (rule wf_op.keeps_ok [OF wf_op_query [OF GetBudgetByID.query_op_axioms]])

lemma UpdateBudgetApprovalStatus_cases:
  assumes "UpdateBudgetApprovalStatus i s inc w = (r, w')"
  obtains (kept) e where "r = Inl e" and "budget_definitions (db w') = budget_definitions (db w)"
      and "uuids w' = uuids w"
    | (set) "r = Inr ()" and "uuids w' = uuids w" and "budget_definitions (db w') =
        update_where (\<lambda>b. bID b = i) (\<lambda>b. b\<lparr>bApprovalStatus := s,
          bRejectionCount := (if inc then bRejectionCount b + 1 else bRejectionCount b),
          bUpdatedAt := clock w\<rparr>) (budget_definitions (db w))"
  using assms unfolding UpdateBudgetApprovalStatus_def
proof (cases rule: affected_or_cases)
  case none
  then have "budget_definitions (db w') = budget_definitions (db w)"
    by (auto simp: set_approval_status_def update_budgets_def count_budgets_def)
  from kept [OF none(1) this none(3)] show thesis .
next
  case (ran n)
  then have "db w' = snd (the (set_approval_status i s inc (clock w) (db w)))" by simp
  then have "budget_definitions (db w') = update_where (\<lambda>b. bID b = i) (\<lambda>b. b\<lparr>bApprovalStatus := s,
      bRejectionCount := (if inc then bRejectionCount b + 1 else bRejectionCount b),
      bUpdatedAt := clock w\<rparr>) (budget_definitions (db w))"
    by (simp add: set_approval_status_def update_budgets_def)
  from set [OF ran(1,4) this] show thesis .
qed (auto intro: kept)

text \<open>
  The three handlers: the budget they read is the one they update, and its status is still the one they
  tested.
\<close>

lemma decide_follows:
  assumes "GetBudgetByID i w = (Inr b, w1)" and "tables_ok (db w)"
    and "UpdateBudgetApprovalStatus i s inc w1 = (r, w2)"
    and "\<And>u. budget_change b (b\<lparr>bApprovalStatus := s,
           bRejectionCount := (if inc then bRejectionCount b + 1 else bRejectionCount b),
           bUpdatedAt := u\<rparr>)"
  shows "approvals_kept w w2"
proof -
  have ok: "world_ok w \<longrightarrow> world_ok w2"
    using GetBudgetByID_world_ok [OF assms(1)] UpdateBudgetApprovalStatus_wf.keeps_ok [OF assms(3)] by blast
  show ?thesis
    using assms(3)
  proof (cases rule: UpdateBudgetApprovalStatus_cases)
    case (kept e)
    then show ?thesis using GetBudgetByID_row [OF assms(1)] ok
      by (simp add: approvals_kept_def rows_follow_refl)
  next
    case set
    have b: "b \<in> set (budget_definitions (db w))" "bID b = i" using GetBudgetByID_row [OF assms(1)] by auto
    have only: "x = b" if "x \<in> set (budget_definitions (db w))" "bID x = i" for x
      using assms(2) b that by (auto simp: tables_ok_def distinct_map dest: inj_onD)
    have "rows_follow (new_budget (uuids w)) budget_change (budget_definitions (db w)) (budget_definitions (db w2))"
      unfolding set(3) using GetBudgetByID_row [OF assms(1)] assms(4)
      by (auto intro!: rows_follow_update dest: only)
    then show ?thesis using set(2) GetBudgetByID_row [OF assms(1)] ok by (simp add: approvals_kept_def)
  qed
qed

lemma approvals_kept_read:
  "GetBudgetByID i w = (r, w') \<Longrightarrow> approvals_kept w w'"
  by (auto dest: GetBudgetByID_row GetBudgetByID_world_ok simp: approvals_kept_def rows_follow_refl)

lemma approvals_kept_refl [simp]: "approvals_kept w w"
  by (simp add: approvals_kept_def rows_follow_refl)

lemma approvals_kept_logged:
  "approvals_kept w w2 \<Longrightarrow> approvals_kept w (LogAction ty j a ident md (record_approval ap w2))"
  using LogAction_frame [of ty j a ident md "record_approval ap w2"] record_approval_frame [of ap w2]
  by (auto simp: approvals_kept_def LogAction_world_ok record_approval_world_ok)

lemma ApproveBudget_asked:
  assumes "GetBudgetByID i w = (g, w1)" and "idIsOrg who \<or> idIsTeamAdmin who"
  shows "handle_ApproveBudget (Some i) (Some who) w = (case g of
       Inl ErrNotFound \<Rightarrow> (ErrorResponse 404 ''budget not found'', w1)
     | Inl e \<Rightarrow> (ErrorResponse 500 ''failed to get budget'', w1)
     | Inr b \<Rightarrow>
       if \<not> may_decide who b then (ErrorResponse 403 ''forbidden: org admin role required'', w1)
       else if bApprovalStatus b \<noteq> ApprovalStatusPending
       then (ErrorResponse 409 ''budget is not in pending status'', w1)
       else (case UpdateBudgetApprovalStatus i ApprovalStatusApproved False w1 of
         (Inl e, w2) \<Rightarrow> (ErrorResponse 500 ''failed to approve budget'', w2)
       | (Inr _, w2) \<Rightarrow>
         (Response 200 ''budget approved'',
          LogAction ''budget'' (RefUUID i) ''approved'' (Some who) [(''budget_name'', MetaString (bName b))]
            (record_approval (approval_record i (bRejectionCount b + 1) ''approved'' who '''') w2))))"
proof -
  have perm: "(\<not> idIsOrg who \<and> \<not> idIsTeamAdmin who) = False" using assms(2) by simp
  show ?thesis
    by (cases g) (simp_all only: handle_ApproveBudget_def assms(1) perm Let_def option.case prod.case
        sum.case if_False)
qed

lemma RejectBudget_asked:
  assumes "GetBudgetByID i w = (g, w1)" and "idIsOrg who \<or> idIsTeamAdmin who" and "reason \<noteq> ''''"
  shows "handle_RejectBudget (Some i) (Some who) (Some reason) w = (case g of
       Inl ErrNotFound \<Rightarrow> (ErrorResponse 404 ''budget not found'', w1)
     | Inl e \<Rightarrow> (ErrorResponse 500 ''failed to get budget'', w1)
     | Inr b \<Rightarrow>
       if \<not> may_decide who b then (ErrorResponse 403 ''forbidden: org admin role required'', w1)
       else if bApprovalStatus b \<noteq> ApprovalStatusPending
       then (ErrorResponse 409 ''budget is not in pending status'', w1)
       else (case UpdateBudgetApprovalStatus i (rejection_status (bRejectionCount b + 1)) True w1 of
         (Inl e, w2) \<Rightarrow> (ErrorResponse 500 ''failed to reject budget'', w2)
       | (Inr _, w2) \<Rightarrow>
         (Response 200 (bRejectionCount b + 1, rejection_status (bRejectionCount b + 1)),
          LogAction ''budget'' (RefUUID i) ''rejected'' (Some who)
            [(''budget_name'', MetaString (bName b)), (''reason'', MetaString reason),
             (''rejection_count'', MetaInt (bRejectionCount b + 1)),
             (''final_status'', MetaString (approval_status_string (rejection_status (bRejectionCount b + 1))))]
            (record_approval (approval_record i (bRejectionCount b + 1) ''rejected'' who reason) w2))))"
proof -
  have perm: "(\<not> idIsOrg who \<and> \<not> idIsTeamAdmin who) = False" "(reason = '''') = False"
    using assms(2,3) by simp_all
  show ?thesis
    by (cases g) (simp_all only: handle_RejectBudget_def assms(1) perm Let_def option.case prod.case
        sum.case if_False)
qed

lemma ResubmitBudget_asked:
  assumes "GetBudgetByID i w = (g, w1)"
  shows "handle_ResubmitBudget (Some i) (Some who) w = (case g of
       Inl ErrNotFound \<Rightarrow> (ErrorResponse 404 ''budget not found'', w1)
     | Inl e \<Rightarrow> (ErrorResponse 500 ''failed to get budget'', w1)
     | Inr b \<Rightarrow>
       if bApprovalStatus b \<noteq> ApprovalStatusRejected
       then (ErrorResponse 409 ''budget is not in rejected status'', w1)
       else if bRejectionCount b \<ge> 3
       then (ErrorResponse 409 ''budget has been rejected too many times and cannot be resubmitted'', w1)
       else if \<not> CanResubmit (Some who) (null_string (bCreatedByUserID b))
       then (ErrorResponse 403 ''forbidden: only the original creator can resubmit'', w1)
       else (case UpdateBudgetApprovalStatus i ApprovalStatusPending False w1 of
         (Inl e, w2) \<Rightarrow> (ErrorResponse 500 ''failed to resubmit budget'', w2)
       | (Inr _, w2) \<Rightarrow>
         (Response 200 ''budget resubmitted for approval'',
          LogAction ''budget'' (RefUUID i) ''resubmitted'' (Some who)
            [(''budget_name'', MetaString (bName b)), (''rejection_count'', MetaInt (bRejectionCount b))]
            (record_approval (approval_record i (bRejectionCount b + 1) ''resubmitted'' who '''') w2))))"
  by (cases g) (simp_all only: handle_ResubmitBudget_def assms Let_def option.case prod.case sum.case)

text \<open>A guarded update: whatever the handler answers, the approval columns follow the edges.\<close>

lemma guarded_follows:
  assumes get: "GetBudgetByID i w = (g, w1)" and ok: "tables_ok (db w)"
    and change: "\<And>b u. g = Inr b \<Longrightarrow> c b \<Longrightarrow> budget_change b (b\<lparr>bApprovalStatus := s b,
           bRejectionCount := (if inc then bRejectionCount b + 1 else bRejectionCount b),
           bUpdatedAt := u\<rparr>)"
    and cases: "w' = w1 \<or> (\<exists>b u w2. g = Inr b \<and> c b \<and> UpdateBudgetApprovalStatus i (s b) inc w1 = (u, w2) \<and>
      (w' = w2 \<or> (\<exists>j a md ap. w' = LogAction ''budget'' j a ident md (record_approval ap w2))))"
  shows "approvals_kept w w'"
  using cases
proof (elim disjE exE conjE)
  assume "w' = w1"
  then show ?thesis using approvals_kept_read [OF get] by simp
next
  fix b u w2
  assume g: "g = Inr b" "c b" and upd: "UpdateBudgetApprovalStatus i (s b) inc w1 = (u, w2)"
  have kept: "approvals_kept w w2" by (rule decide_follows [OF get [unfolded g] ok upd change [OF g]])
  then show "w' = w2 \<Longrightarrow> ?thesis" by simp
  fix j a md ap
  from kept show "w' = LogAction ''budget'' j a ident md (record_approval ap w2) \<Longrightarrow> ?thesis"
    using approvals_kept_logged by simp
qed

lemma ApproveBudget_follows:
  assumes run: "handle_ApproveBudget bid ident w = (r, w')" and ok: "tables_ok (db w)"
  shows "approvals_kept w w'"
proof (cases "\<exists>i who. bid = Some i \<and> ident = Some who \<and> (idIsOrg who \<or> idIsTeamAdmin who)")
  case True
  then obtain i who where asked: "bid = Some i" "ident = Some who" "idIsOrg who \<or> idIsTeamAdmin who" by blast
  obtain g w1 where get: "GetBudgetByID i w = (g, w1)" by fastforce
  note run' = run [unfolded asked(1,2) ApproveBudget_asked [OF get asked(3)]]
  show ?thesis
    by (rule guarded_follows [OF get ok, where c = "\<lambda>b. bApprovalStatus b = ApprovalStatusPending"
          and s = "\<lambda>b. ApprovalStatusApproved" and inc = False and ident = ident])
      (simp add: budget_change_def,
       use run' asked(2) in \<open>auto split: sum.splits db_error.splits if_splits prod.splits\<close>)
qed (use run in \<open>auto simp: handle_ApproveBudget_def split: option.splits if_splits\<close>)

lemma RejectBudget_follows:
  assumes run: "handle_RejectBudget bid ident body w = (r, w')" and ok: "tables_ok (db w)"
  shows "approvals_kept w w'"
proof (cases "\<exists>i who reason. bid = Some i \<and> ident = Some who \<and> (idIsOrg who \<or> idIsTeamAdmin who) \<and>
    body = Some reason \<and> reason \<noteq> ''''")
  case True
  then obtain i who reason where asked: "bid = Some i" "ident = Some who" "body = Some reason"
    "idIsOrg who \<or> idIsTeamAdmin who" "reason \<noteq> ''''" by blast
  obtain g w1 where get: "GetBudgetByID i w = (g, w1)" by fastforce
  note run' = run [unfolded asked(1-3) RejectBudget_asked [OF get asked(4,5)]]
  show ?thesis
    by (rule guarded_follows [OF get ok, where c = "\<lambda>b. bApprovalStatus b = ApprovalStatusPending"
          and s = "\<lambda>b. rejection_status (bRejectionCount b + 1)" and inc = True and ident = ident])
      (simp add: budget_change_def,
       use run' asked(2) in \<open>auto split: sum.splits db_error.splits if_splits prod.splits\<close>)
qed (use run in \<open>auto simp: handle_RejectBudget_def split: option.splits if_splits\<close>)

lemma ResubmitBudget_follows:
  assumes run: "handle_ResubmitBudget bid ident w = (r, w')" and ok: "tables_ok (db w)"
  shows "approvals_kept w w'"
proof (cases "\<exists>i who. bid = Some i \<and> ident = Some who")
  case True
  then obtain i who where asked: "bid = Some i" "ident = Some who" by blast
  obtain g w1 where get: "GetBudgetByID i w = (g, w1)" by fastforce
  note run' = run [unfolded asked(1,2) ResubmitBudget_asked [OF get]]
  show ?thesis
    by (rule guarded_follows [OF get ok,
          where c = "\<lambda>b. bApprovalStatus b = ApprovalStatusRejected \<and> bRejectionCount b < 3"
          and s = "\<lambda>b. ApprovalStatusPending" and inc = False and ident = ident])
      (simp add: budget_change_def,
       use run' asked(2) in \<open>auto split: sum.splits db_error.splits if_splits prod.splits\<close>)
qed (use run in \<open>auto simp: handle_ResubmitBudget_def split: option.splits\<close>)

subsection \<open>The other steps\<close>

lemma approvals_keptI:
  assumes "rows_follow (new_budget (uuids w)) budget_change (budget_definitions (db w)) (budget_definitions (db w'))"
    and "uuids w \<le> uuids w'" and "world_ok w \<Longrightarrow> world_ok w'"
  shows "approvals_kept w w'"
  using assms by (simp add: approvals_kept_def)

lemma CreateBudget_follows:
  assumes run: "CreateBudget b w = (r, w')" and "bRejectionCount b = 0"
    and "bApprovalStatus b = ApprovalStatusApproved \<or> bApprovalStatus b = ApprovalStatusPending"
  shows "approvals_kept w w'"
proof (rule approvals_keptI)
  show "world_ok w \<Longrightarrow> world_ok w'" by (rule CreateBudget_wf.keeps_ok [OF run])
  have "uuids w \<le> uuids w' \<and> (budget_definitions (db w') = budget_definitions (db w) \<or>
      (\<exists>b'. budget_definitions (db w') = budget_definitions (db w) @ [b'] \<and> new_budget (uuids w) b'))"
    using assms
    by (auto simp: CreateBudget_def bind_op_def uuid_op_def uuid_New_def now_op_def Let_def
        sql_exec_def pop_fault_def insert_budget_def new_budget_def
        split: fault.splits list.splits option.splits prod.splits sum.splits if_splits)
  then show "uuids w \<le> uuids w'"
    "rows_follow (new_budget (uuids w)) budget_change (budget_definitions (db w)) (budget_definitions (db w'))"
    by (auto simp: rows_follow_append rows_follow_refl)
qed

lemma UpdateBudget_follows:
  assumes run: "UpdateBudget b w = (r, w')"
  shows "approvals_kept w w'"
proof (rule approvals_keptI)
  show "world_ok w \<Longrightarrow> world_ok w'" by (rule UpdateBudget_wf.keeps_ok [OF run])
  show "uuids w \<le> uuids w'" by (rule UpdateBudget.uuids_frame [OF run])
  have stmt: "rows_follow (new_budget (uuids w)) budget_change (budget_definitions t) (budget_definitions t')"
    if "update_budget b now t = Some (n, t')" for now t n t'
    using that unfolding update_budget_def Let_def
    by (auto simp: rows_follow_refl update_budgets_def apply_budget_update_def budget_change_def
        intro!: rows_follow_update split: if_splits)
  from run show "rows_follow (new_budget (uuids w)) budget_change (budget_definitions (db w)) (budget_definitions (db w'))"
    unfolding UpdateBudget_def by (cases rule: affected_or_cases) (auto dest: stmt simp: rows_follow_refl)
qed

lemma DeleteBudget_follows:
  assumes run: "DeleteBudget i w = (r, w')"
  shows "approvals_kept w w'"
proof (rule approvals_keptI)
  show "world_ok w \<Longrightarrow> world_ok w'" by (rule DeleteBudget_wf.keeps_ok [OF run])
  show "uuids w \<le> uuids w'" by (rule DeleteBudget.uuids_frame [OF run])
  have stmt: "rows_follow (new_budget (uuids w)) budget_change (budget_definitions t) (budget_definitions t')"
    if "delete_budget i now t = Some (n, t')" for now t n t'
    using that by (auto simp: delete_budget_def Let_def rows_follow_delete rows_follow_refl split: if_splits)
  from run show "rows_follow (new_budget (uuids w)) budget_change (budget_definitions (db w)) (budget_definitions (db w'))"
    unfolding DeleteBudget_def by (cases rule: affected_or_cases) (auto dest: stmt simp: rows_follow_refl)
qed

lemma budget_change_trans_same:
  assumes "budget_change b c" and "bID d = bID c" and "bApprovalStatus d = bApprovalStatus c"
    and "bRejectionCount d = bRejectionCount c"
  shows "budget_change b d"
  using assms by (auto simp: budget_change_def)

lemma reset_queries_same:
  assumes "reset_queries qs acc w = (r, w')"
  shows "uuids w' = uuids w \<and> (\<forall>b' \<in> set (budget_definitions (db w')).
    \<exists>b \<in> set (budget_definitions (db w)). bID b' = bID b \<and>
      bApprovalStatus b' = bApprovalStatus b \<and> bRejectionCount b' = bRejectionCount b)"
  using assms
proof (induction qs arbitrary: acc w)
  case (Cons q qs)
  from Cons.prems have "bind_op (sql_exec ''failed to reset expired budgets'' (reset_where q))
      (\<lambda>n. reset_queries qs (acc + n)) w = (r, w')" by simp
  then show ?case
  proof (cases rule: bind_op_cases)
    case (err e)
    from err(1) show ?thesis by (rule sql_exec_cases) auto
  next
    case (val n w1)
    from val(1) have one: "uuids w1 = uuids w \<and> (\<forall>b' \<in> set (budget_definitions (db w1)).
        \<exists>b \<in> set (budget_definitions (db w)). bID b' = bID b \<and>
          bApprovalStatus b' = bApprovalStatus b \<and> bRejectionCount b' = bRejectionCount b)"
    proof (cases rule: sql_exec_cases)
      case (ran x)
      then have "db w1 = snd (the (reset_where q (clock w) (db w)))" by simp
      with ran show ?thesis
        by (auto simp: reset_where_def update_budgets_def set_update_where reset_budget_def)
    qed simp
    from Cons.IH [OF val(2)] one show ?thesis by metis
  qed
qed auto

lemma ResetExpiredBudgets_follows:
  assumes run: "ResetExpiredBudgets w = (r, w')"
  shows "approvals_kept w w'"
proof (rule approvals_keptI)
  show "world_ok w \<Longrightarrow> world_ok w'" by (rule ResetExpiredBudgets_wf.keeps_ok [OF run])
  note same = reset_queries_same [OF run [unfolded ResetExpiredBudgets_def]]
  then show "uuids w \<le> uuids w'" by simp
  show "rows_follow (new_budget (uuids w)) budget_change (budget_definitions (db w)) (budget_definitions (db w'))"
    using same unfolding rows_follow_def budget_change_def by metis
qed

subsection \<open>Budgets implement the interface\<close>

lemma budget_step_follows:
  assumes "budget_step w w'" and "approvals_ok w"
  shows "uuids w \<le> uuids w' \<and> world_ok w' \<and>
    rows_follow (new_budget (uuids w)) budget_change (budget_definitions (db w)) (budget_definitions (db w'))"
proof -
  have ok: "world_ok w" "tables_ok (db w)" using assms(2) by (simp_all add: approvals_ok_def world_ok_def)
  have "approvals_kept w w'"
    using assms(1)
  proof cases
    case approve
    then show ?thesis by (rule ApproveBudget_follows [OF _ ok(2)])
  next
    case reject
    then show ?thesis by (rule RejectBudget_follows [OF _ ok(2)])
  next
    case resubmit
    then show ?thesis by (rule ResubmitBudget_follows [OF _ ok(2)])
  next
    case create
    then show ?thesis by (blast intro: CreateBudget_follows)
  next
    case elsewhere
    then show ?thesis unfolding approvals_kept_def approvals_untouched_def rows_follow_def budget_change_def by metis
  qed (auto intro: UpdateBudget_follows DeleteBudget_follows ResetExpiredBudgets_follows)
  with ok show ?thesis by (simp add: approvals_kept_def)
qed

lemma budget_change_edge:
  "budget_change b b' \<Longrightarrow> bApprovalStatus b = bApprovalStatus b' \<or>
     budget_edge (bApprovalStatus b) (bApprovalStatus b')"
  by (auto simp: budget_change_def rejection_status_def split: if_splits)

lemma budget_change_rejections: "budget_change b b' \<Longrightarrow> rejections_ok b \<Longrightarrow> rejections_ok b'"
  by (auto simp: budget_change_def rejections_ok_def rejection_status_def split: if_splits)

lemma new_budget_rejections: "new_budget u b \<Longrightarrow> rejections_ok b"
  by (auto simp: new_budget_def rejections_ok_def)

lemma budget_status_iff:
  assumes "world_ok w"
  shows "budget_status w i = Some s \<longleftrightarrow>
    (\<exists>b \<in> set (budget_definitions (db w)). bID b = i \<and> bApprovalStatus b = s)"
  using first_row_key [of bID "budget_definitions (db w)" i] assms
  by (auto simp: budget_status_def budget_by_id_def world_ok_def tables_ok_def)

interpretation budgets: status_workflow budget_step approvals_ok budget_status uuids budget_edge
proof unfold_locales
  fix w w'
  assume ok: "approvals_ok w" and step: "budget_step w w'"
  note f = budget_step_follows [OF step ok]
  have "rejections_ok b'" if "b' \<in> set (budget_definitions (db w'))" for b'
    using f that ok unfolding rows_follow_def approvals_ok_def
    by (blast dest: budget_change_rejections new_budget_rejections)
  with f show "approvals_ok w'" by (simp add: approvals_ok_def)
next
  fix w w' i b
  assume ok: "approvals_ok w" and step: "budget_step w w'" and i: "i < uuids w"
    and st: "budget_status w' i = Some b"
  note f = budget_step_follows [OF step ok]
  obtain c' where c': "c' \<in> set (budget_definitions (db w'))" "bID c' = i" "bApprovalStatus c' = b"
    using st f budget_status_iff by blast
  have "\<not> new_budget (uuids w) c'" using c'(2) i by (simp add: new_budget_def)
  then obtain c where c: "c \<in> set (budget_definitions (db w))" "budget_change c c'"
    using f c'(1) by (auto simp: rows_follow_def)
  have "bID c = i" using c(2) c'(2) by (simp add: budget_change_def)
  with c(1) ok have "budget_status w i = Some (bApprovalStatus c)"
    using budget_status_iff by (auto simp: approvals_ok_def)
  with budget_change_edge [OF c(2)] c'(3)
  show "\<exists>a. budget_status w i = Some a \<and> (a = b \<or> budget_edge a b)" by auto
next
  fix w w'
  assume "approvals_ok w" and "budget_step w w'"
  then show "uuids w \<le> uuids w'" using budget_step_follows by blast
qed




end
