(* ===== verification/RateLimits.thy ===== *)
theory RateLimits
  imports Approval_Workflow
begin

text \<open>
  Properties of the rate limit allocations: the approval workflow at the level of single statements
  (so under every interleaving of the handlers), the constraints of the table, what a
  pattern covers, and which allocations a request finds.
\<close>

section \<open>The workflow of the allocations\<close>

definition allocation_status :: "world \<Rightarrow> uuid \<Rightarrow> approval_status option" where
  "allocation_status w i = map_option raApprovalStatus (allocation_by_id i (db w))"

definition allocations_wf :: "world \<Rightarrow> bool" where
  "allocations_wf w \<longleftrightarrow> allocations_ok (rate_limit_allocations (db w))"

inductive allocation_edge :: "approval_status \<Rightarrow> approval_status \<Rightarrow> bool" where
  "allocation_edge ApprovalStatusPending ApprovalStatusApproved"
| "allocation_edge ApprovalStatusPending ApprovalStatusRejected"
| "allocation_edge ApprovalStatusRejected ApprovalStatusPending"

inductive_simps allocation_edge_simps [simp]:
  "allocation_edge ApprovalStatusApproved b" "allocation_edge ApprovalStatusClosed b"
  "allocation_edge ApprovalStatusPending b" "allocation_edge ApprovalStatusRejected b"

inductive allocation_step :: "world \<Rightarrow> world \<Rightarrow> bool" where
  approve: "ApproveAllocation i s e w = (r, w') \<Longrightarrow> allocation_step w w'"
| reject: "RejectAllocation i w = (r, w') \<Longrightarrow> allocation_step w w'"
| resubmit: "ResetAllocationForResubmit i w = (r, w') \<Longrightarrow> allocation_step w w'"
| create: "CreateAllocation a w = (r', w') \<Longrightarrow> allocation_step w w'"
| update: "UpdateAllocation a w = (r', w') \<Longrightarrow> allocation_step w w'"
| delete: "DeleteAllocation i w = (r, w') \<Longrightarrow> allocation_step w w'"
| elsewhere: "rate_limit_allocations (db w') = rate_limit_allocations (db w) \<Longrightarrow>
    uuids w \<le> uuids w' \<Longrightarrow> allocation_step w w'"

definition allocation_change :: "allocation \<Rightarrow> allocation \<Rightarrow> bool" where
  "allocation_change a a' \<longleftrightarrow> raID a' = raID a \<and>
     (raApprovalStatus a = raApprovalStatus a' \<or>
      allocation_edge (raApprovalStatus a) (raApprovalStatus a'))"

lemma reflp_allocation_change [simp]: "reflp allocation_change"
  by (simp add: reflp_def allocation_change_def)

lemma allocation_change_refl [intro]: "allocation_change a a"
  by (simp add: allocation_change_def)

text \<open>A statement that moves the allocations along the edges and keeps the constraints.\<close>

definition allocations_follow :: "uuid \<Rightarrow> 'a statement \<Rightarrow> bool" where
  "allocations_follow u f \<longleftrightarrow> (\<forall>now t x t'. f now t = Some (x, t') \<longrightarrow>
     allocations_ok (rate_limit_allocations t) \<longrightarrow> allocations_ok (rate_limit_allocations t') \<and>
     rows_follow (\<lambda>a. u \<le> raID a) allocation_change (rate_limit_allocations t) (rate_limit_allocations t'))"

lemma allocations_follow_update:
  assumes "\<And>now a. p a \<Longrightarrow> raID (f now a) = raID a \<and>
    (raApprovalStatus a = raApprovalStatus (f now a) \<or>
     allocation_edge (raApprovalStatus a) (raApprovalStatus (f now a)))"
  shows "allocations_follow u (\<lambda>now. update_allocations p (f now) now)"
  using assms
  by (auto simp: allocations_follow_def update_allocations_def put_allocations_def Let_def
      allocation_change_def rows_follow_refl intro!: rows_follow_update split: if_splits)

lemma allocations_ok_delete: "allocations_ok rows \<Longrightarrow> allocations_ok (delete_where p rows)"
proof -
  have "filter not_rejected (delete_where p rows) = filter (\<lambda>a. \<not> p a) (filter not_rejected rows)"
    by (simp add: delete_where_def conj_commute)
  then show "allocations_ok rows \<Longrightarrow> allocations_ok (delete_where p rows)"
    by (auto simp: allocations_ok_def delete_where_def simp del: filter_filter intro: distinct_map_filter)
qed

lemma allocations_follow_delete: "allocations_follow u (delete_allocations p)"
  by (auto simp: allocations_follow_def delete_allocations_def Let_def allocations_ok_delete
      rows_follow_delete)

lemma allocations_follow_insert:
  "u \<le> raID a \<Longrightarrow> allocations_follow u (\<lambda>now t. put_allocations () (rate_limit_allocations t @ [a]) t)"
  by (auto simp: allocations_follow_def put_allocations_def rows_follow_append split: if_splits)

lemma put_allocations_rows:
  assumes "put_allocations x rows t = Some (y, t')"
  shows "rate_limit_allocations t' = rows" and "allocations_ok rows"
  using assms by (auto simp: put_allocations_def split: if_splits)

definition allocations_kept :: "world \<Rightarrow> world \<Rightarrow> bool" where
  "allocations_kept w w' \<longleftrightarrow> allocations_wf w' \<and> uuids w \<le> uuids w' \<and>
     rows_follow (\<lambda>a. uuids w \<le> raID a) allocation_change
       (rate_limit_allocations (db w)) (rate_limit_allocations (db w'))"

lemma allocations_kept_same:
  "allocations_wf w \<Longrightarrow> rate_limit_allocations (db w') = rate_limit_allocations (db w) \<Longrightarrow>
    uuids w \<le> uuids w' \<Longrightarrow> allocations_kept w w'"
  by (simp add: allocations_kept_def allocations_wf_def rows_follow_refl)

lemma sql_exec_follows:
  assumes "sql_exec msg f w = (r, w')" and "allocations_follow (uuids w) f" and "allocations_wf w"
  shows "allocations_kept w w'"
  using assms(1)
proof (cases rule: sql_exec_cases)
  case (ran x)
  then show ?thesis
    using assms(2,3) by (auto simp: allocations_follow_def allocations_kept_def allocations_wf_def)
qed (use assms(3) in \<open>simp add: allocations_kept_same\<close>)

lemma affected_or_follows:
  assumes "affected_or e0 (sql_exec msg f) w = (r, w')" and "allocations_follow (uuids w) f"
    and "allocations_wf w"
  shows "allocations_kept w w'"
  using assms(1)
proof (cases rule: affected_or_cases)
  case none
  then show ?thesis
    using assms(2,3) by (auto simp: allocations_follow_def allocations_kept_def allocations_wf_def)
next
  case ran
  then show ?thesis
    using assms(2,3) by (auto simp: allocations_follow_def allocations_kept_def allocations_wf_def)
qed (use assms(3) in \<open>simp add: allocations_kept_same\<close>)

lemma ApproveAllocation_follows:
  assumes "ApproveAllocation i s e w = (r, w')" and "allocations_wf w"
  shows "allocations_kept w w'"
proof -
  have "allocations_follow (uuids w) (approve_allocation i s e)"
    unfolding approve_allocation_def by (rule allocations_follow_update) (simp add: pending_row_def)
  then show ?thesis
    by (rule affected_or_follows [OF assms(1) [unfolded ApproveAllocation_def] _ assms(2)])
qed

lemma RejectAllocation_follows:
  assumes "RejectAllocation i w = (r, w')" and "allocations_wf w"
  shows "allocations_kept w w'"
  by (rule affected_or_follows [OF assms(1) [unfolded RejectAllocation_def reject_allocation_def] _ assms(2)])
    (rule allocations_follow_update, simp add: pending_row_def)

lemma ResetAllocationForResubmit_follows:
  assumes "ResetAllocationForResubmit i w = (r, w')" and "allocations_wf w"
  shows "allocations_kept w w'"
  by (rule affected_or_follows
      [OF assms(1) [unfolded ResetAllocationForResubmit_def reset_allocation_def] _ assms(2)])
    (rule allocations_follow_update, simp add: rejected_row_def)

lemma DeleteAllocation_follows:
  assumes "DeleteAllocation i w = (r, w')" and "allocations_wf w"
  shows "allocations_kept w w'"
  by (rule affected_or_follows [OF assms(1) [unfolded DeleteAllocation_def] _ assms(2)])
    (rule allocations_follow_delete)

lemma UpdateAllocation_follows:
  assumes "UpdateAllocation a w = (r, w')" and "allocations_wf w"
  shows "allocations_kept w w'"
proof -
  have f: "allocations_follow (uuids w)
      (update_allocations (\<lambda>r. raID r = raID a \<and> raVersion r = raVersion a) (apply_allocation_update a))"
    by (rule allocations_follow_update) (simp add: apply_allocation_update_def)
  obtain q where "affected_or ErrOptimisticLock (sql_exec ''failed to update rate limit allocation''
      (update_allocations (\<lambda>r. raID r = raID a \<and> raVersion r = raVersion a)
        (apply_allocation_update a))) w = (q, w')"
    using assms(1)
    by (auto simp: UpdateAllocation_def now_op_def bind_op_def split: prod.splits sum.splits)
  then show ?thesis by (rule affected_or_follows [OF _ f assms(2)])
qed

lemma CreateAllocation_rows:
  assumes run: "CreateAllocation a w = (r, w')" and wf: "allocations_wf w"
  shows "uuids w \<le> uuids w' \<and> allocations_wf w' \<and>
    (\<exists>p new. rate_limit_allocations (db w') = delete_where p (rate_limit_allocations (db w)) @ new \<and>
      (\<forall>x \<in> set new. raID x = uuids w))"
proof -
  let ?rows = "rate_limit_allocations (db w)" and ?w = "w\<lparr>uuids := Suc (uuids w)\<rparr>"
  let ?a = "a\<lparr>raID := uuids w, raVersion := 1, raCreatedAt := clock w, raUpdatedAt := clock w,
      raEnforcement := (if raEnforcement a = EnforcementOther '''' then EnforcementEnforced
                        else raEnforcement a)\<rparr>"
  let ?q = "\<lambda>now t. map_option raID (first_row (filter
      (\<lambda>r. raTeamID r = raTeamID a \<and> raModelPattern r = raModelPattern a \<and> not_rejected r)
      (rate_limit_allocations t)))"
  let ?p = "\<lambda>r. raOrgID r = raOrgID a \<and> raTeamID r = raTeamID a \<and>
      raModelPattern r = raModelPattern a \<and> \<not> not_rejected r"
  have same: "\<exists>p new. ?rows = delete_where p ?rows @ new \<and> (\<forall>x \<in> set new. raID x = uuids w)"
    by (intro exI [of _ "\<lambda>_. False"] exI [of _ "[]"]) (simp add: delete_where_def)
  obtain g w1 where q: "sql_row ''failed to check for existing allocation'' ?q ?w = (g, w1)" by fastforce
  have w1: "db w1 = db w" "uuids w \<le> uuids w1"
    using query_op.reads_only [OF query_op_sql_row q] db_op.uuids_frame [OF query_op_imp_db [OF query_op_sql_row] q]
    by simp_all
  show ?thesis
  proof (cases "g = Inl ErrNotFound")
    case False
    then have "w' = w1"
      using run q by (cases g) (auto simp: CreateAllocation_def bind_op_def uuid_op_def uuid_New_def
          now_op_def Let_def try_op_def split: db_error.splits)
    with w1 wf same show ?thesis by (simp add: allocations_wf_def)
  next
    case True
    obtain d w2 where del: "sql_exec ''delete'' (delete_allocations ?p) w1 = (d, w2)" by fastforce
    obtain c w3 where ins: "sql_exec ''failed to create rate limit allocation''
        (\<lambda>now t. put_allocations () (rate_limit_allocations t @ [?a\<lparr>raRejectionCount := 0\<rparr>]) t) w2 = (c, w3)"
      by fastforce
    have w': "w' = w3"
      using run q True del ins
      by (cases c) (auto simp: CreateAllocation_def bind_op_def uuid_op_def uuid_New_def
          now_op_def Let_def try_op_def)
    have wf1: "allocations_wf w1" using wf w1 by (simp add: allocations_wf_def)
    have k2: "allocations_wf w2" "uuids w1 \<le> uuids w2"
      using sql_exec_follows [OF del allocations_follow_delete wf1] by (simp_all add: allocations_kept_def)
    obtain p where r2: "rate_limit_allocations (db w2) = delete_where p ?rows"
      using del
    proof (cases rule: sql_exec_cases)
      case failed
      then show thesis using w1 by (intro that [of "\<lambda>_. False"]) (simp add: delete_where_def)
    next
      case (ran x)
      then have "db w2 = snd (the (delete_allocations ?p (clock w1) (db w1)))" by simp
      then show thesis using w1 by (intro that [of ?p]) (simp add: delete_allocations_def Let_def)
    qed
    from ins show ?thesis
    proof (cases rule: sql_exec_cases)
      case failed
      then show ?thesis using k2 r2 w1
        by (auto simp: w' allocations_wf_def intro!: exI [of _ p] exI [of _ "[]"])
    next
      case (ran x)
      let ?b = "?a\<lparr>raRejectionCount := 0\<rparr>"
      have "allocations_ok (rate_limit_allocations (db w3))"
        and "rate_limit_allocations (db w3) = rate_limit_allocations (db w2) @ [?b]"
        using put_allocations_rows [OF ran(2)] by simp_all
      then show ?thesis using k2 r2 w1 ran
        by (intro conjI exI [of _ p] exI [of _ "[?b]"]) (simp_all add: w' allocations_wf_def)
    qed
  qed
qed

lemma CreateAllocation_follows:
  assumes "CreateAllocation a w = (r, w')" and "allocations_wf w"
  shows "allocations_kept w w'"
  using CreateAllocation_rows [OF assms]
  by (fastforce simp: allocations_kept_def rows_follow_def delete_where_def)

lemma allocation_step_follows:
  assumes "allocation_step w w'" and "allocations_wf w"
  shows "allocations_kept w w'"
  using assms(1)
proof cases
  case elsewhere
  then show ?thesis by (rule allocations_kept_same [OF assms(2)])
qed (auto intro: assms(2) ApproveAllocation_follows RejectAllocation_follows UpdateAllocation_follows
    ResetAllocationForResubmit_follows CreateAllocation_follows DeleteAllocation_follows)

lemma allocation_status_iff:
  assumes "allocations_wf w"
  shows "allocation_status w i = Some s \<longleftrightarrow>
    (\<exists>a \<in> set (rate_limit_allocations (db w)). raID a = i \<and> raApprovalStatus a = s)"
  using first_row_key [of raID "rate_limit_allocations (db w)" i] assms
  by (auto simp: allocation_status_def allocation_by_id_def allocations_wf_def allocations_ok_def)

interpretation allocations:
  status_workflow allocation_step allocations_wf allocation_status uuids allocation_edge
proof unfold_locales
  fix w w'
  assume "allocations_wf w" and "allocation_step w w'"
  from allocation_step_follows [OF this(2,1)]
  show "allocations_wf w'" and "uuids w \<le> uuids w'" by (simp_all add: allocations_kept_def)
next
  fix w w' i b
  assume wf: "allocations_wf w" and step: "allocation_step w w'" and i: "i < uuids w"
    and st: "allocation_status w' i = Some b"
  note f = allocation_step_follows [OF step wf]
  then have wf': "allocations_wf w'" and rows: "rows_follow (\<lambda>a. uuids w \<le> raID a) allocation_change
      (rate_limit_allocations (db w)) (rate_limit_allocations (db w'))"
    by (simp_all add: allocations_kept_def)
  obtain c' where c': "c' \<in> set (rate_limit_allocations (db w'))" "raID c' = i" "raApprovalStatus c' = b"
    using st allocation_status_iff [OF wf'] by blast
  obtain c where c: "c \<in> set (rate_limit_allocations (db w))" "allocation_change c c'"
    using rows_followD [OF rows c'(1)] c'(2) i by auto
  then show "\<exists>a. allocation_status w i = Some a \<and> (a = b \<or> allocation_edge a b)"
    using allocation_status_iff [OF wf] c'(2,3) by (auto simp: allocation_change_def)
qed

text \<open>
  C20: an approved allocation stays approved. Whatever statements of whichever handlers interleave, and
  whatever fails, an allocation that was once approved is neither rejected nor pending again: it keeps the
  status until it is deleted.
\<close>

theorem approved_allocations_stay:
  assumes "allocations_wf w" and "allocation_step\<^sup>*\<^sup>* w w'" and "i < uuids w"
    and "allocation_status w i = Some ApprovalStatusApproved"
  shows "allocation_status w' i = Some ApprovalStatusApproved \<or> allocation_status w' i = None"
  by (rule allocations.terminal_stays [OF _ assms(2,1,3,4)]) simp


section \<open>What a pattern covers\<close>

text \<open>
  The specification: a star stands for any text, every other character for itself.
\<close>

inductive glob :: "string \<Rightarrow> string \<Rightarrow> bool" where
  empty: "glob [] []"
| star: "glob p s \<Longrightarrow> glob (CHR ''*'' # p) (u @ s)"
| char: "c \<noteq> CHR ''*'' \<Longrightarrow> glob p s \<Longrightarrow> glob (c # p) (c # s)"

inductive_simps glob_simps: "glob [] s" "glob (c # p) s"

lemma glob_Nil: "glob [] s \<longleftrightarrow> s = []"
  by (simp add: glob_simps)

lemma glob_star: "glob (CHR ''*'' # p) s \<longleftrightarrow> (\<exists>u v. s = u @ v \<and> glob p v)"
  by (auto simp: glob_simps(2))

lemma glob_char: "c \<noteq> CHR ''*'' \<Longrightarrow> glob (c # p) s \<longleftrightarrow> (\<exists>t. s = c # t \<and> glob p t)"
  by (auto simp: glob_simps(2))

lemma sql_like_percent: "sql_like (CHR ''%'' # p) s \<longleftrightarrow> (\<exists>u v. s = u @ v \<and> sql_like p v)"
proof (induction s)
  case Nil
  then show ?case by simp
next
  case (Cons c s)
  have "sql_like (CHR ''%'' # p) (c # s) \<longleftrightarrow> sql_like p (c # s) \<or> sql_like (CHR ''%'' # p) s"
    by simp
  also have "\<dots> \<longleftrightarrow> (\<exists>u v. c # s = u @ v \<and> sql_like p v)"
    unfolding Cons.IH by (auto simp: Cons_eq_append_conv)
  finally show ?case .
qed

definition plain_char :: "char \<Rightarrow> bool" where
  "plain_char c \<longleftrightarrow> c \<noteq> CHR ''%'' \<and> c \<noteq> CHR ''_'' \<and> c \<noteq> CHR 0x5C"

lemma sql_like_glob: "list_all plain_char p \<Longrightarrow> sql_like (star_to_percent p) s \<longleftrightarrow> glob p s"
proof (induction p arbitrary: s)
  case Nil
  then show ?case by (simp add: star_to_percent_def glob_Nil)
next
  case (Cons c p)
  then have IH: "sql_like (star_to_percent p) t \<longleftrightarrow> glob p t" for t by simp
  show ?case
  proof (cases "c = CHR ''*''")
    case True
    then have "sql_like (star_to_percent (c # p)) s \<longleftrightarrow> (\<exists>u v. s = u @ v \<and> sql_like (star_to_percent p) v)"
      by (simp add: star_to_percent_def sql_like_percent del: sql_like.simps)
    with True show ?thesis by (simp add: IH glob_star)
  next
    case False
    with Cons.prems have "sql_like (star_to_percent (c # p)) s \<longleftrightarrow>
        (case s of [] \<Rightarrow> False | e # t \<Rightarrow> c = e \<and> sql_like (star_to_percent p) t)"
      by (cases s) (simp_all add: star_to_percent_def plain_char_def)
    with False show ?thesis by (cases s) (auto simp: IH glob_char)
  qed
qed

lemma glob_refl: "glob p p"
proof (induction p)
  case (Cons c p)
  then show ?case
    using glob.star [of p p "[c]"] glob.char [of c p p] by (cases "c = CHR ''*''") simp_all
qed (rule glob.empty)

text \<open>
  C23: the test the database makes for a pattern (equality, the bare star, or \<open>LIKE\<close> on the pattern with
  its stars replaced by percent signs) is matching with the star as the wildcard, for every pattern without a percent sign,
  an underscore and a backslash, the characters \<open>LIKE\<close> reads as its own.
\<close>

theorem pattern_covers_glob:
  assumes "list_all plain_char p"
  shows "pattern_covers p model \<longleftrightarrow> glob p model"
proof -
  have "glob ''*'' model" by (auto simp: glob_star glob_Nil)
  then show ?thesis
    using sql_like_glob [OF assms] glob_refl [of p] by (auto simp: pattern_covers_def)
qed

text \<open>An underscore, common in model names, is a wildcard of one character to the database.\<close>

lemma underscore_is_wildcard: "pattern_covers ''gpt_4*'' ''gpt-4o''" and "\<not> glob ''gpt_4*'' ''gpt-4o''"
  by (simp_all add: pattern_covers_def star_to_percent_def glob_simps)

section \<open>The allocations of a request\<close>

lemma sorted_lookup:
  fixes k :: "'a \<Rightarrow> nat"
  assumes "rows = sort_key k (filter p xs)"
  shows "set rows = {a \<in> set xs. p a} \<and> sorted (map k rows) \<and>
    filter (\<lambda>a. k a = n) rows = filter (\<lambda>a. k a = n \<and> p a) xs"
  unfolding assms by (auto simp: sort_key_stable conj_commute)


end
