(* ===== verification/Extproc_RateLimit.thy ===== *)
theory Extproc_RateLimit
  imports RateLimits Budget_Service Extproc_Common
begin

text \<open>
  \<open>internal/extproc/ratelimit_server.go\<close>: the external processor that gives the gateway the rate limits of a
  request as dynamic metadata. The parameter \<open>repo\<close> tells whether the server has a repository.
\<close>

record rate_limit_value =
  rvRequestsPerUnit :: int
  rvUnit :: string

record rate_limit_metadata =
  rmTokenLimit :: "rate_limit_value option"
  rmRequestLimit :: "rate_limit_value option"

record rl_request_state =
  lsRequestID :: string
  lsTeamID :: string
  lsOrgID :: string
  lsHeaders :: "(string \<times> string) list"
  lsRequestBody :: string

section \<open>Merging the allocations\<close>

text \<open>
  \<open>a.HasTokenLimit()\<close> and \<open>a.HasRequestLimit()\<close> test the limit for being valid and positive; a unit that
  is NULL reads as the empty string.
\<close>

definition token_value :: "allocation \<Rightarrow> rate_limit_value option" where
  "token_value a = (if HasTokenLimit a
     then Some \<lparr>rvRequestsPerUnit = (case raTokenLimit a of None \<Rightarrow> 0 | Some n \<Rightarrow> n),
                rvUnit = null_string (raTokenUnit a)\<rparr> else None)"

definition request_value :: "allocation \<Rightarrow> rate_limit_value option" where
  "request_value a = (if HasRequestLimit a
     then Some \<lparr>rvRequestsPerUnit = (case raRequestLimit a of None \<Rightarrow> 0 | Some n \<Rightarrow> n),
                rvUnit = null_string (raRequestUnit a)\<rparr> else None)"

fun merge_limits :: "allocation list \<Rightarrow> rate_limit_metadata \<Rightarrow> rate_limit_metadata" where
  "merge_limits [] m = m"
| "merge_limits (a # as) m =
     (if raEnforcement a = EnforcementMonitoring then merge_limits as m
      else (let m1 = (if rmTokenLimit m = None then m\<lparr>rmTokenLimit := token_value a\<rparr> else m);
                m2 = (if rmRequestLimit m1 = None then m1\<lparr>rmRequestLimit := request_value a\<rparr> else m1)
            in if rmTokenLimit m2 \<noteq> None \<and> rmRequestLimit m2 \<noteq> None then m2 else merge_limits as m2))"

definition no_limits :: rate_limit_metadata where
  "no_limits = \<lparr>rmTokenLimit = None, rmRequestLimit = None\<rparr>"

definition lookupRateLimitAllocation ::
  "bool \<Rightarrow> string \<Rightarrow> string \<Rightarrow> world \<Rightarrow> rate_limit_metadata option \<times> world" where
  "lookupRateLimitAllocation repo teamID modelID w =
     (if \<not> repo \<or> teamID = '''' then (None, w)
      else (case GetAllocationsForTeamModel teamID modelID w of
        (Inl e, w1) \<Rightarrow> (None, w1)
      | (Inr as, w1) \<Rightarrow>
          if as = [] then (None, w1)
          else (let m = merge_limits as no_limits in
            (if rmTokenLimit m = None \<and> rmRequestLimit m = None then None else Some m, w1))))"

definition limit_struct :: "rate_limit_value option \<Rightarrow> dyn" where
  "limit_struct v = (case v of None \<Rightarrow> DMap []
     | Some l \<Rightarrow> DMap [(''requests_per_unit'', DNumber (of_int (rvRequestsPerUnit l))),
                        (''unit'', DString (rvUnit l))])"

definition buildRateLimitDynamicMetadata :: "rate_limit_metadata option \<Rightarrow> (string \<times> dyn) list" where
  "buildRateLimitDynamicMetadata meta =
     [(''token_rate_limit'', limit_struct (Option.bind meta rmTokenLimit)),
      (''request_rate_limit'', limit_struct (Option.bind meta rmRequestLimit))]"

section \<open>The stream\<close>

record rl_stream =
  lmRequestID :: string
  lmRequest :: "rl_request_state option"
  lmRequestStates :: "string list"
  lmWorld :: world

definition rl_getRequestID :: "header list option \<Rightarrow> string" where
  "rl_getRequestID hs = first_header (\<lambda>k. ToLower k = ''x-request-id'') hs"

text \<open>Team and organisation: from the headers, each that is missing there from the claims of the token.\<close>

definition identify ::
  "(dyn \<Rightarrow> string) \<Rightarrow> config \<Rightarrow> (string \<times> string) list \<Rightarrow> string \<times> string" where
  "identify fmtv cfg headers =
     (let team = header_value (ToLower (cfgTeamIDHeader cfg)) headers;
          org = header_value (ToLower (cfgOrgIDHeader cfg)) headers
      in if team = '''' \<or> org = '''' then
           (case extractJWTClaims (header_value ''authorization'' headers) of
              None \<Rightarrow> (team, org)
            | Some claims \<Rightarrow>
                (if team = '''' then getClaimString fmtv (Some claims) (cfgTeamIDClaim cfg) else team,
                 if org = '''' then getClaimString fmtv (Some claims) (cfgOrgIDClaim cfg) else org))
         else (team, org))"

definition rl_on_request_headers ::
  "(uuid \<Rightarrow> string) \<Rightarrow> (dyn \<Rightarrow> string) \<Rightarrow> config \<Rightarrow> bool \<Rightarrow> header list option \<Rightarrow> rl_stream
    \<Rightarrow> processing_response \<times> rl_stream" where
  "rl_on_request_headers show_uuid fmtv cfg repo hs ss =
     (case (if rl_getRequestID hs = '''' then (case uuid_New (lmWorld ss) of (i, w1) \<Rightarrow> (show_uuid i, w1))
            else (rl_getRequestID hs, lmWorld ss)) of (rid, w1) \<Rightarrow>
      (let headers = headers_map hs; modelID = header_value (ToLower (cfgModelHeader cfg)) headers in
       case identify fmtv cfg headers of (team, org) \<Rightarrow>
         (let st = \<lparr>lsRequestID = rid, lsTeamID = team, lsOrgID = org, lsHeaders = headers, lsRequestBody = []\<rparr>
          in case (if team \<noteq> '''' \<and> modelID \<noteq> '''' then lookupRateLimitAllocation repo team modelID w1
                   else (None, w1)) of (allocation, w2) \<Rightarrow>
            (RequestHeadersResponse None (Some (buildRateLimitDynamicMetadata allocation)),
             ss\<lparr>lmRequestID := rid, lmRequest := Some st,
               lmRequestStates := List.insert rid (lmRequestStates ss), lmWorld := w2\<rparr>))))"

definition buildBodyResponse :: "string \<Rightarrow> bool \<Rightarrow> string \<Rightarrow> processing_response" where
  "buildBodyResponse body endOfStream modelID =
     RequestBodyResponse (if modelID \<noteq> '''' then Some [(''x-gw-llm-model'', modelID)] else None) body endOfStream"

definition rl_on_request_body ::
  "config \<Rightarrow> string \<Rightarrow> bool \<Rightarrow> rl_stream \<Rightarrow> processing_response \<times> rl_stream" where
  "rl_on_request_body cfg body eos ss = (case lmRequest ss of
     None \<Rightarrow> (RequestBodyResponse None body eos, ss)
   | Some st \<Rightarrow>
     (let st1 = st\<lparr>lsRequestBody := lsRequestBody st @ body\<rparr>; ss1 = ss\<lparr>lmRequest := Some st1\<rparr> in
      if eos then
        (buildBodyResponse body eos (extractModel (lsRequestBody st1) (lsHeaders st1) (cfgModelHeader cfg)),
         ss1\<lparr>lmRequestStates := removeAll (lmRequestID ss1) (lmRequestStates ss1)\<rparr>)
      else (RequestBodyResponse None body eos, ss1)))"

definition rl_process_request ::
  "(uuid \<Rightarrow> string) \<Rightarrow> (dyn \<Rightarrow> string) \<Rightarrow> config \<Rightarrow> bool \<Rightarrow> processing_request \<Rightarrow> rl_stream
    \<Rightarrow> processing_response option \<times> rl_stream" where
  "rl_process_request show_uuid fmtv cfg repo req ss = (case req of
     RequestHeaders hs md \<Rightarrow> apfst Some (rl_on_request_headers show_uuid fmtv cfg repo hs ss)
   | RequestBody body eos \<Rightarrow> apfst Some (rl_on_request_body cfg body eos ss)
   | ResponseHeaders \<Rightarrow> (Some ResponseHeadersResponse, ss)
   | ResponseBody body eos \<Rightarrow> (Some (ResponseBodyResponse None body eos), ss)
   | OtherRequest \<Rightarrow> (None, ss))"

definition rl_Process ::
  "(uuid \<Rightarrow> string) \<Rightarrow> (dyn \<Rightarrow> string) \<Rightarrow> config \<Rightarrow> bool \<Rightarrow> stream_event list \<Rightarrow> rl_stream
    \<Rightarrow> processing_response list \<times> stream_end \<times> rl_stream" where
  "rl_Process show_uuid fmtv cfg repo es ss = serve (rl_process_request show_uuid fmtv cfg repo) es ss"

end
