(* ===== verification/RateLimit_Stream.thy ===== *)
theory RateLimit_Stream
  imports Extproc_RateLimit
begin

text \<open>
  Properties of the external processor for rate limits: the limit it injects is the one of the most specific
  enforced allocation, and it never stands in the way of a request.
\<close>

section \<open>Merging\<close>

definition enforced_for :: "string \<Rightarrow> string \<Rightarrow> allocation \<Rightarrow> bool" where
  "enforced_for team model a \<longleftrightarrow> active_for team model a \<and> raEnforcement a \<noteq> EnforcementMonitoring"

definition first_some :: "('a \<Rightarrow> 'b option) \<Rightarrow> 'a list \<Rightarrow> 'b option" where
  "first_some f xs = (case find (\<lambda>x. f x \<noteq> None) xs of None \<Rightarrow> None | Some x \<Rightarrow> f x)"

lemma first_some_simps [simp]: "first_some f [] = None"
  "first_some f (x # xs) = (case f x of None \<Rightarrow> first_some f xs | Some y \<Rightarrow> Some y)"
  by (auto simp: first_some_def split: option.splits)

definition or_else :: "'a option \<Rightarrow> 'a option \<Rightarrow> 'a option" where
  "or_else x y = (case x of Some a \<Rightarrow> Some a | None \<Rightarrow> y)"

lemma or_else_simps [simp]: "or_else None y = y" "or_else (Some a) y = Some a"
  by (simp_all add: or_else_def)

lemma merge_limits_first:
  "merge_limits as m = \<lparr>
     rmTokenLimit = or_else (rmTokenLimit m)
       (first_some token_value (filter (\<lambda>a. raEnforcement a \<noteq> EnforcementMonitoring) as)),
     rmRequestLimit = or_else (rmRequestLimit m)
       (first_some request_value (filter (\<lambda>a. raEnforcement a \<noteq> EnforcementMonitoring) as))\<rparr>"
proof (induction as arbitrary: m)
  case Nil
  then show ?case by (cases "rmTokenLimit m"; cases "rmRequestLimit m") simp_all
next
  case (Cons a as)
  show ?case
    by (cases "rmTokenLimit m"; cases "rmRequestLimit m"; cases "token_value a"; cases "request_value a")
      (simp_all add: Cons.IH Let_def)
qed

lemma find_sorted:
  fixes k :: "'a \<Rightarrow> nat"
  assumes "sorted (map k xs)" and "find p xs = Some a"
  shows "a \<in> set xs \<and> p a \<and> (\<forall>b \<in> set xs. p b \<longrightarrow> k a \<le> k b)"
  using assms by (induction xs) (auto split: if_splits)

section \<open>The limit of a request\<close>

text \<open>
  The specification of a limit: none, when no enforced allocation for the request has one of this kind;
  otherwise that of an enforced allocation which has one, and no such allocation is more specific.
\<close>

definition governing ::
  "(allocation \<Rightarrow> rate_limit_value option) \<Rightarrow> string \<Rightarrow> string \<Rightarrow> allocation list
    \<Rightarrow> rate_limit_value option \<Rightarrow> bool" where
  "governing f team model rows v \<longleftrightarrow> (case v of
     None \<Rightarrow> \<forall>a \<in> set rows. enforced_for team model a \<longrightarrow> f a = None
   | Some x \<Rightarrow> \<exists>a \<in> set rows. enforced_for team model a \<and> f a = Some x \<and>
       (\<forall>b \<in> set rows. enforced_for team model b \<and> f b \<noteq> None \<longrightarrow>
          pattern_rank model (raModelPattern a) \<le> pattern_rank model (raModelPattern b)))"

lemma first_some_governing:
  assumes "rows = sort_key (\<lambda>a. pattern_rank model (raModelPattern a)) (filter (active_for team model) all)"
  shows "governing f team model all
    (first_some f (filter (\<lambda>a. raEnforcement a \<noteq> EnforcementMonitoring) rows))"
proof -
  let ?k = "\<lambda>a. pattern_rank model (raModelPattern a)"
  let ?enf = "filter (\<lambda>a. raEnforcement a \<noteq> EnforcementMonitoring) rows"
  have set: "set ?enf = {a \<in> set all. enforced_for team model a}"
    unfolding assms by (auto simp: enforced_for_def)
  have "sorted (map ?k rows)" unfolding assms by (rule sorted_sort_key)
  then have sorted: "sorted (map ?k ?enf)" by (rule sorted_filter)
  show ?thesis
  proof (cases "find (\<lambda>x. f x \<noteq> None) ?enf")
    case None
    then have "\<forall>a \<in> set ?enf. f a = None" by (auto simp: find_None_iff)
    with None show ?thesis unfolding set by (auto simp: first_some_def governing_def)
  next
    case (Some a)
    from find_sorted [OF sorted Some] obtain x where x: "f a = Some x" by auto
    then have "first_some f ?enf = Some x" using Some by (simp add: first_some_def)
    with find_sorted [OF sorted Some] x show ?thesis unfolding set by (auto simp: governing_def)
  qed
qed

text \<open>
  C30: the most specific enforced allocation wins, for tokens and for requests separately. Without a failing
  statement, the token limit that is injected for a team and a model is that of an enabled, approved
  allocation in enforcement whose pattern covers the model, no such allocation with a token limit is more
  specific, and none is injected exactly when there is none; the same holds of the request limit. Allocations that
  are only monitored never count.
\<close>

theorem lookup_most_specific:
  assumes "faults w = []" and "team \<noteq> ''''"
  shows "governing token_value team model (rate_limit_allocations (db w))
      (Option.bind (fst (lookupRateLimitAllocation True team model w)) rmTokenLimit) \<and>
    governing request_value team model (rate_limit_allocations (db w))
      (Option.bind (fst (lookupRateLimitAllocation True team model w)) rmRequestLimit)"
proof -
  define rows where "rows = sort_key (\<lambda>a. pattern_rank model (raModelPattern a))
    (filter (active_for team model) (rate_limit_allocations (db w)))"
  have get: "GetAllocationsForTeamModel team model w = (Inr rows, w)"
    using assms(1) by (simp add: GetAllocationsForTeamModel_def order_by_def rows_def)
  let ?enf = "filter (\<lambda>a. raEnforcement a \<noteq> EnforcementMonitoring) rows"
  have "Option.bind (fst (lookupRateLimitAllocation True team model w)) rmTokenLimit = first_some token_value ?enf \<and>
    Option.bind (fst (lookupRateLimitAllocation True team model w)) rmRequestLimit = first_some request_value ?enf"
    using assms(2) get by (auto simp: lookupRateLimitAllocation_def merge_limits_first no_limits_def Let_def)
  with first_some_governing [OF rows_def] show ?thesis by simp
qed

section \<open>Transparency\<close>

lemma rl_on_request_headers_shape:
  assumes "rl_on_request_headers show_uuid fmtv cfg repo hs ss = (resp, ss')"
  shows "\<exists>md. resp = RequestHeadersResponse None (Some md) \<and>
    map fst md = [''token_rate_limit'', ''request_rate_limit'']"
  using assms
  by (auto simp: rl_on_request_headers_def buildRateLimitDynamicMetadata_def Let_def split: prod.splits if_splits)

interpretation rate_limit_stream: stream_processor "rl_process_request show_uuid fmtv cfg repo"
  for show_uuid fmtv cfg repo
proof unfold_locales
  fix req ss
  assume known: "known_request req"
  show "\<exists>resp ss'. rl_process_request show_uuid fmtv cfg repo req ss = (Some resp, ss') \<and> answers req resp"
  proof (cases req)
    case (RequestHeaders hs md)
    obtain resp ss' where h: "rl_on_request_headers show_uuid fmtv cfg repo hs ss = (resp, ss')" by fastforce
    with rl_on_request_headers_shape [OF h] RequestHeaders show ?thesis
      by (auto simp: rl_process_request_def answers_def)
  qed (use known in \<open>auto simp: rl_process_request_def answers_def rl_on_request_body_def buildBodyResponse_def
      known_request_def Let_def split: option.splits\<close>)
next
  show "\<not> known_request req \<Longrightarrow> rl_process_request show_uuid fmtv cfg repo req ss = (None, ss)" for req ss
    by (simp add: known_request_def rl_process_request_def)
qed

lemma lookup_reads:
  assumes "lookupRateLimitAllocation repo team model w = (r, w')"
  shows "db w' = db w"
  using assms GetAllocationsForTeamModel.reads_only
  by (fastforce simp: lookupRateLimitAllocation_def Let_def split: if_splits prod.splits sum.splits)

text \<open>An answer of this processor lets the request through, with both limits in the metadata of the headers.\<close>

definition lets_through :: "processing_response \<Rightarrow> bool" where
  "lets_through resp \<longleftrightarrow> (case resp of ImmediateResponse c h b d \<Rightarrow> False
     | RequestHeadersResponse m md \<Rightarrow> (case md of None \<Rightarrow> False
         | Some fs \<Rightarrow> map fst fs = [''token_rate_limit'', ''request_rate_limit''])
     | _ \<Rightarrow> True)"

lemma rl_process_request_lets_through:
  assumes "rl_process_request show_uuid fmtv cfg repo req ss = (r, ss')"
  shows "db (lmWorld ss') = db (lmWorld ss) \<and> (\<forall>x. r = Some x \<longrightarrow> lets_through x)"
proof (cases req)
  case (RequestHeaders hs md)
  then obtain resp where h: "rl_on_request_headers show_uuid fmtv cfg repo hs ss = (resp, ss')" and r: "r = Some resp"
    using assms by (cases "rl_on_request_headers show_uuid fmtv cfg repo hs ss") (auto simp: rl_process_request_def)
  have "db (lmWorld ss') = db (lmWorld ss)"
    using h lookup_reads
    by (fastforce simp: rl_on_request_headers_def uuid_New_def Let_def split: prod.splits if_splits)
  with rl_on_request_headers_shape [OF h] r show ?thesis by (auto simp: lets_through_def)
qed (use assms in \<open>auto simp: rl_process_request_def rl_on_request_body_def buildBodyResponse_def lets_through_def
    Let_def split: option.splits if_splits\<close>)


end
