(* ===== verification/Workflow_Witnesses.thy ===== *)
theory Workflow_Witnesses
  imports RateLimits Samples
begin

text \<open>
  The theorems on the two approval workflows and on the lookup of rate limits at concrete inputs: a team
  budget that is rejected for the third time, one that an organisation admin approves, and two allocations of a team.
\<close>

definition org_admin :: identity where
  "org_admin = \<lparr>idSubject = ''boss'', idEmail = ''boss@acme'', idOrgID = ''acme'', idTeamID = '''',
     idIsOrg = True, idIsTeamAdmin = False, idUserID = ''boss''\<rparr>"

definition waiting_world :: world where
  "waiting_world = sample_world (sample_tables
     [sample_budget 0 EntityTypeOrg ''acme'' 100 None 0 0,
      (sample_budget 1 EntityTypeTeam ''blue'' 10 (Some 0) 0 0)
        \<lparr>bApprovalStatus := ApprovalStatusPending, bRejectionCount := 2\<rparr>] []) []"

lemmas waiting_defs = sample_defs waiting_world_def org_admin_def

definition rejected_world :: world where
  "rejected_world = snd (handle_RejectBudget (Some 1) (Some org_admin) (Some ''no'') waiting_world)"

definition approved_world :: world where
  "approved_world = snd (handle_ApproveBudget (Some 1) (Some org_admin) waiting_world)"

lemma waiting_ok: "approvals_ok waiting_world" "world_ok waiting_world"
  by (simp_all add: approvals_ok_def world_ok_def tables_ok_def parent_exists_def rejections_ok_def waiting_defs)

lemma rejecting_step: "budget_step waiting_world rejected_world"
  unfolding rejected_world_def by (rule budget_step.reject) (rule prod.collapse [symmetric])

definition closed_row :: budget where
  "closed_row = (sample_budget 1 EntityTypeTeam ''blue'' 10 (Some 0) 0 0)
     \<lparr>bApprovalStatus := ApprovalStatusClosed, bRejectionCount := 3, bUpdatedAt := 1000 * Second\<rparr>"

lemma rejected_rows:
  "budget_definitions (db rejected_world) = [sample_budget 0 EntityTypeOrg ''acme'' 100 None 0 0, closed_row]"
  by code_simp



lemma approving_step: "budget_step waiting_world approved_world"
  unfolding approved_world_def by (rule budget_step.approve) (rule prod.collapse [symmetric])

lemma rejecting_twice: "handle_RejectBudget (Some 1) (Some org_admin) (Some ''no'') approved_world =
    (ErrorResponse 409 ''budget is not in pending status'', approved_world)"
  by code_simp

lemma approved_status: "budget_status approved_world 1 = Some ApprovalStatusApproved"
  by code_simp

lemma approved_ok: "approvals_ok approved_world"
  using budgets.run_inv [of waiting_world approved_world] approving_step waiting_ok(1) by blast



section \<open>Rate limits\<close>

definition sample_allocation :: "uuid \<Rightarrow> string \<Rightarrow> approval_status \<Rightarrow> allocation" where
  "sample_allocation i pattern st =
     \<lparr>raID = i, raOrgID = ''acme'', raTeamID = ''blue'', raModelPattern = pattern,
      raTokenLimit = Some 1000, raTokenUnit = Some ''MINUTE'', raRequestLimit = None, raRequestUnit = None,
      raBurstPercentage = 0, raEnforcement = EnforcementEnforced, raEnabled = True,
      raDisabledByUserID = None, raDisabledByEmail = None, raDisabledByIsOrg = False, raDisabledAt = None,
      raApprovalStatus = st, raApprovedBy = None, raApprovedAt = None, raCreatedByUserID = None,
      raCreatedByEmail = None, raDescription = None, raRejectionCount = 0, raVersion = 1, raCreatedAt = 0,
      raUpdatedAt = 0\<rparr>"

definition limits_world :: world where
  "limits_world = sample_world ((sample_tables [] [])\<lparr>rate_limit_allocations :=
     [sample_allocation 3 ''gpt*'' ApprovalStatusApproved, sample_allocation 4 ''gpt-4'' ApprovalStatusApproved,
      sample_allocation 5 ''o1'' ApprovalStatusPending]\<rparr>) []"

definition later_limits :: world where
  "later_limits = snd (RejectAllocation 5 limits_world)"

lemma limits_ok: "allocations_wf limits_world"
  by code_simp

lemma limits_step: "allocation_step\<^sup>*\<^sup>* limits_world later_limits"
  unfolding later_limits_def by (intro r_into_rtranclp allocation_step.reject) (rule prod.collapse [symmetric])

theorem approved_allocations_stay_witness:
  "allocation_status limits_world 3 = Some ApprovalStatusApproved \<and>
    (allocation_status later_limits 3 = Some ApprovalStatusApproved \<or> allocation_status later_limits 3 = None)"
proof -
  have st: "allocation_status limits_world 3 = Some ApprovalStatusApproved" by code_simp
  have i: "3 < uuids limits_world" by code_simp
  from st approved_allocations_stay [OF limits_ok limits_step i st] show ?thesis by (rule conjI)
qed


theorem pattern_covers_glob_witness: "pattern_covers ''gpt-4*'' ''gpt-4o'' = glob ''gpt-4*'' ''gpt-4o''"
proof -
  have "list_all plain_char ''gpt-4*''" by code_simp
  then show ?thesis by (rule pattern_covers_glob)
qed


end
