(* ===== verification/Stream_Witnesses.thy ===== *)
theory Stream_Witnesses
  imports Budget_Stream RateLimit_Stream Workflow_Witnesses
begin

text \<open>
  The theorems on the two external processors at concrete streams: a request of the sample system from its headers to
  the end of its response, one that is refused, and one whose limits are looked up.
\<close>

section \<open>Tokens\<close>

definition quoted :: "string \<Rightarrow> string" where
  "quoted s = map (\<lambda>c. if c = CHR ''!'' then CHR 0x22 else c) s"

definition sample_claims :: string where
  "sample_claims = quoted ''{!team_id!:!blue!}''"

theorem extractJWTClaims_token_witness:
  "extractJWTClaims (''BEARER '' @ base64url ''h'' @ ''.'' @ base64url sample_claims @ ''.'' @ base64url ''sig'') =
    Some [(''team_id'', DString ''blue'')]"
proof -
  have "ToLower ''BEARER '' = ''bearer ''" by code_simp
  from extractJWTClaims_token [OF this, of "''h''" sample_claims "''sig''"]
  have "extractJWTClaims (''BEARER '' @ base64url ''h'' @ ''.'' @ base64url sample_claims @ ''.'' @ base64url ''sig'') =
    unmarshal_map sample_claims" .
  moreover have "unmarshal_map sample_claims = Some [(''team_id'', DString ''blue'')]" by code_simp
  ultimately show ?thesis by (rule trans)
qed

section \<open>Usage\<close>

definition sample_payloads :: "string list" where
  "sample_payloads =
     [quoted ''{!type!:!message_start!,!message!:{!usage!:{!input_tokens!:12,!output_tokens!:1}}}'',
      quoted ''{!type!:!message_delta!,!usage!:{!output_tokens!:30}}'', ''[DONE]'']"

theorem parseTokenUsage_event_stream_witness:
  "parseTokenUsage (event_stream sample_payloads) = (12, 31)"
proof -
  have ok: "list_all payload_ok sample_payloads" by code_simp
  have ne: "sample_payloads \<noteq> []" by code_simp
  have "fold (\<lambda>p t. if p = ''[DONE]'' then t else sse_data p t) sample_payloads (0, 0) = (12, 31)" by code_simp
  with parseTokenUsage_event_stream [OF ok ne] show ?thesis by (rule trans)
qed

section \<open>A request\<close>

definition sample_header :: "string \<Rightarrow> string \<Rightarrow> header" where
  "sample_header k v = \<lparr>hKey = k, hValue = '''', hRawValue = v\<rparr>"

definition sample_headers :: "header list option" where
  "sample_headers = Some [sample_header '':path'' ''/v1/messages'', sample_header ''X-Request-Id'' ''r1'']"

definition sample_server :: "string budget_server" where
  "sample_server = \<lparr>bsService = sample_service, bsRequestStates = []\<rparr>"

definition show_nat :: "uuid \<Rightarrow> string" where
  "show_nat i = decimal_digits (int i)"

lemmas stream_defs = sample_defs sample_server_def open_stream_def

definition sample_stream :: "world \<Rightarrow> string stream_state" where
  "sample_stream w = open_stream sample_server w"

definition sample_events :: "stream_event list" where
  "sample_events = [Received ResponseHeaders True, Received (RequestBody ''hello'' True) True, response_chunk False ''wor'']"

lemma fresh_chargeable: "chargeable (fresh_world [])"
proof -
  have "list_all (\<lambda>b. budget_hierarchy (bID b) (db (fresh_world [])) \<noteq> None)
      (budget_definitions (db (fresh_world [])))" by code_simp
  then have "hierarchies_end (db (fresh_world []))" by (simp add: hierarchies_end_def list_all_iff)
  moreover have "tables_ok (db (fresh_world []))" "tx_db (fresh_world []) = db (fresh_world [])"
    by (simp_all add: tables_ok_def sample_defs parent_exists_def)
  ultimately show ?thesis by (simp add: chargeable_def world_ok_def fresh_usage_def) (simp add: sample_defs)
qed


definition broke_world :: world where
  "broke_world = sample_world (sample_tables (two_budgets 100 0) []) []"


theorem Process_transparent_witness:
  "\<exists>rs ss'. Process show_nat sample_env sample_config sample_events (sample_stream (fresh_world [])) =
      (rs, StreamEOF, ss') \<and> list_all2 answers (filter known_request (requests sample_events)) rs"
proof -
  let ?run = "Process show_nat sample_env sample_config sample_events (sample_stream (fresh_world []))"
  have "fst (snd ?run) = StreamEOF" by code_simp
  then obtain rs ss' where run: "?run = (rs, StreamEOF, ss')" by (metis prod.collapse)
  with Process_transparent [OF run] show ?thesis by blast
qed

lemma admitted_chargeable: "chargeable admitted_world"
proof -
  have "list_all (\<lambda>b. budget_hierarchy (bID b) (db admitted_world) \<noteq> None)
      (budget_definitions (db admitted_world))" by code_simp
  then have "hierarchies_end (db admitted_world)" by (simp add: hierarchies_end_def list_all_iff)
  moreover have "tables_ok (db admitted_world)" "tx_db admitted_world = db admitted_world"
    by (simp_all add: tables_ok_def sample_defs parent_exists_def)
  ultimately show ?thesis by (simp add: chargeable_def world_ok_def fresh_usage_def) (simp add: sample_defs)
qed

theorem DecrementBudgets_completes_witness:
  "\<exists>d s' w'. DecrementBudgets sample_config ''r1'' ''m'' 1000 2000 None sample_service admitted_world =
    (Inr d, s', w') \<and> unreserved ''r1'' (db w')"
  using admitted_chargeable
  by (intro DecrementBudgets_completes) (simp_all add: chargeable_def world_ok_def)

section \<open>Limits\<close>

theorem lookup_most_specific_witness:
  "governing token_value ''blue'' ''gpt-4'' (rate_limit_allocations (db limits_world))
    (Some \<lparr>rvRequestsPerUnit = 1000, rvUnit = ''MINUTE''\<rparr>)"
proof -
  have q: "faults limits_world = []" "''blue'' \<noteq> ''''" by code_simp+
  have "Option.bind (fst (lookupRateLimitAllocation True ''blue'' ''gpt-4'' limits_world)) rmTokenLimit =
      Some \<lparr>rvRequestsPerUnit = 1000, rvUnit = ''MINUTE''\<rparr>" by code_simp
  with lookup_most_specific [OF q, of "''gpt-4''"] show ?thesis by simp
qed

definition limits_stream :: rl_stream where
  "limits_stream = \<lparr>lmRequestID = '''', lmRequest = None, lmRequestStates = [], lmWorld = limits_world\<rparr>"


end
