(* ===== verification/Alerts.thy ===== *)
theory Alerts
  imports Budget_Check Approvals Go_Strings
begin

text \<open>
  The alerts: \<open>internal/db/alert_repository.go\<close>, \<open>internal/alert/service.go\<close> and
  \<open>internal/api/alert_handlers.go\<close>. The precision of the \<open>DECIMAL\<close> columns is not modelled.
\<close>

fun alert_type_string :: "alert_type \<Rightarrow> string" where
  "alert_type_string AlertTypeThresholdWarning = ''threshold_warning''"
| "alert_type_string AlertTypeBudgetExhausted = ''budget_exhausted''"
| "alert_type_string AlertTypeForecastOverrun = ''forecast_overrun''"
| "alert_type_string AlertTypeForecastExhaustion = ''forecast_exhaustion''"

fun alert_status_string :: "alert_status \<Rightarrow> string" where
  "alert_status_string AlertStatusActive = ''active''"
| "alert_status_string AlertStatusResolved = ''resolved''"
| "alert_status_string AlertStatusDismissed = ''dismissed''"

section \<open>The repository\<close>

definition alert_key :: "budget_alert \<Rightarrow> uuid \<times> alert_type \<times> time" where
  "alert_key a = (alBudgetID a, alAlertType a, alPeriodStart a)"

text \<open>\<open>ON CONFLICT DO NOTHING\<close> on the unique index; the budget is a foreign key.\<close>

definition insert_alert :: "budget_alert \<Rightarrow> unit statement" where
  "insert_alert a now t =
     (if alert_key a \<in> set (map alert_key (budget_alerts t)) then Some ((), t)
      else if alBudgetID a \<notin> set (map bID (budget_definitions t)) \<or> alID a \<in> set (map alID (budget_alerts t))
      then None
      else Some ((), t\<lparr>budget_alerts := budget_alerts t @ [a]\<rparr>))"

definition InsertAlertIfNotExists :: "budget_alert \<Rightarrow> unit op" where
  "InsertAlertIfNotExists a = bind_op uuid_op (\<lambda>i. sql_exec ''insert alert if not exists''
     (\<lambda>now. insert_alert (a\<lparr>alID := i, alStatus := AlertStatusActive, alCreatedAt := now, alUpdatedAt := now,
        alDismissedByUserID := None, alDismissedAt := None, alResolvedAt := None\<rparr>) now))"

record alert_filter =
  lfStatus :: string
  lfAlertType :: string
  lfBudgetID :: "uuid option"
  lfIsOrgAdmin :: bool
  lfCallerOrgID :: string
  lfCallerTeamID :: string
  lfPage :: int
  lfPageSize :: int

text \<open>The owners of a budget against those of the caller; \<open>NULL\<close> equals nothing.\<close>

definition owned_by :: "string \<Rightarrow> string \<Rightarrow> budget \<Rightarrow> bool" where
  "owned_by orgID teamID b \<longleftrightarrow> bOwnerOrgID b = Some orgID \<and> bOwnerTeamID b = Some teamID"

definition alert_listed :: "alert_filter \<Rightarrow> budget_alert \<times> budget \<Rightarrow> bool" where
  "alert_listed f ab = (case ab of (a, b) \<Rightarrow>
     (lfStatus f = '''' \<or> lfStatus f = ''all'' \<or> alert_status_string (alStatus a) = lfStatus f) \<and>
     (lfAlertType f = '''' \<or> alert_type_string (alAlertType a) = lfAlertType f) \<and>
     (case lfBudgetID f of None \<Rightarrow> True | Some i \<Rightarrow> alBudgetID a = i) \<and>
     (lfIsOrgAdmin f \<or> owned_by (lfCallerOrgID f) (lfCallerTeamID f) b))"

text \<open>\<open>JOIN budget_definitions b ON b.id = a.budget_id\<close>.\<close>

definition alert_join :: "tables \<Rightarrow> (budget_alert \<times> budget) list" where
  "alert_join t = concat (map (\<lambda>a. map (Pair a) (filter (\<lambda>b. bID b = alBudgetID a) (budget_definitions t)))
     (budget_alerts t))"

definition ListAlerts :: "alert_filter \<Rightarrow> ((budget_alert \<times> budget) list \<times> nat) op" where
  "ListAlerts f =
     (let page = (if lfPage f < 1 then 1 else lfPage f);
          pageSize = (if lfPageSize f < 1 \<or> lfPageSize f > 100 then 20 else lfPageSize f);
          offset = go_int64 ((page - 1) * pageSize)
      in bind_op (sql_row ''count alerts'' (\<lambda>now t. Some (count_where (alert_listed f) (alert_join t))))
        (\<lambda>n. bind_op (if offset < 0 then sql_reject ''list alerts''
            else sql_rows True ''list alerts'' (\<lambda>now t. page_rows offset pageSize
              (order_by_desc (\<lambda>(a, b). alCreatedAt a) (filter (alert_listed f) (alert_join t)))))
          (\<lambda>rows. return_op (rows, n))))"

definition active_alert :: "budget_alert \<Rightarrow> bool" where
  "active_alert a \<longleftrightarrow> alStatus a = AlertStatusActive"

definition owned_alert :: "tables \<Rightarrow> string \<Rightarrow> string \<Rightarrow> budget_alert \<Rightarrow> bool" where
  "owned_alert t orgID teamID a \<longleftrightarrow>
     list_ex (\<lambda>b. bID b = alBudgetID a \<and> owned_by orgID teamID b) (budget_definitions t)"

definition CountActiveAlerts :: "bool \<Rightarrow> string \<Rightarrow> string \<Rightarrow> nat op" where
  "CountActiveAlerts isOrgAdmin orgID teamID = sql_row ''count active alerts''
     (\<lambda>now t. Some (count_where (\<lambda>a. active_alert a \<and> (isOrgAdmin \<or> owned_alert t orgID teamID a))
        (budget_alerts t)))"

definition update_alerts ::
  "(tables \<Rightarrow> budget_alert \<Rightarrow> bool) \<Rightarrow> (time \<Rightarrow> budget_alert \<Rightarrow> budget_alert) \<Rightarrow> nat statement" where
  "update_alerts p f now t = Some (count_where (p t) (budget_alerts t),
     t\<lparr>budget_alerts := update_where (p t) (\<lambda>a. (f now a)\<lparr>alUpdatedAt := now\<rparr>) (budget_alerts t)\<rparr>)"

definition dismissed :: "string \<Rightarrow> time \<Rightarrow> budget_alert \<Rightarrow> budget_alert" where
  "dismissed userID now a = a\<lparr>alStatus := AlertStatusDismissed, alDismissedByUserID := Some userID,
     alDismissedAt := Some now\<rparr>"

definition resolved :: "time \<Rightarrow> budget_alert \<Rightarrow> budget_alert" where
  "resolved now a = a\<lparr>alStatus := AlertStatusResolved, alResolvedAt := Some now\<rparr>"

definition DismissAlert :: "uuid \<Rightarrow> string \<Rightarrow> unit op" where
  "DismissAlert i userID = affected_or ErrNotFound (sql_exec ''dismiss alert''
     (update_alerts (\<lambda>t a. alID a = i \<and> active_alert a) (dismissed userID)))"

definition DismissAllAlerts :: "bool \<Rightarrow> string \<Rightarrow> string \<Rightarrow> string \<Rightarrow> nat op" where
  "DismissAllAlerts isOrgAdmin orgID teamID userID = sql_exec ''dismiss all alerts''
     (update_alerts (\<lambda>t a. active_alert a \<and> (isOrgAdmin \<or> owned_alert t orgID teamID a)) (dismissed userID))"

definition ResolveAlertsForBudgets :: "uuid list \<Rightarrow> unit op" where
  "ResolveAlertsForBudgets budgetIDs = (if budgetIDs = [] then return_op ()
     else bind_op (sql_exec ''resolve alerts for budgets''
         (update_alerts (\<lambda>t a. alBudgetID a \<in> set budgetIDs \<and> active_alert a) resolved))
       (\<lambda>_. return_op ()))"

definition GetActiveAlertsForBudget :: "uuid \<Rightarrow> (uuid \<times> alert_type \<times> time) list op" where
  "GetActiveAlertsForBudget i = sql_rows True ''get active alerts for budget''
     (\<lambda>now t. map (\<lambda>a. (alID a, alAlertType a, alPeriodStart a))
        (filter (\<lambda>a. alBudgetID a = i \<and> active_alert a) (budget_alerts t)))"

definition ResolveAlert :: "uuid \<Rightarrow> unit op" where
  "ResolveAlert i = affected_or ErrNotFound (sql_exec ''resolve alert''
     (update_alerts (\<lambda>t a. alID a = i \<and> active_alert a) resolved))"

section \<open>The service\<close>

definition evalThresholdWarning :: "usd \<Rightarrow> usd \<Rightarrow> int \<Rightarrow> bool" where
  "evalThresholdWarning usageUSD budgetUSD thresholdPct \<longleftrightarrow>
     (if budgetUSD \<le> 0 then False else usageUSD / budgetUSD \<ge> of_int thresholdPct / 100)"

definition evalBudgetExhausted :: "usd \<Rightarrow> usd \<Rightarrow> bool" where
  "evalBudgetExhausted usageUSD budgetUSD \<longleftrightarrow> (if budgetUSD \<le> 0 then False else usageUSD \<ge> budgetUSD)"

definition computeAlertForecast ::
  "usd \<Rightarrow> usd \<Rightarrow> time \<Rightarrow> time \<Rightarrow> usd \<Rightarrow> time \<Rightarrow> usd \<times> rat" where
  "computeAlertForecast currentUsage budgetAmount periodStart periodEnd periodUsage now =
     (let elapsedHours = Hours (time_sub now periodStart) in
      if elapsedHours \<le> 0 \<or> periodUsage \<le> 0 then (currentUsage, -1)
      else
        (let burnRatePerDay = periodUsage / elapsedHours * 24;
             remainingDays = max 0 (Hours (time_sub periodEnd now) / 24);
             projectedSpend = currentUsage + burnRatePerDay * remainingDays;
             remainingBudget = budgetAmount - currentUsage
         in if projectedSpend \<le> budgetAmount then (projectedSpend, -1)
            else if remainingBudget \<le> 0 then (projectedSpend, 0)
            else (projectedSpend, remainingBudget / burnRatePerDay)))"

definition evalForecastExhaustion :: "rat \<Rightarrow> rat \<Rightarrow> bool" where
  "evalForecastExhaustion daysUntilExhausted thresholdDays \<longleftrightarrow>
     daysUntilExhausted \<ge> 0 \<and> daysUntilExhausted < thresholdDays"

text \<open>The alert of one kind for a budget, as it is handed to the repository.\<close>

definition new_alert :: "budget \<Rightarrow> alert_type \<Rightarrow> int option \<Rightarrow> usd option \<Rightarrow> rat option \<Rightarrow> budget_alert" where
  "new_alert b ty pct projected days =
     \<lparr>alID = 0, alBudgetID = bID b, alAlertType = ty, alStatus = AlertStatusActive,
      alTriggeredUsageUSD = bCurrentUsageUSD b, alBudgetAmountUSD = bBudgetAmountUSD b, alThresholdPct = pct,
      alProjectedSpendUSD = projected, alDaysUntilExhausted = days, alDismissedByUserID = None,
      alDismissedAt = None, alResolvedAt = None, alPeriodStart = bCurrentPeriodStart b,
      alCreatedAt = zero_time, alUpdatedAt = zero_time\<rparr>"

text \<open>The alerts of the conditions that hold, in the order in which they are inserted.\<close>

definition fired_alerts :: "config \<Rightarrow> budget \<Rightarrow> usd \<Rightarrow> time \<Rightarrow> budget_alert list" where
  "fired_alerts cfg b periodUsage now =
     (case computeAlertForecast (bCurrentUsageUSD b) (bBudgetAmountUSD b) (bCurrentPeriodStart b)
         (NextPeriodStart b) periodUsage now of (projected, daysUntil) \<Rightarrow>
        (if evalThresholdWarning (bCurrentUsageUSD b) (bBudgetAmountUSD b) (bWarningThresholdPct b)
         then [new_alert b AlertTypeThresholdWarning (Some (bWarningThresholdPct b)) None None] else []) @
        (if evalBudgetExhausted (bCurrentUsageUSD b) (bBudgetAmountUSD b)
         then [new_alert b AlertTypeBudgetExhausted None None None] else []) @
        (if projected > bBudgetAmountUSD b
         then [new_alert b AlertTypeForecastOverrun None (Some projected) None] else []) @
        (if evalForecastExhaustion daysUntil (cfgForecastAlertDaysThreshold cfg)
         then [new_alert b AlertTypeForecastExhaustion None (Some projected) (Some daysUntil)] else []))"

text \<open>A failed insert is logged only.\<close>

fun insert_each :: "budget_alert list \<Rightarrow> unit op" where
  "insert_each [] = return_op ()"
| "insert_each (a # as) = try_op (InsertAlertIfNotExists a) (\<lambda>_. insert_each as)"

definition checkBudget :: "config \<Rightarrow> budget \<Rightarrow> time \<Rightarrow> unit op" where
  "checkBudget cfg b now = bind_op (GetCurrentPeriodUsage (bID b) (bCurrentPeriodStart b))
     (\<lambda>periodUsage. insert_each (fired_alerts cfg b periodUsage now))"

fun check_each :: "config \<Rightarrow> time \<Rightarrow> budget list \<Rightarrow> unit op" where
  "check_each cfg now [] = return_op ()"
| "check_each cfg now (b # bs) = try_op (checkBudget cfg b now) (\<lambda>_. check_each cfg now bs)"

definition CheckAndUpdateAlerts :: "config \<Rightarrow> unit op" where
  "CheckAndUpdateAlerts cfg = bind_op GetEnabledBudgets (\<lambda>budgets. bind_op now_op (\<lambda>now. check_each cfg now budgets))"

section \<open>The handlers\<close>

definition caller_user :: "identity option \<Rightarrow> string" where
  "caller_user ident = (case ident of None \<Rightarrow> ''''
     | Some who \<Rightarrow> if idUserID who = '''' then idEmail who else idUserID who)"

definition caller_scope :: "identity option \<Rightarrow> bool \<times> string \<times> string" where
  "caller_scope ident = (case ident of None \<Rightarrow> (False, '''', '''')
     | Some who \<Rightarrow> (idIsOrg who, idOrgID who, idTeamID who))"

text \<open>\<open>budget_id\<close>: absent, not a UUID, or one. An unparsable number is the zero of \<open>Atoi\<close>.\<close>

datatype id_param = NoID | BadID | ID uuid

definition atoi_or_0 :: "string \<Rightarrow> int" where
  "atoi_or_0 s = (case Atoi s of None \<Rightarrow> 0 | Some n \<Rightarrow> n)"

definition handle_ListAlerts ::
  "string \<Rightarrow> string \<Rightarrow> string \<Rightarrow> string \<Rightarrow> id_param \<Rightarrow> identity option
    \<Rightarrow> ((budget_alert \<times> budget) list \<times> nat \<times> int \<times> int) handler" where
  "handle_ListAlerts pageStr pageSizeStr statusStr alertType budgetID ident w =
     (let page = (if atoi_or_0 pageStr < 1 then 1 else atoi_or_0 pageStr);
          pageSize = (if atoi_or_0 pageSizeStr < 1 then 20 else atoi_or_0 pageSizeStr);
          status = (if statusStr = '''' then ''active'' else statusStr)
      in case budgetID of BadID \<Rightarrow> (ErrorResponse 400 ''invalid budget_id'', w)
       | _ \<Rightarrow> (case caller_scope ident of (isOrgAdmin, orgID, teamID) \<Rightarrow>
           (case ListAlerts \<lparr>lfStatus = status, lfAlertType = alertType,
               lfBudgetID = (case budgetID of ID i \<Rightarrow> Some i | _ \<Rightarrow> None), lfIsOrgAdmin = isOrgAdmin,
               lfCallerOrgID = orgID, lfCallerTeamID = teamID, lfPage = page, lfPageSize = pageSize\<rparr> w of
              (Inl e, w1) \<Rightarrow> (ErrorResponse 500 ''failed to list alerts'', w1)
            | (Inr (rows, n), w1) \<Rightarrow> (Response 200 (rows, n, page, pageSize), w1))))"

definition handle_CountAlerts :: "identity option \<Rightarrow> nat handler" where
  "handle_CountAlerts ident w = (case caller_scope ident of (isOrgAdmin, orgID, teamID) \<Rightarrow>
     (case CountActiveAlerts isOrgAdmin orgID teamID w of
        (Inl e, w1) \<Rightarrow> (ErrorResponse 500 ''failed to count alerts'', w1)
      | (Inr n, w1) \<Rightarrow> (Response 200 n, w1)))"

definition handle_DismissAlert :: "uuid option \<Rightarrow> identity option \<Rightarrow> unit handler" where
  "handle_DismissAlert alert_id ident w = (case alert_id of
     None \<Rightarrow> (ErrorResponse 400 ''invalid alert id'', w)
   | Some i \<Rightarrow> (case DismissAlert i (caller_user ident) w of
       (Inl ErrNotFound, w1) \<Rightarrow> (ErrorResponse 404 ''alert not found or already resolved'', w1)
     | (Inl e, w1) \<Rightarrow> (ErrorResponse 500 ''failed to dismiss alert'', w1)
     | (Inr _, w1) \<Rightarrow> (Response 204 (), w1)))"

definition handle_DismissAllAlerts :: "identity option \<Rightarrow> nat handler" where
  "handle_DismissAllAlerts ident w = (case caller_scope ident of (isOrgAdmin, orgID, teamID) \<Rightarrow>
     (case DismissAllAlerts isOrgAdmin orgID teamID (caller_user ident) w of
        (Inl e, w1) \<Rightarrow> (ErrorResponse 500 ''failed to dismiss alerts'', w1)
      | (Inr n, w1) \<Rightarrow> (Response 200 n, w1)))"

end
