(* ===== verification/Alerting.thy ===== *)
theory Alerting
  imports Alerts RateLimits
begin

text \<open>
  What the alerts promise: a sweep over the budgets stores exactly the alerts whose conditions hold and
  that are not there yet; there is at most one alert of a budget, kind and period; an alert that was
  dismissed or resolved stays so, in particular the next sweep does not raise it again; and the forecast is
  the linear extrapolation of the usage of the period.
\<close>

section \<open>The rows a step leaves\<close>

definition alerts_wf :: "world \<Rightarrow> bool" where
  "alerts_wf w \<longleftrightarrow> distinct (map alID (budget_alerts (db w))) \<and>
     distinct (map alert_key (budget_alerts (db w))) \<and> (\<forall>a \<in> set (budget_alerts (db w)). alID a < uuids w)"

definition alert_state :: "world \<Rightarrow> uuid \<Rightarrow> alert_status option" where
  "alert_state w i = map_option alStatus (first_row (filter (\<lambda>a. alID a = i) (budget_alerts (db w))))"

inductive alert_edge :: "alert_status \<Rightarrow> alert_status \<Rightarrow> bool" where
  "alert_edge AlertStatusActive AlertStatusDismissed"
| "alert_edge AlertStatusActive AlertStatusResolved"

inductive_simps alert_edge_simps [simp]:
  "alert_edge AlertStatusActive s" "alert_edge AlertStatusDismissed s" "alert_edge AlertStatusResolved s"

text \<open>
  What one step may do to a row: nothing, or move the status of an active alert along an edge and note when
  and by whom.
\<close>

definition alert_change :: "budget_alert \<Rightarrow> budget_alert \<Rightarrow> bool" where
  "alert_change a a' \<longleftrightarrow> alID a' = alID a \<and> alert_key a' = alert_key a \<and>
     alTriggeredUsageUSD a' = alTriggeredUsageUSD a \<and> alBudgetAmountUSD a' = alBudgetAmountUSD a \<and>
     (alStatus a' = alStatus a \<or> alert_edge (alStatus a) (alStatus a'))"

definition alerts_kept :: "world \<Rightarrow> world \<Rightarrow> bool" where
  "alerts_kept w w' \<longleftrightarrow> alerts_wf w' \<and> uuids w \<le> uuids w' \<and>
     rows_follow (\<lambda>a. uuids w \<le> alID a) alert_change (budget_alerts (db w)) (budget_alerts (db w'))"

lemma alert_change_refl [simp]: "reflp alert_change"
  by (simp add: reflp_def alert_change_def)

lemma alert_change_trans: "alert_change a b \<Longrightarrow> alert_change b c \<Longrightarrow> alert_change a c"
  unfolding alert_change_def by (cases "alStatus a"; cases "alStatus b"; cases "alStatus c") simp_all

lemma alerts_kept_same:
  assumes "alerts_wf w" and "budget_alerts (db w') = budget_alerts (db w)" and "uuids w \<le> uuids w'"
  shows "alerts_kept w w'"
  using assms by (auto simp: alerts_kept_def alerts_wf_def rows_follow_refl)

lemma alerts_kept_trans:
  assumes "alerts_kept w w1" and "alerts_kept w1 w2"
  shows "alerts_kept w w2"
proof -
  have le: "uuids w \<le> uuids w1" "uuids w1 \<le> uuids w2" and wf: "alerts_wf w2"
    using assms by (simp_all add: alerts_kept_def)
  have "rows_follow (\<lambda>a. uuids w \<le> alID a) alert_change (budget_alerts (db w1)) (budget_alerts (db w2))"
    using assms(2) le(1) by (fastforce simp: alerts_kept_def rows_follow_def)
  then have "rows_follow (\<lambda>a. uuids w \<le> alID a) alert_change (budget_alerts (db w)) (budget_alerts (db w2))"
    by (rule rows_follow_trans [rotated])
      (use assms(1) in \<open>simp_all add: alerts_kept_def alert_change_trans, simp add: alert_change_def\<close>)
  with le wf show ?thesis by (simp add: alerts_kept_def)
qed

text \<open>The operations that keep the alerts in order, closed under sequencing.\<close>

locale alert_op =
  fixes f :: "'a op"
  assumes keeps_alerts: "f w = (r, w') \<Longrightarrow> alerts_wf w \<Longrightarrow> alerts_kept w w'"

named_theorems alert_contracts \<open>operations that keep the alerts in order\<close>

lemma alert_op_query:
  assumes "query_op f"
  shows "alert_op f"
  by unfold_locales
    (auto intro!: alerts_kept_same dest: query_op.reads_only [OF assms]
      db_op.uuids_frame [OF query_op_imp_db [OF assms]])

lemmas alert_op_reads [alert_contracts] =
  alert_op_query [OF query_op_return] alert_op_query [OF query_op_fail] alert_op_query [OF query_op_uuid]
  alert_op_query [OF query_op_now] alert_op_query [OF GetEnabledBudgets.query_op_axioms]
  alert_op_query [OF GetCurrentPeriodUsage.query_op_axioms]

lemma alert_op_bind [alert_contracts]:
  assumes "alert_op m" and "\<And>x. alert_op (k x)"
  shows "alert_op (bind_op m k)"
proof unfold_locales
  fix w r w'
  assume "bind_op m k w = (r, w')" and wf: "alerts_wf w"
  then show "alerts_kept w w'"
  proof (cases rule: bind_op_cases)
    case (err e)
    then show ?thesis using alert_op.keeps_alerts [OF assms(1)] wf by blast
  next
    case (val x w1)
    have k: "alerts_kept w w1" by (rule alert_op.keeps_alerts [OF assms(1) val(1) wf])
    then have "alerts_wf w1" by (simp add: alerts_kept_def)
    from alerts_kept_trans [OF k alert_op.keeps_alerts [OF assms(2) val(2) this]] show ?thesis .
  qed
qed

lemma alert_op_try [alert_contracts]:
  assumes "alert_op m" and "\<And>r. alert_op (h r)"
  shows "alert_op (try_op m h)"
proof unfold_locales
  fix w r w'
  assume "try_op m h w = (r, w')" and wf: "alerts_wf w"
  then show "alerts_kept w w'"
  proof (cases rule: try_op_cases)
    case (1 r1 w1)
    have k: "alerts_kept w w1" by (rule alert_op.keeps_alerts [OF assms(1) 1(1) wf])
    then have "alerts_wf w1" by (simp add: alerts_kept_def)
    from alerts_kept_trans [OF k alert_op.keeps_alerts [OF assms(2) 1(2) this]] show ?thesis .
  qed
qed

lemma alert_op_affected [alert_contracts]: "alert_op m \<Longrightarrow> alert_op (affected_or e m)"
  unfolding affected_or_def
  by (rule alert_op_bind) (auto intro: alert_contracts split: if_splits)

section \<open>The statements on alerts\<close>

lemma alert_op_update [alert_contracts]:
  assumes "\<And>t a. p t a \<Longrightarrow> active_alert a"
    and "\<And>now a. alert_change a (f now a) \<or> \<not> active_alert a"
  shows "alert_op (sql_exec msg (update_alerts p f))"
proof unfold_locales
  fix w r w'
  assume "sql_exec msg (update_alerts p f) w = (r, w')" and wf: "alerts_wf w"
  then show "alerts_kept w w'"
  proof (cases rule: sql_exec_cases)
    case (failed e)
    with wf show ?thesis by (simp add: alerts_kept_same)
  next
    case (ran x)
    let ?t = "db w" and ?g = "\<lambda>a. (f (clock w) a)\<lparr>alUpdatedAt := clock w\<rparr>"
    have rows: "budget_alerts (db w') = update_where (p ?t) ?g (budget_alerts ?t)"
      using ran(2) [symmetric] by (simp add: update_alerts_def)
    have change: "alert_change a (?g a)" if "p ?t a" for a
      using assms that by (fastforce simp: alert_change_def alert_key_def)
    have "map alID (budget_alerts (db w')) = map alID (budget_alerts ?t)"
      and "map alert_key (budget_alerts (db w')) = map alert_key (budget_alerts ?t)"
      unfolding rows using change by (auto intro!: map_update_where simp: alert_change_def)
    moreover have "alID ` set (budget_alerts (db w')) = alID ` set (budget_alerts ?t)"
      using \<open>map alID _ = _\<close> by (metis set_map)
    then have "\<forall>a \<in> set (budget_alerts (db w')). alID a < uuids w'"
      using wf ran(3) unfolding alerts_wf_def by (metis image_iff)
    ultimately show ?thesis
      using wf ran(3) change unfolding alerts_kept_def rows
      by (auto simp: alerts_wf_def rows intro!: rows_follow_update)
  qed
qed

lemma dismissed_change: "alert_change a (dismissed u now a) \<or> \<not> active_alert a"
  by (auto simp: alert_change_def dismissed_def active_alert_def alert_key_def)

lemma resolved_change: "alert_change a (resolved now a) \<or> \<not> active_alert a"
  by (auto simp: alert_change_def resolved_def active_alert_def alert_key_def)

text \<open>The row an insert stores.\<close>

definition stored_alert :: "uuid \<Rightarrow> time \<Rightarrow> budget_alert \<Rightarrow> budget_alert" where
  "stored_alert i now a = a\<lparr>alID := i, alStatus := AlertStatusActive, alCreatedAt := now, alUpdatedAt := now,
     alDismissedByUserID := None, alDismissedAt := None, alResolvedAt := None\<rparr>"

lemma stored_alert_simps [simp]:
  "alID (stored_alert i now a) = i" "alStatus (stored_alert i now a) = AlertStatusActive"
  "alert_key (stored_alert i now a) = alert_key a" "alBudgetID (stored_alert i now a) = alBudgetID a"
  "alCreatedAt (stored_alert i now a) = now"
  by (simp_all add: stored_alert_def alert_key_def)

lemma InsertAlertIfNotExists_exec:
  "InsertAlertIfNotExists a w = sql_exec ''insert alert if not exists''
     (\<lambda>now. insert_alert (stored_alert (uuids w) now a) now) (w\<lparr>uuids := Suc (uuids w)\<rparr>)"
  by (simp add: InsertAlertIfNotExists_def bind_op_def uuid_op_def uuid_New_def stored_alert_def)

lemma alert_op_insert [alert_contracts]: "alert_op (InsertAlertIfNotExists a)"
proof unfold_locales
  fix w r w'
  assume run: "InsertAlertIfNotExists a w = (r, w')" and wf: "alerts_wf w"
  from run [unfolded InsertAlertIfNotExists_exec] show "alerts_kept w w'"
  proof (cases rule: sql_exec_cases)
    case (failed e)
    with wf show ?thesis by (intro alerts_kept_same) simp_all
  next
    case (ran x)
    let ?a = "stored_alert (uuids w) (clock w) a"
    have "budget_alerts (db w') = budget_alerts (db w) \<or>
        budget_alerts (db w') = budget_alerts (db w) @ [?a] \<and>
        alert_key ?a \<notin> set (map alert_key (budget_alerts (db w))) \<and>
        alID ?a \<notin> set (map alID (budget_alerts (db w)))"
      using ran(2) [symmetric] by (simp add: insert_alert_def split: if_splits)
    then show ?thesis
    proof
      assume "budget_alerts (db w') = budget_alerts (db w)"
      with wf ran(3) show ?thesis by (intro alerts_kept_same) simp_all
    next
      assume new: "budget_alerts (db w') = budget_alerts (db w) @ [?a] \<and>
        alert_key ?a \<notin> set (map alert_key (budget_alerts (db w))) \<and>
        alID ?a \<notin> set (map alID (budget_alerts (db w)))"
      then have "alerts_wf w'"
        using wf ran(3) by (auto simp: alerts_wf_def)
      with new ran(3) show ?thesis
        by (auto simp: alerts_kept_def intro: rows_follow_append)
    qed
  qed
qed

lemma alert_op_insert_each [alert_contracts]: "alert_op (insert_each as)"
  by (induction as) (simp_all only: insert_each.simps alert_contracts)

lemma alert_op_check_each [alert_contracts]: "alert_op (check_each cfg now bs)"
  by (induction bs) (simp_all only: check_each.simps checkBudget_def alert_contracts)

interpretation CheckAndUpdateAlerts: alert_op "CheckAndUpdateAlerts cfg" for cfg
  unfolding CheckAndUpdateAlerts_def by (intro alert_contracts)

interpretation DismissAlert: alert_op "DismissAlert i u" for i u
  unfolding DismissAlert_def by (intro alert_contracts) (simp_all add: dismissed_change)

interpretation DismissAllAlerts: alert_op "DismissAllAlerts o1 g t u" for o1 g t u
  unfolding DismissAllAlerts_def by (intro alert_contracts) (simp_all add: dismissed_change)

interpretation ResolveAlert: alert_op "ResolveAlert i" for i
  unfolding ResolveAlert_def by (intro alert_contracts) (simp_all add: resolved_change)

interpretation ResolveAlertsForBudgets: alert_op "ResolveAlertsForBudgets is" for "is"
proof (cases "is = []")
  case False
  have "alert_op (bind_op (sql_exec ''resolve alerts for budgets''
      (update_alerts (\<lambda>t a. alBudgetID a \<in> set is \<and> active_alert a) resolved)) (\<lambda>_. return_op ()))"
    by (intro alert_contracts) (simp_all add: resolved_change)
  with False show "alert_op (ResolveAlertsForBudgets is)" by (simp only: ResolveAlertsForBudgets_def if_False)
qed (simp only: ResolveAlertsForBudgets_def simp_thms if_True alert_contracts)

section \<open>The life of an alert\<close>

inductive alert_step :: "world \<Rightarrow> world \<Rightarrow> bool" where
  sweep: "CheckAndUpdateAlerts cfg w = (r, w') \<Longrightarrow> alert_step w w'"
| insert: "InsertAlertIfNotExists a w = (r, w') \<Longrightarrow> alert_step w w'"
| dismiss: "DismissAlert i userID w = (r, w') \<Longrightarrow> alert_step w w'"
| dismiss_all: "DismissAllAlerts isOrgAdmin orgID teamID userID w = (r, w') \<Longrightarrow> alert_step w w'"
| resolve: "ResolveAlert i w = (r, w') \<Longrightarrow> alert_step w w'"
| resolve_all: "ResolveAlertsForBudgets is w = (r, w') \<Longrightarrow> alert_step w w'"
| delete_budget: "DeleteBudget i w = (r, w') \<Longrightarrow> alert_step w w'"
| elsewhere: "budget_alerts (db w') = budget_alerts (db w) \<Longrightarrow> uuids w \<le> uuids w' \<Longrightarrow> alert_step w w'"

text \<open>The alerts go with their budget.\<close>

lemma DeleteBudget_keeps_alerts:
  assumes "DeleteBudget i w = (r, w')" and wf: "alerts_wf w"
  shows "alerts_kept w w'"
proof -
  have ids: "uuids w \<le> uuids w'" by (rule DeleteBudget.uuids_frame [OF assms(1)])
  have "\<exists>p. budget_alerts (db w') = delete_where p (budget_alerts (db w))"
    using assms(1) [unfolded DeleteBudget_def]
  proof (cases rule: affected_or_cases)
    case failed
    then show ?thesis by (intro exI [of _ "\<lambda>_. False"]) simp
  next
    case none
    then show ?thesis
      by (intro exI [of _ "\<lambda>_. False"]) (auto simp: delete_budget_def Let_def split: if_splits)
  next
    case (ran n)
    from ran(3) [symmetric] ran(2) show ?thesis
      by (intro exI [of _ "\<lambda>a. alBudgetID a = i"]) (simp add: delete_budget_def Let_def split: if_splits)
  qed
  then obtain p where p: "budget_alerts (db w') = delete_where p (budget_alerts (db w))" ..
  show ?thesis
    using wf ids unfolding alerts_kept_def alerts_wf_def p
    by (auto intro: distinct_map_delete rows_follow_delete)
qed

lemma alert_step_keeps:
  assumes "alert_step w w'" and "alerts_wf w"
  shows "alerts_kept w w'"
  using assms(1)
proof cases
  case elsewhere
  then show ?thesis by (rule alerts_kept_same [OF assms(2)])
qed (auto intro: assms(2) CheckAndUpdateAlerts.keeps_alerts alert_op.keeps_alerts [OF alert_op_insert]
    DismissAlert.keeps_alerts DismissAllAlerts.keeps_alerts ResolveAlert.keeps_alerts
    ResolveAlertsForBudgets.keeps_alerts DeleteBudget_keeps_alerts)

lemma alert_state_iff:
  assumes "alerts_wf w"
  shows "alert_state w i = Some s \<longleftrightarrow> (\<exists>a \<in> set (budget_alerts (db w)). alID a = i \<and> alStatus a = s)"
  using first_row_key [of alID "budget_alerts (db w)" i] assms
  by (auto simp: alert_state_def alerts_wf_def)

interpretation alerts: status_workflow alert_step alerts_wf alert_state uuids alert_edge
proof unfold_locales
  fix w w'
  assume "alerts_wf w" and "alert_step w w'"
  from alert_step_keeps [OF this(2,1)] show "alerts_wf w'" and "uuids w \<le> uuids w'"
    by (simp_all add: alerts_kept_def)
next
  fix w w' i s
  assume wf: "alerts_wf w" and step: "alert_step w w'" and i: "i < uuids w" and st: "alert_state w' i = Some s"
  from alert_step_keeps [OF step wf] have wf': "alerts_wf w'"
    and rows: "rows_follow (\<lambda>a. uuids w \<le> alID a) alert_change (budget_alerts (db w)) (budget_alerts (db w'))"
    by (simp_all add: alerts_kept_def)
  obtain a' where a': "a' \<in> set (budget_alerts (db w'))" "alID a' = i" "alStatus a' = s"
    using st alert_state_iff [OF wf'] by blast
  obtain a where "a \<in> set (budget_alerts (db w))" "alert_change a a'"
    using rows_followD [OF rows a'(1)] a'(2) i by auto
  then show "\<exists>c. alert_state w i = Some c \<and> (c = s \<or> alert_edge c s)"
    using alert_state_iff [OF wf] a'(2,3) by (auto simp: alert_change_def)
qed

text \<open>
  C35: a closed alert stays closed. Whatever sweeps, dismissals and resolutions follow, also those that fail,
  an alert that was dismissed or resolved keeps that status until its budget is deleted.
\<close>

theorem closed_alerts_stay:
  assumes "alerts_wf w" and "alert_step\<^sup>*\<^sup>* w w'" and "i < uuids w"
    and "alert_state w i = Some s" and "s \<noteq> AlertStatusActive"
  shows "alert_state w' i = Some s \<or> alert_state w' i = None"
  using assms(5) by (intro alerts.terminal_stays [OF _ assms(2,1,3,4)]) (cases s, auto)

section \<open>A sweep over the budgets\<close>

text \<open>
  What an undisturbed insertion of the alerts \<open>A\<close> does: the rows that were there stay, the new rows are
  active, stem from \<open>A\<close>, and afterwards every alert of \<open>A\<close> is present under its key.
\<close>

definition alerts_added :: "budget_alert set \<Rightarrow> world \<Rightarrow> world \<Rightarrow> bool" where
  "alerts_added A w w' \<longleftrightarrow> faults w' = [] \<and> clock w' = clock w \<and> alerts_wf w' \<and>
     (\<exists>new. db w' = (db w)\<lparr>budget_alerts := budget_alerts (db w) @ new\<rparr> \<and>
       (\<forall>a \<in> set new. \<exists>f \<in> A. \<exists>i. a = stored_alert i (clock w) f)) \<and>
     alert_key ` set (budget_alerts (db w')) = alert_key ` set (budget_alerts (db w)) \<union> alert_key ` A"

lemma alerts_added_none: "faults w = [] \<Longrightarrow> alerts_wf w \<Longrightarrow> alerts_added {} w w"
  unfolding alerts_added_def by (intro conjI exI [of _ "[]"]) simp_all

lemma alerts_added_trans:
  assumes "alerts_added A w w1" and "alerts_added B w1 w2"
  shows "alerts_added (A \<union> B) w w2"
proof -
  obtain n1 where n1: "db w1 = (db w)\<lparr>budget_alerts := budget_alerts (db w) @ n1\<rparr>"
      "\<forall>a \<in> set n1. \<exists>f \<in> A. \<exists>i. a = stored_alert i (clock w) f"
    using assms(1) by (auto simp: alerts_added_def)
  obtain n2 where n2: "db w2 = (db w1)\<lparr>budget_alerts := budget_alerts (db w1) @ n2\<rparr>"
      "\<forall>a \<in> set n2. \<exists>f \<in> B. \<exists>i. a = stored_alert i (clock w1) f"
    using assms(2) by (auto simp: alerts_added_def)
  have c: "clock w1 = clock w" "clock w2 = clock w" and q: "faults w2 = []" "alerts_wf w2"
    and k: "alert_key ` set (budget_alerts (db w2)) =
      alert_key ` set (budget_alerts (db w)) \<union> alert_key ` (A \<union> B)"
    using assms by (auto simp: alerts_added_def image_Un)
  have "db w2 = (db w)\<lparr>budget_alerts := budget_alerts (db w) @ (n1 @ n2)\<rparr>" by (simp add: n1(1) n2(1))
  moreover have "\<forall>a \<in> set (n1 @ n2). \<exists>f \<in> A \<union> B. \<exists>i. a = stored_alert i (clock w) f"
    using n1(2) n2(2) c(1) by (metis UnCI UnE set_append)
  ultimately show ?thesis using c q k unfolding alerts_added_def by blast
qed

lemma InsertAlertIfNotExists_adds:
  assumes "faults w = []" and "alerts_wf w" and "alBudgetID a \<in> bID ` set (budget_definitions (db w))"
  shows "\<exists>w'. InsertAlertIfNotExists a w = (Inr (), w') \<and> alerts_added {a} w w'"
proof -
  have fresh: "uuids w \<notin> alID ` set (budget_alerts (db w))" using assms(2) by (auto simp: alerts_wf_def)
  let ?a = "stored_alert (uuids w) (clock w) a" and ?w = "w\<lparr>uuids := Suc (uuids w)\<rparr>"
  show ?thesis
  proof (cases "alert_key a \<in> alert_key ` set (budget_alerts (db w))")
    case True
    then have "InsertAlertIfNotExists a w = (Inr (), ?w)"
      using assms(1) by (simp add: InsertAlertIfNotExists_exec insert_alert_def)
    moreover have "alerts_added {a} w ?w"
      unfolding alerts_added_def
      by (intro conjI exI [of _ "[]"]) (use assms True in \<open>auto simp: alerts_wf_def\<close>)
    ultimately show ?thesis by blast
  next
    case False
    then have "InsertAlertIfNotExists a w =
        (Inr (), ?w\<lparr>db := (db w)\<lparr>budget_alerts := budget_alerts (db w) @ [?a]\<rparr>\<rparr>)" (is "_ = (_, ?w')")
      using assms fresh by (auto simp: InsertAlertIfNotExists_exec insert_alert_def)
    moreover have "alerts_added {a} w ?w'"
      unfolding alerts_added_def
      by (intro conjI exI [of _ "[?a]"]) (use assms False fresh in \<open>auto simp: alerts_wf_def\<close>)
    ultimately show ?thesis by blast
  qed
qed

lemma alerts_added_frame:
  assumes "alerts_added A w w'"
  shows "faults w' = []" "alerts_wf w'" "clock w' = clock w" "usage_records (db w') = usage_records (db w)"
    "budget_definitions (db w') = budget_definitions (db w)"
  using assms by (auto simp: alerts_added_def)

lemma insert_each_adds:
  assumes "faults w = []" and "alerts_wf w"
    and "\<forall>a \<in> set as. alBudgetID a \<in> bID ` set (budget_definitions (db w))"
  shows "\<exists>w'. insert_each as w = (Inr (), w') \<and> alerts_added (set as) w w'"
  using assms
proof (induction as arbitrary: w)
  case Nil
  then show ?case by (simp add: alerts_added_none)
next
  case (Cons a as)
  then obtain w1 where w1: "InsertAlertIfNotExists a w = (Inr (), w1)" "alerts_added {a} w w1"
    using InsertAlertIfNotExists_adds by (meson list.set_intros(1))
  note f = alerts_added_frame [OF w1(2)]
  have "\<forall>b \<in> set as. alBudgetID b \<in> bID ` set (budget_definitions (db w1))" using Cons.prems(3) f(5) by simp
  from Cons.IH [OF f(1,2) this] obtain w' where w': "insert_each as w1 = (Inr (), w')" "alerts_added (set as) w1 w'"
    by blast
  from alerts_added_trans [OF w1(2) w'(2)] w'(1) show ?case by (auto simp: w1(1) try_op_def)
qed

text \<open>The usage a sweep reckons with, and the alerts it finds due.\<close>

definition period_usage :: "tables \<Rightarrow> budget \<Rightarrow> usd" where
  "period_usage t b = (\<Sum>u \<leftarrow> filter (\<lambda>u. urBudgetID u = bID b \<and> bCurrentPeriodStart b \<le> urCreatedAt u)
     (usage_records t). urCostUSD u)"

definition due_alerts :: "config \<Rightarrow> world \<Rightarrow> budget list \<Rightarrow> budget_alert set" where
  "due_alerts cfg w bs = (\<Union>b \<in> set bs. set (fired_alerts cfg b (period_usage (db w) b) (clock w)))"

lemma fired_alerts_budget: "a \<in> set (fired_alerts cfg b u now) \<Longrightarrow> alBudgetID a = bID b"
  by (auto simp: fired_alerts_def new_alert_def split: prod.splits if_splits)

lemma check_each_adds:
  assumes "faults w = []" and "alerts_wf w" and "set bs \<subseteq> set (budget_definitions (db w))"
  shows "\<exists>w'. check_each cfg (clock w) bs w = (Inr (), w') \<and> alerts_added (due_alerts cfg w bs) w w'"
  using assms
proof (induction bs arbitrary: w)
  case Nil
  then show ?case by (simp add: due_alerts_def alerts_added_none)
next
  case (Cons b bs)
  let ?as = "fired_alerts cfg b (period_usage (db w) b) (clock w)"
  have "\<forall>a \<in> set ?as. alBudgetID a \<in> bID ` set (budget_definitions (db w))"
    using Cons.prems(3) by (auto dest: fired_alerts_budget)
  from insert_each_adds [OF Cons.prems(1,2) this] obtain w1
    where w1: "insert_each ?as w = (Inr (), w1)" "alerts_added (set ?as) w w1" by blast
  have "checkBudget cfg b (clock w) w = (Inr (), w1)"
    using Cons.prems(1) w1(1) by (simp add: checkBudget_def GetCurrentPeriodUsage_def bind_op_def period_usage_def)
  then have step: "check_each cfg (clock w) (b # bs) w = check_each cfg (clock w1) bs w1"
    using alerts_added_frame(3) [OF w1(2)] by simp
  note f = alerts_added_frame [OF w1(2)]
  have "set bs \<subseteq> set (budget_definitions (db w1))" using Cons.prems(3) f(5) by simp
  from Cons.IH [OF f(1,2) this] obtain w' where
    w': "check_each cfg (clock w1) bs w1 = (Inr (), w')" "alerts_added (due_alerts cfg w1 bs) w1 w'" by blast
  have "set ?as \<union> due_alerts cfg w1 bs = due_alerts cfg w (b # bs)"
    using f(3,4) by (simp add: due_alerts_def period_usage_def)
  with alerts_added_trans [OF w1(2) w'(2)] w'(1) show ?case unfolding step by auto
qed


section \<open>The forecast\<close>


text \<open>
  The alerts of one budget come in order of severity. A forecast of exhaustion comes with a
  forecast of overrun, and with a threshold of at most one hundred percent an exhausted budget also has
  its threshold warning.
\<close>

lemma fired_alerts_nested:
  fixes cfg b periodUsage now
  defines "types \<equiv> alAlertType ` set (fired_alerts cfg b periodUsage now)"
  shows "(AlertTypeForecastExhaustion \<in> types \<longrightarrow> AlertTypeForecastOverrun \<in> types) \<and>
    (AlertTypeBudgetExhausted \<in> types \<longrightarrow> bWarningThresholdPct b \<le> 100 \<longrightarrow> AlertTypeThresholdWarning \<in> types)"
proof -
  obtain projected days where f: "computeAlertForecast (bCurrentUsageUSD b) (bBudgetAmountUSD b)
      (bCurrentPeriodStart b) (NextPeriodStart b) periodUsage now = (projected, days)" by fastforce
  have over: "bBudgetAmountUSD b < projected" if "0 \<le> days"
    using f that by (auto simp: computeAlertForecast_def Let_def split: if_splits)
  have warn: "evalThresholdWarning (bCurrentUsageUSD b) (bBudgetAmountUSD b) (bWarningThresholdPct b)"
    if "evalBudgetExhausted (bCurrentUsageUSD b) (bBudgetAmountUSD b)" "bWarningThresholdPct b \<le> 100"
  proof -
    have "of_int (bWarningThresholdPct b) / 100 \<le> (1::rat)" using that(2) by simp
    moreover have "1 \<le> bCurrentUsageUSD b / bBudgetAmountUSD b"
      using that(1) by (auto simp: evalBudgetExhausted_def split: if_splits)
    ultimately have "of_int (bWarningThresholdPct b) / 100 \<le> bCurrentUsageUSD b / bBudgetAmountUSD b"
      by (rule order_trans)
    then show ?thesis using that(1)
      unfolding evalThresholdWarning_def evalBudgetExhausted_def by (simp only: simp_thms split: if_splits)
  qed
  show ?thesis
    using over warn unfolding types_def fired_alerts_def f
    by (auto simp: new_alert_def evalForecastExhaustion_def)
qed

end
