(* ===== verification/Alert_Witnesses.thy ===== *)
theory Alert_Witnesses
  imports Alerting Samples
begin

text \<open>
  The theorems on alerts at a concrete input: a budget of 10 of which 9 are spent, whose warning has been
  dismissed already.
\<close>

definition hot_budget :: budget where
  "hot_budget = sample_budget 0 EntityTypeTeam ''blue'' 10 None 9 0"

definition hot_usage :: usage_record where
  "hot_usage = \<lparr>urID = 5, urBudgetID = 0, urRequestID = ''r'', urModelID = ''m'', urInputTokens = 10,
     urOutputTokens = 10, urCostUSD = 9, urParentCharged = False, urCreatedAt = 500 * Second\<rparr>"

definition old_warning :: budget_alert where
  "old_warning = (stored_alert 6 0 (new_alert hot_budget AlertTypeThresholdWarning (Some 80) None None))
     \<lparr>alStatus := AlertStatusDismissed, alDismissedByUserID := Some ''ann'', alDismissedAt := Some 0\<rparr>"

definition hot_world :: world where
  "hot_world = sample_world ((sample_tables [hot_budget] [])\<lparr>usage_records := [hot_usage],
     budget_alerts := [old_warning]\<rparr>) []"

definition swept_world :: world where
  "swept_world = snd (CheckAndUpdateAlerts sample_config hot_world)"

lemmas hot_defs = hot_world_def hot_budget_def hot_usage_def old_warning_def stored_alert_def new_alert_def
  sample_defs

lemma hot_ok: "faults hot_world = []" "alerts_wf hot_world"
  by code_simp+


theorem closed_alerts_stay_witness:
  "alert_state swept_world 6 = Some AlertStatusDismissed"
proof -
  have "alert_step hot_world swept_world"
    unfolding swept_world_def by (rule alert_step.sweep) (rule prod.collapse [symmetric])
  then have run: "alert_step\<^sup>*\<^sup>* hot_world swept_world" by (rule r_into_rtranclp)
  have "alert_state hot_world 6 = Some AlertStatusDismissed" "6 < uuids hot_world"
    and "alert_state swept_world 6 \<noteq> None" by code_simp+
  with closed_alerts_stay [OF hot_ok(2) run] show ?thesis by fastforce
qed


end
