(* ===== verification/Budget_Api.thy ===== *)
theory Budget_Api
  imports RateLimit_Api Budget_Tree
begin

text \<open>
  \<open>internal/api/handlers.go\<close>, the management API of model costs and budgets, and
  \<open>internal/api/audit_handlers.go\<close>. A handler takes the decoded request (\<open>None\<close> when the body
  is no valid JSON of its type), the identity the middleware found and the world. \<open>quote\<close> is the rendering
  \<open>%q\<close> of a string, which needs the Unicode tables, \<open>md5\<close> the function of the database.
\<close>

section \<open>Who is asking\<close>

definition isRegularUser :: "identity option \<Rightarrow> bool" where
  "isRegularUser ident \<longleftrightarrow>
     (case ident of None \<Rightarrow> False | Some who \<Rightarrow> \<not> idIsOrg who \<and> \<not> idIsTeamAdmin who)"

text \<open>The two guards: \<open>Inl\<close> is the error response they have written.\<close>

definition requireOrgAdmin :: "identity option \<Rightarrow> (int \<times> string) + identity" where
  "requireOrgAdmin ident = (case ident of
     None \<Rightarrow> Inl (401, ''authentication required'')
   | Some who \<Rightarrow> if \<not> idIsOrg who then Inl (403, ''org admin access required'') else Inr who)"

definition requireAuthenticated :: "identity option \<Rightarrow> (int \<times> string) + identity" where
  "requireAuthenticated ident = (case ident of
     None \<Rightarrow> Inl (401, ''authentication required'') | Some who \<Rightarrow> Inr who)"

fun entityTypeName :: "entity_type \<Rightarrow> string" where
  "entityTypeName EntityTypeOrg = ''organization''"
| "entityTypeName EntityTypeTeam = ''team''"
| "entityTypeName EntityTypeUser = ''user''"
| "entityTypeName (EntityTypeOther s) = s"

definition canEnableBudget :: "budget \<Rightarrow> identity \<Rightarrow> bool" where
  "canEnableBudget b who =
     (if bEnabled b then True else if bDisabledByIsOrg b \<and> \<not> idIsOrg who then False else True)"

section \<open>JSON objects\<close>

definition modelCostToMap :: "model_cost \<Rightarrow> json_fields" where
  "modelCostToMap c =
     [(''id'', FUUID (mcID c)), (''model_id'', FString (mcModelID c)),
      (''provider'', FString (mcProvider c)),
      (''input_cost_per_million'', FUSD (mcInputCostPerMillion c)),
      (''output_cost_per_million'', FUSD (mcOutputCostPerMillion c)),
      (''effective_date'', FTime (mcEffectiveDate c)), (''created_at'', FTime (mcCreatedAt c)),
      (''updated_at'', FTime (mcUpdatedAt c))] @
     opt_field ''created_by_user_id'' FString (mcCreatedByUserID c) @
     opt_field ''created_by_email'' FString (mcCreatedByEmail c) @
     opt_field ''cache_read_cost_million'' FUSD (mcCacheReadCostMillion c) @
     opt_field ''cache_write_cost_million'' FUSD (mcCacheWriteCostMillion c) @
     opt_field ''model_pattern'' FString (mcModelPattern c)"

text \<open>A nil pointer is written as \<open>null\<close>.\<close>

definition pointer_field :: "uuid option \<Rightarrow> field_value" where
  "pointer_field p = (case p of None \<Rightarrow> FNull | Some i \<Rightarrow> FUUID i)"

definition budgetToMap :: "budget \<Rightarrow> json_fields" where
  "budgetToMap b =
     [(''id'', FUUID (bID b)), (''entity_type'', FEntity (bEntityType b)), (''name'', FString (bName b)),
      (''match_expression'', FString (bMatchExpression b)),
      (''budget_amount_usd'', FUSD (bBudgetAmountUSD b)), (''period'', FPeriod (bPeriod b)),
      (''warning_threshold_pct'', FInt (bWarningThresholdPct b)),
      (''parent_id'', pointer_field (bParentID b)), (''isolated'', FBool (bIsolated b)),
      (''allow_fallback'', FBool (bAllowFallback b)), (''enabled'', FBool (bEnabled b)),
      (''disabled_by_is_org'', FBool (bDisabledByIsOrg b)),
      (''current_period_start'', FTime (bCurrentPeriodStart b)),
      (''current_usage_usd'', FUSD (bCurrentUsageUSD b)),
      (''pending_usage_usd'', FUSD (bPendingUsageUSD b)),
      (''remaining_usd'', FUSD (CalculateRemaining b)), (''version'', FInt (bVersion b)),
      (''created_at'', FTime (bCreatedAt b)), (''updated_at'', FTime (bUpdatedAt b)),
      (''approval_status'', FStatus (bApprovalStatus b)),
      (''rejection_count'', FInt (bRejectionCount b))] @
     opt_field ''created_by_user_id'' FString (bCreatedByUserID b) @
     opt_field ''created_by_email'' FString (bCreatedByEmail b) @
     opt_field ''description'' FString (bDescription b) @
     opt_field ''custom_period_seconds'' FInt (bCustomPeriodSeconds b) @
     opt_field ''owner_org_id'' FString (bOwnerOrgID b) @
     opt_field ''owner_team_id'' FString (bOwnerTeamID b) @
     opt_field ''owner_user_id'' FString (bOwnerUserID b)"

text \<open>\<open>GetBudget\<close> writes an object of its own.\<close>

definition budget_details :: "budget \<Rightarrow> json_fields" where
  "budget_details b =
     [(''id'', FUUID (bID b)), (''entity_type'', FEntity (bEntityType b)), (''name'', FString (bName b)),
      (''match_expression'', FString (bMatchExpression b)),
      (''budget_amount_usd'', FUSD (bBudgetAmountUSD b)), (''period'', FPeriod (bPeriod b)),
      (''warning_threshold_pct'', FInt (bWarningThresholdPct b)),
      (''parent_id'', pointer_field (bParentID b)), (''isolated'', FBool (bIsolated b)),
      (''allow_fallback'', FBool (bAllowFallback b)), (''enabled'', FBool (bEnabled b)),
      (''disabled_by_is_org'', FBool (bDisabledByIsOrg b)),
      (''current_period_start'', FTime (bCurrentPeriodStart b)),
      (''current_usage_usd'', FUSD (bCurrentUsageUSD b)),
      (''pending_usage_usd'', FUSD (bPendingUsageUSD b)),
      (''remaining_usd'', FUSD (CalculateRemaining b)),
      (''next_period_start'', FTime (NextPeriodStart b)),
      (''description'', FString (null_string (bDescription b))), (''version'', FInt (bVersion b)),
      (''created_at'', FTime (bCreatedAt b)), (''updated_at'', FTime (bUpdatedAt b))] @
     opt_field ''owner_org_id'' FString (bOwnerOrgID b) @
     opt_field ''owner_team_id'' FString (bOwnerTeamID b) @
     opt_field ''owner_user_id'' FString (bOwnerUserID b)"

section \<open>Model costs\<close>

definition handle_ListModelCosts ::
  "pagination_params \<Rightarrow> string \<Rightarrow> string \<Rightarrow> string \<Rightarrow> identity option
    \<Rightarrow> (json_fields list \<times> pagination_meta) handler" where
  "handle_ListModelCosts params provider sort_by sort_dir ident w = (case requireAuthenticated ident of
     Inl (s, m) \<Rightarrow> (ErrorResponse s m, w)
   | Inr who \<Rightarrow>
     if isRegularUser ident then (ErrorResponse 403 ''access denied'', w)
     else
       (let sortBy = (if sort_by \<noteq> ''input_cost'' \<and> sort_by \<noteq> ''output_cost'' \<and> sort_by \<noteq> ''both''
                      then '''' else sort_by);
            sortDir = (if sort_dir \<noteq> ''asc'' \<and> sort_dir \<noteq> ''desc'' then ''asc'' else sort_dir)
        in case ListModelCostsPaginated \<lparr>mfProvider = provider, mfSortBy = sortBy, mfSortDir = sortDir\<rparr>
             (Offset params) (ppPageSize params) w of
           (Inl e, w1) \<Rightarrow> (ErrorResponse 500 ''failed to list model costs'', w1)
         | (Inr (costs, totalCount), w1) \<Rightarrow>
             (paginated (map modelCostToMap costs) params (int totalCount), w1)))"

definition handle_GetModelCostProviders :: "string list handler" where
  "handle_GetModelCostProviders w = (case ListDistinctProviders w of
     (Inl e, w1) \<Rightarrow> (ErrorResponse 500 ''failed to list providers'', w1)
   | (Inr providers, w1) \<Rightarrow> (Response 200 providers, w1))"

definition handle_GetModelCost :: "string \<Rightarrow> identity option \<Rightarrow> json_fields handler" where
  "handle_GetModelCost modelID ident w = (case requireAuthenticated ident of
     Inl (s, m) \<Rightarrow> (ErrorResponse s m, w)
   | Inr who \<Rightarrow>
     if isRegularUser ident then (ErrorResponse 403 ''access denied'', w)
     else (case GetModelCostByID modelID w of
       (Inl ErrNotFound, w1) \<Rightarrow> (ErrorResponse 404 ''model cost not found'', w1)
     | (Inl e, w1) \<Rightarrow> (ErrorResponse 500 ''failed to get model cost'', w1)
     | (Inr cost, w1) \<Rightarrow> (Response 200 (modelCostToMap cost), w1)))"

record model_cost_request =
  cmModelID :: string
  cmProvider :: string
  cmInputCostPerMillion :: usd
  cmOutputCostPerMillion :: usd
  cmCacheReadCostMillion :: "usd option"
  cmCacheWriteCostMillion :: "usd option"
  cmModelPattern :: "string option"

text \<open>
  The cache prices and the pattern of the request are read by neither handler, and an update does not set
  the effective date.
\<close>

definition requested_cost :: "string \<Rightarrow> model_cost_request \<Rightarrow> model_cost" where
  "requested_cost modelID req =
     \<lparr>mcID = 0, mcModelID = modelID, mcProvider = cmProvider req,
      mcInputCostPerMillion = cmInputCostPerMillion req,
      mcOutputCostPerMillion = cmOutputCostPerMillion req, mcCacheReadCostMillion = None,
      mcCacheWriteCostMillion = None, mcModelPattern = None, mcEffectiveDate = zero_time,
      mcCreatedByUserID = None, mcCreatedByEmail = None, mcCreatedAt = zero_time, mcUpdatedAt = zero_time\<rparr>"

definition handle_CreateModelCost ::
  "model_cost_request option \<Rightarrow> identity option \<Rightarrow> model_cost handler" where
  "handle_CreateModelCost body ident w = (case requireOrgAdmin ident of
     Inl (s, m) \<Rightarrow> (ErrorResponse s m, w)
   | Inr who \<Rightarrow>
     if isRegularUser (Some who) then (ErrorResponse 403 ''access denied'', w)
     else (case body of
       None \<Rightarrow> (ErrorResponse 400 ''invalid request body'', w)
     | Some req \<Rightarrow>
       if cmModelID req = '''' then (ErrorResponse 400 ''model_id is required'', w)
       else if cmProvider req = '''' then (ErrorResponse 400 ''provider is required'', w)
       else (case CreateModelCost ((requested_cost (cmModelID req) req)
               \<lparr>mcEffectiveDate := clock w, mcCreatedByUserID := nonempty_string (idSubject who),
                mcCreatedByEmail := nonempty_string (idEmail who)\<rparr>) w of
         (Inl e, w1) \<Rightarrow> (ErrorResponse 500 ''failed to create model cost'', w1)
       | (Inr mc, w1) \<Rightarrow>
           (Response 201 mc, LogAction ''model_cost'' (RefString (mcModelID mc)) ''created'' ident
              [(''model_id'', MetaString (mcModelID mc)), (''provider'', MetaString (mcProvider mc))] w1))))"

definition handle_UpdateModelCost ::
  "string \<Rightarrow> model_cost_request option \<Rightarrow> identity option \<Rightarrow> model_cost handler" where
  "handle_UpdateModelCost modelID body ident w = (case requireOrgAdmin ident of
     Inl (s, m) \<Rightarrow> (ErrorResponse s m, w)
   | Inr who \<Rightarrow>
     if isRegularUser (Some who) then (ErrorResponse 403 ''access denied'', w)
     else (case body of
       None \<Rightarrow> (ErrorResponse 400 ''invalid request body'', w)
     | Some req \<Rightarrow> (case UpdateModelCost (requested_cost modelID req) w of
         (Inl ErrNotFound, w1) \<Rightarrow> (ErrorResponse 404 ''model cost not found'', w1)
       | (Inl e, w1) \<Rightarrow> (ErrorResponse 500 ''failed to update model cost'', w1)
       | (Inr _, w1) \<Rightarrow>
           (Response 200 (requested_cost modelID req),
            LogAction ''model_cost'' (RefString modelID) ''updated'' ident
              [(''model_id'', MetaString modelID), (''provider'', MetaString (cmProvider req))] w1))))"

definition handle_DeleteModelCost :: "string \<Rightarrow> identity option \<Rightarrow> unit handler" where
  "handle_DeleteModelCost modelID ident w = (case requireOrgAdmin ident of
     Inl (s, m) \<Rightarrow> (ErrorResponse s m, w)
   | Inr who \<Rightarrow>
     if isRegularUser (Some who) then (ErrorResponse 403 ''access denied'', w)
     else (case DeleteModelCost modelID w of
       (Inl ErrNotFound, w1) \<Rightarrow> (ErrorResponse 404 ''model cost not found'', w1)
     | (Inl e, w1) \<Rightarrow> (ErrorResponse 500 ''failed to delete model cost'', w1)
     | (Inr _, w1) \<Rightarrow> (Response 204 (), LogAction ''model_cost'' (RefString modelID) ''deleted'' ident
           [(''model_id'', MetaString modelID)] w1)))"

section \<open>Reading budgets\<close>

text \<open>The filter for what the caller may see.\<close>

definition caller_filter :: "identity option \<Rightarrow> bool \<Rightarrow> budget_list_filter" where
  "caller_filter ident enabledOnly = (case ident of
     None \<Rightarrow> \<lparr>bfOrgID = '''', bfTeamID = '''', bfUserID = '''', bfIsOrg = False, bfIsTeamAdmin = False,
       bfEnabledOnly = enabledOnly\<rparr>
   | Some who \<Rightarrow> \<lparr>bfOrgID = idOrgID who, bfTeamID = idTeamID who,
       bfUserID = (if \<not> idIsOrg who \<and> \<not> idIsTeamAdmin who then idUserID who else ''''),
       bfIsOrg = idIsOrg who, bfIsTeamAdmin = idIsTeamAdmin who, bfEnabledOnly = enabledOnly\<rparr>)"

definition handle_ListBudgets ::
  "pagination_params \<Rightarrow> bool \<Rightarrow> identity option \<Rightarrow> (json_fields list \<times> pagination_meta) handler" where
  "handle_ListBudgets params enabled_only ident w =
     (case ListBudgetsPaginated (caller_filter ident enabled_only) (Offset params) (ppPageSize params) w of
        (Inl e, w1) \<Rightarrow> (ErrorResponse 500 ''failed to list budgets'', w1)
      | (Inr (budgets, totalCount), w1) \<Rightarrow> (paginated (map budgetToMap budgets) params (int totalCount), w1))"

definition handle_ListParentCandidates :: "identity option \<Rightarrow> (uuid \<times> string) list handler" where
  "handle_ListParentCandidates ident w =
     (if no_org ident then (Response 200 [], w)
      else (case ListParentCandidates (caller_org ident) w of
        (Inl e, w1) \<Rightarrow> (ErrorResponse 500 ''failed to list parent candidates'', w1)
      | (Inr candidates, w1) \<Rightarrow> (Response 200 candidates, w1)))"

definition handle_GetBudget :: "uuid option \<Rightarrow> json_fields handler" where
  "handle_GetBudget budget_id w = (case budget_id of
     None \<Rightarrow> (ErrorResponse 400 ''invalid budget ID'', w)
   | Some i \<Rightarrow> (case GetBudgetByID i w of
       (Inl ErrNotFound, w1) \<Rightarrow> (ErrorResponse 404 ''budget not found'', w1)
     | (Inl e, w1) \<Rightarrow> (ErrorResponse 500 ''failed to get budget'', w1)
     | (Inr b, w1) \<Rightarrow> (Response 200 (budget_details b), w1)))"

definition handle_GetBudgetUsage ::
  "uuid option \<Rightarrow> pagination_params \<Rightarrow> (usage_record list \<times> pagination_meta) handler" where
  "handle_GetBudgetUsage budget_id params w = (case budget_id of
     None \<Rightarrow> (ErrorResponse 400 ''invalid budget ID'', w)
   | Some i \<Rightarrow> (case GetUsageByBudgetIDPaginated i (Offset params) (ppPageSize params) w of
       (Inl e, w1) \<Rightarrow> (ErrorResponse 500 ''failed to get usage records'', w1)
     | (Inr (records, totalCount), w1) \<Rightarrow> (paginated records params (int totalCount), w1)))"

definition handle_GetBudgetChildren :: "uuid option \<Rightarrow> budget list handler" where
  "handle_GetBudgetChildren budget_id w = (case budget_id of
     None \<Rightarrow> (ErrorResponse 400 ''invalid budget ID'', w)
   | Some i \<Rightarrow> (case GetChildBudgets i w of
       (Inl e, w1) \<Rightarrow> (ErrorResponse 500 ''failed to get children'', w1)
     | (Inr children, w1) \<Rightarrow> (Response 200 children, w1)))"

section \<open>Creating a budget\<close>

text \<open>\<open>parent_id\<close>: absent, no UUID (\<open>Some None\<close>), or a UUID.\<close>

record budget_request =
  cbEntityType :: string
  cbName :: string
  cbMatchExpression :: string
  cbBudgetAmountUSD :: usd
  cbPeriod :: string
  cbCustomPeriodSeconds :: "int option"
  cbWarningThresholdPct :: "int option"
  cbParentID :: "uuid option option"
  cbIsolated :: "bool option"
  cbAllowFallback :: "bool option"
  cbEnabled :: "bool option"
  cbDescription :: "string option"
  cbVersion :: "int option"
  cbOwnerOrgID :: "string option"
  cbOwnerTeamID :: "string option"
  cbOwnerUserID :: "string option"

text \<open>The checks on the fields, in their order.\<close>

definition request_error :: "budget_request \<Rightarrow> identity option \<Rightarrow> (int \<times> string) option" where
  "request_error req ident =
     (if isRegularUser ident \<and> cbEntityType req \<noteq> ''user''
      then Some (403, ''regular users can only create user-type budgets'')
      else if cbEntityType req = '''' then Some (400, ''entity_type is required'')
      else if cbName req = '''' then Some (400, ''name is required'')
      else if cbMatchExpression req = '''' then Some (400, ''match_expression is required'')
      else if cbPeriod req = '''' then Some (400, ''period is required'')
      else if cbPeriod req = ''custom'' \<and>
          (case cbCustomPeriodSeconds req of None \<Rightarrow> True | Some n \<Rightarrow> n < 3600)
      then Some (400, ''custom_period_seconds must be at least 3600 (1 hour)'')
      else None)"

definition requested_budget :: "budget_request \<Rightarrow> budget" where
  "requested_budget req =
     \<lparr>bID = 0, bEntityType = entity_type_of_string (cbEntityType req), bName = cbName req,
      bMatchExpression = cbMatchExpression req, bBudgetAmountUSD = cbBudgetAmountUSD req,
      bPeriod = budget_period_of_string (cbPeriod req), bCustomPeriodSeconds = cbCustomPeriodSeconds req,
      bWarningThresholdPct = (case cbWarningThresholdPct req of Some n \<Rightarrow> n | None \<Rightarrow> 80),
      bParentID = None, bIsolated = False, bAllowFallback = False, bEnabled = True,
      bDisabledByUserID = None, bDisabledByEmail = None, bDisabledByIsOrg = False, bDisabledAt = None,
      bCurrentPeriodStart = zero_time, bCurrentUsageUSD = 0, bPendingUsageUSD = 0, bDescription = None,
      bOwnerOrgID = None, bOwnerTeamID = None, bOwnerUserID = None,
      bApprovalStatus = ApprovalStatusApproved, bCreatedByUserID = None, bCreatedByEmail = None,
      bRejectionCount = 0, bVersion = 0, bCreatedAt = zero_time, bUpdatedAt = zero_time\<rparr>"

text \<open>
  The parent and what the budget takes from it. \<open>Inl\<close> is the malformed identifier; a parent that
  cannot be read is treated as absent, its identifier stays.
\<close>

definition read_parent :: "uuid option option \<Rightarrow> world \<Rightarrow> (unit + (uuid option \<times> budget option)) \<times> world"
where
  "read_parent parent_id w = (case parent_id of
     None \<Rightarrow> (Inr (None, None), w)
   | Some None \<Rightarrow> (Inl (), w)
   | Some (Some p) \<Rightarrow> (case GetBudgetByID p w of
       (Inl e, w1) \<Rightarrow> (Inr (Some p, None), w1) | (Inr b, w1) \<Rightarrow> (Inr (Some p, Some b), w1)))"

definition inherit :: "uuid option \<Rightarrow> budget option \<Rightarrow> budget \<Rightarrow> budget" where
  "inherit parent_id parent b =
     (let b1 = b\<lparr>bParentID := parent_id\<rparr>;
          b2 = (case parent of None \<Rightarrow> b1
                | Some p \<Rightarrow> b1\<lparr>bIsolated := bIsolated p, bAllowFallback := bAllowFallback p\<rparr>)
      in case parent of
           None \<Rightarrow> b2
         | Some p \<Rightarrow> if bEntityType b2 = EntityTypeUser \<and> bOwnerTeamID p \<noteq> None
                     then b2\<lparr>bOwnerTeamID := bOwnerTeamID p\<rparr> else b2)"

text \<open>
  Isolation and fallback are taken from the request for an organisation's budget and from an organisation
  admin; otherwise they are ignored. \<open>UpdateBudget\<close> has the same code.
\<close>

definition may_set_flags :: "identity option \<Rightarrow> budget \<Rightarrow> bool" where
  "may_set_flags ident b \<longleftrightarrow> bEntityType b = EntityTypeOrg \<or> (case ident of None \<Rightarrow> False | Some who \<Rightarrow> idIsOrg who)"

definition set_flags :: "budget_request \<Rightarrow> identity option \<Rightarrow> budget \<Rightarrow> budget" where
  "set_flags req ident b =
     (let b1 = (case cbIsolated req of None \<Rightarrow> b
                | Some v \<Rightarrow> if may_set_flags ident b then b\<lparr>bIsolated := v\<rparr> else b)
      in case cbAllowFallback req of None \<Rightarrow> b1
         | Some v \<Rightarrow> if may_set_flags ident b1 then b1\<lparr>bAllowFallback := v\<rparr> else b1)"

definition exceeds_parent :: "budget \<Rightarrow> budget option \<Rightarrow> bool" where
  "exceeds_parent b parent \<longleftrightarrow>
     (case parent of None \<Rightarrow> False | Some p \<Rightarrow> \<not> bIsolated b \<and> bBudgetAmountUSD b > bBudgetAmountUSD p)"

definition exceeds_message :: "budget \<Rightarrow> budget option \<Rightarrow> string" where
  "exceeds_message b parent =
     ''team budget ($'' @ fixed 6 (bBudgetAmountUSD b) @ '') cannot exceed parent org budget ($'' @
     (case parent of None \<Rightarrow> '''' | Some p \<Rightarrow> fixed 6 (bBudgetAmountUSD p)) @ '') for non-isolated budgets''"

text \<open>Owners: from the request where it names them, else from the identity.\<close>

definition requested_owner :: "string option \<Rightarrow> string option \<Rightarrow> string option" where
  "requested_owner req old = (case req of None \<Rightarrow> old | Some s \<Rightarrow> if s = '''' then old else Some s)"

definition request_owners :: "budget_request \<Rightarrow> budget \<Rightarrow> budget" where
  "request_owners req b = b\<lparr>bOwnerOrgID := requested_owner (cbOwnerOrgID req) (bOwnerOrgID b),
     bOwnerTeamID := requested_owner (cbOwnerTeamID req) (bOwnerTeamID b),
     bOwnerUserID := requested_owner (cbOwnerUserID req) (bOwnerUserID b)\<rparr>"

definition default_owners :: "identity option \<Rightarrow> budget \<Rightarrow> budget" where
  "default_owners ident b =
     (if ident \<noteq> None \<and> bOwnerOrgID b = None \<and> bOwnerTeamID b = None
      then (case GetOwnershipFromIdentity ident of (orgID, teamID) \<Rightarrow>
        if bParentID b = None \<and> teamID \<noteq> '''' then b\<lparr>bOwnerTeamID := Some teamID\<rparr>
        else
          (let b1 = (if orgID \<noteq> '''' then b\<lparr>bOwnerOrgID := Some orgID\<rparr> else b)
           in if teamID \<noteq> '''' then b1\<lparr>bOwnerTeamID := Some teamID\<rparr> else b1))
      else b)"

definition user_owner :: "identity option \<Rightarrow> budget \<Rightarrow> budget" where
  "user_owner ident b = (case ident of
     None \<Rightarrow> b
   | Some who \<Rightarrow> if bEntityType b = EntityTypeUser \<and> idSubject who \<noteq> ''''
                 then b\<lparr>bOwnerUserID := Some (idSubject who)\<rparr> else b)"

text \<open>
  The creator, and whether the budget waits for an approval: only a child budget of a caller who is no
  organisation admin does.
\<close>

definition set_creator :: "identity option \<Rightarrow> budget \<Rightarrow> budget" where
  "set_creator ident b = (case ident of
     None \<Rightarrow> b\<lparr>bApprovalStatus := ApprovalStatusApproved\<rparr>
   | Some who \<Rightarrow> b\<lparr>bCreatedByUserID := nonempty_string (idSubject who),
       bCreatedByEmail := nonempty_string (idEmail who),
       bApprovalStatus := (if idIsOrg who then ApprovalStatusApproved
         else if bParentID b = None then ApprovalStatusApproved else ApprovalStatusPending)\<rparr>)"

definition owned_budget :: "budget_request \<Rightarrow> identity option \<Rightarrow> budget \<Rightarrow> budget" where
  "owned_budget req ident b =
     (let b1 = (case cbEnabled req of None \<Rightarrow> b | Some v \<Rightarrow> b\<lparr>bEnabled := v\<rparr>);
          b2 = (case cbDescription req of None \<Rightarrow> b1 | Some d \<Rightarrow> b1\<lparr>bDescription := Some d\<rparr>)
      in set_creator ident (user_owner ident (default_owners ident (request_owners req b2))))"

definition submission_record :: "budget \<Rightarrow> budget_approval" where
  "submission_record b =
     \<lparr>apID = 0, apBudgetID = bID b, apAttemptNumber = 1, apAction = ''submitted'',
      apActorUserID = null_string (bCreatedByUserID b), apActorEmail = null_string (bCreatedByEmail b),
      apReason = '''', apCreatedAt = zero_time, apUpdatedAt = zero_time\<rparr>"

text \<open>
  The last part of \<open>CreateBudget\<close>: a name or an expression that is taken is a conflict, as far as the two
  queries find out.
\<close>

definition store_budget ::
  "(string \<Rightarrow> string) \<Rightarrow> (string \<Rightarrow> string) \<Rightarrow> budget \<Rightarrow> identity option \<Rightarrow> json_fields handler" where
  "store_budget quote md5 b ident w = (case GetBudgetByEntity (bEntityType b) (bName b) w of
     (Inr _, w1) \<Rightarrow> (ErrorResponse 409 (''a budget named '' @ quote (bName b) @
        '' already exists for entity type '' @ quote (entityTypeName (bEntityType b))), w1)
   | (Inl _, w1) \<Rightarrow> (case GetBudgetByMatchExpression md5 (bEntityType b) (bMatchExpression b) w1 of
       (Inr _, w2) \<Rightarrow> (ErrorResponse 409
          (''a budget with this match expression already exists for entity type '' @
           quote (entityTypeName (bEntityType b))), w2)
     | (Inl _, w2) \<Rightarrow> (case CreateBudget b w2 of
         (Inl e, w3) \<Rightarrow> (ErrorResponse 500 ''failed to create budget'', w3)
       | (Inr b', w3) \<Rightarrow>
           (let w4 = (if bApprovalStatus b' = ApprovalStatusPending
                      then record_approval (submission_record b') w3 else w3)
            in (Response 201 (budgetToMap b'), LogAction ''budget'' (RefUUID (bID b')) ''created'' ident
                  [(''budget_name'', MetaString (bName b')),
                   (''approval_status'', MetaString (approval_status_string (bApprovalStatus b')))] w4)))))"

definition handle_CreateBudget ::
  "(string \<Rightarrow> string) \<Rightarrow> (string \<Rightarrow> string) \<Rightarrow> budget_request option \<Rightarrow> identity option \<Rightarrow> json_fields handler"
where
  "handle_CreateBudget quote md5 body ident w = (case body of
     None \<Rightarrow> (ErrorResponse 400 ''invalid request body'', w)
   | Some req \<Rightarrow> (case request_error req ident of
       Some (s, m) \<Rightarrow> (ErrorResponse s m, w)
     | None \<Rightarrow> (case read_parent (cbParentID req) w of
         (Inl _, w1) \<Rightarrow> (ErrorResponse 400 ''invalid parent_id'', w1)
       | (Inr (parent_id, parent), w1) \<Rightarrow>
           (let b = set_flags req ident (inherit parent_id parent (requested_budget req))
            in if exceeds_parent b parent then (ErrorResponse 400 (exceeds_message b parent), w1)
               else store_budget quote md5 (owned_budget req ident b) ident w1))))"

section \<open>Updating a budget\<close>

text \<open>An owner field of the request: absent, empty to clear it, or a value.\<close>

definition update_owner :: "string option \<Rightarrow> string option \<Rightarrow> string option" where
  "update_owner req old = (case req of None \<Rightarrow> old | Some s \<Rightarrow> if s = '''' then None else Some s)"

text \<open>The plain fields up to the period, with the two checks: \<open>None\<close> when a custom period is too short.\<close>

definition update_period :: "budget_request \<Rightarrow> budget \<Rightarrow> budget option" where
  "update_period req b =
     (let b1 = b\<lparr>
          bMatchExpression := (if cbMatchExpression req \<noteq> '''' then cbMatchExpression req else bMatchExpression b),
          bBudgetAmountUSD := (if cbBudgetAmountUSD req > 0 then cbBudgetAmountUSD req else bBudgetAmountUSD b),
          bPeriod := (if cbPeriod req \<noteq> '''' then budget_period_of_string (cbPeriod req) else bPeriod b)\<rparr>
      in case cbCustomPeriodSeconds req of
           Some n \<Rightarrow> if n < 3600 then None else Some (b1\<lparr>bCustomPeriodSeconds := Some n\<rparr>)
         | None \<Rightarrow> if bPeriod b1 = PeriodCustom \<and>
                      (case bCustomPeriodSeconds b1 of None \<Rightarrow> True | Some n \<Rightarrow> n < 3600)
                   then None else Some b1)"

definition enable_budget :: "budget \<Rightarrow> budget" where
  "enable_budget b = b\<lparr>bEnabled := True, bDisabledByUserID := None, bDisabledByEmail := None,
     bDisabledByIsOrg := False, bDisabledAt := None\<rparr>"

definition disable_budget :: "time \<Rightarrow> identity \<Rightarrow> bool \<Rightarrow> budget \<Rightarrow> budget" where
  "disable_budget now who byOrg b = b\<lparr>bEnabled := False, bDisabledByUserID := Some (idSubject who),
     bDisabledByEmail := Some (idEmail who), bDisabledByIsOrg := byOrg, bDisabledAt := Some now\<rparr>"

text \<open>The loop of \<open>disableNonIsolatedChildren\<close>: a child that cannot be updated is skipped.\<close>

fun disable_each :: "uuid \<Rightarrow> identity \<Rightarrow> budget list \<Rightarrow> world \<Rightarrow> world" where
  "disable_each parentID who [] w = w"
| "disable_each parentID who (c # cs) w =
     (if bIsolated c \<or> \<not> bEnabled c then disable_each parentID who cs w
      else (case UpdateBudget (disable_budget (clock w) who True c) w of
        (Inl e, w1) \<Rightarrow> disable_each parentID who cs w1
      | (Inr _, w1) \<Rightarrow> disable_each parentID who cs
          (LogAction ''budget'' (RefUUID (bID c)) ''budget_disabled'' (Some who)
             [(''disabled_by_is_org'', MetaBool True), (''cascaded'', MetaBool True),
              (''cascaded_from'', MetaUUID parentID)] w1)))"

text \<open>A failure of \<open>GetChildBudgets\<close> is logged only.\<close>

definition disableNonIsolatedChildren :: "uuid \<Rightarrow> identity \<Rightarrow> world \<Rightarrow> world" where
  "disableNonIsolatedChildren parentID who w = (case GetChildBudgets parentID w of
     (Inl e, w1) \<Rightarrow> w1 | (Inr children, w1) \<Rightarrow> disable_each parentID who children w1)"

text \<open>
  The switch of \<open>enabled\<close>: \<open>None\<close> when the caller may not enable. The audit entries and the cascade are
  written before the budget itself is; \<open>previous_disabled_by_is_org\<close> is read after the field was cleared.
\<close>

definition switch_budget ::
  "bool option \<Rightarrow> identity option \<Rightarrow> budget \<Rightarrow> world \<Rightarrow> (budget \<times> world) option" where
  "switch_budget enabled ident b w = (case enabled of
     None \<Rightarrow> Some (b, w)
   | Some True \<Rightarrow>
       if bEnabled b then Some (b, w)
       else if (case ident of None \<Rightarrow> False | Some who \<Rightarrow> \<not> canEnableBudget b who) then None
       else (let b' = enable_budget b in
         Some (b', if ident = None then w
           else LogAction ''budget'' (RefUUID (bID b)) ''budget_enabled'' ident
             [(''previous_disabled_by_is_org'', MetaBool (bDisabledByIsOrg b'))] w))
   | Some False \<Rightarrow> (case ident of
       None \<Rightarrow> Some (b\<lparr>bEnabled := False\<rparr>, w)
     | Some who \<Rightarrow>
         (let w1 = LogAction ''budget'' (RefUUID (bID b)) ''budget_disabled'' ident
                [(''disabled_by_is_org'', MetaBool (idIsOrg who)), (''cascaded'', MetaBool False)] w
          in Some (disable_budget (clock w) who (idIsOrg who) b,
               if idIsOrg who then disableNonIsolatedChildren (bID b) who w1 else w1))))"

definition update_rest :: "budget_request \<Rightarrow> budget \<Rightarrow> budget" where
  "update_rest req b = b\<lparr>
     bDescription := override (cbDescription req) (bDescription b),
     bVersion := (case cbVersion req of None \<Rightarrow> bVersion b | Some v \<Rightarrow> v),
     bOwnerOrgID := update_owner (cbOwnerOrgID req) (bOwnerOrgID b),
     bOwnerTeamID := update_owner (cbOwnerTeamID req) (bOwnerTeamID b),
     bOwnerUserID := update_owner (cbOwnerUserID req) (bOwnerUserID b)\<rparr>"

text \<open>The parent for the comparison of the amounts, read only for a child that is not isolated.\<close>

definition parent_of :: "budget \<Rightarrow> world \<Rightarrow> budget option \<times> world" where
  "parent_of b w = (if bIsolated b then (None, w) else (case bParentID b of
     None \<Rightarrow> (None, w)
   | Some p \<Rightarrow> (case GetBudgetByID p w of (Inl e, w1) \<Rightarrow> (None, w1) | (Inr q, w1) \<Rightarrow> (Some q, w1))))"

definition write_budget :: "uuid \<Rightarrow> budget \<Rightarrow> identity option \<Rightarrow> json_fields handler" where
  "write_budget i b ident w = (case parent_of b w of (parent, w1) \<Rightarrow>
     if exceeds_parent b parent then (ErrorResponse 400 (exceeds_message b parent), w1)
     else (case UpdateBudget b w1 of
       (Inl ErrOptimisticLock, w2) \<Rightarrow> (ErrorResponse 409 ''budget was modified by another request'', w2)
     | (Inl e, w2) \<Rightarrow> (ErrorResponse 500 ''failed to update budget'', w2)
     | (Inr _, w2) \<Rightarrow> (Response 200 (budgetToMap b), LogAction ''budget'' (RefUUID i) ''updated'' ident
           [(''budget_name'', MetaString (bName b))] w2)))"

definition handle_UpdateBudget ::
  "uuid option \<Rightarrow> budget_request option \<Rightarrow> identity option \<Rightarrow> json_fields handler" where
  "handle_UpdateBudget budget_id body ident w = (case budget_id of
     None \<Rightarrow> (ErrorResponse 400 ''invalid budget ID'', w)
   | Some i \<Rightarrow> (case GetBudgetByID i w of
       (Inl ErrNotFound, w1) \<Rightarrow> (ErrorResponse 404 ''budget not found'', w1)
     | (Inl e, w1) \<Rightarrow> (ErrorResponse 500 ''failed to get budget'', w1)
     | (Inr existing, w1) \<Rightarrow> (case body of
         None \<Rightarrow> (ErrorResponse 400 ''invalid request body'', w1)
       | Some req \<Rightarrow> (case update_period req existing of
           None \<Rightarrow> (ErrorResponse 400 ''custom_period_seconds must be at least 3600 (1 hour)'', w1)
         | Some b1 \<Rightarrow>
           if cbParentID req = Some None then (ErrorResponse 400 ''invalid parent_id'', w1)
           else
             (let b2 = b1\<lparr>bWarningThresholdPct := (case cbWarningThresholdPct req of None \<Rightarrow> bWarningThresholdPct b1
                      | Some n \<Rightarrow> n),
                    bParentID := (case cbParentID req of Some p \<Rightarrow> p | None \<Rightarrow> bParentID b1)\<rparr>
              in case switch_budget (cbEnabled req) ident (set_flags req ident b2) w1 of
                   None \<Rightarrow> (ErrorResponse 403 ''You don't have permission to update this budget'', w1)
                 | Some (b3, w2) \<Rightarrow> write_budget i (update_rest req b3) ident w2)))))"

section \<open>Deleting and resetting\<close>

text \<open>The removal proper, \<open>Inr\<close> the number of deleted budgets.\<close>

definition remove_budget :: "uuid \<Rightarrow> bool \<Rightarrow> nat op" where
  "remove_budget i cascading = (if cascading then DeleteBudgetCascade i
     else bind_op (DeleteBudget i) (\<lambda>_. return_op 1))"

definition handle_DeleteBudget :: "uuid option \<Rightarrow> bool \<Rightarrow> identity option \<Rightarrow> unit handler" where
  "handle_DeleteBudget budget_id cascade ident w = (case budget_id of
     None \<Rightarrow> (ErrorResponse 400 ''invalid budget ID'', w)
   | Some i \<Rightarrow> (case GetBudgetByID i w of
       (Inl ErrNotFound, w1) \<Rightarrow> (ErrorResponse 404 ''budget not found'', w1)
     | (Inl e, w1) \<Rightarrow> (ErrorResponse 500 ''failed to delete budget'', w1)
     | (Inr b, w1) \<Rightarrow> (case GetChildBudgets i w1 of
         (Inl e, w2) \<Rightarrow> (ErrorResponse 500 ''failed to delete budget'', w2)
       | (Inr children, w2) \<Rightarrow>
         if children \<noteq> [] \<and> \<not> cascade
         then (ErrorResponse 409 (''cannot delete budget: '' @ Itoa (int (length children)) @
            '' child budget(s) exist. Delete children first or use cascade=true.''), w2)
         else (case remove_budget i (cascade \<and> children \<noteq> []) w2 of
           (Inl ErrNotFound, w3) \<Rightarrow> (ErrorResponse 404 ''budget not found'', w3)
         | (Inl e, w3) \<Rightarrow> (ErrorResponse 500 ''failed to delete budget'', w3)
         | (Inr deletedCount, w3) \<Rightarrow>
             (Response 204 (), LogAction ''budget'' (RefUUID i) ''deleted'' ident
                [(''budget_name'', MetaString (bName b)), (''cascade'', MetaBool cascade),
                 (''deleted_count'', MetaInt (int deletedCount))] w3)))))"

definition handle_ResetBudget :: "uuid option \<Rightarrow> identity option \<Rightarrow> string handler" where
  "handle_ResetBudget budget_id ident w = (case budget_id of
     None \<Rightarrow> (ErrorResponse 400 ''invalid budget ID'', w)
   | Some i \<Rightarrow> (case GetBudgetByID i w of
       (Inl ErrNotFound, w1) \<Rightarrow> (ErrorResponse 404 ''budget not found'', w1)
     | (Inl e, w1) \<Rightarrow> (ErrorResponse 500 ''failed to get budget'', w1)
     | (Inr b, w1) \<Rightarrow> (case ResetBudgetUsage i w1 of
         (Inl ErrNotFound, w2) \<Rightarrow> (ErrorResponse 404 ''budget not found'', w2)
       | (Inl e, w2) \<Rightarrow> (ErrorResponse 500 ''failed to reset budget'', w2)
       | (Inr _, w2) \<Rightarrow>
           (Response 200 ''budget reset successfully'', LogAction ''budget'' (RefUUID i) ''budget_reset'' ident
              [(''budget_name'', MetaString (bName b)),
               (''previous_usage'', MetaUSD (bCurrentUsageUSD b))] w2))))"

section \<open>Identity, expressions, readiness\<close>

definition handle_GetIdentity :: "identity option \<Rightarrow> json_fields response" where
  "handle_GetIdentity ident = (case ident of
     None \<Rightarrow> Response 200 [(''authenticated'', FBool False)]
   | Some who \<Rightarrow> Response 200
       [(''authenticated'', FBool True), (''subject'', FString (idSubject who)),
        (''email'', FString (idEmail who)), (''org_id'', FString (idOrgID who)),
        (''team_id'', FString (idTeamID who)), (''is_org'', FBool (idIsOrg who)),
        (''is_team_admin'', FBool (idIsTeamAdmin who)),
        (''role'', FString (if idIsOrg who then ''org_admin''
           else if idIsTeamAdmin who then ''team_admin'' else ''user''))])"

text \<open>The answer to a validation is the error, if any; its text is that of the CEL library.\<close>

definition handle_ValidateCEL ::
  "('a, 'p) cel_env \<Rightarrow> 'p programs \<Rightarrow> string option \<Rightarrow> cel_error option response \<times> 'p programs" where
  "handle_ValidateCEL env cache body = (case body of
     None \<Rightarrow> (ErrorResponse 400 ''invalid request body'', cache)
   | Some e \<Rightarrow>
     if e = '''' then (ErrorResponse 400 ''expression is required'', cache)
     else (case ValidateExpression env cache e of (err, cache') \<Rightarrow> (Response 200 err, cache')))"

definition Ping :: "unit op" where
  "Ping w = (case pop_fault w of (NoFault, w') \<Rightarrow> (Inr (), w') | (_, w') \<Rightarrow> (Inl (ErrWrapped ''ping''), w'))"

definition handle_Health :: "string response" where
  "handle_Health = Response 200 ''healthy''"

definition handle_Ready :: "json_fields handler" where
  "handle_Ready w = (case Ping w of
     (Inl e, w1) \<Rightarrow> (Response 503 [(''status'', FString ''not ready''), (''error'', FString (error_string e))], w1)
   | (Inr _, w1) \<Rightarrow> (Response 200 [(''status'', FString ''ready'')], w1))"

section \<open>The audit log\<close>

text \<open>
  \<open>from\<close> and \<open>to\<close> are the results of \<open>time.Parse\<close>; absent and unparsable values are the zero time. The actor
  and the dates filter the rows of one page, after the database has cut the page.
\<close>

definition audit_kept :: "string \<Rightarrow> time \<Rightarrow> time \<Rightarrow> audit_entry \<Rightarrow> bool" where
  "audit_kept actor from to e \<longleftrightarrow>
     \<not> (actor \<noteq> '''' \<and> auActorEmail e \<noteq> actor \<and> auActorUserID e \<noteq> actor) \<and>
     \<not> (from \<noteq> zero_time \<and> auCreatedAt e < from) \<and> \<not> (to \<noteq> zero_time \<and> to < auCreatedAt e)"

definition handle_ListAuditLogs ::
  "(entity_ref \<Rightarrow> string) \<Rightarrow> pagination_params \<Rightarrow> string \<Rightarrow> string \<Rightarrow> string \<Rightarrow> time \<Rightarrow> time \<Rightarrow> identity option
    \<Rightarrow> (audit_entry list \<times> pagination_meta) handler" where
  "handle_ListAuditLogs render params entity_type action actor from to ident w =
     (if isRegularUser ident then (ErrorResponse 403 ''access denied'', w)
      else
        (let orgID = (case ident of None \<Rightarrow> '''' | Some who \<Rightarrow> if idIsOrg who then idOrgID who else '''');
             teamID = (case ident of None \<Rightarrow> ''''
               | Some who \<Rightarrow> if \<not> idIsOrg who \<and> idTeamID who \<noteq> '''' then idTeamID who else '''')
         in case ListAuditLogs render \<lparr>afEntityType = entity_type, afEntityID = '''', afAction = action,
              afOrgID = orgID, afTeamID = teamID\<rparr> (Offset params) (ppPageSize params) w of
            (Inl e, w1) \<Rightarrow> (ErrorResponse 500 ''failed to list audit logs'', w1)
          | (Inr (entries, totalCount), w1) \<Rightarrow>
              if actor \<noteq> '''' \<or> from \<noteq> zero_time \<or> to \<noteq> zero_time
              then (let kept = filter (audit_kept actor from to) entries
                    in (paginated kept params (int (length kept)), w1))
              else (paginated entries params (int totalCount), w1)))"

end
