(* ===== verification/Management.thy ===== *)
theory Management
  imports Budget_Api Approval_Workflow
begin

text \<open>
  What the management API promises of the budgets. Every handler is a sequence of the steps of the
  approval workflow, so that the invariants of that workflow hold under any sequence of requests;
  then what a successful creation, update and deletion has done.
\<close>

section \<open>Handlers are runs of the workflow\<close>

definition reach :: "world \<Rightarrow> world \<Rightarrow> bool" where
  "reach w w' \<longleftrightarrow> (world_ok w \<longrightarrow> world_ok w' \<and> budget_step\<^sup>*\<^sup>* w w')"

text \<open>An operation all of whose runs are runs of the workflow.\<close>

locale step_op =
  fixes f :: "world \<Rightarrow> 'a \<times> world"
  assumes runs: "f w = (r, w') \<Longrightarrow> reach w w'"
begin

lemma after: "f w1 = (r, w2) \<Longrightarrow> reach w w1 \<Longrightarrow> reach w w2"
  using runs [of w1 r w2] by (auto simp: reach_def intro: rtranclp_trans)

end

lemma reach_refl [simp]: "reach w w"
  by (simp add: reach_def)

lemma reach_trans: "reach w w1 \<Longrightarrow> reach w1 w2 \<Longrightarrow> reach w w2"
  by (auto simp: reach_def intro: rtranclp_trans)

lemma reach_untouched:
  assumes "approvals_untouched w w'" and "uuids w \<le> uuids w'" and "world_ok w \<Longrightarrow> world_ok w'"
  shows "reach w w'"
  using assms by (auto simp: reach_def intro: budget_step.elsewhere)

lemma untouched_same [simp]: "budget_definitions (db w') = budget_definitions (db w) \<Longrightarrow> approvals_untouched w w'"
  by (auto simp: approvals_untouched_def)

lemma step_op_query:
  assumes "query_op f"
  shows "step_op f"
proof
  fix w r w'
  assume run: "f w = (r, w')"
  show "reach w w'"
    using query_op.reads_only [OF assms run] db_op.uuids_frame [OF query_op_imp_db [OF assms] run]
      wf_op.keeps_ok [OF wf_op_query [OF assms] run]
    by (intro reach_untouched) simp_all
qed

interpretation GetBudgetByID_step: step_op "GetBudgetByID i" for i
  by (rule step_op_query) (rule GetBudgetByID.query_op_axioms)

interpretation GetBudgetByEntity_step: step_op "GetBudgetByEntity et n" for et n
  by (rule step_op_query) (rule GetBudgetByEntity.query_op_axioms)

interpretation GetBudgetByMatchExpression_step: step_op "GetBudgetByMatchExpression md5 et e" for md5 et e
  by (rule step_op_query) (rule GetBudgetByMatchExpression.query_op_axioms)

interpretation GetChildBudgets_step: step_op "GetChildBudgets i" for i
  by (rule step_op_query) (rule GetChildBudgets.query_op_axioms)

interpretation UpdateBudget_step: step_op "UpdateBudget b" for b
proof
  fix w r w' assume run: "UpdateBudget b w = (r, w')"
  from UpdateBudget_wf.keeps_ok [OF run] budget_step.update [OF run] show "reach w w'" by (auto simp: reach_def)
qed

interpretation DeleteBudget_step: step_op "DeleteBudget i" for i
proof
  fix w r w' assume run: "DeleteBudget i w = (r, w')"
  from DeleteBudget_wf.keeps_ok [OF run] budget_step.delete [OF run] show "reach w w'" by (auto simp: reach_def)
qed

lemma reach_LogAction: "reach w w1 \<Longrightarrow> reach w (LogAction ty i a ident md w1)"
  by (rule reach_trans, assumption, rule reach_untouched)
    (simp_all add: LogAction_frame LogAction_world_ok)

lemma reach_record: "reach w w1 \<Longrightarrow> reach w (record_approval ap w1)"
  by (rule reach_trans, assumption, rule reach_untouched)
    (simp_all add: record_approval_frame record_approval_world_ok)

lemma reach_create:
  assumes "CreateBudget b w1 = (r, w2)" and "reach w w1" and "bRejectionCount b = 0"
    and "bApprovalStatus b = ApprovalStatusApproved \<or> bApprovalStatus b = ApprovalStatusPending"
  shows "reach w w2"
proof -
  have "reach w1 w2"
    using budget_step.create [OF assms(1,4,3)] CreateBudget_wf.keeps_ok [OF assms(1)] by (auto simp: reach_def)
  with assms(2) show ?thesis by (rule reach_trans)
qed

text \<open>Resetting and cascading deletes leave the approval columns alone.\<close>

interpretation ResetBudgetUsage_step: step_op "ResetBudgetUsage i" for i
proof
  fix w r w' assume run: "ResetBudgetUsage i w = (r, w')"
  have stmt: "\<forall>b' \<in> set (budget_definitions t'). \<exists>b \<in> set (budget_definitions t).
      bID b' = bID b \<and> bApprovalStatus b' = bApprovalStatus b \<and> bRejectionCount b' = bRejectionCount b"
    if "reset_where q now t = Some (n, t')" for q now t n t'
    using that [symmetric] by (auto simp: reset_where_def update_budgets_def set_update_where reset_budget_def)
  from run have "approvals_untouched w w'"
    unfolding ResetBudgetUsage_def approvals_untouched_def by (cases rule: affected_or_cases) (use stmt in auto)
  then show "reach w w'"
    using ResetBudgetUsage.uuids_frame [OF run] ResetBudgetUsage_wf.keeps_ok [OF run]
    by (rule reach_untouched)
qed

text \<open>A cascading delete only removes rows: it works on the copy and commits it or not.\<close>

definition budget_rows :: "tables \<Rightarrow> budget set" where
  "budget_rows t = set (budget_definitions t)"

lemma delete_budget_rows: "delete_budget i now t = Some (n, t') \<Longrightarrow> budget_rows t' \<subseteq> budget_rows t"
  by (auto simp: delete_budget_def Let_def budget_rows_def split: if_splits)

lemma tx_exec_delete_rows:
  "tx_exec msg (delete_budget i) w = (r, w') \<Longrightarrow> budget_rows (tx_db w') \<subseteq> budget_rows (tx_db w)"
  by (auto simp: tx_exec_def pop_fault_def dest: subsetD [OF delete_budget_rows]
      split: fault.splits list.splits option.splits if_splits)

lemma delete_each_rows: "delete_each is w = (r, w') \<Longrightarrow> budget_rows (tx_db w') \<subseteq> budget_rows (tx_db w)"
proof (induction "is" arbitrary: w)
  case (Cons i "is")
  from Cons.prems have "bind_op (tx_exec ''failed to delete descendant'' (delete_budget i)) (\<lambda>_. delete_each is) w = (r, w')"
    by simp
  then show ?case
    by (cases rule: bind_op_cases) (use Cons.IH tx_exec_delete_rows in blast)+
qed simp

lemma tx_op_delete_each: "tx_op (delete_each is)"
  by (induction "is") (simp_all only: delete_each.simps tx_op_return tx_op_bind tx_op_tx_exec)

lemma DeleteBudgetCascade_rows:
  assumes "DeleteBudgetCascade i w = (r, w')"
  shows "budget_rows (db w') \<subseteq> budget_rows (db w) \<and> uuids w \<le> uuids w'"
  using assms [unfolded DeleteBudgetCascade_def]
proof (cases rule: bind_op_cases)
  case (err e)
  then show ?thesis
    using GetAllDescendants.reads_only [OF err(1)] GetAllDescendants.uuids_frame [OF err(1)] by simp
next
  case (val ids w1)
  have w1: "db w1 = db w" "uuids w \<le> uuids w1"
    using GetAllDescendants.reads_only [OF val(1)] GetAllDescendants.uuids_frame [OF val(1)] by simp_all
  from val(2) show ?thesis
  proof (cases rule: bind_op_cases)
    case (err e)
    then show ?thesis using w1 by (auto simp: tx_begin_def pop_fault_def split: fault.splits list.splits)
  next
    case (val u w2)
    have w2: "db w2 = db w" "tx_db w2 = db w" "uuids w \<le> uuids w2"
      using val(1) w1 by (auto simp: tx_begin_def pop_fault_def split: fault.splits list.splits)
    let ?m = "bind_op (delete_each ids) (\<lambda>_. tx_exec ''failed to delete budget'' (delete_budget i))"
    obtain q v where m: "?m w2 = (q, v)" by fastforce
    have tx: "tx_op ?m" by (intro tx_op_bind tx_op_delete_each tx_op_tx_exec)
    have v: "db v = db w" "uuids w \<le> uuids v" "budget_rows (tx_db v) \<subseteq> budget_rows (db w)"
      using tx_op.db_frame [OF tx m] db_op.uuids_frame [OF tx_op_imp_db [OF tx] m] w2 m
      by (auto elim!: bind_op_cases dest!: delete_each_rows tx_exec_delete_rows)
    have "r = r \<and> (db w' = db v \<or> db w' = tx_db v) \<and> uuids w' = uuids v"
      using val(2) m
      by (auto simp: bind_op_def rollback_on_error_def tx_rollback_def tx_commit_def pop_fault_def
          split: sum.splits if_splits fault.splits list.splits prod.splits)
    with v show ?thesis by auto
  qed
qed

interpretation DeleteBudgetCascade_step: step_op "DeleteBudgetCascade i" for i
proof
  fix w r w' assume run: "DeleteBudgetCascade i w = (r, w')"
  have "approvals_untouched w w'"
    using DeleteBudgetCascade_rows [OF run] by (auto simp: approvals_untouched_def budget_rows_def)
  then show "reach w w'"
    using DeleteBudgetCascade_rows [OF run] DeleteBudgetCascade_wf.keeps_ok [OF run]
    by (intro reach_untouched) simp_all
qed

section \<open>The handlers\<close>

text \<open>
  Rules that follow the structure of a handler: a call of an operation, a case distinction, a result.
\<close>

lemma step_opI: "(\<And>w. reach w (snd (f w))) \<Longrightarrow> step_op f"
  by unfold_locales (metis snd_conv)

named_theorems handler_rules \<open>what a handler reaches, by its structure\<close>

lemma reach_result [handler_rules]: "reach w w1 \<Longrightarrow> reach w (snd (x, w1))"
  by simp

lemma reach_call:
  assumes "step_op f" and "reach w w1" and "\<And>r w2. reach w w2 \<Longrightarrow> reach w (snd (k r w2))"
  shows "reach w (snd (case_prod k (f w1)))"
  by (cases "f w1") (use assms step_op.after [OF assms(1)] in simp)

lemma reach_cases [handler_rules]:
  "reach w (snd a) \<Longrightarrow> (\<And>x. reach w (snd (b x))) \<Longrightarrow> reach w (snd (case_option a b opt))"
  "(\<And>x. reach w (snd (c x))) \<Longrightarrow> (\<And>y. reach w (snd (d y))) \<Longrightarrow> reach w (snd (case_sum c d s))"
  "reach w (snd e1) \<Longrightarrow> reach w (snd e2) \<Longrightarrow> reach w (snd e3) \<Longrightarrow> (\<And>m. reach w (snd (e4 m))) \<Longrightarrow>
     reach w (snd (case_db_error e1 e2 e3 e4 err))"
  "reach w (snd t) \<Longrightarrow> reach w (snd u) \<Longrightarrow> reach w (snd (if g then t else u))"
  "reach w w1 \<Longrightarrow> reach w w2 \<Longrightarrow> reach w (if g then w1 else w2)"
  "(\<And>x y. reach w (snd (h x y))) \<Longrightarrow> reach w (snd (case_prod h p))"
  by (simp_all split: option.split sum.split db_error.split prod.split)

lemmas [handler_rules] = reach_refl reach_LogAction reach_record

lemmas call_rules = reach_call [OF GetBudgetByID_step.step_op_axioms]
  reach_call [OF GetBudgetByEntity_step.step_op_axioms] reach_call [OF GetChildBudgets_step.step_op_axioms]
  reach_call [OF GetBudgetByMatchExpression_step.step_op_axioms] reach_call [OF UpdateBudget_step.step_op_axioms]
  reach_call [OF DeleteBudget_step.step_op_axioms] reach_call [OF ResetBudgetUsage_step.step_op_axioms]
  reach_call [OF DeleteBudgetCascade_step.step_op_axioms]

subsection \<open>Creating\<close>

interpretation read_parent_step: step_op "read_parent p" for p
  unfolding read_parent_def by (intro step_opI call_rules handler_rules)

lemma set_creator_status:
  "bApprovalStatus (set_creator ident b) = ApprovalStatusPending \<or>
   bApprovalStatus (set_creator ident b) = ApprovalStatusApproved"
  by (auto simp: set_creator_def split: option.splits)

lemma owned_budget_status:
  "bApprovalStatus (owned_budget req ident b) = ApprovalStatusPending \<or>
   bApprovalStatus (owned_budget req ident b) = ApprovalStatusApproved"
  by (simp add: owned_budget_def set_creator_status Let_def)

lemma new_budget_rejections_0 [simp]:
  "bRejectionCount (owned_budget req ident (set_flags req ident (inherit i p (requested_budget req)))) = 0"
proof -
  have "bRejectionCount (owned_budget req ident b) = bRejectionCount b" for b
    by (simp add: owned_budget_def set_creator_def user_owner_def default_owners_def request_owners_def Let_def
        split: option.splits prod.splits)
  moreover have "bRejectionCount (set_flags req ident b) = bRejectionCount b" for b
    by (simp add: set_flags_def Let_def split: option.splits)
  moreover have "bRejectionCount (inherit i p b) = bRejectionCount b" for b
    by (simp add: inherit_def Let_def split: option.splits)
  ultimately show ?thesis by (simp add: requested_budget_def)
qed

lemma store_budget_reach:
  assumes "reach w w1" and "bRejectionCount b = 0"
    and "bApprovalStatus b = ApprovalStatusPending \<or> bApprovalStatus b = ApprovalStatusApproved"
  shows "reach w (snd (store_budget quote md5 b ident w1))"
proof -
  have create: "reach w (snd (case_prod k (CreateBudget b w2)))"
    if "reach w w2" "\<And>r w3. reach w w3 \<Longrightarrow> reach w (snd (k r w3))" for k w2
  proof -
    obtain r w3 where run: "CreateBudget b w2 = (r, w3)" by fastforce
    from reach_create [OF run that(1) assms(2)] assms(3) have "reach w w3" by blast
    with that(2) run show ?thesis by simp
  qed
  show ?thesis
    unfolding store_budget_def Let_def by (intro create call_rules handler_rules assms(1))
qed

interpretation CreateBudget_step: step_op "handle_CreateBudget quote md5 body ident" for quote md5 body ident
  unfolding handle_CreateBudget_def Let_def
  by (intro step_opI reach_call [OF read_parent_step.step_op_axioms] store_budget_reach handler_rules
      owned_budget_status new_budget_rejections_0)

subsection \<open>Updating\<close>

lemma disable_each_reach: "reach w w1 \<Longrightarrow> reach w (disable_each i who cs w1)"
proof (induction cs arbitrary: w1)
  case (Cons c cs)
  then show ?case
    by (cases "UpdateBudget (disable_budget (clock w1) who True c) w1")
      (auto split: sum.splits intro!: Cons.IH reach_LogAction intro: UpdateBudget_step.after)
qed simp

lemma disableNonIsolatedChildren_reach: "reach w w1 \<Longrightarrow> reach w (disableNonIsolatedChildren i who w1)"
  by (cases "GetChildBudgets i w1")
    (auto simp: disableNonIsolatedChildren_def split: sum.splits
      intro: disable_each_reach GetChildBudgets_step.after)

lemma switch_budget_reach: "switch_budget e ident b w1 = Some (b', w2) \<Longrightarrow> reach w w1 \<Longrightarrow> reach w w2"
  by (auto simp: switch_budget_def Let_def split: option.splits bool.splits if_splits
      intro!: reach_LogAction disableNonIsolatedChildren_reach)

lemma switch_budget_call:
  assumes "reach w w1" and "reach w (snd a)" and "\<And>b w2. reach w w2 \<Longrightarrow> reach w (snd (k b w2))"
  shows "reach w (snd (case_option a (case_prod k) (switch_budget e ident b w1)))"
  using assms switch_budget_reach [of e ident b w1] by (auto split: option.split)

interpretation parent_of_step: step_op "parent_of b" for b
  unfolding parent_of_def by (intro step_opI call_rules handler_rules)

interpretation write_budget_step: step_op "write_budget i b ident" for i b ident
  unfolding write_budget_def
  by (intro step_opI reach_call [OF parent_of_step.step_op_axioms] call_rules handler_rules)

lemma write_budget_reach: "reach w w1 \<Longrightarrow> reach w (snd (write_budget i b ident w1))"
  by (rule write_budget_step.after [OF prod.collapse [symmetric]])

interpretation UpdateBudget_api_step: step_op "handle_UpdateBudget i body ident" for i body ident
  unfolding handle_UpdateBudget_def Let_def
  by (intro step_opI switch_budget_call write_budget_reach call_rules handler_rules)

subsection \<open>Deleting and resetting\<close>

lemma bind_return_snd: "snd (bind_op m (\<lambda>_. return_op x) w) = snd (m w)"
  by (simp add: bind_op_def split: prod.splits sum.splits)

interpretation remove_budget_step: step_op "remove_budget i c" for i c
proof (rule step_opI)
  fix w
  show "reach w (snd (remove_budget i c w))"
    using DeleteBudgetCascade_step.after [OF prod.collapse [symmetric] reach_refl, where i = i]
      DeleteBudget_step.after [OF prod.collapse [symmetric] reach_refl, where i = i]
    by (simp add: remove_budget_def bind_return_snd)
qed

interpretation DeleteBudget_api_step: step_op "handle_DeleteBudget i cascade ident" for i cascade ident
  unfolding handle_DeleteBudget_def
  by (intro step_opI reach_call [OF remove_budget_step.step_op_axioms] call_rules handler_rules)

interpretation ResetBudget_api_step: step_op "handle_ResetBudget i ident" for i ident
  unfolding handle_ResetBudget_def by (intro step_opI call_rules handler_rules)

subsection \<open>Runs of requests\<close>

text \<open>Any sequence of the requests that change budgets.\<close>

inductive request_step :: "world \<Rightarrow> world \<Rightarrow> bool" where
  create: "handle_CreateBudget quote md5 body ident w = (r, w') \<Longrightarrow> request_step w w'"
| update: "handle_UpdateBudget i req ident w = (r, w') \<Longrightarrow> request_step w w'"
| delete: "handle_DeleteBudget i cascade ident w = (r, w') \<Longrightarrow> request_step w w'"
| reset: "handle_ResetBudget i ident w = (r, w') \<Longrightarrow> request_step w w'"
| approve: "handle_ApproveBudget i ident w = (r, w') \<Longrightarrow> request_step w w'"
| reject: "handle_RejectBudget i ident reason w = (r, w') \<Longrightarrow> request_step w w'"
| resubmit: "handle_ResubmitBudget i ident w = (r, w') \<Longrightarrow> request_step w w'"

lemma request_step_run:
  assumes "request_step w w'" and "approvals_ok w"
  shows "budget_step\<^sup>*\<^sup>* w w'"
proof -
  have ok: "world_ok w" using assms(2) by (simp add: approvals_ok_def)
  show ?thesis
    using assms(1)
  proof cases
    case create
    from CreateBudget_step.runs [OF this] ok show ?thesis by (simp add: reach_def)
  next
    case update
    from UpdateBudget_api_step.runs [OF this] ok show ?thesis by (simp add: reach_def)
  next
    case delete
    from DeleteBudget_api_step.runs [OF this] ok show ?thesis by (simp add: reach_def)
  next
    case reset
    from ResetBudget_api_step.runs [OF this] ok show ?thesis by (simp add: reach_def)
  qed (auto intro: budget_step.intros)
qed

lemma requests_run:
  assumes "request_step\<^sup>*\<^sup>* w w'" and "approvals_ok w"
  shows "budget_step\<^sup>*\<^sup>* w w' \<and> approvals_ok w'"
  using assms
proof (induction rule: rtranclp_induct)
  case (step w1 w2)
  then have run: "budget_step\<^sup>*\<^sup>* w w2" by (auto intro: rtranclp_trans dest: request_step_run)
  from budgets.run_inv [OF this step.prems] run show ?case by simp
qed simp


section \<open>What a creation has done\<close>

definition created_budget :: "uuid \<Rightarrow> time \<Rightarrow> budget \<Rightarrow> budget" where
  "created_budget i now b = b\<lparr>bID := i, bVersion := 1, bCreatedAt := now, bUpdatedAt := now,
     bCurrentPeriodStart := (if bCurrentPeriodStart b = zero_time then now else bCurrentPeriodStart b),
     bWarningThresholdPct := (if bWarningThresholdPct b = 0 then 80 else bWarningThresholdPct b)\<rparr>"

lemma created_budget_simps [simp]:
  "bName (created_budget i now b) = bName b" "bEntityType (created_budget i now b) = bEntityType b"
  "bBudgetAmountUSD (created_budget i now b) = bBudgetAmountUSD b"
  "bMatchExpression (created_budget i now b) = bMatchExpression b"
  "bParentID (created_budget i now b) = bParentID b" "bIsolated (created_budget i now b) = bIsolated b"
  "bCurrentUsageUSD (created_budget i now b) = bCurrentUsageUSD b"
  "bPendingUsageUSD (created_budget i now b) = bPendingUsageUSD b"
  "bApprovalStatus (created_budget i now b) = bApprovalStatus b"
  "bOwnerUserID (created_budget i now b) = bOwnerUserID b" "bVersion (created_budget i now b) = 1"
  "bID (created_budget i now b) = i" "bPeriod (created_budget i now b) = bPeriod b"
  by (simp_all add: created_budget_def)

lemma CreateBudget_quiet:
  assumes "faults w = []"
  shows "CreateBudget b w = (case insert_budget (created_budget (uuids w) (clock w) b) (clock w) (db w) of
     None \<Rightarrow> (Inl (ErrWrapped ''failed to create budget''), w\<lparr>uuids := Suc (uuids w)\<rparr>)
   | Some (x, t) \<Rightarrow> (Inr (created_budget (uuids w) (clock w) b), w\<lparr>uuids := Suc (uuids w), db := t\<rparr>))"
  using assms
  by (simp add: CreateBudget_def bind_op_def uuid_op_def uuid_New_def now_op_def created_budget_def Let_def
      split: option.split)

lemma store_budget_created:
  assumes "store_budget quote md5 b ident w = (Response 201 out, w')" and "faults w = []"
  shows "budget_definitions (db w') = budget_definitions (db w) @ [created_budget (uuids w) (clock w) b] \<and>
    out = budgetToMap (created_budget (uuids w) (clock w) b) \<and>
    insert_budget (created_budget (uuids w) (clock w) b) (clock w) (db w) \<noteq> None \<and>
    (\<forall>r \<in> set (budget_definitions (db w)). bEntityType r = bEntityType b \<longrightarrow>
      bName r \<noteq> bName b \<and> md5 (bMatchExpression r) \<noteq> md5 (bMatchExpression b))"
proof -
  let ?b = "created_budget (uuids w) (clock w) b"
  have type: "db_entity_type (bEntityType b)"
  proof (rule ccontr)
    assume "\<not> db_entity_type (bEntityType b)"
    with assms(1) show False
      by (simp add: store_budget_def GetBudgetByEntity_def GetBudgetByMatchExpression_def sql_reject_def
          CreateBudget_quiet [OF assms(2)] insert_budget_def created_budget_def assms(2))
  qed
  have name: "first_row (filter (\<lambda>r. bEntityType r = bEntityType b \<and> bName r = bName b)
      (budget_definitions (db w))) = None"
    and expr: "first_row (filter (\<lambda>r. bEntityType r = bEntityType b \<and>
      md5 (bMatchExpression r) = md5 (bMatchExpression b)) (budget_definitions (db w))) = None"
    using assms type
    by (auto simp: store_budget_def GetBudgetByEntity_def GetBudgetByMatchExpression_def
        split: option.splits)
  then have run: "store_budget quote md5 b ident w = (case CreateBudget b w of
         (Inl e, w3) \<Rightarrow> (ErrorResponse 500 ''failed to create budget'', w3)
       | (Inr b', w3) \<Rightarrow> (Response 201 (budgetToMap b'), LogAction ''budget'' (RefUUID (bID b')) ''created'' ident
            [(''budget_name'', MetaString (bName b')),
             (''approval_status'', MetaString (approval_status_string (bApprovalStatus b')))]
            (if bApprovalStatus b' = ApprovalStatusPending then record_approval (submission_record b') w3 else w3)))"
    using assms(2) type
    by (simp add: store_budget_def GetBudgetByEntity_def GetBudgetByMatchExpression_def Let_def
        split: prod.split sum.split)
  obtain t where ins: "insert_budget ?b (clock w) (db w) = Some ((), t)"
    using assms(1) unfolding run by (auto simp: CreateBudget_quiet [OF assms(2)] split: option.splits)
  then have t: "budget_definitions t = budget_definitions (db w) @ [?b]"
    by (auto simp: insert_budget_def split: if_splits)
  have "out = budgetToMap ?b" and "budget_definitions (db w') = budget_definitions t"
    using assms(1) ins unfolding run
    by (auto simp: CreateBudget_quiet [OF assms(2)] LogAction_frame record_approval_frame split: if_splits)
  with t ins name expr show ?thesis by (auto simp: filter_empty_conv)
qed

lemma read_parent_quiet:
  assumes "faults w = []"
  shows "read_parent p w = ((case p of None \<Rightarrow> Inr (None, None) | Some None \<Rightarrow> Inl ()
     | Some (Some i) \<Rightarrow> Inr (Some i, budget_by_id i (db w))), w)"
  using assms by (simp add: read_parent_def GetBudgetByID_def split: option.split)

text \<open>The fields of a new budget.\<close>

lemma draft_fields:
  fixes req :: budget_request and ident :: "identity option" and parent_id parent
  defines "b \<equiv> set_flags req ident (inherit parent_id parent (requested_budget req))"
  shows "bName b = cbName req \<and> bEntityType b = entity_type_of_string (cbEntityType req) \<and>
    bBudgetAmountUSD b = cbBudgetAmountUSD req \<and> bMatchExpression b = cbMatchExpression req \<and>
    bPeriod b = budget_period_of_string (cbPeriod req) \<and> bParentID b = parent_id \<and>
    bCurrentUsageUSD b = 0 \<and> bPendingUsageUSD b = 0"
  by (simp add: b_def set_flags_def inherit_def requested_budget_def Let_def split: option.split)


definition core_fields ::
  "budget \<Rightarrow> (string \<times> entity_type \<times> usd \<times> string) \<times> uuid option \<times> bool \<times> usd \<times> usd" where
  "core_fields c = ((bName c, bEntityType c, bBudgetAmountUSD c, bMatchExpression c),
     (bParentID c, bIsolated c, bCurrentUsageUSD c, bPendingUsageUSD c))"

lemma core_fields_simps [simp]:
  "core_fields (request_owners req b) = core_fields b"
  "core_fields (default_owners ident b) = core_fields b"
  "core_fields (user_owner ident b) = core_fields b"
  "core_fields (set_creator ident b) = core_fields b"
  "core_fields (b\<lparr>bEnabled := v\<rparr>) = core_fields b"
  "core_fields (b\<lparr>bDescription := d\<rparr>) = core_fields b"
  by (simp_all add: core_fields_def request_owners_def default_owners_def user_owner_def set_creator_def Let_def
      split: option.split prod.split)

lemma owned_core: "core_fields (owned_budget req ident b) = core_fields b"
  by (simp add: owned_budget_def Let_def split: option.split)

lemma owned_fields:
  fixes req :: budget_request and ident :: "identity option" and b :: budget
  defines "c \<equiv> owned_budget req ident b"
  shows "(bApprovalStatus c = ApprovalStatusPending \<longleftrightarrow>
      (\<exists>who. ident = Some who \<and> \<not> idIsOrg who) \<and> bParentID b \<noteq> None) \<and>
    (\<forall>who. ident = Some who \<longrightarrow> idSubject who \<noteq> '''' \<longrightarrow> bEntityType b = EntityTypeUser \<longrightarrow>
      bOwnerUserID c = Some (idSubject who))"
proof -
  have "\<exists>d. c = set_creator ident (user_owner ident d) \<and> core_fields d = core_fields b"
    unfolding c_def owned_budget_def Let_def
    by (intro exI conjI, rule refl) (simp split: option.split)
  then obtain d where c: "c = set_creator ident (user_owner ident d)" and d: "core_fields d = core_fields b"
    by blast
  have "bParentID (user_owner ident d) = bParentID b" "bEntityType d = bEntityType b"
    using d core_fields_simps(3) [of ident d] by (simp_all add: core_fields_def)
  then show ?thesis
    by (simp add: c set_creator_def user_owner_def split: option.split)
qed


section \<open>What a deletion has done\<close>

text \<open>The budgets of the subtree of a budget, itself included.\<close>

definition child_of :: "budget list \<Rightarrow> (uuid \<times> uuid) set" where
  "child_of rows = {(bID b, p) | b p. b \<in> set rows \<and> bParentID b = Some p}"

definition subtree :: "budget list \<Rightarrow> uuid \<Rightarrow> uuid set" where
  "subtree rows i = {j. (j, i) \<in> (child_of rows)\<^sup>*}"

lemma child_ofI: "b \<in> set rows \<Longrightarrow> bParentID b = Some p \<Longrightarrow> (bID b, p) \<in> child_of rows"
  by (auto simp: child_of_def)

lemma subtree_step: "subtree rows i = insert i (\<Union>c \<in> {bID b | b. b \<in> set rows \<and> bParentID b = Some i}. subtree rows c)"
proof (intro equalityI subsetI)
  fix j
  assume "j \<in> subtree rows i"
  then have "(j, i) \<in> (child_of rows)\<^sup>*" by (simp add: subtree_def)
  then show "j \<in> insert i (\<Union>c \<in> {bID b | b. b \<in> set rows \<and> bParentID b = Some i}. subtree rows c)"
    by (cases rule: rtranclE) (auto simp: subtree_def child_of_def)
next
  fix j
  assume "j \<in> insert i (\<Union>c \<in> {bID b | b. b \<in> set rows \<and> bParentID b = Some i}. subtree rows c)"
  then show "j \<in> subtree rows i"
    by (auto simp: subtree_def child_of_def intro: rtrancl_into_rtrancl)
qed

lemma descendants_subtree:
  "descendants n rows level = Some ls \<Longrightarrow> set (concat ls) = (\<Union>i \<in> set level. subtree rows i)"
proof (induction n arbitrary: level ls)
  case 0
  then show ?case by (cases level) simp_all
next
  case (Suc n)
  show ?case
  proof (cases level)
    case Nil
    with Suc.prems show ?thesis by simp
  next
    case (Cons i rest)
    let ?next = "concat (map (\<lambda>d. map bID (filter (\<lambda>bd. bParentID bd = Some d) rows)) level)"
    obtain ks where ks: "descendants n rows ?next = Some ks" "ls = level # ks"
      using Suc.prems Cons by auto
    have "set (concat ls) = set level \<union> (\<Union>i \<in> set ?next. subtree rows i)"
      using Suc.IH [OF ks(1)] ks(2) by simp
    also have "\<dots> = (\<Union>i \<in> set level. insert i (\<Union>c \<in> {bID b | b. b \<in> set rows \<and> bParentID b = Some i}. subtree rows c))"
      by auto
    also have "\<dots> = (\<Union>i \<in> set level. subtree rows i)"
      by (simp only: subtree_step [symmetric])
    finally show ?thesis .
  qed
qed

lemma all_descendants_subtree:
  assumes "all_descendants i t = Some ids"
  shows "insert i (set ids) = subtree (budget_definitions t) i"
proof -
  let ?rows = "budget_definitions t"
  obtain ls where ls: "descendants (Suc (length ?rows)) ?rows (map bID (filter (\<lambda>b. bParentID b = Some i) ?rows)) = Some ls"
    and ids: "ids = concat (rev ls)"
    using assms by (auto simp: all_descendants_def Let_def)
  have "set ids = (\<Union>c \<in> {bID b | b. b \<in> set ?rows \<and> bParentID b = Some i}. subtree ?rows c)"
    using descendants_subtree [OF ls] by (auto simp: ids)
  then show ?thesis using subtree_step [of ?rows i] by simp
qed

text \<open>The rows of the tables without those that belong to the budgets \<open>J\<close>.\<close>

definition without :: "uuid set \<Rightarrow> tables \<Rightarrow> budget list \<times> usage_record list \<times> reservation list" where
  "without J t = (filter (\<lambda>b. bID b \<notin> J) (budget_definitions t),
     filter (\<lambda>u. urBudgetID u \<notin> J) (usage_records t), filter (\<lambda>r. rsBudgetID r \<notin> J) (request_reservations t))"

lemma without_without: "without J t = without {} t' \<Longrightarrow> without K t' = without (J \<union> K) t"
proof -
  assume "without J t = without {} t'"
  then have eqs: "budget_definitions t' = filter (\<lambda>b. bID b \<notin> J) (budget_definitions t)"
      "usage_records t' = filter (\<lambda>u. urBudgetID u \<notin> J) (usage_records t)"
      "request_reservations t' = filter (\<lambda>r. rsBudgetID r \<notin> J) (request_reservations t)"
    by (simp_all add: without_def)
  show ?thesis by (simp add: without_def eqs conj_commute)
qed

lemma delete_budget_without:
  assumes "tables_ok t" and "delete_budget i now t = Some (n, t')"
  shows "without {i} t = without {} t' \<and> tables_ok t'"
proof (cases "i \<in> bID ` set (budget_definitions t)")
  case True
  then have "count_budgets (\<lambda>b. bID b = i) t \<noteq> 0" by (auto simp: count_budgets_def)
  with assms stmt_ok_delete_budget [of i] show ?thesis
    by (auto simp: delete_budget_def Let_def without_def delete_where_def stmt_ok_def split: if_splits)
next
  case False
  then have "count_budgets (\<lambda>b. bID b = i) t = 0" by (auto simp: count_budgets_def)
  then have "t' = t" using assms(2) by (simp add: delete_budget_def)
  moreover have "\<forall>u \<in> set (usage_records t). urBudgetID u \<noteq> i" "\<forall>r \<in> set (request_reservations t). rsBudgetID r \<noteq> i"
    using assms(1) False by (auto simp: tables_ok_def)
  ultimately show ?thesis using assms(1) False by (auto simp: without_def filter_id_conv)
qed

text \<open>In a quiet world a transaction that has not failed is not aborted.\<close>

lemma delete_each_without:
  assumes "delete_each ids w = (Inr (), w')" and "faults w = []" and "\<not> tx_aborted w" and "tables_ok (tx_db w)"
  shows "without (set ids) (tx_db w) = without {} (tx_db w') \<and> tables_ok (tx_db w') \<and> faults w' = [] \<and>
    \<not> tx_aborted w'"
  using assms
proof (induction ids arbitrary: w)
  case (Cons i ids)
  obtain n t where del: "delete_budget i (clock w) (tx_db w) = Some (n, t)"
    and rest: "delete_each ids (w\<lparr>tx_db := t\<rparr>) = (Inr (), w')"
    using Cons.prems by (auto simp: bind_op_def split: option.splits)
  note one = delete_budget_without [OF Cons.prems(4) del]
  have IH: "without (set ids) t = without {} (tx_db w') \<and> tables_ok (tx_db w') \<and> faults w' = [] \<and> \<not> tx_aborted w'"
    using Cons.IH [OF rest] Cons.prems(2,3) one by simp
  have "without (set ids) t = without ({i} \<union> set ids) (tx_db w)"
    using without_without one by blast
  with IH show ?case by simp
qed (simp add: without_def)

lemma DeleteBudgetCascade_without:
  assumes "DeleteBudgetCascade i w = (Inr n, w')" and "faults w = []" and "tables_ok (db w)"
  shows "without {} (db w') = without (subtree (budget_definitions (db w)) i) (db w)"
proof -
  obtain ids where ids: "all_descendants i (db w) = Some ids"
    using assms by (cases "all_descendants i (db w)")
      (auto simp: DeleteBudgetCascade_def bind_op_def GetAllDescendants_def sql_reject_def)
  let ?w = "w\<lparr>tx_db := db w, tx_aborted := False, open_txs := Suc (open_txs w)\<rparr>"
  let ?m = "bind_op (delete_each ids) (\<lambda>_. tx_exec ''failed to delete budget'' (delete_budget i))"
  have run: "(case rollback_on_error ?m ?w of (Inl e, v) \<Rightarrow> (Inl e, v) | (Inr n, v) \<Rightarrow>
      (if n = 0 then fail_op ErrNotFound else bind_op tx_commit (\<lambda>_. return_op (length ids + 1))) v) = (Inr n, w')"
    using assms(1,2) ids by (simp add: DeleteBudgetCascade_def bind_op_def GetAllDescendants_def)
  then obtain k v where m: "?m ?w = (Inr k, v)"
    and v: "(if k = 0 then fail_op ErrNotFound else bind_op tx_commit (\<lambda>_. return_op (length ids + 1))) v = (Inr n, w')"
    by (auto simp: rollback_on_error_def split: prod.splits sum.splits)
  from m obtain v1 where each: "delete_each ids ?w = (Inr (), v1)"
    and last: "tx_exec ''failed to delete budget'' (delete_budget i) v1 = (Inr k, v)"
    by (auto elim!: bind_op_cases)
  have d: "without (set ids) (db w) = without {} (tx_db v1)" "tables_ok (tx_db v1)" "faults v1 = []" "\<not> tx_aborted v1"
    using delete_each_without [OF each] assms(2,3) by simp_all
  obtain t where t: "delete_budget i (clock v1) (tx_db v1) = Some (k, t)" "v = v1\<lparr>tx_db := t\<rparr>"
    using last d(3,4) by (auto split: option.splits)
  have "db w' = t" using v t(2) d(3,4) by (auto simp: bind_op_def split: if_splits)
  moreover have "without {} t = without {i} (tx_db v1)"
    using delete_budget_without [OF d(2) t(1)] by simp
  moreover have "without {i} (tx_db v1) = without (set ids \<union> {i}) (db w)" by (rule without_without [OF d(1)])
  ultimately show ?thesis using all_descendants_subtree [OF ids] by simp
qed

lemma LogAction_without: "without J (db (LogAction ty i a ident md w)) = without J (db w)"
  by (auto simp: without_def LogAction_def CreateAuditLog_def bind_op_def uuid_op_def uuid_New_def now_op_def
      sql_exec_def pop_fault_def insert_audit_def split: fault.splits list.splits option.splits)


section \<open>What an update of a model cost wipes out\<close>

text \<open>
  Neither handler reads the cache prices and the pattern of its request, and an update writes all columns: the
  prices and the pattern of the row are lost, and its effective date becomes the zero time.
\<close>

lemma LogAction_costs: "model_costs (db (LogAction ty i a ident md v)) = model_costs (db v)"
  by (auto simp: LogAction_def CreateAuditLog_def bind_op_def uuid_op_def uuid_New_def now_op_def
      sql_exec_def pop_fault_def insert_audit_def split: fault.splits list.splits option.splits)

lemma UpdateModelCost_response:
  assumes run: "UpdateModelCost (requested_cost modelID req) w = (u, w1)"
    and "handle_UpdateModelCost modelID (Some req) ident w = (Response 200 out, w')"
    and who: "requireOrgAdmin ident = Inr who" "\<not> isRegularUser (Some who)"
  shows "u = Inr () \<and> model_costs (db w') = model_costs (db w1)"
proof (cases u)
  case (Inl e)
  then show ?thesis
    using assms(2) unfolding handle_UpdateModelCost_def who(1) sum.case option.case run prod.case
    by (simp add: who(2) split: db_error.splits)
next
  case (Inr x)
  then show ?thesis
    using assms(2) unfolding handle_UpdateModelCost_def who(1) sum.case option.case run prod.case
    by (simp only: who(2) if_False sum.case prod.inject) (auto simp: LogAction_costs)
qed

lemma UpdateModelCost_db:
  assumes "UpdateModelCost mc w = (Inr (), w1)"
  shows "db w1 = snd (the (update_model_cost mc (clock w) (db w)))"
  using assms unfolding UpdateModelCost_def by (cases rule: affected_or_cases) auto

lemma updated_cost_row:
  assumes "c \<in> set (model_costs (snd (the (update_model_cost mc now t))))" and "mcModelID c = mcModelID mc"
  shows "mcCacheReadCostMillion c = mcCacheReadCostMillion mc \<and>
    mcCacheWriteCostMillion c = mcCacheWriteCostMillion mc \<and> mcModelPattern c = mcModelPattern mc \<and>
    mcEffectiveDate c = mcEffectiveDate mc"
  using assms by (auto simp: update_model_cost_def set_update_where)

lemma UpdateModelCost_wipes:
  assumes "handle_UpdateModelCost modelID body ident w = (Response 200 out, w')"
    and "c \<in> set (model_costs (db w'))" and "mcModelID c = modelID"
  shows "mcCacheReadCostMillion c = None \<and> mcCacheWriteCostMillion c = None \<and> mcModelPattern c = None \<and>
    mcEffectiveDate c = zero_time"
proof -
  obtain who where who: "requireOrgAdmin ident = Inr who" "\<not> isRegularUser (Some who)"
    using assms(1) unfolding handle_UpdateModelCost_def
    by (cases "requireOrgAdmin ident") (simp_all split: prod.splits if_splits)
  obtain req where req: "body = Some req"
    using assms(1) who unfolding handle_UpdateModelCost_def by (cases body) simp_all
  obtain u w1 where run: "UpdateModelCost (requested_cost modelID req) w = (u, w1)" by fastforce
  note res = UpdateModelCost_response [OF run assms(1) [unfolded req] who]
  have "db w1 = snd (the (update_model_cost (requested_cost modelID req) (clock w) (db w)))"
    by (rule UpdateModelCost_db [OF run [unfolded res [THEN conjunct1]]])
  with res have "c \<in> set (model_costs (snd (the (update_model_cost (requested_cost modelID req) (clock w) (db w)))))"
    using assms(2) by simp
  from updated_cost_row [OF this] assms(3) show ?thesis by (simp add: requested_cost_def)
qed

end
