(* ===== verification/Management_Witnesses.thy ===== *)
theory Management_Witnesses
  imports Management Samples
begin

text \<open>
  The theorems on the management API at concrete inputs: an organisation's budget with a team below it, to which
  a user asks for a child budget, and which its admin deletes.
\<close>

definition sample_quote :: "string \<Rightarrow> string" where
  "sample_quote s = ''\"'' @ s @ ''\"''"

definition acme_admin :: identity where
  "acme_admin = \<lparr>idSubject = ''boss'', idEmail = ''boss@acme'', idOrgID = ''acme'', idTeamID = '''',
     idIsOrg = True, idIsTeamAdmin = False, idUserID = ''boss''\<rparr>"

definition ann :: identity where
  "ann = \<lparr>idSubject = ''ann'', idEmail = ''ann@acme'', idOrgID = ''acme'', idTeamID = ''blue'',
     idIsOrg = False, idIsTeamAdmin = False, idUserID = ''ann''\<rparr>"

definition ann_request :: budget_request where
  "ann_request = \<lparr>cbEntityType = ''user'', cbName = ''ann'', cbMatchExpression = ''true and true'',
     cbBudgetAmountUSD = 5, cbPeriod = ''daily'', cbCustomPeriodSeconds = None, cbWarningThresholdPct = None,
     cbParentID = Some (Some 1), cbIsolated = None, cbAllowFallback = None, cbEnabled = None,
     cbDescription = None, cbVersion = None, cbOwnerOrgID = None, cbOwnerTeamID = None,
     cbOwnerUserID = Some ''bob''\<rparr>"

definition tree_world :: world where
  "tree_world = fresh_world []"

definition asked_world :: world where
  "asked_world = snd (handle_CreateBudget sample_quote id (Some ann_request) (Some ann) tree_world)"

lemma tree_ok: "approvals_ok tree_world" "faults tree_world = []" "tables_ok (db tree_world)"
  by (simp_all add: approvals_ok_def world_ok_def tables_ok_def parent_exists_def rejections_ok_def
      tree_world_def sample_defs)

lemma ann_response:
  "handle_CreateBudget sample_quote id (Some ann_request) (Some ann) tree_world =
    (Response 201 (budgetToMap (last (budget_definitions (db asked_world)))), asked_world)"
proof -
  have "fst (handle_CreateBudget sample_quote id (Some ann_request) (Some ann) tree_world) =
      Response 201 (budgetToMap (last (budget_definitions (db asked_world))))" by code_simp
  then show ?thesis by (simp add: asked_world_def prod_eq_iff)
qed


lemma asked_step: "request_step\<^sup>*\<^sup>* tree_world asked_world"
  unfolding asked_world_def by (intro r_into_rtranclp request_step.create) (rule prod.collapse [symmetric])


definition pruned_world :: world where
  "pruned_world = snd (handle_DeleteBudget (Some 0) True (Some acme_admin) tree_world)"


text \<open>
  An admin who switches a budget off with a stale version gets a conflict, but the children are disabled already.
\<close>

definition stale_request :: budget_request where
  "stale_request = ann_request\<lparr>cbEntityType := '''', cbName := '''', cbMatchExpression := '''', cbBudgetAmountUSD := 0,
     cbPeriod := '''', cbParentID := None, cbOwnerUserID := None, cbEnabled := Some False, cbVersion := Some 7\<rparr>"

lemma UpdateBudget_conflict_disables_children:
  "fst (handle_UpdateBudget (Some 0) (Some stale_request) (Some acme_admin) tree_world) =
     ErrorResponse 409 ''budget was modified by another request'' \<and>
   map bEnabled (budget_definitions
     (db (snd (handle_UpdateBudget (Some 0) (Some stale_request) (Some acme_admin) tree_world)))) = [True, False]"
  by code_simp

end
