(* ===== verification/Forecast.thy ===== *)
theory Forecast
  imports Budget_Api Ledger_Repo
begin

text \<open>
  \<open>internal/api/forecast_handlers.go\<close>: the forecast of a budget's spend and its two caches. \<open>computeForecast\<close>
  is modelled with exact amounts; the caches are a state of their own that the handlers thread.
\<close>

section \<open>Dates\<close>

definition pad_digits :: "nat \<Rightarrow> int \<Rightarrow> string" where
  "pad_digits n x = (let s = Itoa x in replicate (n - length s) (CHR ''0'') @ s)"

text \<open>The two layouts, \<open>2006-01-02\<close> and \<open>2006-01-02T15:04:05Z\<close>, of a UTC time.\<close>

datatype date_format = DateFormatDaily | DateFormatSub

definition date_part :: "time \<Rightarrow> string" where
  "date_part t = (case civil (t div day_ns) of (y, m, d) \<Rightarrow>
     pad_digits 4 y @ ''-'' @ pad_digits 2 m @ ''-'' @ pad_digits 2 d)"

definition format_time :: "date_format \<Rightarrow> time \<Rightarrow> string" where
  "format_time f t = (case f of
     DateFormatDaily \<Rightarrow> date_part t
   | DateFormatSub \<Rightarrow> date_part t @ ''T'' @ pad_digits 2 (t mod day_ns div Hour) @ '':'' @
       pad_digits 2 (t mod Hour div Minute) @ '':'' @ pad_digits 2 (t mod Minute div Second) @ ''Z'')"

text \<open>\<open>t.Truncate(d)\<close> counts from the zero time.\<close>

definition Truncate :: "time \<Rightarrow> duration \<Rightarrow> time" where
  "Truncate t d = t - (t - zero_time) mod d"

text \<open>\<open>math.Round\<close>: halves away from zero.\<close>

definition go_round :: "rat \<Rightarrow> rat" where
  "go_round q = of_int (if 0 \<le> q then \<lfloor>q + 1 / 2\<rfloor> else \<lceil>q - 1 / 2\<rceil>)"

definition timeSeriesStep :: "duration \<Rightarrow> duration \<times> date_format" where
  "timeSeriesStep periodDur =
     (if periodDur < Hour then (Minute, DateFormatSub)
      else if periodDur < 24 * Hour then (Hour, DateFormatSub)
      else (0, DateFormatDaily))"

section \<open>The burn rate\<close>

type_synonym usage_buckets = "(time \<times> usd) list"

record burn_rate_snapshot =
  bsBurnRatePerDay :: rat
  bsForUsage :: usd

definition completed_days :: "usage_buckets \<Rightarrow> time \<Rightarrow> usage_buckets" where
  "completed_days dailyUsage now =
     filter (\<lambda>(day, total). date_part day \<noteq> date_part now \<and> \<not> day < AddDate now 0 0 (-7)) dailyUsage"

definition fresh_burn_rate :: "usd \<Rightarrow> rat \<Rightarrow> usage_buckets \<Rightarrow> time \<Rightarrow> rat" where
  "fresh_burn_rate currentUsageUSD elapsedDays dailyUsage now =
     (let done = completed_days dailyUsage now in
      if done \<noteq> [] then (\<Sum>(day, total) \<leftarrow> done. total) / of_nat (length done)
      else if elapsedDays > 0 then currentUsageUSD / max elapsedDays (1 / 24) else 0)"

definition stableBurnRate ::
  "(uuid \<Rightarrow> burn_rate_snapshot option) \<Rightarrow> uuid \<Rightarrow> usd \<Rightarrow> rat \<Rightarrow> usage_buckets \<Rightarrow> time
    \<Rightarrow> rat \<times> (uuid \<Rightarrow> burn_rate_snapshot option)" where
  "stableBurnRate cache i currentUsageUSD elapsedDays dailyUsage now =
     (let fresh = fresh_burn_rate currentUsageUSD elapsedDays dailyUsage now;
          stored = (fresh, cache(i \<mapsto> \<lparr>bsBurnRatePerDay = fresh, bsForUsage = currentUsageUSD\<rparr>))
      in case cache i of
           None \<Rightarrow> stored
         | Some s \<Rightarrow> if bsForUsage s = currentUsageUSD then (bsBurnRatePerDay s, cache) else stored)"

section \<open>The forecast\<close>

record time_series_point =
  tsDate :: string
  tsActualUSD :: "usd option"
  tsProjectedUSD :: "usd option"

record forecast_result =
  frBudgetID :: uuid
  frPeriodStart :: time
  frPeriodEnd :: time
  frBudgetAmountUSD :: usd
  frCurrentUsageUSD :: usd
  frProjectedSpendUSD :: rat
  frDaysUntilExhausted :: rat
  frBurnRateUSDPerDay :: rat
  frConfidence :: rat
  frTimeSeries :: "time_series_point list"

text \<open>The next point of the series: a fixed step, or the next calendar day.\<close>

definition next_cursor :: "duration \<Rightarrow> time \<Rightarrow> time" where
  "next_cursor step cursor = (if step > 0 then cursor + step else AddDate cursor 0 0 1)"

lemma next_cursor_increases: "cursor < next_cursor step cursor"
  by (simp add: next_cursor_def AddDate_days)

function cursors :: "duration \<Rightarrow> time \<Rightarrow> time \<Rightarrow> time list" where
  "cursors step periodEnd cursor =
     (if cursor < periodEnd then cursor # cursors step periodEnd (next_cursor step cursor) else [])"
  by pat_completeness auto

termination
  by (relation "measure (\<lambda>(step, periodEnd, cursor). nat (periodEnd - cursor))")
    (use next_cursor_increases in \<open>auto simp: nat_mono_iff zless_nat_conj\<close>)

declare cursors.simps [simp del]

text \<open>\<open>actualByDate\<close>: the last bucket of a date wins.\<close>

definition actual_by_date :: "date_format \<Rightarrow> usage_buckets \<Rightarrow> string \<Rightarrow> usd option" where
  "actual_by_date f usageData = map_of (rev (map (\<lambda>(day, total). (format_time f day, total)) usageData))"

definition series_point ::
  "date_format \<Rightarrow> usage_buckets \<Rightarrow> rat \<Rightarrow> time \<Rightarrow> time \<Rightarrow> time_series_point" where
  "series_point f usageData projected now cursor =
     (if cursor \<le> now
      then \<lparr>tsDate = format_time f cursor, tsActualUSD = actual_by_date f usageData (format_time f cursor),
            tsProjectedUSD = None\<rparr>
      else \<lparr>tsDate = format_time f cursor, tsActualUSD = None, tsProjectedUSD = Some projected\<rparr>)"

definition time_series ::
  "date_format \<Rightarrow> duration \<Rightarrow> usage_buckets \<Rightarrow> rat \<Rightarrow> time \<Rightarrow> time \<Rightarrow> time \<Rightarrow> time_series_point list" where
  "time_series f step usageData burnRatePerDay now historyStart periodEnd =
     (let stepFraction = (if step > 0 then Hours step / 24 else 1);
          start = (if step > 0 then Truncate historyStart step else historyStart)
      in map (series_point f usageData (burnRatePerDay * stepFraction) now) (cursors step periodEnd start))"

definition computeForecast ::
  "usd \<Rightarrow> usd \<Rightarrow> time \<Rightarrow> time \<Rightarrow> usage_buckets \<Rightarrow> rat \<Rightarrow> time \<Rightarrow> time \<Rightarrow> duration \<Rightarrow> date_format
    \<Rightarrow> forecast_result" where
  "computeForecast budgetAmountUSD currentUsageUSD periodStart periodEnd usageData burnRatePerDay now
     historyStart step f =
     (let totalPeriodDays = Hours (time_sub periodEnd periodStart) / 24;
          elapsedDays = max 0 (Hours (time_sub now periodStart) / 24);
          remainingDays = max 0 (Hours (time_sub periodEnd now) / 24);
          projectedSpend = (if burnRatePerDay > 0 then currentUsageUSD + burnRatePerDay * remainingDays
                            else currentUsageUSD);
          remaining = budgetAmountUSD - currentUsageUSD;
          daysUntilExhausted = (if burnRatePerDay > 0 \<and> remaining > 0
            then (if remaining / burnRatePerDay \<le> remainingDays then remaining / burnRatePerDay else -1)
            else -1);
          confidence = (if totalPeriodDays > 0 then min (elapsedDays / totalPeriodDays) 1 else 0)
      in \<lparr>frBudgetID = 0, frPeriodStart = periodStart, frPeriodEnd = periodEnd,
          frBudgetAmountUSD = budgetAmountUSD, frCurrentUsageUSD = currentUsageUSD,
          frProjectedSpendUSD = go_round (projectedSpend * 1000000) / 1000000,
          frDaysUntilExhausted = go_round (daysUntilExhausted * 100) / 100,
          frBurnRateUSDPerDay = go_round (burnRatePerDay * 1000000) / 1000000,
          frConfidence = go_round (confidence * 100) / 100,
          frTimeSeries = time_series f step usageData burnRatePerDay now historyStart periodEnd\<rparr>)"

section \<open>The handlers\<close>

record forecast_caches =
  fcResults :: "uuid \<Rightarrow> (forecast_result \<times> time) option"
  fcRates :: "uuid \<Rightarrow> burn_rate_snapshot option"

definition forecastCacheTTL :: duration where
  "forecastCacheTTL = 5 * Minute"

definition cached_forecast :: "forecast_caches \<Rightarrow> budget \<Rightarrow> time \<Rightarrow> forecast_result option" where
  "cached_forecast c b now = (case fcResults c (bID b) of
     None \<Rightarrow> None
   | Some (r, expiresAt) \<Rightarrow> if now < expiresAt \<and> frCurrentUsageUSD r = bCurrentUsageUSD b then Some r else None)"

definition usage_for :: "duration \<Rightarrow> budget \<Rightarrow> usage_buckets op" where
  "usage_for step b =
     (if step = Minute then GetMinuteUsageForPeriod (bID b) (bCurrentPeriodStart b)
      else if step = Hour then GetHourlyUsageForPeriod (bID b) (bCurrentPeriodStart b)
      else GetDailyUsageForPeriod (bID b) (bCurrentPeriodStart b))"

definition burn_rate ::
  "forecast_caches \<Rightarrow> duration \<Rightarrow> budget \<Rightarrow> usage_buckets \<Rightarrow> time \<Rightarrow> rat \<times> forecast_caches" where
  "burn_rate c step b usageData now =
     (if step > 0
      then (bCurrentUsageUSD b / max (Hours (time_sub now (bCurrentPeriodStart b))) (1 / 60) * 24, c)
      else (case stableBurnRate (fcRates c) (bID b) (bCurrentUsageUSD b)
              (Hours (time_sub now (bCurrentPeriodStart b)) / 24) usageData now of
            (rate, rates) \<Rightarrow> (rate, c\<lparr>fcRates := rates\<rparr>)))"

text \<open>
  The part the two handlers have in common: the cached forecast, or a new one, which is stored. \<open>None\<close> is a
  failed query.
\<close>

definition budget_forecast ::
  "budget \<Rightarrow> forecast_caches \<Rightarrow> world \<Rightarrow> forecast_result option \<times> forecast_caches \<times> world" where
  "budget_forecast b c w = (case cached_forecast c b (clock w) of
     Some r \<Rightarrow> (Some r, c, w)
   | None \<Rightarrow>
     (let periodEnd = NextPeriodStart b
      in case timeSeriesStep (time_sub periodEnd (bCurrentPeriodStart b)) of (step, f) \<Rightarrow>
        (case usage_for step b w of
           (Inl e, w1) \<Rightarrow> (None, c, w1)
         | (Inr usageData, w1) \<Rightarrow>
             (let now = clock w1 in
              case burn_rate c step b usageData now of (rate, c1) \<Rightarrow>
                (let r = (computeForecast (bBudgetAmountUSD b) (bCurrentUsageUSD b) (bCurrentPeriodStart b)
                        periodEnd usageData rate now (bCurrentPeriodStart b) step f)\<lparr>frBudgetID := bID b\<rparr>
                 in (Some r, c1\<lparr>fcResults := (fcResults c1)(bID b \<mapsto> (r, now + forecastCacheTTL))\<rparr>, w1))))))"

definition may_see_forecast :: "identity option \<Rightarrow> budget \<Rightarrow> bool" where
  "may_see_forecast ident b \<longleftrightarrow>
     (if ident \<noteq> None \<and> bEntityType b = EntityTypeUser
      then CanViewUserBudget ident (null_string (bOwnerUserID b)) (null_string (bOwnerTeamID b)) else True)"

text \<open>Every error of the lookup is answered with 404.\<close>

definition handle_GetBudgetForecast ::
  "uuid option \<Rightarrow> identity option \<Rightarrow> forecast_caches \<Rightarrow> world
    \<Rightarrow> forecast_result response \<times> forecast_caches \<times> world" where
  "handle_GetBudgetForecast budget_id ident c w = (case budget_id of
     None \<Rightarrow> (ErrorResponse 400 ''invalid budget ID'', c, w)
   | Some i \<Rightarrow> (case GetBudgetByID i w of
       (Inl e, w1) \<Rightarrow> (ErrorResponse 404 ''budget not found'', c, w1)
     | (Inr b, w1) \<Rightarrow>
       if \<not> may_see_forecast ident b then (ErrorResponse 403 ''access denied'', c, w1)
       else (case budget_forecast b c w1 of
         (None, c1, w2) \<Rightarrow> (ErrorResponse 500 ''failed to compute forecast'', c1, w2)
       | (Some r, c1, w2) \<Rightarrow> (Response 200 r, c1, w2))))"

text \<open>The loop of \<open>ListBudgetForecasts\<close>: a budget whose query fails is left out.\<close>

fun forecast_each ::
  "budget list \<Rightarrow> forecast_caches \<Rightarrow> world \<Rightarrow> forecast_result list \<times> forecast_caches \<times> world" where
  "forecast_each [] c w = ([], c, w)"
| "forecast_each (b # bs) c w = (case budget_forecast b c w of (r, c1, w1) \<Rightarrow>
     (case forecast_each bs c1 w1 of (rs, c2, w2) \<Rightarrow>
       ((case r of None \<Rightarrow> rs | Some x \<Rightarrow> x # rs), c2, w2)))"

definition handle_ListBudgetForecasts ::
  "identity option \<Rightarrow> forecast_caches \<Rightarrow> world
    \<Rightarrow> (forecast_result list \<times> nat) response \<times> forecast_caches \<times> world" where
  "handle_ListBudgetForecasts ident c w =
     (case ListBudgetsPaginated (caller_filter ident False) 0 1000 w of
        (Inl e, w1) \<Rightarrow> (ErrorResponse 500 ''failed to list budgets'', c, w1)
      | (Inr (budgets, n), w1) \<Rightarrow> (case forecast_each budgets c w1 of
          (rs, c1, w2) \<Rightarrow> (Response 200 (rs, length rs), c1, w2)))"

section \<open>The points of the series\<close>

definition step_length :: "duration \<Rightarrow> duration" where
  "step_length step = (if step > 0 then step else day_ns)"

lemma step_length_pos: "0 < step_length step"
  by (simp add: step_length_def)

lemma next_cursor_step: "next_cursor step cursor = cursor + step_length step"
  by (simp add: next_cursor_def step_length_def AddDate_days)

text \<open>How many points there are: the span divided by the step, rounded up.\<close>

definition points :: "duration \<Rightarrow> time \<Rightarrow> time \<Rightarrow> nat" where
  "points step periodEnd cursor = nat ((periodEnd - cursor + step_length step - 1) div step_length step)"

lemma cursors_closed:
  "cursors step periodEnd cursor = map (\<lambda>k. cursor + int k * step_length step) [0..<points step periodEnd cursor]"
proof (induction step periodEnd cursor rule: cursors.induct)
  case (1 step periodEnd cursor)
  let ?s = "step_length step"
  have s: "0 < ?s" by (rule step_length_pos)
  show ?case
  proof (cases "cursor < periodEnd")
    case False
    then have "(periodEnd - cursor + ?s - 1) div ?s \<le> (?s - 1) div ?s"
      using s by (intro zdiv_mono1) simp_all
    also have "(?s - 1) div ?s = 0" using s by simp
    finally have "(periodEnd - cursor + ?s - 1) div ?s \<le> 0" .
    then have "points step periodEnd cursor = 0" by (simp add: points_def)
    with False show ?thesis by (simp add: cursors.simps [of step periodEnd cursor])
  next
    case True
    have shift: "periodEnd - (cursor + ?s) + ?s - 1 = (periodEnd - cursor + ?s - 1) + (- 1) * ?s" by simp
    have "(periodEnd - (cursor + ?s) + ?s - 1) div ?s = (periodEnd - cursor + ?s - 1) div ?s - 1"
      unfolding shift using s by (subst div_mult_self1) simp_all
    moreover have "1 \<le> (periodEnd - cursor + ?s - 1) div ?s"
      using True s by (simp add: zdiv_mono1 int_one_le_iff_zero_less pos_imp_zdiv_pos_iff)
    ultimately have n: "points step periodEnd cursor = Suc (points step periodEnd (cursor + ?s))"
      by (simp add: points_def)
    have "cursors step periodEnd cursor = cursor # cursors step periodEnd (cursor + ?s)"
      using True by (simp add: cursors.simps [of step periodEnd cursor] next_cursor_step)
    also have "\<dots> = map (\<lambda>k. cursor + int k * ?s) [0..<points step periodEnd cursor]"
      using 1 True unfolding n next_cursor_step
      by (simp add: upt_conv_Cons map_Suc_upt [symmetric] algebra_simps del: upt_Suc)
    finally show ?thesis .
  qed
qed

text \<open>Where the series starts: at the period's start, rounded down to a step.\<close>

definition series_start :: "duration \<Rightarrow> time \<Rightarrow> time" where
  "series_start step historyStart = (if step > 0 then Truncate historyStart step else historyStart)"

lemma series_start_bounds:
  "series_start step t \<le> t" "t - step_length step < series_start step t"
  using pos_mod_bound [of step "t - zero_time"] pos_mod_sign [of step "t - zero_time"]
  by (auto simp: series_start_def step_length_def Truncate_def)

definition step_share :: "duration \<Rightarrow> rat" where
  "step_share step = (if step > 0 then Hours step / 24 else 1)"

lemma time_series_closed:
  "time_series f step usageData rate now historyStart periodEnd =
     map (\<lambda>k. series_point f usageData (rate * step_share step) now
         (series_start step historyStart + int k * step_length step))
       [0..<points step periodEnd (series_start step historyStart)]"
  by (simp add: time_series_def Let_def series_start_def step_share_def cursors_closed comp_def)

lemma points_le:
  assumes "periodEnd - cursor + step_length step - 1 < (n + 1) * step_length step" and "0 \<le> n"
  shows "int (points step periodEnd cursor) \<le> n"
proof -
  let ?x = "periodEnd - cursor + step_length step - 1"
  have "step_length step * (?x div step_length step) < step_length step * (n + 1)"
    using div_bracket(1) [OF step_length_pos, of step ?x] assms(1)
    by (simp only: mult.commute [of "step_length step"])
  then have "?x div step_length step < n + 1"
    using step_length_pos [of step] by (simp only: mult_less_cancel_left_pos)
  with assms(2) show ?thesis by (simp add: points_def)
qed

lemma time_sub_less_iff: "d \<le> max_duration \<Longrightarrow> min_duration < d \<Longrightarrow> time_sub t u < d \<longleftrightarrow> t - u < d"
  by (auto simp: time_sub_def)


section \<open>Two gaps\<close>

text \<open>
  A cached forecast is matched by the usage only: while the usage stands still, a new amount or a new period of the
  budget does not show for up to five minutes.
\<close>

lemma cached_forecast_ignores_amount:
  "cached_forecast c (b\<lparr>bBudgetAmountUSD := x, bPeriod := p, bCurrentPeriodStart := s\<rparr>) now = cached_forecast c b now"
  by (simp add: cached_forecast_def split: option.split)

text \<open>
  A daily budget whose period began at 15:00: the day after, at 10:00, the spend of that day is in no point of the
  series, because the cursor stands at 15:00 of each day.
\<close>

lemma series_misses_today:
  "time_series DateFormatDaily 0 [(0, 3), (day_ns, 5)] 1 (day_ns + 10 * Hour) (15 * Hour) (15 * Hour + day_ns) =
    [\<lparr>tsDate = ''1970-01-01'', tsActualUSD = Some 3, tsProjectedUSD = None\<rparr>]"
proof -
  have c: "cursors 0 (15 * Hour + day_ns) (15 * Hour) = [15 * Hour]"
    by (simp add: cursors.simps next_cursor_def AddDate_days day_ns_pos)
  have p: "series_point DateFormatDaily [(0, 3), (day_ns, 5)] 1 (day_ns + 10 * Hour) (15 * Hour) =
      \<lparr>tsDate = ''1970-01-01'', tsActualUSD = Some 3, tsProjectedUSD = None\<rparr>" by code_simp
  show ?thesis by (simp add: time_series_def c p)
qed

end
