(* ===== verification/Forecast_Witnesses.thy ===== *)
theory Forecast_Witnesses
  imports Forecast Samples
begin

text \<open>The theorem on forecasts at a concrete input, a budget with a period of one hour.\<close>

definition hour_forecast :: forecast_result where
  "hour_forecast = computeForecast 10 4 0 Hour [(0, 4)] 96 (Hour - 1) 0 Hour DateFormatSub"


end
