(* ===== verification/Auth_Token.thy ===== *)
theory Auth_Token
  imports Approvals Extproc_Common
begin

text \<open>
  The rest of \<open>internal/auth/middleware.go\<close>: \<open>ParseJWT\<close> from the text of the token to the identity, and the two
  middlewares as functions of the header and of the handler they wrap. The signature of the token is not
  looked at; whoever can reach the server with a header of their own is whoever they say.
\<close>

text \<open>\<open>base64.RawURLEncoding\<close>: no padding; line breaks are skipped.\<close>

definition RawURLDecode :: "string \<Rightarrow> string option" where
  "RawURLDecode p = (let q = strip_newlines p in if CHR ''='' \<in> set q then None else URLDecode (pad4 q))"

text \<open>A payload \<open>null\<close> is accepted and leaves the map of the claims empty.\<close>

definition token_claims :: "string \<Rightarrow> (string \<times> dyn) list option" where
  "token_claims payload = (if json_text payload = Some JNull then Some [] else unmarshal_map payload)"

definition ParseJWT :: "string \<Rightarrow> identity option" where
  "ParseJWT tokenString = (case Split tokenString (CHR ''.'') of
     [_, payload, _] \<Rightarrow> map_option identity_of_claims (Option.bind (RawURLDecode payload) token_claims)
   | _ \<Rightarrow> None)"

definition AuthMiddleware :: "string \<Rightarrow> (identity option \<Rightarrow> 'a handler) \<Rightarrow> 'a handler" where
  "AuthMiddleware jwtHeader next w =
     (if jwtHeader = '''' then (ErrorResponse 401 ''Unauthorized'', w)
      else (case ParseJWT jwtHeader of
        None \<Rightarrow> (ErrorResponse 401 ''Invalid token'', w)
      | Some who \<Rightarrow> next (Some who) w))"

definition OptionalAuthMiddleware :: "string \<Rightarrow> (identity option \<Rightarrow> 'a handler) \<Rightarrow> 'a handler" where
  "OptionalAuthMiddleware jwtHeader next w =
     (if jwtHeader = '''' then next None w
      else (case ParseJWT jwtHeader of None \<Rightarrow> next None w | Some who \<Rightarrow> next (Some who) w))"

section \<open>Properties\<close>

lemma sextets_no_pad: "x \<in> set (map base64_char (sextets (block a b c))) \<Longrightarrow> x \<noteq> CHR ''=''"
  using base64_char(2) sextets_less [OF block_less] by auto

lemma base64url_no_pad: "x \<in> set (base64url s) \<Longrightarrow> x \<noteq> CHR ''=''"
proof (induction s rule: base64url.induct)
  case (1 a b c rest)
  then show ?case
    unfolding base64url_block using sextets_no_pad [of x a b c] by (auto simp del: set_map)
qed (auto simp only: base64url_block base64url.simps(4) list.set dest: in_set_takeD sextets_no_pad)

lemma base64url_clean:
  "strip_newlines (base64url p) = base64url p" "CHR ''='' \<notin> set (base64url p)"
proof -
  have nl: "is_space (CHR 0x0A)" "is_space (CHR 0x0D)" by code_simp+
  have "x \<noteq> CHR 0x0A \<and> x \<noteq> CHR 0x0D" if "x \<in> set (base64url p)" for x
    using base64url_chars [OF that] nl by auto
  then show "strip_newlines (base64url p) = base64url p"
    by (auto simp: strip_newlines_def filter_id_conv)
  show "CHR ''='' \<notin> set (base64url p)" using base64url_no_pad by blast
qed

text \<open>What an issuer puts into a token is what the handlers see of the caller.\<close>

lemma ParseJWT_token:
  "ParseJWT (base64url h @ ''.'' @ base64url p @ ''.'' @ base64url s) = map_option identity_of_claims (token_claims p)"
  unfolding ParseJWT_def Split_token by (simp add: RawURLDecode_def Let_def base64url_clean url_roundtrip)

text \<open>Nothing behind \<open>AuthMiddleware\<close> runs without an identity.\<close>

lemma AuthMiddleware_guards:
  "AuthMiddleware jwtHeader next w = (r, w') \<Longrightarrow>
    (\<exists>who. ParseJWT jwtHeader = Some who \<and> next (Some who) w = (r, w')) \<or> (response_status r = 401 \<and> w' = w)"
  by (auto simp: AuthMiddleware_def split: if_splits option.splits)

text \<open>A token that does not parse gives no more than no token at all.\<close>

lemma OptionalAuthMiddleware_identity:
  "OptionalAuthMiddleware jwtHeader next = next (optional_identity (\<lambda>t. None) '''') \<or>
   (\<exists>who. ParseJWT jwtHeader = Some who \<and> OptionalAuthMiddleware jwtHeader next = next (Some who))"
  by (cases "ParseJWT jwtHeader") (auto simp: OptionalAuthMiddleware_def optional_identity_def fun_eq_iff)

end
