(* ===== verification/Spec2Isabelle.thy ===== *)
theory Spec2Isabelle
  imports Witnesses Stream_Witnesses Alert_Witnesses Management_Witnesses Forecast_Witnesses
    Auth_Token
begin

text \<open>
  Quota management.
\<close>

end
